(* ===== verification/Prelude.thy ===== *)
theory Prelude
  imports Main
begin

text \<open>
  What the components share: the simplification collections, the JavaScript strings and the
  string operations of the standard library the sources call, decimal numerals, the values a
  thrown exception takes, and the generic list lemmas the component proofs use.

  A JavaScript string is a \<^typ>\<open>string\<close>, a list of code units of eight bits: the model covers
  the texts whose code units are below 256. Case mapping is the one of ASCII letters.
  \<open>undefined\<close> is \<^term>\<open>None\<close>.
\<close>

named_theorems js_simps \<open>evaluation rules of the JavaScript operations\<close>
named_theorems inv_intros \<open>invariants kept by the operations of the components\<close>

section \<open>Exceptions\<close>

text \<open>The exceptions the modelled code can raise, as values.\<close>

datatype jserror = TypeError | SyntaxError | URIError | ErrorMsg string

type_synonym 'a result = "jserror + 'a"

section \<open>String operations\<close>

definition crlf :: string where
  "crlf = [CHR 0x0D, CHR 0x0A]"

definition is_digit :: "char \<Rightarrow> bool" where
  "is_digit c \<longleftrightarrow> 48 \<le> (of_char c :: nat) \<and> (of_char c :: nat) \<le> 57"

definition is_upper :: "char \<Rightarrow> bool" where
  "is_upper c \<longleftrightarrow> 65 \<le> (of_char c :: nat) \<and> (of_char c :: nat) \<le> 90"

definition is_lower :: "char \<Rightarrow> bool" where
  "is_lower c \<longleftrightarrow> 97 \<le> (of_char c :: nat) \<and> (of_char c :: nat) \<le> 122"

definition is_alnum :: "char \<Rightarrow> bool" where
  "is_alnum c \<longleftrightarrow> is_upper c \<or> is_lower c \<or> is_digit c"

definition upper_char :: "char \<Rightarrow> char" where
  "upper_char c = (if is_lower c then char_of ((of_char c :: nat) - 32) else c)"

definition lower_char :: "char \<Rightarrow> char" where
  "lower_char c = (if is_upper c then char_of ((of_char c :: nat) + 32) else c)"

definition toUpperCase :: "string \<Rightarrow> string" where
  "toUpperCase s = map upper_char s"

definition toLowerCase :: "string \<Rightarrow> string" where
  "toLowerCase s = map lower_char s"

fun starts_with :: "string \<Rightarrow> string \<Rightarrow> bool" where
  "starts_with [] s = True"
| "starts_with (p # ps) [] = False"
| "starts_with (p # ps) (c # cs) = (p = c \<and> starts_with ps cs)"

definition ends_with :: "string \<Rightarrow> string \<Rightarrow> bool" where
  "ends_with suf s = starts_with (rev suf) (rev s)"

text \<open>\<open>indexOf\<close>: the position of the first occurrence, \<^term>\<open>None\<close> for \<open>-1\<close>.\<close>

fun indexOf :: "string \<Rightarrow> string \<Rightarrow> nat option" where
  "indexOf p [] = (if p = [] then Some 0 else None)"
| "indexOf p (c # cs) =
     (if starts_with p (c # cs) then Some 0 else map_option Suc (indexOf p cs))"

definition substr :: "string \<Rightarrow> nat \<Rightarrow> nat \<Rightarrow> string" where
  "substr s from len = take len (drop from s)"

text \<open>\<open>split\<close> at a separator of one character; the result is never empty.\<close>

fun js_split :: "char \<Rightarrow> string \<Rightarrow> string list" where
  "js_split sep [] = [[]]"
| "js_split sep (c # cs) =
     (if c = sep then [] # js_split sep cs
      else (case js_split sep cs of [] \<Rightarrow> [[c]] | w # ws \<Rightarrow> (c # w) # ws))"

fun js_join :: "string \<Rightarrow> string list \<Rightarrow> string" where
  "js_join sep [] = []"
| "js_join sep [w] = w"
| "js_join sep (w # ws) = w @ sep @ js_join sep ws"

text \<open>\<open>replace\<close> with a string pattern: the first occurrence only.\<close>

fun replace_first :: "string \<Rightarrow> string \<Rightarrow> string \<Rightarrow> string" where
  "replace_first p r [] = (if p = [] then r else [])"
| "replace_first p r (c # cs) =
     (if starts_with p (c # cs) then r @ drop (length p) (c # cs)
      else c # replace_first p r cs)"

section \<open>Decimal numerals\<close>

definition digit_char :: "nat \<Rightarrow> char" where
  "digit_char d = char_of (48 + d)"

definition digit_val :: "char \<Rightarrow> nat" where
  "digit_val c = (of_char c :: nat) - 48"

fun show_nat :: "nat \<Rightarrow> string" where
  "show_nat n = (if n < 10 then [digit_char n] else show_nat (n div 10) @ [digit_char (n mod 10)])"

declare show_nat.simps [simp del]

definition show_int :: "int \<Rightarrow> string" where
  "show_int i = (if i < 0 then ''-'' @ show_nat (nat (- i)) else show_nat (nat i))"

definition read_nat :: "string \<Rightarrow> nat" where
  "read_nat s = foldl (\<lambda>n c. 10 * n + digit_val c) 0 s"

definition show_bool :: "bool \<Rightarrow> string" where
  "show_bool b = (if b then ''true'' else ''false'')"

text \<open>A template literal prints \<open>undefined\<close> for a missing value.\<close>

definition show_opt :: "('a \<Rightarrow> string) \<Rightarrow> 'a option \<Rightarrow> string" where
  "show_opt f v = (case v of None \<Rightarrow> ''undefined'' | Some x \<Rightarrow> f x)"

text \<open>Truthiness of a string that may be \<open>undefined\<close> or \<open>null\<close>.\<close>

definition truthy :: "string option \<Rightarrow> bool" where
  "truthy v = (case v of None \<Rightarrow> False | Some s \<Rightarrow> s \<noteq> [])"

section \<open>Objects as association lists\<close>

text \<open>
  Assignment to a property of an object: the value is replaced in place when the property
  exists, and the property is added last otherwise, as the enumeration order of string keys
  that are not array indices requires.
\<close>

fun obj_set :: "'k \<Rightarrow> 'v \<Rightarrow> ('k \<times> 'v) list \<Rightarrow> ('k \<times> 'v) list" where
  "obj_set k v [] = [(k, v)]"
| "obj_set k v ((k', v') # xs) = (if k = k' then (k, v) # xs else (k', v') # obj_set k v xs)"

definition obj_delete :: "'k \<Rightarrow> ('k \<times> 'v) list \<Rightarrow> ('k \<times> 'v) list" where
  "obj_delete k xs = filter (\<lambda>(k', _). k' \<noteq> k) xs"

section \<open>Lemmas on strings\<close>

lemma starts_with_iff: "starts_with p s \<longleftrightarrow> (\<exists>r. s = p @ r)"
  by (induction p s rule: starts_with.induct) auto

lemma starts_with_append [simp]: "starts_with p (p @ r)"
  by (auto simp: starts_with_iff)

lemma starts_with_refl [simp]: "starts_with p p"
  using starts_with_append [of p "[]"] by simp

lemma ends_with_iff: "ends_with suf s \<longleftrightarrow> (\<exists>r. s = r @ suf)"
proof
  assume "ends_with suf s"
  then obtain r where "rev s = rev suf @ r"
    by (auto simp: ends_with_def starts_with_iff)
  then have "rev (rev s) = rev r @ suf" by simp
  then show "\<exists>r. s = r @ suf" by auto
qed (auto simp: ends_with_def)

lemma indexOf_Some:
  "indexOf p s = Some i \<Longrightarrow> i + length p \<le> length s \<and> starts_with p (drop i s)"
proof (induction p s arbitrary: i rule: indexOf.induct)
  case (2 p c cs)
  show ?case
  proof (cases "starts_with p (c # cs)")
    case True
    then obtain r where r: "c # cs = p @ r" by (metis starts_with_iff)
    then have "length (c # cs) = length p + length r" by (metis length_append)
    with True 2 show ?thesis by (auto simp del: starts_with.simps)
  next
    case False
    with 2 show ?thesis by (auto simp del: starts_with.simps)
  qed
qed (auto split: if_splits)

lemma indexOf_None_iff: "indexOf p s = None \<longleftrightarrow> \<not> (\<exists>u v. s = u @ p @ v)"
proof (induction p s rule: indexOf.induct)
  case (2 p c cs)
  show ?case
  proof (cases "starts_with p (c # cs)")
    case True
    then have "\<exists>u v. c # cs = u @ p @ v" by (metis append_Nil starts_with_iff)
    with True show ?thesis by (simp del: starts_with.simps)
  next
    case False
    then have "\<not> (\<exists>v. c # cs = p @ v)"
      by (simp add: starts_with_iff del: starts_with.simps)
    with 2 False show ?thesis
      by (auto simp: Cons_eq_append_conv simp del: starts_with.simps)
  qed
qed auto

lemma indexOf_char:
  "indexOf [c] s = (if c \<in> set s then Some (length (takeWhile (\<lambda>x. x \<noteq> c) s)) else None)"
  by (induction s) auto

lemma js_split_nonempty [simp]: "js_split c s \<noteq> []"
  by (cases s) (auto split: list.splits)

lemma js_split_no_sep: "c \<notin> set s \<Longrightarrow> js_split c s = [s]"
  by (induction s) auto

lemma js_join_split [simp]: "js_join [c] (js_split c s) = s"
proof (induction s)
  case (Cons x xs)
  obtain w ws where ws: "js_split c xs = w # ws"
    by (meson js_split_nonempty neq_Nil_conv)
  with Cons show ?case by (cases ws) auto
qed simp

lemma js_split_append: "js_split c (u @ c # v) = js_split c u @ js_split c v"
proof (induction u)
  case (Cons x xs)
  then show ?case
    by (cases "js_split c xs") (auto split: list.splits)
qed simp

lemma js_split_parts: "w \<in> set (js_split c s) \<Longrightarrow> c \<notin> set w"
proof (induction s arbitrary: w)
  case (Cons x xs)
  obtain v vs where "js_split c xs = v # vs"
    by (meson js_split_nonempty neq_Nil_conv)
  with Cons show ?case by (auto split: if_splits)
qed simp

lemma js_split_join:
  "ws \<noteq> [] \<Longrightarrow> \<forall>w \<in> set ws. c \<notin> set w \<Longrightarrow> js_split c (js_join [c] ws) = ws"
proof (induction "[c]" ws rule: js_join.induct)
  case (3 w v vs)
  then show ?case by (simp add: js_split_append js_split_no_sep)
qed (auto simp: js_split_no_sep)

section \<open>Lemmas on numerals\<close>

lemma of_char_digit_char: "d < 10 \<Longrightarrow> (of_char (digit_char d) :: nat) = 48 + d"
  by (simp add: digit_char_def)

lemma is_digit_digit_char [simp]: "d < 10 \<Longrightarrow> is_digit (digit_char d)"
  by (simp add: is_digit_def of_char_digit_char)

lemma digit_val_digit_char [simp]: "d < 10 \<Longrightarrow> digit_val (digit_char d) = d"
  by (simp add: digit_val_def of_char_digit_char)

lemma show_nat_nonempty [simp]: "show_nat n \<noteq> []"
  by (subst show_nat.simps) simp

lemma show_nat_digits: "c \<in> set (show_nat n) \<Longrightarrow> is_digit c"
proof (induction n rule: show_nat.induct)
  case (1 n)
  then show ?case
    by (cases "n < 10") (auto simp: show_nat.simps [of n])
qed

lemma read_nat_snoc: "read_nat (s @ [c]) = 10 * read_nat s + digit_val c"
  by (simp add: read_nat_def)

lemma read_show_nat [simp]: "read_nat (show_nat n) = n"
proof (induction n rule: show_nat.induct)
  case (1 n)
  show ?case
  proof (cases "n < 10")
    case True
    then show ?thesis by (simp add: show_nat.simps [of n] read_nat_def)
  next
    case False
    then show ?thesis
      using 1 by (simp add: show_nat.simps [of n] read_nat_snoc)
  qed
qed

lemma show_nat_inject [simp]: "show_nat m = show_nat n \<longleftrightarrow> m = n"
  by (metis read_show_nat)

section \<open>Lemmas on objects\<close>

lemma map_of_obj_set: "map_of (obj_set k v xs) = (map_of xs)(k \<mapsto> v)"
  by (induction k v xs rule: obj_set.induct) auto

lemma map_of_obj_delete: "map_of (obj_delete k xs) = (map_of xs)(k := None)"
  by (induction xs) (auto simp: obj_delete_def)

lemma obj_set_fresh: "k \<notin> fst ` set xs \<Longrightarrow> obj_set k v xs = xs @ [(k, v)]"
  by (induction xs) auto

lemma keys_obj_set:
  "map fst (obj_set k v xs) = (if k \<in> fst ` set xs then map fst xs else map fst xs @ [k])"
  by (induction k v xs rule: obj_set.induct) auto

lemma distinct_obj_set: "distinct (map fst xs) \<Longrightarrow> distinct (map fst (obj_set k v xs))"
  by (auto simp: keys_obj_set)

lemma distinct_obj_delete: "distinct (map fst xs) \<Longrightarrow> distinct (map fst (obj_delete k xs))"
  unfolding obj_delete_def by (induction xs) auto

end
