(* ===== verification/JsRegex.thy ===== *)
theory JsRegex
  imports Prelude
begin

text \<open>
  The part of the JavaScript regular expressions that the sources use: character classes,
  sequence, ordered alternation, greedy and lazy repetition, also with a bound on the rounds,
  numbered groups and references back to them, looking ahead, the two anchors, the end of a line and
  conditions on the position (a word boundary of the text searched).
  A match is computed by the backtracking search of the language: \<open>rx\<close> lists every way
  to match at a position, in the order in which backtracking tries them, so that the first
  element is the match the engine reports. A regular-expression literal of the sources is
  translated into a value of \<open>regex\<close>; a pattern that the sources make of a text at run time is
  read by the parser of the next theory.
\<close>

section \<open>Syntax\<close>

datatype regex =
    RxEps
  | RxClass "char \<Rightarrow> bool"
  | RxSeq regex regex
  | RxAlt regex regex
  | RxStar regex
  | RxGroup nat regex
  | RxBegin
  | RxEnd
  | RxLazy regex
  | RxBack nat
  | RxEol
  | RxAt "nat \<Rightarrow> bool"
  | RxLook bool regex
  | RxReset "nat list"
  | RxUpto bool nat regex

abbreviation rx_chr :: "char \<Rightarrow> regex" where
  "rx_chr c \<equiv> RxClass (\<lambda>x. x = c)"

fun rx_lit :: "string \<Rightarrow> regex" where
  "rx_lit [] = RxEps"
| "rx_lit [c] = rx_chr c"
| "rx_lit (c # cs) = RxSeq (rx_chr c) (rx_lit cs)"

fun rx_seq :: "regex list \<Rightarrow> regex" where
  "rx_seq [] = RxEps"
| "rx_seq [r] = r"
| "rx_seq (r # rs) = RxSeq r (rx_seq rs)"

definition rx_plus :: "regex \<Rightarrow> regex" where
  "rx_plus r = RxSeq r (RxStar r)"

definition rx_opt :: "regex \<Rightarrow> regex" where
  "rx_opt r = RxAlt r RxEps"

fun rx_rep :: "nat \<Rightarrow> regex \<Rightarrow> regex" where
  "rx_rep 0 r = RxEps"
| "rx_rep (Suc n) r = RxSeq r (rx_rep n r)"

section \<open>Matching\<close>

text \<open>
  A configuration is the position reached, the text left and the groups captured so far,
  the most recent first.
\<close>

type_synonym captures = "(nat \<times> string) list"
type_synonym rxconf = "nat \<times> string \<times> captures"

fun rx_star :: "nat \<Rightarrow> (rxconf \<Rightarrow> rxconf list) \<Rightarrow> rxconf \<Rightarrow> rxconf list" where
  "rx_star 0 m c = [c]"
| "rx_star (Suc n) m c =
     concat (map (\<lambda>c'. if fst c < fst c' then rx_star n m c' else []) (m c)) @ [c]"

text \<open>The lazy repetition tries to go on without a further round first.\<close>

fun rx_lazy :: "nat \<Rightarrow> (rxconf \<Rightarrow> rxconf list) \<Rightarrow> rxconf \<Rightarrow> rxconf list" where
  "rx_lazy 0 m c = [c]"
| "rx_lazy (Suc n) m c =
     c # concat (map (\<lambda>c'. if fst c < fst c' then rx_lazy n m c' else []) (m c))"

text \<open>The line terminators among the code units below 256.\<close>

definition line_end :: "char \<Rightarrow> bool" where
  "line_end c \<longleftrightarrow> c = CHR 0x0A \<or> c = CHR 0x0D"

text \<open>White space among the code units below 256: the controls 9 to 13, the blank and 160.\<close>

definition is_space :: "char \<Rightarrow> bool" where
  "is_space c = (let n = of_char c :: nat in 9 \<le> n \<and> n \<le> 13 \<or> n = 32 \<or> n = 160)"

text \<open>
  A reference to a group that took no part matches the empty text. Looking ahead takes the first way
  to match and keeps its groups, or, negated, succeeds when there is none. \<open>RxReset\<close> forgets groups,
  as a round of a repetition does with the groups inside of it.
\<close>

primrec rx :: "regex \<Rightarrow> rxconf \<Rightarrow> rxconf list" where
  "rx RxEps c = [c]"
| "rx (RxClass P) c =
     (case c of (i, s, g) \<Rightarrow> (case s of [] \<Rightarrow> [] | x # xs \<Rightarrow> if P x then [(Suc i, xs, g)] else []))"
| "rx (RxSeq r1 r2) c = concat (map (rx r2) (rx r1 c))"
| "rx (RxAlt r1 r2) c = rx r1 c @ rx r2 c"
| "rx (RxStar r) c = rx_star (length (fst (snd c))) (rx r) c"
| "rx (RxGroup n r) c =
     map (\<lambda>(j, s', g'). (j, s', (n, take (j - fst c) (fst (snd c))) # g')) (rx r c)"
| "rx RxBegin c = (if fst c = 0 then [c] else [])"
| "rx RxEnd c = (if fst (snd c) = [] then [c] else [])"
| "rx (RxLazy r) c = rx_lazy (length (fst (snd c))) (rx r) c"
| "rx (RxBack n) c =
     (case c of (i, s, g) \<Rightarrow>
        (case map_of g n of
           None \<Rightarrow> [c]
         | Some u \<Rightarrow> if starts_with u s then [(i + length u, drop (length u) s, g)] else []))"
| "rx RxEol c = (case fst (snd c) of [] \<Rightarrow> [c] | x # _ \<Rightarrow> if line_end x then [c] else [])"
| "rx (RxAt P) c = (if P (fst c) then [c] else [])"
| "rx (RxLook ahead r) c =
     (if ahead then (case rx r c of [] \<Rightarrow> [] | d # _ \<Rightarrow> [(fst c, fst (snd c), snd (snd d))])
      else (case rx r c of [] \<Rightarrow> [c] | _ # _ \<Rightarrow> []))"
| "rx (RxReset ns) c = [(fst c, fst (snd c), filter (\<lambda>p. fst p \<notin> set ns) (snd (snd c)))]"
| "rx (RxUpto greedy k r) c = (if greedy then rx_star k (rx r) c else rx_lazy k (rx r) c)"

text \<open>A match: where it starts, the matched text and the groups.\<close>

type_synonym rxmatch = "nat \<times> string \<times> captures"

fun rx_search :: "regex \<Rightarrow> nat \<Rightarrow> string \<Rightarrow> rxmatch option" where
  "rx_search r i s =
     (case rx r (i, s, []) of
        (j, s', g) # _ \<Rightarrow> Some (i, take (j - i) s, g)
      | [] \<Rightarrow> (case s of [] \<Rightarrow> None | x # xs \<Rightarrow> rx_search r (Suc i) xs))"

declare rx_search.simps [simp del]

definition rx_exec :: "regex \<Rightarrow> string \<Rightarrow> rxmatch option" where
  "rx_exec r s = rx_search r 0 s"

definition rx_test :: "regex \<Rightarrow> string \<Rightarrow> bool" where
  "rx_test r s \<longleftrightarrow> rx_exec r s \<noteq> None"

text \<open>The text of group \<open>n\<close>; \<^term>\<open>None\<close> is \<open>undefined\<close>, a group that took no part.\<close>

definition rx_group :: "rxmatch \<Rightarrow> nat \<Rightarrow> string option" where
  "rx_group m n = map_of (snd (snd m)) n"

text \<open>
  The global search of \<open>replace\<close> cuts a text into the characters outside of every match and
  the matched texts, from left to right. After an empty match the character at the position is
  kept, as the language does.
\<close>

function rx_pieces_from :: "regex \<Rightarrow> nat \<Rightarrow> string \<Rightarrow> (char + string) list" where
  "rx_pieces_from r i s =
     (case rx r (i, s, []) of
        (j, s', g) # _ \<Rightarrow>
          (if length s' < length s then Inr (take (j - i) s) # rx_pieces_from r j s'
           else (case s of [] \<Rightarrow> [Inr []] | x # xs \<Rightarrow> Inr [] # Inl x # rx_pieces_from r (Suc i) xs))
      | [] \<Rightarrow> (case s of [] \<Rightarrow> [] | x # xs \<Rightarrow> Inl x # rx_pieces_from r (Suc i) xs))"
  by pat_completeness auto
termination
  by (relation "measure (\<lambda>(r, i, s). length s)") auto

declare rx_pieces_from.simps [simp del]

definition rx_pieces :: "regex \<Rightarrow> string \<Rightarrow> (char + string) list" where
  "rx_pieces r s = rx_pieces_from r 0 s"

text \<open>\<open>replace\<close> with a replacement function of the matched text.\<close>

definition subst_pieces :: "(string \<Rightarrow> string) \<Rightarrow> (char + string) list \<Rightarrow> string" where
  "subst_pieces f ps = concat (map (case_sum (\<lambda>c. [c]) f) ps)"

definition rx_replace_all :: "regex \<Rightarrow> (string \<Rightarrow> string) \<Rightarrow> string \<Rightarrow> string" where
  "rx_replace_all r f s = subst_pieces f (rx_pieces r s)"

text \<open>
  \<open>replace\<close> with a function of the matched text and the groups, for every match and for the first one.
\<close>

function rx_replace_from :: "regex \<Rightarrow> (string \<Rightarrow> captures \<Rightarrow> string) \<Rightarrow> nat \<Rightarrow> string \<Rightarrow> string" where
  "rx_replace_from r f i s =
     (case rx r (i, s, []) of
        (j, s', g) # _ \<Rightarrow>
          (if length s' < length s then f (take (j - i) s) g @ rx_replace_from r f j s'
           else (case s of [] \<Rightarrow> f [] g | x # xs \<Rightarrow> f [] g @ x # rx_replace_from r f (Suc i) xs))
      | [] \<Rightarrow> (case s of [] \<Rightarrow> [] | x # xs \<Rightarrow> x # rx_replace_from r f (Suc i) xs))"
  by pat_completeness auto
termination
  by (relation "measure (\<lambda>(r, f, i, s). length s)") auto

declare rx_replace_from.simps [simp del]

definition rx_replace_groups :: "regex \<Rightarrow> (string \<Rightarrow> captures \<Rightarrow> string) \<Rightarrow> string \<Rightarrow> string" where
  "rx_replace_groups r f s = rx_replace_from r f 0 s"

definition rx_replace_first :: "regex \<Rightarrow> (string \<Rightarrow> captures \<Rightarrow> string) \<Rightarrow> string \<Rightarrow> string" where
  "rx_replace_first r f s =
     (case rx_exec r s of None \<Rightarrow> s | Some (k, m, g) \<Rightarrow> take k s @ f m g @ drop (k + length m) s)"

section \<open>What a match consumes\<close>

text \<open>Every result of \<open>rx\<close> is a suffix of the text and the position moved by as much.\<close>

definition consumes :: "rxconf \<Rightarrow> rxconf \<Rightarrow> bool" where
  "consumes c c' \<longleftrightarrow> (\<exists>u. fst (snd c) = u @ fst (snd c') \<and> fst c' = fst c + length u)"

lemma consumes_refl [simp]: "consumes c c"
  by (auto simp: consumes_def)

lemma consumes_trans: "consumes a b \<Longrightarrow> consumes b c \<Longrightarrow> consumes a c"
  unfolding consumes_def by fastforce

lemma rx_star_consumes:
  assumes "\<And>c c'. c' \<in> set (m c) \<Longrightarrow> consumes c c'"
  shows "c' \<in> set (rx_star n m c) \<Longrightarrow> consumes c c'"
proof (induction n arbitrary: c)
  case (Suc n)
  then consider "c' = c" | d where "d \<in> set (m c)" "c' \<in> set (rx_star n m d)"
    by (auto split: if_splits)
  then show ?case
  proof cases
    case 2
    from assms [OF 2(1)] Suc.IH [OF 2(2)] show ?thesis by (rule consumes_trans)
  qed simp
qed simp

lemma rx_lazy_set: "set (rx_lazy n m c) = set (rx_star n m c)"
  by (induction n arbitrary: c) auto

lemma rx_back_mem:
  "c' \<in> set (rx (RxBack n) c) \<Longrightarrow> consumes c c'"
  by (cases c) (auto simp: consumes_def starts_with_iff split: option.splits if_splits)

lemma rx_consumes: "c' \<in> set (rx r c) \<Longrightarrow> consumes c c'"
proof (induction r arbitrary: c c')
  case (RxClass P)
  then show ?case
    by (cases c) (auto simp: consumes_def split: list.splits if_splits)
next
  case (RxSeq r1 r2)
  from RxSeq.prems obtain d where d: "d \<in> set (rx r1 c)" "c' \<in> set (rx r2 d)" by auto
  from RxSeq.IH(1) [OF d(1)] RxSeq.IH(2) [OF d(2)] show ?case by (rule consumes_trans)
next
  case (RxStar r)
  then show ?case using rx_star_consumes [of "rx r"] by auto
next
  case (RxGroup n r)
  from RxGroup.prems obtain j s' g' where m: "(j, s', g') \<in> set (rx r c)"
    and c': "c' = (j, s', (n, take (j - fst c) (fst (snd c))) # g')" by auto
  from RxGroup.IH [OF m] c' show ?case by (simp add: consumes_def)
next
  case (RxLazy r)
  then show ?case using rx_star_consumes [of "rx r"] by (auto simp: rx_lazy_set)
next
  case (RxBack n)
  then show ?case by (rule rx_back_mem)
next
  case (RxUpto greedy k r)
  then show ?case using rx_star_consumes [of "rx r"] by (auto simp: rx_lazy_set split: if_splits)
qed (auto simp: consumes_def split: if_splits list.splits)

lemma rx_consumesE:
  assumes "(j, t, g') \<in> set (rx r (i, s, g))"
  obtains u where "s = u @ t" and "j = i + length u" and "take (j - i) s = u"
  using rx_consumes [OF assms] by (auto simp: consumes_def)

section \<open>Deterministic pieces\<close>

lemma rx_class [simp]:
  "rx (RxClass P) (i, [], g) = []"
  "rx (RxClass P) (i, x # xs, g) = (if P x then [(Suc i, xs, g)] else [])"
  by auto

lemma rx_back [simp]:
  "map_of g n = Some u \<Longrightarrow>
     rx (RxBack n) (i, s, g) = (if starts_with u s then [(i + length u, drop (length u) s, g)] else [])"
  by simp

declare rx.simps(2) [simp del] rx.simps(10) [simp del]

lemma rx_lit [simp]:
  "rx (rx_lit p) (i, s, g) =
     (if starts_with p s then [(i + length p, drop (length p) s, g)] else [])"
proof (induction p arbitrary: i s rule: rx_lit.induct)
  case (2 c)
  then show ?case by (cases s) auto
next
  case (3 c v va)
  then show ?case by (cases s) auto
qed simp

text \<open>
  The greedy repetition of a class: the first result takes the longest run of characters of
  the class, and every other result takes a shorter one.
\<close>

lemma rx_star_class:
  "length s \<le> n \<Longrightarrow>
   rx_star n (rx (RxClass P)) (i, s, g) =
     map (\<lambda>k. (i + k, drop k s, g)) (rev [0..<Suc (length (takeWhile P s))])"
proof (induction n arbitrary: i s)
  case (Suc n)
  show ?case
  proof (cases s)
    case (Cons x xs)
    show ?thesis
    proof (cases "P x")
      case True
      let ?k = "length (takeWhile P xs)"
      have "map (\<lambda>k. (i + k, drop k s, g)) (rev [0..<Suc (Suc ?k)]) =
          map (\<lambda>k. (Suc i + k, drop k xs, g)) (rev [0..<Suc ?k]) @ [(i, s, g)]"
        by (simp add: Cons upt_conv_Cons rev_map [symmetric] map_Suc_upt [symmetric]
              del: upt_Suc)
      with Suc Cons True show ?thesis by (simp del: upt_Suc)
    qed (use Cons in simp)
  qed simp
qed simp

lemma rx_star_class_hd:
  "\<exists>cs. rx (RxStar (RxClass P)) (i, s, g) =
     (i + length (takeWhile P s), dropWhile P s, g) # cs"
  by (simp add: rx_star_class dropWhile_eq_drop)

lemma rx_star_class_set:
  "c \<in> set (rx (RxStar (RxClass P)) (i, s, g)) \<longleftrightarrow>
     (\<exists>u t. s = u @ t \<and> (\<forall>x \<in> set u. P x) \<and> c = (i + length u, t, g))"
proof
  assume "c \<in> set (rx (RxStar (RxClass P)) (i, s, g))"
  then obtain k where k: "k \<le> length (takeWhile P s)" "c = (i + k, drop k s, g)"
    by (auto simp: rx_star_class simp del: upt_Suc)
  then have "take k s = take k (takeWhile P s)"
    by (metis min.absorb1 takeWhile_eq_take take_take)
  then have "\<forall>x \<in> set (take k s). P x"
    by (metis in_set_takeD set_takeWhileD)
  moreover have "length (take k s) = k"
    using k(1) length_takeWhile_le [of P s] by simp
  ultimately show "\<exists>u t. s = u @ t \<and> (\<forall>x \<in> set u. P x) \<and> c = (i + length u, t, g)"
    using k(2) by (intro exI [of _ "take k s"] exI [of _ "drop k s"]) simp
next
  assume "\<exists>u t. s = u @ t \<and> (\<forall>x \<in> set u. P x) \<and> c = (i + length u, t, g)"
  then obtain u t where "s = u @ t" "\<forall>x \<in> set u. P x" "c = (i + length u, t, g)" by blast
  then show "c \<in> set (rx (RxStar (RxClass P)) (i, s, g))"
    by (auto simp: rx_star_class image_iff simp del: upt_Suc intro!: bexI [of _ "length u"])
qed

section \<open>Searching\<close>

lemma rx_search_None_iff:
  "rx_search r i s = None \<longleftrightarrow> (\<forall>u t. s = u @ t \<longrightarrow> rx r (i + length u, t, []) = [])"
proof (induction s arbitrary: i)
  case Nil
  then show ?case by (subst rx_search.simps) (auto split: list.splits)
next
  case (Cons x xs)
  have "(\<forall>u t. x # xs = u @ t \<longrightarrow> rx r (i + length u, t, []) = []) \<longleftrightarrow>
      rx r (i, x # xs, []) = [] \<and> (\<forall>u t. xs = u @ t \<longrightarrow> rx r (Suc i + length u, t, []) = [])"
    (is "?l \<longleftrightarrow> ?r")
  proof
    assume l: ?l
    have "rx r (Suc i + length u, t, []) = []" if "xs = u @ t" for u t
      using l [rule_format, of "x # u" t] that by simp
    with l [rule_format, of "[]" "x # xs"] show ?r by simp
  qed (auto simp: Cons_eq_append_conv)
  with Cons show ?case by (subst rx_search.simps) (auto split: list.splits)
qed

lemma rx_search_hit:
  assumes "rx r (i, s, []) = (j, s', g) # cs"
  shows "rx_search r i s = Some (i, take (j - i) s, g)"
  using assms by (subst rx_search.simps) simp

lemma rx_search_miss:
  "rx r (i, x # xs, []) = [] \<Longrightarrow> rx_search r i (x # xs) = rx_search r (Suc i) xs"
  "rx r (i, [], []) = [] \<Longrightarrow> rx_search r i [] = None"
  by (subst rx_search.simps, simp)+

lemma rx_search_Some:
  "rx_search r i s = Some (k, m, g) \<Longrightarrow>
   \<exists>u t. s = u @ m @ t \<and> k = i + length u \<and> (k + length m, t, g) \<in> set (rx r (k, m @ t, []))"
proof (induction s arbitrary: i)
  case (Cons x xs)
  show ?case
  proof (cases "rx r (i, x # xs, [])")
    case Nil
    with Cons.prems have "rx_search r (Suc i) xs = Some (k, m, g)"
      by (simp add: rx_search_miss)
    from Cons.IH [OF this] obtain u t where "xs = u @ m @ t" "k = Suc i + length u"
      "(k + length m, t, g) \<in> set (rx r (k, m @ t, []))" by blast
    then show ?thesis by (intro exI [of _ "x # u"] exI [of _ t]) simp
  next
    case hit: (Cons c cs)
    obtain j s' g' where c: "c = (j, s', g')" by (cases c)
    then have mem: "(j, s', g') \<in> set (rx r (i, x # xs, []))" using hit by simp
    from mem obtain v where v: "x # xs = v @ s'" "j = i + length v" "take (j - i) (x # xs) = v"
      by (rule rx_consumesE)
    from Cons.prems rx_search_hit [OF hit [unfolded c]] v have "k = i" "m = v" "g = g'" by auto
    with mem v show ?thesis by (intro exI [of _ "[]"] exI [of _ s']) auto
  qed
next
  case Nil
  show ?case
  proof (cases "rx r (i, [], [])")
    case Nil
    with \<open>rx_search r i [] = Some (k, m, g)\<close> show ?thesis by (simp add: rx_search_miss)
  next
    case hit: (Cons c cs)
    obtain j s' g' where c: "c = (j, s', g')" by (cases c)
    then have mem: "(j, s', g') \<in> set (rx r (i, [], []))" using hit by simp
    from mem obtain v where "[] = v @ s'" "j = i + length v" by (rule rx_consumesE)
    with mem \<open>rx_search r i [] = Some (k, m, g)\<close> rx_search_hit [OF hit [unfolded c]]
    show ?thesis by simp
  qed
qed

lemma rx_test_class: "rx_test (RxClass P) s \<longleftrightarrow> (\<exists>x \<in> set s. P x)"
proof -
  have "rx_search (RxClass P) i s = None \<longleftrightarrow> \<not> (\<exists>x \<in> set s. P x)" for i
  proof (induction s arbitrary: i)
    case (Cons x xs)
    then show ?case by (subst rx_search.simps) auto
  qed (subst rx_search.simps, simp)
  then show ?thesis by (simp add: rx_test_def rx_exec_def)
qed

lemma rx_test_lit: "rx_test (rx_lit p) s \<longleftrightarrow> (\<exists>u v. s = u @ p @ v)"
proof -
  have "rx_exec (rx_lit p) s = None \<longleftrightarrow> (\<forall>u t. s = u @ t \<longrightarrow> \<not> starts_with p t)"
    by (auto simp: rx_exec_def rx_search_None_iff split: if_splits)
  then show ?thesis unfolding rx_test_def by (auto simp: starts_with_iff)
qed

section \<open>The texts a pattern eats\<close>

text \<open>
  \<open>rx_eats r u t i g g'\<close>: at position \<open>i\<close>, with \<open>u\<close> followed by \<open>t\<close> ahead, one way of matching
  takes \<open>u\<close> and turns the groups \<open>g\<close> into \<open>g'\<close>. The equations below read a pattern as the set of
  texts it accepts.
\<close>

definition rx_eats :: "regex \<Rightarrow> string \<Rightarrow> string \<Rightarrow> nat \<Rightarrow> captures \<Rightarrow> captures \<Rightarrow> bool" where
  "rx_eats r u t i g g' \<longleftrightarrow> (i + length u, t, g') \<in> set (rx r (i, u @ t, g))"

named_theorems rx_eats_simps \<open>the texts a pattern accepts\<close>

lemma rx_mem_iff:
  "(j, t, g') \<in> set (rx r (i, s, g)) \<longleftrightarrow>
     (\<exists>u. s = u @ t \<and> j = i + length u \<and> rx_eats r u t i g g')"
proof
  assume m: "(j, t, g') \<in> set (rx r (i, s, g))"
  then obtain u where "s = u @ t" "j = i + length u" by (rule rx_consumesE)
  with m show "\<exists>u. s = u @ t \<and> j = i + length u \<and> rx_eats r u t i g g'"
    by (auto simp: rx_eats_def)
qed (auto simp: rx_eats_def)

lemma eats_eps [rx_eats_simps]: "rx_eats RxEps u t i g g' \<longleftrightarrow> u = [] \<and> g' = g"
  by (auto simp: rx_eats_def)

lemma eats_class [rx_eats_simps]: "rx_eats (RxClass P) u t i g g' \<longleftrightarrow> (\<exists>x. u = [x] \<and> P x \<and> g' = g)"
proof (cases u)
  case Nil
  then show ?thesis by (cases t) (auto simp: rx_eats_def)
qed (auto simp: rx_eats_def)

lemma eats_lit [rx_eats_simps]: "rx_eats (rx_lit p) u t i g g' \<longleftrightarrow> u = p \<and> g' = g"
  by (auto simp: rx_eats_def starts_with_iff)

lemma eats_seq [rx_eats_simps]:
  "rx_eats (RxSeq a b) u t i g g' \<longleftrightarrow>
     (\<exists>u1 u2 g1. u = u1 @ u2 \<and> rx_eats a u1 (u2 @ t) i g g1 \<and> rx_eats b u2 t (i + length u1) g1 g')"
proof
  assume "rx_eats (RxSeq a b) u t i g g'"
  then obtain j s1 g1 where 1: "(j, s1, g1) \<in> set (rx a (i, u @ t, g))"
    and 2: "(i + length u, t, g') \<in> set (rx b (j, s1, g1))"
    by (auto simp: rx_eats_def)
  from 1 obtain u1 where u1: "u @ t = u1 @ s1" "j = i + length u1" "rx_eats a u1 s1 i g g1"
    by (auto simp: rx_mem_iff)
  from 2 obtain u2 where u2: "s1 = u2 @ t" "rx_eats b u2 t j g1 g'"
    by (auto simp: rx_mem_iff)
  from u1 u2 show "\<exists>u1 u2 g1. u = u1 @ u2 \<and> rx_eats a u1 (u2 @ t) i g g1 \<and>
      rx_eats b u2 t (i + length u1) g1 g'" by auto
next
  assume "\<exists>u1 u2 g1. u = u1 @ u2 \<and> rx_eats a u1 (u2 @ t) i g g1 \<and>
      rx_eats b u2 t (i + length u1) g1 g'"
  then show "rx_eats (RxSeq a b) u t i g g'"
    unfolding rx_eats_def by (fastforce simp: add.assoc)
qed

lemma eats_alt [rx_eats_simps]:
  "rx_eats (RxAlt a b) u t i g g' \<longleftrightarrow> rx_eats a u t i g g' \<or> rx_eats b u t i g g'"
  by (auto simp: rx_eats_def)

lemma eats_star_class [rx_eats_simps]:
  "rx_eats (RxStar (RxClass P)) u t i g g' \<longleftrightarrow> (\<forall>x \<in> set u. P x) \<and> g' = g"
  unfolding rx_eats_def rx_star_class_set by auto

lemma eats_group [rx_eats_simps]:
  "rx_eats (RxGroup n r) u t i g g' \<longleftrightarrow> (\<exists>g1. rx_eats r u t i g g1 \<and> g' = (n, u) # g1)"
  by (force simp: rx_eats_def)

lemma eats_begin [rx_eats_simps]: "rx_eats RxBegin u t i g g' \<longleftrightarrow> i = 0 \<and> u = [] \<and> g' = g"
  by (auto simp: rx_eats_def)

lemma eats_end [rx_eats_simps]: "rx_eats RxEnd u t i g g' \<longleftrightarrow> t = [] \<and> u = [] \<and> g' = g"
  by (auto simp: rx_eats_def)

text \<open>The texts a sequence accepts, by its first part.\<close>

lemma eats_class_seq:
  "rx_eats (RxSeq (RxClass P) r) m t i g g' \<longleftrightarrow> (\<exists>x u. m = x # u \<and> P x \<and> rx_eats r u t (Suc i) g g')"
proof
  assume "\<exists>x u. m = x # u \<and> P x \<and> rx_eats r u t (Suc i) g g'"
  then obtain x u where "m = [x] @ u" "P x" "rx_eats r u t (i + length [x]) g g'" by auto
  then show "rx_eats (RxSeq (RxClass P) r) m t i g g'" unfolding eats_seq eats_class by blast
qed (auto simp: eats_seq eats_class)

lemma eats_lit_seq:
  "rx_eats (RxSeq (rx_lit p) r) m t i g g' \<longleftrightarrow> (\<exists>u. m = p @ u \<and> rx_eats r u t (i + length p) g g')"
  by (auto simp: eats_seq eats_lit simp del: rx_lit.simps)

lemma eats_begin_seq: "rx_eats (RxSeq RxBegin r) m t i g g' \<longleftrightarrow> i = 0 \<and> rx_eats r m t i g g'"
  by (auto simp: eats_seq eats_begin)

lemma eats_opt_seq:
  "rx_eats (RxSeq (rx_opt r) q) m t i g g' \<longleftrightarrow> rx_eats (RxSeq r q) m t i g g' \<or> rx_eats q m t i g g'"
proof
  assume "rx_eats (RxSeq r q) m t i g g' \<or> rx_eats q m t i g g'"
  then show "rx_eats (RxSeq (rx_opt r) q) m t i g g'"
  proof
    assume "rx_eats q m t i g g'"
    then have "m = [] @ m \<and> rx_eats (rx_opt r) [] (m @ t) i g g \<and> rx_eats q m t (i + length ([] :: string)) g g'"
      by (simp add: rx_opt_def eats_alt eats_eps)
    then show ?thesis unfolding eats_seq by blast
  qed (auto simp: rx_opt_def eats_seq eats_alt)
qed (auto simp: rx_opt_def eats_seq eats_alt eats_eps)

lemmas eats_seq_simps = eats_begin_seq eats_class_seq eats_lit_seq eats_opt_seq

lemmas eats_sugar [rx_eats_simps] = rx_plus_def rx_opt_def rx_seq.simps

lemma rx_exec_eats:
  "rx_exec r s = Some (k, m, g) \<Longrightarrow> \<exists>u t. s = u @ m @ t \<and> k = length u \<and> rx_eats r m t k [] g"
  using rx_search_Some [of r 0 s k m g] by (auto simp: rx_exec_def rx_eats_def)

lemma rx_Nil_eats:
  "rx r (i, v, []) = [] \<longleftrightarrow> (\<forall>m t g. v = m @ t \<longrightarrow> \<not> rx_eats r m t i [] g)"
proof
  assume e: "rx r (i, v, []) = []"
  show "\<forall>m t g. v = m @ t \<longrightarrow> \<not> rx_eats r m t i [] g"
  proof (intro allI impI notI)
    fix m t g assume "v = m @ t" and "rx_eats r m t i [] g"
    then have "(i + length m, t, g) \<in> set (rx r (i, v, []))" by (auto simp: rx_mem_iff)
    with e show False by simp
  qed
next
  assume none: "\<forall>m t g. v = m @ t \<longrightarrow> \<not> rx_eats r m t i [] g"
  show "rx r (i, v, []) = []"
  proof (rule ccontr)
    assume "rx r (i, v, []) \<noteq> []"
    then obtain j t g where "(j, t, g) \<in> set (rx r (i, v, []))"
      by (metis list.set_intros(1) neq_Nil_conv prod_cases3)
    with none show False by (auto simp: rx_mem_iff)
  qed
qed

lemma rx_exec_None_eats:
  "rx_exec r s = None \<longleftrightarrow> (\<forall>u m t g. s = u @ m @ t \<longrightarrow> \<not> rx_eats r m t (length u) [] g)"
  unfolding rx_exec_def rx_search_None_iff rx_Nil_eats add_0 by blast

section \<open>Replacing\<close>

lemma subst_pieces_simps [simp]:
  "subst_pieces f [] = []"
  "subst_pieces f (Inl c # ps) = c # subst_pieces f ps"
  "subst_pieces f (Inr m # ps) = f m @ subst_pieces f ps"
  by (auto simp: subst_pieces_def)

lemma rx_pieces_nil [simp]: "rx r (i, [], []) = [] \<Longrightarrow> rx_pieces_from r i [] = []"
  by (subst rx_pieces_from.simps) simp

lemma rx_pieces_none:
  "rx r (i, x # xs, []) = [] \<Longrightarrow> rx_pieces_from r i (x # xs) = Inl x # rx_pieces_from r (Suc i) xs"
  by (subst rx_pieces_from.simps) simp

lemma rx_pieces_match:
  "rx r (i, u @ t, []) = (i + length u, t, g) # cs \<Longrightarrow> u \<noteq> [] \<Longrightarrow>
   rx_pieces_from r i (u @ t) = Inr u # rx_pieces_from r (i + length u) t"
  by (subst rx_pieces_from.simps) simp

lemma rx_pieces_class:
  "rx_pieces_from (RxClass P) i s = map (\<lambda>c. if P c then Inr [c] else Inl c) s"
proof (induction s arbitrary: i)
  case (Cons x xs)
  then show ?case
    by (cases "P x") (auto simp: rx_pieces_none rx_pieces_match [of _ _ "[x]", simplified])
qed simp

lemma rx_replace_class:
  "rx_replace_all (RxClass P) f s = concat (map (\<lambda>c. if P c then f [c] else [c]) s)"
  by (induction s) (auto simp: rx_replace_all_def rx_pieces_def rx_pieces_class)

lemma rx_replace_class_none: "\<forall>c \<in> set s. \<not> P c \<Longrightarrow> rx_replace_all (RxClass P) f s = s"
  unfolding rx_replace_class by (induction s) auto

section \<open>The characters a match has\<close>

text \<open>The characters an expression can consume satisfy a predicate.\<close>

primrec rx_over :: "(char \<Rightarrow> bool) \<Rightarrow> regex \<Rightarrow> bool" where
  "rx_over P RxEps = True"
| "rx_over P (RxClass Q) = (\<forall>c. Q c \<longrightarrow> P c)"
| "rx_over P (RxSeq r1 r2) = (rx_over P r1 \<and> rx_over P r2)"
| "rx_over P (RxAlt r1 r2) = (rx_over P r1 \<and> rx_over P r2)"
| "rx_over P (RxStar r) = rx_over P r"
| "rx_over P (RxGroup n r) = rx_over P r"
| "rx_over P RxBegin = True"
| "rx_over P RxEnd = True"
| "rx_over P (RxLazy r) = rx_over P r"
| "rx_over P (RxBack n) = False"
| "rx_over P RxEol = True"
| "rx_over P (RxAt Q) = True"
| "rx_over P (RxLook ahead r) = True"
| "rx_over P (RxReset ns) = True"
| "rx_over P (RxUpto greedy k r) = rx_over P r"

definition eaten_over :: "(char \<Rightarrow> bool) \<Rightarrow> rxconf \<Rightarrow> rxconf \<Rightarrow> bool" where
  "eaten_over P c c' \<longleftrightarrow> (\<exists>u. fst (snd c) = u @ fst (snd c') \<and> (\<forall>x \<in> set u. P x))"

lemma eaten_over_refl [simp]: "eaten_over P c c"
  by (simp add: eaten_over_def)

lemma eaten_over_trans: "eaten_over P a b \<Longrightarrow> eaten_over P b c \<Longrightarrow> eaten_over P a c"
  unfolding eaten_over_def by fastforce

lemma star_eaten_over:
  assumes "\<And>c c'. c' \<in> set (m c) \<Longrightarrow> eaten_over P c c'"
  shows "c' \<in> set (rx_star n m c) \<Longrightarrow> eaten_over P c c'"
proof (induction n arbitrary: c)
  case (Suc n)
  then consider "c' = c" | d where "d \<in> set (m c)" "c' \<in> set (rx_star n m d)"
    by (auto split: if_splits)
  then show ?case
  proof cases
    case (2 d)
    then show ?thesis using assms [OF 2(1)] Suc.IH [OF 2(2)] eaten_over_trans by blast
  qed simp
qed simp

lemma rx_eaten_over: "rx_over P r \<Longrightarrow> c' \<in> set (rx r c) \<Longrightarrow> eaten_over P c c'"
proof (induction r arbitrary: c c')
  case (RxClass Q)
  obtain i s g where c: "c = (i, s, g)" by (cases c)
  with RxClass obtain x xs where "s = x # xs" "Q x" "c' = (Suc i, xs, g)"
    by (cases s) (auto split: if_splits)
  with RxClass c show ?case by (auto simp: eaten_over_def)
next
  case (RxSeq r1 r2)
  then obtain d where "d \<in> set (rx r1 c)" "c' \<in> set (rx r2 d)" by auto
  with RxSeq show ?case using eaten_over_trans by (meson rx_over.simps(3))
next
  case (RxStar r)
  then show ?case using star_eaten_over [of "rx r" P] by auto
next
  case (RxGroup n r)
  then obtain j s' g' where "(j, s', g') \<in> set (rx r c)" "fst (snd c') = s'"
    by (auto split: prod.splits)
  then show ?case using RxGroup by (fastforce simp: eaten_over_def)
next
  case (RxLazy r)
  then show ?case using star_eaten_over [of "rx r" P] by (auto simp: rx_lazy_set)
next
  case (RxUpto greedy k r)
  then show ?case using star_eaten_over [of "rx r" P] by (auto simp: rx_lazy_set split: if_splits)
qed (auto simp: eaten_over_def split: if_splits list.splits)

lemma eats_over: "rx_over P r \<Longrightarrow> rx_eats r u t i g g' \<Longrightarrow> \<forall>x \<in> set u. P x"
  unfolding rx_eats_def by (drule (1) rx_eaten_over) (auto simp: eaten_over_def)

text \<open>Searching for a character of a class finds the first one.\<close>

lemma rx_exec_class:
  "rx_exec (RxClass P) s =
     (case dropWhile (\<lambda>x. \<not> P x) s of [] \<Rightarrow> None | x # _ \<Rightarrow> Some (length (takeWhile (\<lambda>x. \<not> P x) s), [x], []))"
proof -
  have "rx_search (RxClass P) i s =
     (case dropWhile (\<lambda>x. \<not> P x) s of [] \<Rightarrow> None | x # _ \<Rightarrow> Some (i + length (takeWhile (\<lambda>x. \<not> P x) s), [x], []))" for i
  proof (induction s arbitrary: i)
    case (Cons x xs)
    show ?case
    proof (cases "P x")
      case True
      then show ?thesis by (subst rx_search.simps) simp
    next
      case False
      then show ?thesis
        using Cons [of "Suc i"] by (cases "dropWhile (\<lambda>x. \<not> P x) xs") (simp_all add: rx_search_miss del: dropWhile_eq_Nil_conv)
    qed
  qed (simp add: rx_search_miss)
  from this [of 0] show ?thesis unfolding rx_exec_def add_0 .
qed

end
