(* ===== verification/Uri.thy ===== *)
theory Uri
  imports Prelude
begin

text \<open>
  \<open>encodeURIComponent\<close> and \<open>decodeURIComponent\<close> of the language, over code units below 256:
  characters outside the unreserved set become the percent escapes of their UTF-8 bytes.
  \<open>decodeURIComponent\<close> gives \<^term>\<open>None\<close> where the language raises \<open>URIError\<close> and where the
  decoded character is not below 256, so that the model has no string for it.

  The interface the link builders rely on is the locale \<open>uri_codec\<close>: decoding inverts
  encoding, and an encoded text has no character that ends or separates a query parameter.
\<close>

section \<open>Definitions\<close>

definition hex_digit :: "nat \<Rightarrow> char" where
  "hex_digit d = char_of (if d < 10 then 48 + d else 55 + d)"

definition hex_val :: "char \<Rightarrow> nat option" where
  "hex_val c =
     (let n = (of_char c :: nat) in
      if 48 \<le> n \<and> n \<le> 57 then Some (n - 48)
      else if 65 \<le> n \<and> n \<le> 70 then Some (n - 55)
      else if 97 \<le> n \<and> n \<le> 102 then Some (n - 87)
      else None)"

definition percent :: "nat \<Rightarrow> string" where
  "percent b = [CHR ''%'', hex_digit (b div 16), hex_digit (b mod 16)]"

definition uri_unreserved :: "char \<Rightarrow> bool" where
  "uri_unreserved c \<longleftrightarrow> is_alnum c \<or> c \<in> set ''-_.!~*()'' \<or> c = CHR 0x27"

definition encode_char :: "char \<Rightarrow> string" where
  "encode_char c =
     (let n = (of_char c :: nat) in
      if uri_unreserved c then [c]
      else if n < 128 then percent n
      else percent (192 + n div 64) @ percent (128 + n mod 64))"

definition encodeURIComponent :: "string \<Rightarrow> string" where
  "encodeURIComponent s = concat (map encode_char s)"

definition hex_byte :: "char \<Rightarrow> char \<Rightarrow> nat option" where
  "hex_byte h l =
     (case (hex_val h, hex_val l) of (Some a, Some b) \<Rightarrow> Some (16 * a + b) | _ \<Rightarrow> None)"

fun decodeURIComponent :: "string \<Rightarrow> string option" where
  "decodeURIComponent [] = Some []"
| "decodeURIComponent (c # cs) =
     (if c \<noteq> CHR ''%'' then map_option (Cons c) (decodeURIComponent cs)
      else (case cs of
         h # l # rest \<Rightarrow>
           (case hex_byte h l of
              None \<Rightarrow> None
            | Some b \<Rightarrow>
                if b < 128 then map_option (Cons (char_of b)) (decodeURIComponent rest)
                else if b = 194 \<or> b = 195 then
                  (case rest of
                     p # h2 # l2 # rest2 \<Rightarrow>
                       if p \<noteq> CHR ''%'' then None
                       else (case hex_byte h2 l2 of
                          None \<Rightarrow> None
                        | Some b2 \<Rightarrow>
                            if 128 \<le> b2 \<and> b2 < 192
                            then map_option (Cons (char_of ((b - 192) * 64 + (b2 - 128))))
                                   (decodeURIComponent rest2)
                            else None)
                   | _ \<Rightarrow> None)
                else None)
       | _ \<Rightarrow> None))"

section \<open>The interface of the codec\<close>

locale uri_codec =
  fixes enc :: "string \<Rightarrow> string"
    and dec :: "string \<Rightarrow> string option"
  assumes dec_enc: "dec (enc s) = Some s"
    and enc_safe: "c \<in> set (enc s) \<Longrightarrow> c \<notin> set ''&#+ ?=''"
begin

lemma enc_inject: "enc s = enc t \<longleftrightarrow> s = t"
  by (metis dec_enc option.inject)

lemma enc_until_delim:
  assumes "d \<in> set ''&#''"
  shows "takeWhile (\<lambda>c. c \<notin> set ''&#'') (enc s @ d # t) = enc s"
proof -
  have "\<forall>c \<in> set (enc s). c \<notin> set ''&#''" using enc_safe by auto
  with assms show ?thesis by (simp add: takeWhile_append2)
qed

lemma enc_no_plus: "map (\<lambda>c. if c = CHR ''+'' then CHR '' '' else c) (enc s) = enc s"
proof (rule map_idI)
  fix c assume "c \<in> set (enc s)"
  then show "(if c = CHR ''+'' then CHR '' '' else c) = c" using enc_safe by auto
qed

end

section \<open>The codec of the language\<close>

lemma of_char_less: "(of_char c :: nat) < 256"
  by simp

lemma utf8_bytes: "(n :: nat) < 256 \<Longrightarrow> 192 + n div 64 < 256" "(n :: nat) < 256 \<Longrightarrow> 128 + n mod 64 < 256"
  by auto

lemma of_char_hex_digit: "d < 16 \<Longrightarrow> (of_char (hex_digit d) :: nat) = (if d < 10 then 48 + d else 55 + d)"
  by (simp add: hex_digit_def)

lemma hex_val_hex_digit [simp]: "d < 16 \<Longrightarrow> hex_val (hex_digit d) = Some d"
  by (auto simp: hex_val_def of_char_hex_digit Let_def)

lemma hex_byte_percent [simp]: "b < 256 \<Longrightarrow> hex_byte (hex_digit (b div 16)) (hex_digit (b mod 16)) = Some b"
  by (simp add: hex_byte_def)

lemma decode_percent:
  "b < 128 \<Longrightarrow> decodeURIComponent (percent b @ t) = map_option (Cons (char_of b)) (decodeURIComponent t)"
  by (simp add: percent_def)

lemma decode_percent2:
  assumes "128 \<le> n" "n < 256"
  shows "decodeURIComponent (percent (192 + n div 64) @ percent (128 + n mod 64) @ t) =
    map_option (Cons (char_of n)) (decodeURIComponent t)"
proof -
  have q: "n div 64 = 2 \<or> n div 64 = 3" using assms by auto
  have b: "192 + n div 64 < 256" "128 + n mod 64 < 256" using assms q by auto
  have h: "hex_byte (hex_digit ((192 + n div 64) div 16)) (hex_digit ((192 + n div 64) mod 16)) =
      Some (192 + n div 64)" using b(1) by (rule hex_byte_percent)
  have l: "hex_byte (hex_digit ((128 + n mod 64) div 16)) (hex_digit ((128 + n mod 64) mod 16)) =
      Some (128 + n mod 64)" using b(2) by (rule hex_byte_percent)
  have n: "(192 + n div 64 - 192) * 64 + (128 + n mod 64 - 128) = n" by simp
  show ?thesis
    unfolding percent_def using h l n q by (auto simp del: hex_byte_percent)
qed

lemma unreserved_not_percent: "uri_unreserved c \<Longrightarrow> c \<noteq> CHR ''%''"
  by (auto simp: uri_unreserved_def is_alnum_def is_digit_def is_upper_def is_lower_def)

lemma decode_encode_char:
  "decodeURIComponent (encode_char c @ t) = map_option (Cons c) (decodeURIComponent t)"
proof -
  consider "uri_unreserved c" | "\<not> uri_unreserved c" "(of_char c :: nat) < 128"
    | "\<not> uri_unreserved c" "128 \<le> (of_char c :: nat)" by fastforce
  then show ?thesis
  proof cases
    case 1
    then show ?thesis by (simp add: encode_char_def unreserved_not_percent)
  next
    case 2
    then show ?thesis by (simp add: encode_char_def decode_percent)
  next
    case 3
    then show ?thesis
      using decode_percent2 [of "of_char c" t] of_char_less [of c] by (simp add: encode_char_def Let_def)
  qed
qed

lemma decode_encode: "decodeURIComponent (encodeURIComponent s) = Some s"
  by (induction s) (auto simp: encodeURIComponent_def decode_encode_char)

lemma encodeURIComponent_append: "encodeURIComponent (s @ t) = encodeURIComponent s @ encodeURIComponent t"
  by (simp add: encodeURIComponent_def)

lemma decode_encode_append:
  "decodeURIComponent (encodeURIComponent s @ t) = map_option ((@) s) (decodeURIComponent t)"
proof (induction s)
  case (Cons c s)
  have "encodeURIComponent (c # s) @ t = encode_char c @ encodeURIComponent s @ t"
    by (simp add: encodeURIComponent_def)
  with Cons show ?case by (simp add: decode_encode_char option.map_comp comp_def)
qed (simp add: encodeURIComponent_def option.map_ident)

lemma decode_plain: "CHR ''%'' \<notin> set s \<Longrightarrow> decodeURIComponent s = Some s"
  by (induction s) auto

lemma hex_digit_alnum: "d < 16 \<Longrightarrow> is_alnum (hex_digit d)"
  by (auto simp: is_alnum_def is_digit_def is_upper_def is_lower_def of_char_hex_digit)

lemma percent_chars: "b < 256 \<Longrightarrow> c \<in> set (percent b) \<Longrightarrow> c = CHR ''%'' \<or> is_alnum c"
  by (auto simp: percent_def hex_digit_alnum)

lemma encode_chars: "c \<in> set (encodeURIComponent s) \<Longrightarrow> uri_unreserved c \<or> c = CHR ''%''"
proof -
  assume "c \<in> set (encodeURIComponent s)"
  then obtain d where d: "c \<in> set (encode_char d)" by (auto simp: encodeURIComponent_def)
  have less: "192 + (of_char d :: nat) div 64 < 256" "128 + (of_char d :: nat) mod 64 < 256"
    by (rule utf8_bytes [OF of_char_less])+
  from d have "c = CHR ''%'' \<or> is_alnum c \<or> uri_unreserved c"
    using percent_chars [OF less(1)] percent_chars [OF less(2)] percent_chars [of "of_char d" c]
    by (auto simp: encode_char_def Let_def split: if_splits)
  then show ?thesis by (auto simp: uri_unreserved_def)
qed

lemma encode_safe: "c \<in> set (encodeURIComponent s) \<Longrightarrow> c \<notin> set ''&#+ ?=''"
  using encode_chars [of c s]
  by (auto simp: uri_unreserved_def is_alnum_def is_digit_def is_upper_def is_lower_def)

interpretation uri: uri_codec encodeURIComponent decodeURIComponent
  by unfold_locales (fact decode_encode, erule encode_safe)

end
