(* ===== verification/RxParse.thy ===== *)
theory RxParse
  imports JsRegex Uri
begin

text \<open>
  The patterns that the sources make at run time: \<open>new RegExp(source)\<close> without flags, by the grammar
  of ECMAScript 2016 with the extensions for web browsers (its annex B). The source is cut into
  tokens, in which an escape is one token and a class between brackets is another, and the tokens
  are put together with a stack of the groups that are still open. A text that is no pattern is a
  \<open>SyntaxError\<close>. A word boundary is a condition on the position in the text that is searched, so a
  pattern is read for a text.
\<close>

section \<open>Escapes\<close>

definition is_octal :: "char \<Rightarrow> bool" where
  "is_octal c \<longleftrightarrow> is_digit c \<and> digit_val c < 8"

definition is_word :: "char \<Rightarrow> bool" where
  "is_word c \<longleftrightarrow> is_alnum c \<or> c = CHR ''_''"

definition is_letter :: "char \<Rightarrow> bool" where
  "is_letter c \<longleftrightarrow> is_upper c \<or> is_lower c"

definition read_octal :: "string \<Rightarrow> nat" where
  "read_octal ds = foldl (\<lambda>n d. 8 * n + digit_val d) 0 ds"

text \<open>An octal escape has at most three digits and stays below 256.\<close>

definition octal_digits :: "string \<Rightarrow> string" where
  "octal_digits cs =
     (let ds = takeWhile is_octal cs in
      take (if ds \<noteq> [] \<and> digit_val (hd ds) \<le> 3 then 3 else 2) ds)"

text \<open>Exactly so many hexadecimal digits at the front of a text, as a number.\<close>

fun read_hex :: "nat \<Rightarrow> nat \<Rightarrow> string \<Rightarrow> nat option" where
  "read_hex 0 acc cs = Some acc"
| "read_hex (Suc n) acc [] = None"
| "read_hex (Suc n) acc (c # cs) =
     (case hex_val c of None \<Rightarrow> None | Some d \<Rightarrow> read_hex n (16 * acc + d) cs)"

text \<open>
  The escape of one character, after the backslash: the code of the character and how many
  characters of the source it takes. A \<open>c\<close> that no control letter follows leaves the backslash as a
  character of its own.
\<close>

definition char_escape :: "bool \<Rightarrow> char \<Rightarrow> string \<Rightarrow> nat \<times> nat" where
  "char_escape in_class c cs =
     (if c = CHR ''f'' then (12, 1) else if c = CHR ''n'' then (10, 1)
      else if c = CHR ''r'' then (13, 1) else if c = CHR ''t'' then (9, 1)
      else if c = CHR ''v'' then (11, 1)
      else if c = CHR ''c'' then
        (case cs of
           [] \<Rightarrow> (92, 0)
         | d # _ \<Rightarrow>
             if is_letter d \<or> in_class \<and> is_word d then (of_char d mod 32, 2) else (92, 0))
      else if c = CHR ''x'' then
        (case read_hex 2 0 cs of Some n \<Rightarrow> (n, 3) | None \<Rightarrow> (of_char c, 1))
      else if c = CHR ''u'' then
        (case read_hex 4 0 cs of Some n \<Rightarrow> (n, 5) | None \<Rightarrow> (of_char c, 1))
      else if is_octal c then (read_octal (octal_digits (c # cs)), length (octal_digits (c # cs)))
      else (of_char c, 1))"

definition rx_code :: "nat \<Rightarrow> char \<Rightarrow> bool" where
  "rx_code n c \<longleftrightarrow> of_char c = n"

text \<open>The escapes that stand for a set of characters.\<close>

definition set_escape :: "char \<Rightarrow> (char \<Rightarrow> bool) option" where
  "set_escape c =
     (if c = CHR ''d'' then Some is_digit else if c = CHR ''D'' then Some (\<lambda>x. \<not> is_digit x)
      else if c = CHR ''w'' then Some is_word else if c = CHR ''W'' then Some (\<lambda>x. \<not> is_word x)
      else if c = CHR ''s'' then Some is_space else if c = CHR ''S'' then Some (\<lambda>x. \<not> is_space x)
      else None)"

section \<open>Classes\<close>

text \<open>The parts of a class between brackets; a dash that is not escaped can make a range.\<close>

datatype class_atom = CAChar nat | CADash | CASet "char \<Rightarrow> bool"

fun atom_code :: "class_atom \<Rightarrow> nat option" where
  "atom_code (CAChar n) = Some n"
| "atom_code CADash = Some (of_char CHR ''-'')"
| "atom_code (CASet P) = None"

fun atom_has :: "class_atom \<Rightarrow> char \<Rightarrow> bool" where
  "atom_has (CAChar n) c = rx_code n c"
| "atom_has CADash c = (c = CHR ''-'')"
| "atom_has (CASet P) c = P c"

definition class_escape :: "string \<Rightarrow> (class_atom \<times> nat) option" where
  "class_escape cs =
     (case cs of
        [] \<Rightarrow> None
      | c # r \<Rightarrow>
          Some (if c = CHR ''b'' then (CAChar 8, 1)
            else (case set_escape c of
                    Some P \<Rightarrow> (CASet P, 1)
                  | None \<Rightarrow> (case char_escape True c r of (n, k) \<Rightarrow> (CAChar n, k)))))"

text \<open>The atoms of a class up to its bracket, and how many characters that took.\<close>

function class_atoms :: "string \<Rightarrow> (class_atom list \<times> nat) option" where
  "class_atoms [] = None"
| "class_atoms (c # cs) =
     (if c = CHR '']'' then Some ([], 1)
      else
        (case (if c = CHR 0x5C then class_escape cs
               else Some (if c = CHR ''-'' then CADash else CAChar (of_char c), 0)) of
           None \<Rightarrow> None
         | Some (a, k) \<Rightarrow>
             (case class_atoms (drop k cs) of
                None \<Rightarrow> None
              | Some (as, j) \<Rightarrow> Some (a # as, Suc (k + j)))))"
  by pat_completeness auto
termination
  by (relation "measure length") auto

text \<open>
  Two atoms with a dash between them are a range, and a range the wrong way round is an error; when
  one of them is a set the dash is a character.
\<close>

fun class_set :: "class_atom list \<Rightarrow> (char \<Rightarrow> bool) option" where
  "class_set [] = Some (\<lambda>c. False)"
| "class_set (a # CADash # b # as) =
     (case class_set as of
        None \<Rightarrow> None
      | Some P \<Rightarrow>
          (case (atom_code a, atom_code b) of
             (Some m, Some n) \<Rightarrow>
               if m \<le> n then Some (\<lambda>c. m \<le> of_char c \<and> of_char c \<le> n \<or> P c) else None
           | _ \<Rightarrow> Some (\<lambda>c. atom_has a c \<or> c = CHR ''-'' \<or> atom_has b c \<or> P c)))"
| "class_set (a # as) =
     (case class_set as of None \<Rightarrow> None | Some P \<Rightarrow> Some (\<lambda>c. atom_has a c \<or> P c))"

definition read_class :: "string \<Rightarrow> ((char \<Rightarrow> bool) \<times> nat) option" where
  "read_class cs =
     (let negated = starts_with ''^'' cs in
      case class_atoms (if negated then tl cs else cs) of
        None \<Rightarrow> None
      | Some (as, k) \<Rightarrow>
          (case class_set as of
             None \<Rightarrow> None
           | Some P \<Rightarrow> if negated then Some (\<lambda>c. \<not> P c, Suc k) else Some (P, k)))"

section \<open>Tokens\<close>

text \<open>
  An assertion cannot be repeated. A repetition has its least number of rounds, its greatest one
  if it has one, and whether it is greedy.
\<close>

datatype rxtoken =
    TAtom regex
  | TAssert regex
  | TOpen
  | TOpenPlain
  | TOpenLook bool
  | TClose
  | TBar
  | TQuant nat "nat option" bool

text \<open>The number of groups that capture, which decides what \<open>\1\<close> means.\<close>

fun capture_count :: "bool \<Rightarrow> string \<Rightarrow> nat" where
  "capture_count in_class [] = 0"
| "capture_count in_class [c] = (if \<not> in_class \<and> c = CHR ''('' then 1 else 0)"
| "capture_count in_class (c # d # cs) =
     (if c = CHR 0x5C then capture_count in_class cs
      else if in_class then capture_count (c \<noteq> CHR '']'') (d # cs)
      else if c = CHR ''['' then capture_count True (d # cs)
      else (if c = CHR ''('' \<and> d \<noteq> CHR ''?'' then 1 else 0) + capture_count False (d # cs))"

definition word_boundary :: "string \<Rightarrow> nat \<Rightarrow> bool" where
  "word_boundary subject i \<longleftrightarrow>
     (0 < i \<and> i \<le> length subject \<and> is_word (subject ! (i - 1))) \<noteq>
     (i < length subject \<and> is_word (subject ! i))"

text \<open>A token and how many characters it takes after its first one; \<^term>\<open>None\<close> is an error.\<close>

definition lex_escape :: "string \<Rightarrow> nat \<Rightarrow> string \<Rightarrow> (rxtoken \<times> nat) option" where
  "lex_escape subject groups cs =
     (case cs of
        [] \<Rightarrow> None
      | c # r \<Rightarrow>
          (let ds = takeWhile is_digit cs in
           Some (if c = CHR ''b'' then (TAssert (RxAt (word_boundary subject)), 1)
             else if c = CHR ''B'' then (TAssert (RxAt (\<lambda>i. \<not> word_boundary subject i)), 1)
             else if ds \<noteq> [] \<and> c \<noteq> CHR ''0'' \<and> read_nat ds \<le> groups
             then (TAtom (RxBack (read_nat ds)), length ds)
             else (case set_escape c of
                     Some P \<Rightarrow> (TAtom (RxClass P), 1)
                   | None \<Rightarrow> (case char_escape False c r of (n, k) \<Rightarrow> (TAtom (RxClass (rx_code n)), k))))))"

text \<open>The question mark that makes a repetition lazy.\<close>

definition quant_token :: "nat \<Rightarrow> nat option \<Rightarrow> nat \<Rightarrow> string \<Rightarrow> rxtoken \<times> nat" where
  "quant_token m n k cs =
     (if starts_with ''?'' (drop k cs) then (TQuant m n False, Suc k) else (TQuant m n True, k))"

text \<open>
  A repetition in braces, after the opening one: the bounds and the number of characters.
  What is none of \<open>{n}\<close>, \<open>{n,}\<close> and \<open>{n,m}\<close> is read as characters.
\<close>

definition read_braces :: "string \<Rightarrow> (nat \<times> nat option \<times> nat) option" where
  "read_braces cs =
     (let ds = takeWhile is_digit cs;
          r = dropWhile is_digit cs;
          es = takeWhile is_digit (tl r);
          k = length ds
      in if ds = [] then None
         else if starts_with ''}'' r then Some (read_nat ds, Some (read_nat ds), k + 1)
         else if starts_with '',}'' r then Some (read_nat ds, None, k + 2)
         else if starts_with '','' r \<and> es \<noteq> [] \<and> starts_with ''}'' (dropWhile is_digit (tl r))
         then Some (read_nat ds, Some (read_nat es), k + length es + 2)
         else None)"

definition lex_one :: "string \<Rightarrow> nat \<Rightarrow> char \<Rightarrow> string \<Rightarrow> (rxtoken \<times> nat) option" where
  "lex_one subject groups c cs =
     (if c = CHR 0x5C then lex_escape subject groups cs
      else if c = CHR ''['' then map_option (\<lambda>(P, k). (TAtom (RxClass P), k)) (read_class cs)
      else if c = CHR ''('' then
        (if starts_with ''?:'' cs then Some (TOpenPlain, 2)
         else if starts_with ''?='' cs then Some (TOpenLook True, 2)
         else if starts_with ''?!'' cs then Some (TOpenLook False, 2)
         else if starts_with ''?'' cs then None
         else Some (TOpen, 0))
      else if c = CHR '')'' then Some (TClose, 0)
      else if c = CHR ''|'' then Some (TBar, 0)
      else if c = CHR ''^'' then Some (TAssert RxBegin, 0)
      else if c = CHR ''$'' then Some (TAssert RxEnd, 0)
      else if c = CHR ''.'' then Some (TAtom (RxClass (\<lambda>x. \<not> line_end x)), 0)
      else if c = CHR ''*'' then Some (quant_token 0 None 0 cs)
      else if c = CHR ''+'' then Some (quant_token 1 None 0 cs)
      else if c = CHR ''?'' then Some (quant_token 0 (Some 1) 0 cs)
      else if c = CHR ''{'' then
        (case read_braces cs of
           None \<Rightarrow> Some (TAtom (rx_chr c), 0)
         | Some (m, n, k) \<Rightarrow>
             if (case n of None \<Rightarrow> True | Some n \<Rightarrow> m \<le> n) then Some (quant_token m n k cs) else None)
      else Some (TAtom (rx_chr c), 0))"

function lex_pattern :: "string \<Rightarrow> nat \<Rightarrow> string \<Rightarrow> rxtoken list option" where
  "lex_pattern subject groups [] = Some []"
| "lex_pattern subject groups (c # cs) =
     (case lex_one subject groups c cs of
        None \<Rightarrow> None
      | Some (t, k) \<Rightarrow> map_option ((#) t) (lex_pattern subject groups (drop k cs)))"
  by pat_completeness auto
termination
  by (relation "measure (\<lambda>(subject, groups, cs). length cs)") auto

section \<open>Putting the tokens together\<close>

text \<open>
  A term of an alternative: its expression, whether a repetition may follow, and the groups inside.
  A level is an open parenthesis: what it opens, how many groups were open before, the
  alternatives that are done and the terms of the present one, both with the last one first.
\<close>

datatype level_kind = KGroup | KPlain | KLook bool

type_synonym rxterm = "regex \<times> bool \<times> nat list"

record level =
  lv_kind :: level_kind
  lv_before :: nat
  lv_alts :: "regex list"
  lv_terms :: "rxterm list"

definition new_level :: "level_kind \<Rightarrow> nat \<Rightarrow> level" where
  "new_level kind n = \<lparr>lv_kind = kind, lv_before = n, lv_alts = [], lv_terms = []\<rparr>"

fun rx_alts :: "regex list \<Rightarrow> regex" where
  "rx_alts [] = RxEps"
| "rx_alts [r] = r"
| "rx_alts (r # rs) = RxAlt r (rx_alts rs)"

definition end_alt :: "level \<Rightarrow> level" where
  "end_alt l = l\<lparr>lv_alts := rx_seq (rev (map fst (lv_terms l))) # lv_alts l, lv_terms := []\<rparr>"

definition level_rx :: "level \<Rightarrow> regex" where
  "level_rx l = rx_alts (rev (lv_alts (end_alt l)))"

definition close_level :: "level \<Rightarrow> nat \<Rightarrow> rxterm" where
  "close_level l n =
     (case lv_kind l of
        KGroup \<Rightarrow> RxGroup (Suc (lv_before l)) (level_rx l)
      | KPlain \<Rightarrow> level_rx l
      | KLook ahead \<Rightarrow> RxLook ahead (level_rx l), True, [Suc (lv_before l)..<Suc n])"

definition add_term :: "rxterm \<Rightarrow> level \<Rightarrow> level" where
  "add_term t l = l\<lparr>lv_terms := t # lv_terms l\<rparr>"

text \<open>
  A repetition: the least number of rounds one after the other, then the further ones, which have
  to move on. Every round forgets the groups inside.
\<close>

definition rx_quantify :: "regex \<Rightarrow> nat list \<Rightarrow> nat \<Rightarrow> nat option \<Rightarrow> bool \<Rightarrow> regex" where
  "rx_quantify r ns m n greedy =
     (let r = (if ns = [] then r else RxSeq (RxReset ns) r) in
      rx_seq (replicate m r @
        (case n of
           None \<Rightarrow> [if greedy then RxStar r else RxLazy r]
         | Some n \<Rightarrow> if n = m then [] else [RxUpto greedy (n - m) r])))"

text \<open>The state: the groups opened so far, the innermost level and the levels around it.\<close>

type_synonym rxstate = "nat \<times> level \<times> level list"

fun parse_token :: "rxtoken \<Rightarrow> rxstate \<Rightarrow> rxstate option" where
  "parse_token (TAtom r) (n, l, ls) = Some (n, add_term (r, True, []) l, ls)"
| "parse_token (TAssert r) (n, l, ls) = Some (n, add_term (r, False, []) l, ls)"
| "parse_token TOpen (n, l, ls) = Some (Suc n, new_level KGroup n, l # ls)"
| "parse_token TOpenPlain (n, l, ls) = Some (n, new_level KPlain n, l # ls)"
| "parse_token (TOpenLook ahead) (n, l, ls) = Some (n, new_level (KLook ahead) n, l # ls)"
| "parse_token TClose (n, l, ls) =
     (case ls of [] \<Rightarrow> None | p # ps \<Rightarrow> Some (n, add_term (close_level l n) p, ps))"
| "parse_token TBar (n, l, ls) = Some (n, end_alt l, ls)"
| "parse_token (TQuant a b greedy) (n, l, ls) =
     (case lv_terms l of
        (r, True, ns) # ts \<Rightarrow> Some (n, l\<lparr>lv_terms := (rx_quantify r ns a b greedy, False, ns) # ts\<rparr>, ls)
      | _ \<Rightarrow> None)"

fun parse_tokens :: "rxtoken list \<Rightarrow> rxstate \<Rightarrow> rxstate option" where
  "parse_tokens [] s = Some s"
| "parse_tokens (t # ts) s = (case parse_token t s of None \<Rightarrow> None | Some s' \<Rightarrow> parse_tokens ts s')"

text \<open>\<open>new RegExp(source)\<close>, for the text \<open>subject\<close>, and its \<open>exec\<close>.\<close>

definition RegExp :: "string \<Rightarrow> string \<Rightarrow> regex result" where
  "RegExp subject source =
     (case lex_pattern subject (capture_count False source) source of
        None \<Rightarrow> Inl SyntaxError
      | Some ts \<Rightarrow>
          (case parse_tokens ts (0, new_level KPlain 0, []) of
             Some (n, l, []) \<Rightarrow> Inr (level_rx l)
           | _ \<Rightarrow> Inl SyntaxError))"

definition RegExp_exec :: "string \<Rightarrow> string \<Rightarrow> rxmatch option result" where
  "RegExp_exec source subject =
     (case RegExp subject source of Inl e \<Rightarrow> Inl e | Inr r \<Rightarrow> Inr (rx_exec r subject))"

text \<open>The examples of the language standard for groups inside repetitions and for looking ahead.\<close>

lemma RegExp_standard_examples:
  "RegExp_exec ''(z)((a+)?(b+)?(c))*'' ''zaacbbbcac'' =
     Inr (Some (0, ''zaacbbbcac'', [(2, ''ac''), (5, ''c''), (3, ''a''), (1, ''z'')]))"
  "RegExp_exec (''(?=(a+))a*b'' @ [CHR 0x5C] @ ''1'') ''baaabac'' = Inr (Some (3, ''aba'', [(1, ''a'')]))"
  "RegExp_exec ''a**'' ''a'' = Inl SyntaxError"
  by code_simp+

section \<open>Texts that match themselves\<close>

text \<open>
  A character with no meaning in a pattern is its own token, and so is a bracket after a
  backslash.
\<close>

definition pattern_plain :: "string \<Rightarrow> bool" where
  "pattern_plain s \<longleftrightarrow> set s \<inter> (set ''^$.*+?(){}|'' \<union> {CHR 0x5C}) = {}"

definition escape_bracket :: "char \<Rightarrow> string" where
  "escape_bracket c = (if c = CHR ''['' \<or> c = CHR '']'' then [CHR 0x5C, c] else [c])"

lemma rx_code_of_char [simp]: "rx_code (of_char c) = (\<lambda>x. x = c)"
  by (auto simp: rx_code_def)

lemma lex_plain_char:
  "c \<notin> set ''^$.*+?()[]{}|'' \<Longrightarrow> c \<noteq> CHR 0x5C \<Longrightarrow> lex_one subject n c cs = Some (TAtom (rx_chr c), 0)"
  by (simp add: lex_one_def)

lemma lex_bracket:
  assumes "c = CHR ''['' \<or> c = CHR '']''"
  shows "lex_one subject n CHR 0x5C (c # cs) = Some (TAtom (rx_chr c), 1)"
proof -
  have "\<not> is_digit c" "\<not> is_octal c" using assms by (auto simp: is_digit_def is_octal_def)
  moreover have "char_escape False c cs = (of_char c, 1)"
    using calculation(2) assms by (auto simp: char_escape_def)
  ultimately show ?thesis
    using assms by (auto simp: lex_one_def lex_escape_def set_escape_def)
qed

lemma lex_escaped:
  "c \<notin> set ''^$.*+?(){}|'' \<Longrightarrow> c \<noteq> CHR 0x5C \<Longrightarrow>
   lex_pattern subject n (escape_bracket c @ cs) = map_option ((#) (TAtom (rx_chr c))) (lex_pattern subject n cs)"
  using lex_bracket [of c] lex_plain_char [of c] by (cases "c = CHR ''['' \<or> c = CHR '']''") (auto simp: escape_bracket_def)

lemma lex_literal:
  "pattern_plain s \<Longrightarrow>
   lex_pattern subject n (concat (map escape_bracket s) @ cs) =
     map_option (append (map (\<lambda>c. TAtom (rx_chr c)) s)) (lex_pattern subject n cs)"
proof (induction s)
  case Nil
  then show ?case by (cases "lex_pattern subject n cs") simp_all
next
  case (Cons c s)
  then have "c \<notin> set ''^$.*+?(){}|''" "c \<noteq> CHR 0x5C" "pattern_plain s"
    by (auto simp: pattern_plain_def)
  then show ?case
    using Cons.IH by (simp add: lex_escaped option.map_comp comp_def del: set_simps)
qed

lemma parse_literal:
  "parse_tokens (map (\<lambda>c. TAtom (rx_chr c)) s @ ts) (n, l, ls) =
     parse_tokens ts (n, l\<lparr>lv_terms := rev (map (\<lambda>c. (rx_chr c, True, [])) s) @ lv_terms l\<rparr>, ls)"
  by (induction s arbitrary: l) (simp_all add: add_term_def)

text \<open>A sequence that begins with such characters takes them as a text does.\<close>

lemma rx_seq_literal:
  "rs \<noteq> [] \<Longrightarrow> rx (rx_seq (map rx_chr s @ rs)) c = concat (map (rx (rx_seq rs)) (rx (rx_lit s) c))"
proof (induction s arbitrary: c)
  case (Cons x s)
  obtain i t g where c: "c = (i, t, g)" by (cases c)
  have "rx (rx_seq (map rx_chr (x # s) @ rs)) c = concat (map (rx (rx_seq (map rx_chr s @ rs))) (rx (rx_chr x) c))"
    using Cons.prems by (cases "map rx_chr s @ rs") simp_all
  then show ?case
    using Cons by (cases t) (auto simp: c simp del: rx_lit.simps)
qed simp

end
