(* ===== verification/Json.thy ===== *)
theory Json
  imports Prelude Uri
begin

text \<open>
  \<open>JSON.stringify\<close> and \<open>JSON.parse\<close> of the language, over texts whose code units are below 256,
  numbers that are integers and objects whose keys are not array indices. The parser works with
  fuel, one unit for each call; \<open>JSON_parse\<close> gives it twice the length of the text and two,
  which is enough since every second call consumes a character: \<open>parse_stringify\<close> shows that no
  text the printer produces runs out.
\<close>

datatype json =
    JNull
  | JBool bool
  | JNum int
  | JStr string
  | JArr "json list"
  | JObj "(string \<times> json) list"

text \<open>Reading a property of a value; \<^term>\<open>None\<close> is \<open>undefined\<close>.\<close>

definition jget :: "string \<Rightarrow> json \<Rightarrow> json option" where
  "jget k v = (case v of JObj kvs \<Rightarrow> map_of kvs k | _ \<Rightarrow> None)"

text \<open>Truthiness of a value.\<close>

definition json_truthy :: "json \<Rightarrow> bool" where
  "json_truthy v = (case v of JNull \<Rightarrow> False | JBool b \<Rightarrow> b | JNum n \<Rightarrow> n \<noteq> 0 | JStr s \<Rightarrow> s \<noteq> [] | _ \<Rightarrow> True)"

section \<open>Printing\<close>

definition lower_hex :: "nat \<Rightarrow> char" where
  "lower_hex d = char_of (if d < 10 then 48 + d else 87 + d)"

definition json_escape :: "char \<Rightarrow> string" where
  "json_escape c =
     (if c = CHR 0x22 then [CHR 0x5C, CHR 0x22]
      else if c = CHR 0x5C then [CHR 0x5C, CHR 0x5C]
      else if c = CHR 0x08 then [CHR 0x5C, CHR ''b'']
      else if c = CHR 0x0C then [CHR 0x5C, CHR ''f'']
      else if c = CHR 0x0A then [CHR 0x5C, CHR ''n'']
      else if c = CHR 0x0D then [CHR 0x5C, CHR ''r'']
      else if c = CHR 0x09 then [CHR 0x5C, CHR ''t'']
      else if (of_char c :: nat) < 32 then
        [CHR 0x5C, CHR ''u'', CHR ''0'', CHR ''0'',
         lower_hex (of_char c div 16), lower_hex (of_char c mod 16)]
      else [c])"

definition json_quote :: "string \<Rightarrow> string" where
  "json_quote s = CHR 0x22 # concat (map json_escape s) @ [CHR 0x22]"

fun JSON_stringify :: "json \<Rightarrow> string" where
  "JSON_stringify JNull = ''null''"
| "JSON_stringify (JBool b) = show_bool b"
| "JSON_stringify (JNum i) = show_int i"
| "JSON_stringify (JStr s) = json_quote s"
| "JSON_stringify (JArr vs) = ''['' @ js_join '','' (map JSON_stringify vs) @ '']''"
| "JSON_stringify (JObj kvs) =
     ''{'' @ js_join '','' (map (\<lambda>(k, v). json_quote k @ '':'' @ JSON_stringify v) kvs) @ ''}''"

text \<open>
  \<open>JSON.stringify(v, null, n)\<close>: the gap \<open>g\<close> is a text of \<open>n\<close> blanks, the elements of an array and
  the members of an object stand on lines of their own, and a line starts with the gap of its depth.
  With an empty gap this is \<open>JSON.stringify(v)\<close>.
\<close>

definition json_line :: "string \<Rightarrow> string \<Rightarrow> string" where
  "json_line g i = (if g = [] then [] else CHR 0x0A # i)"

definition json_colon :: "string \<Rightarrow> string" where
  "json_colon g = (if g = [] then [] else '' '')"

fun JSON_print :: "string \<Rightarrow> string \<Rightarrow> json \<Rightarrow> string" where
  "JSON_print g i (JArr vs) =
     (if vs = [] then ''[]''
      else ''['' @ json_line g (i @ g) @ js_join ('','' @ json_line g (i @ g)) (map (JSON_print g (i @ g)) vs) @
           json_line g i @ '']'')"
| "JSON_print g i (JObj kvs) =
     (if kvs = [] then ''{}''
      else ''{'' @ json_line g (i @ g) @ js_join ('','' @ json_line g (i @ g))
             (map (\<lambda>(k, v). json_quote k @ '':'' @ json_colon g @ JSON_print g (i @ g) v) kvs) @
           json_line g i @ ''}'')"
| "JSON_print g i v = JSON_stringify v"

definition JSON_stringify_gap :: "nat \<Rightarrow> json \<Rightarrow> string" where
  "JSON_stringify_gap n v = JSON_print (replicate n CHR '' '') [] v"

section \<open>Parsing\<close>

definition json_blank :: "char \<Rightarrow> bool" where
  "json_blank c \<longleftrightarrow> c = CHR '' '' \<or> c = CHR 0x09 \<or> c = CHR 0x0A \<or> c = CHR 0x0D"

definition skip_ws :: "string \<Rightarrow> string" where
  "skip_ws s = dropWhile json_blank s"

definition simple_escape :: "char \<Rightarrow> char option" where
  "simple_escape c =
     (if c = CHR 0x22 then Some (CHR 0x22)
      else if c = CHR 0x5C then Some (CHR 0x5C)
      else if c = CHR ''/'' then Some (CHR ''/'')
      else if c = CHR ''b'' then Some (CHR 0x08)
      else if c = CHR ''f'' then Some (CHR 0x0C)
      else if c = CHR ''n'' then Some (CHR 0x0A)
      else if c = CHR ''r'' then Some (CHR 0x0D)
      else if c = CHR ''t'' then Some (CHR 0x09)
      else None)"

definition hex4 :: "char \<Rightarrow> char \<Rightarrow> char \<Rightarrow> char \<Rightarrow> char option" where
  "hex4 a b c d =
     (case (hex_byte a b, hex_byte c d) of
        (Some hi, Some lo) \<Rightarrow> if hi = 0 then Some (char_of lo) else None
      | _ \<Rightarrow> None)"

text \<open>The characters of a string literal after its opening quote, and the text that follows.\<close>

fun json_chars :: "string \<Rightarrow> (string \<times> string) option" where
  "json_chars [] = None"
| "json_chars (c # t) =
     (if c = CHR 0x22 then Some ([], t)
      else if c = CHR 0x5C then
        (case t of
           [] \<Rightarrow> None
         | e # t' \<Rightarrow>
             (if e = CHR ''u'' then
                (case t' of
                   a # b # x # y # t'' \<Rightarrow>
                     (case hex4 a b x y of
                        None \<Rightarrow> None
                      | Some d \<Rightarrow> map_option (\<lambda>(s, r). (d # s, r)) (json_chars t''))
                 | _ \<Rightarrow> None)
              else
                (case simple_escape e of
                   None \<Rightarrow> None
                 | Some d \<Rightarrow> map_option (\<lambda>(s, r). (d # s, r)) (json_chars t'))))
      else if (of_char c :: nat) < 32 then None
      else map_option (\<lambda>(s, r). (c # s, r)) (json_chars t))"

definition json_digits :: "string \<Rightarrow> (nat \<times> string) option" where
  "json_digits s =
     (let ds = takeWhile is_digit s; r = dropWhile is_digit s in
      if ds = [] \<or> (hd ds = CHR ''0'' \<and> length ds > 1)
         \<or> (r \<noteq> [] \<and> hd r \<in> set ''.eE'') then None
      else Some (read_nat ds, r))"

definition json_number :: "string \<Rightarrow> (json \<times> string) option" where
  "json_number s =
     (case s of
        [] \<Rightarrow> None
      | c # t \<Rightarrow>
          if c = CHR ''-'' then map_option (\<lambda>(n, r). (JNum (- int n), r)) (json_digits t)
          else map_option (\<lambda>(n, r). (JNum (int n), r)) (json_digits s))"

fun json_value :: "nat \<Rightarrow> string \<Rightarrow> (json \<times> string) option"
  and json_elements :: "nat \<Rightarrow> json list \<Rightarrow> string \<Rightarrow> (json \<times> string) option"
  and json_members :: "nat \<Rightarrow> (string \<times> json) list \<Rightarrow> string \<Rightarrow> (json \<times> string) option" where
  "json_value 0 s = None"
| "json_value (Suc n) s =
     (case skip_ws s of
        [] \<Rightarrow> None
      | c # t \<Rightarrow>
          if c = CHR ''{'' then
            (case skip_ws t of
               [] \<Rightarrow> None
             | d # r \<Rightarrow> if d = CHR ''}'' then Some (JObj [], r) else json_members n [] t)
          else if c = CHR ''['' then
            (case skip_ws t of
               [] \<Rightarrow> None
             | d # r \<Rightarrow> if d = CHR '']'' then Some (JArr [], r) else json_elements n [] t)
          else if c = CHR 0x22 then map_option (\<lambda>(s, r). (JStr s, r)) (json_chars t)
          else if starts_with ''null'' (c # t) then Some (JNull, drop 4 (c # t))
          else if starts_with ''true'' (c # t) then Some (JBool True, drop 4 (c # t))
          else if starts_with ''false'' (c # t) then Some (JBool False, drop 5 (c # t))
          else json_number (c # t))"
| "json_elements 0 acc s = None"
| "json_elements (Suc n) acc s =
     (case json_value n s of
        None \<Rightarrow> None
      | Some (v, r) \<Rightarrow>
          (case skip_ws r of
             [] \<Rightarrow> None
           | d # r' \<Rightarrow>
               if d = CHR '','' then json_elements n (acc @ [v]) r'
               else if d = CHR '']'' then Some (JArr (acc @ [v]), r')
               else None))"
| "json_members 0 acc s = None"
| "json_members (Suc n) acc s =
     (case skip_ws s of
        [] \<Rightarrow> None
      | q # t \<Rightarrow>
          if q \<noteq> CHR 0x22 then None
          else
            (case json_chars t of
               None \<Rightarrow> None
             | Some (k, r) \<Rightarrow>
                 (case skip_ws r of
                    [] \<Rightarrow> None
                  | e # r2 \<Rightarrow>
                      if e \<noteq> CHR '':'' then None
                      else
                        (case json_value n r2 of
                           None \<Rightarrow> None
                         | Some (v, r3) \<Rightarrow>
                             (case skip_ws r3 of
                                [] \<Rightarrow> None
                              | d # r4 \<Rightarrow>
                                  if d = CHR '','' then json_members n (obj_set k v acc) r4
                                  else if d = CHR ''}'' then Some (JObj (obj_set k v acc), r4)
                                  else None)))))"

definition JSON_parse :: "string \<Rightarrow> json result" where
  "JSON_parse s =
     (case json_value (2 * length s + 2) s of
        Some (v, r) \<Rightarrow> if skip_ws r = [] then Inr v else Inl SyntaxError
      | None \<Rightarrow> Inl SyntaxError)"

section \<open>Parsing what was printed\<close>

lemma skip_ws_cons [simp]: "\<not> json_blank c \<Longrightarrow> skip_ws (c # s) = c # s"
  by (simp add: skip_ws_def)

lemma not_blank [simp]:
  "\<not> json_blank CHR '',''" "\<not> json_blank CHR '':''" "\<not> json_blank CHR ''[''" "\<not> json_blank CHR '']''"
  "\<not> json_blank CHR ''{''" "\<not> json_blank CHR ''}''" "\<not> json_blank CHR 0x22" "\<not> json_blank CHR ''-''"
  "\<not> json_blank CHR ''n''" "\<not> json_blank CHR ''t''" "\<not> json_blank CHR ''f''"
  by (simp_all add: json_blank_def)

lemma hex_val_lower [simp]: "d < 16 \<Longrightarrow> hex_val (lower_hex d) = Some d"
  by (auto simp: hex_val_def lower_hex_def Let_def)

lemma json_chars_escape:
  "json_chars (json_escape c @ t) = map_option (\<lambda>(s, r). (c # s, r)) (json_chars t)"
proof -
  let ?n = "of_char c :: nat"
  have "?n < 32 \<Longrightarrow> hex4 CHR ''0'' CHR ''0'' (lower_hex (?n div 16)) (lower_hex (?n mod 16)) = Some c"
  proof -
    assume "?n < 32"
    moreover have "hex_val CHR ''0'' = Some 0" by (simp add: hex_val_def)
    ultimately show ?thesis by (simp add: hex4_def hex_byte_def)
  qed
  then show ?thesis by (auto simp: json_escape_def simple_escape_def)
qed

lemma json_chars_quote: "json_chars (concat (map json_escape s) @ CHR 0x22 # t) = Some (s, t)"
  by (induction s) (simp_all add: json_chars_escape)

text \<open>The values an object graph without repeated keys has.\<close>

fun json_ok :: "json \<Rightarrow> bool" where
  "json_ok (JArr vs) = list_all json_ok vs"
| "json_ok (JObj kvs) = (distinct (map fst kvs) \<and> list_all (\<lambda>(k, v). json_ok v) kvs)"
| "json_ok v = True"

text \<open>What may follow a value inside a text: its end, or the end of an element.\<close>

definition value_end :: "string \<Rightarrow> bool" where
  "value_end t \<longleftrightarrow> t = [] \<or> hd t \<in> set '',]}'' \<or> json_blank (hd t)"

lemma show_nat_hd: "0 < n \<Longrightarrow> hd (show_nat n) \<noteq> CHR ''0''"
proof (induction n rule: show_nat.induct)
  case (1 n)
  show ?case
  proof (cases "n < 10")
    case True
    then have "(of_char (digit_char n) :: nat) \<noteq> of_char (CHR ''0'')"
      using 1(2) by (simp add: of_char_digit_char)
    then show ?thesis using True by (auto simp: show_nat.simps [of n])
  next
    case False
    then show ?thesis using 1 by (simp add: show_nat.simps [of n])
  qed
qed

lemma json_digits_show:
  assumes "value_end t"
  shows "json_digits (show_nat n @ t) = Some (n, t)"
proof -
  have nd: "t = [] \<or> \<not> is_digit (hd t) \<and> hd t \<notin> set ''.eE''"
    using assms by (auto simp: value_end_def is_digit_def json_blank_def)
  have ds: "\<forall>c \<in> set (show_nat n). is_digit c" using show_nat_digits by blast
  have tw: "takeWhile is_digit (show_nat n @ t) = show_nat n" "dropWhile is_digit (show_nat n @ t) = t"
    using nd ds by (cases t; simp add: takeWhile_append2 dropWhile_append2)+
  have "\<not> (hd (show_nat n) = CHR ''0'' \<and> length (show_nat n) > 1)"
    using show_nat_hd [of n] by (cases "n = 0") (auto simp: show_nat.simps)
  with nd show ?thesis by (auto simp: json_digits_def tw Let_def)
qed

lemma json_value_number:
  assumes "value_end t" "0 < n"
  shows "json_value n (show_int i @ t) = Some (JNum i, t)"
proof -
  obtain m where n: "n = Suc m" using assms(2) by (cases n) auto
  obtain d ds where sn: "show_nat (nat \<bar>i\<bar>) = d # ds" by (meson neq_Nil_conv show_nat_nonempty)
  have d: "is_digit d" using show_nat_digits [of d "nat \<bar>i\<bar>"] sn by simp
  have ne: "d \<noteq> CHR ''-''" "d \<noteq> CHR ''n''" "d \<noteq> CHR ''t''" "d \<noteq> CHR ''f''" "d \<noteq> CHR ''{''"
    "d \<noteq> CHR ''[''" "d \<noteq> CHR 0x22" "\<not> json_blank d"
    using d by (auto simp: is_digit_def json_blank_def)
  have dig: "json_digits (d # ds @ t) = Some (nat \<bar>i\<bar>, t)"
    using json_digits_show [OF assms(1), of "nat \<bar>i\<bar>"] sn by simp
  show ?thesis
  proof (cases "i < 0")
    case True
    then have "show_int i = CHR ''-'' # d # ds" using sn by (simp add: show_int_def)
    with True dig show ?thesis by (simp add: n json_number_def)
  next
    case False
    then have "show_int i = d # ds" using sn by (simp add: show_int_def)
    with False dig ne show ?thesis by (simp add: n json_number_def)
  qed
qed

lemma value_end_cons [simp]: "value_end (c # t) \<longleftrightarrow> c \<in> set '',]}'' \<or> json_blank c"
  by (simp add: value_end_def)

text \<open>Blanks before a value, a separator or a bracket do not matter.\<close>

abbreviation blanks :: "string \<Rightarrow> bool" where
  "blanks w \<equiv> list_all json_blank w"

lemma skip_ws_blanks [simp]: "blanks w \<Longrightarrow> skip_ws (w @ s) = skip_ws s"
  by (induction w) (simp_all add: skip_ws_def)

lemma value_end_blanks: "blanks w \<Longrightarrow> value_end t \<Longrightarrow> value_end (w @ t)"
  by (cases w) (simp_all add: value_end_def)

lemma json_value_skip: "blanks w \<Longrightarrow> json_value n (w @ s) = json_value n s"
  by (cases n) simp_all

lemma json_members_skip: "blanks w \<Longrightarrow> json_members n acc (w @ s) = json_members n acc s"
  by (cases n) simp_all

lemma json_elements_skip: "blanks w \<Longrightarrow> json_elements n acc (w @ s) = json_elements n acc s"
  by (cases n) (simp_all add: json_value_skip)

lemma blank_lines [simp]: "blanks g \<Longrightarrow> blanks i \<Longrightarrow> blanks (json_line g i)" "blanks (json_colon g)"
  by (simp_all add: json_line_def json_colon_def json_blank_def)

lemma print_length: "0 < length (JSON_print g i v)"
  by (cases v) (auto simp: show_bool_def show_int_def json_quote_def)

definition parses :: "string \<Rightarrow> string \<Rightarrow> json \<Rightarrow> bool" where
  "parses g i v \<longleftrightarrow> (\<forall>n t. 2 * length (JSON_print g i v) \<le> n \<longrightarrow> value_end t \<longrightarrow>
     json_value n (JSON_print g i v @ t) = Some (v, t))"

lemma parsesD:
  "parses g i v \<Longrightarrow> 2 * length (JSON_print g i v) \<le> n \<Longrightarrow> value_end t \<Longrightarrow>
   json_value n (JSON_print g i v @ t) = Some (v, t)"
  by (simp add: parses_def)

lemma parsesI:
  assumes "\<And>m t. value_end t \<Longrightarrow> json_value (Suc m) (JSON_print g i v @ t) = Some (v, t)"
  shows "parses g i v"
  unfolding parses_def
proof (intro allI impI)
  fix n t assume n: "2 * length (JSON_print g i v) \<le> n" and t: "value_end t"
  then obtain m where "n = Suc m" using print_length [of g i v] by (cases n) auto
  with assms t show "json_value n (JSON_print g i v @ t) = Some (v, t)" by simp
qed

lemma parses_elements:
  assumes "blanks sep" "blanks fin"
  shows "vs \<noteq> [] \<Longrightarrow> \<forall>v \<in> set vs. parses g i v \<Longrightarrow>
   2 * length (js_join ('','' @ sep) (map (JSON_print g i) vs)) + 1 \<le> n \<Longrightarrow>
   json_elements n acc (js_join ('','' @ sep) (map (JSON_print g i) vs) @ fin @ '']'' @ t) = Some (JArr (acc @ vs), t)"
proof (induction vs arbitrary: n acc)
  case (Cons v vs)
  obtain m where n: "n = Suc m" using Cons.prems(3) by (cases n) auto
  show ?case
  proof (cases vs)
    case Nil
    have "json_value m (JSON_print g i v @ fin @ CHR '']'' # t) = Some (v, fin @ CHR '']'' # t)"
      using Cons.prems n Nil assms(2) by (intro parsesD) (auto intro: value_end_blanks)
    then show ?thesis using Nil n assms(2) by simp
  next
    case (Cons w ws)
    let ?rest = "js_join ('','' @ sep) (map (JSON_print g i) vs) @ fin @ '']'' @ t"
    have "json_value m (JSON_print g i v @ CHR '','' # sep @ ?rest) = Some (v, CHR '','' # sep @ ?rest)"
      using Cons.prems n Cons by (intro parsesD) auto
    moreover have "json_elements m (acc @ [v]) ?rest = Some (JArr ((acc @ [v]) @ vs), t)"
      using Cons.prems n Cons by (intro Cons.IH) auto
    ultimately show ?thesis using n Cons assms(1) by (simp add: json_elements_skip)
  qed
qed simp

abbreviation member_text :: "string \<Rightarrow> string \<Rightarrow> string \<times> json \<Rightarrow> string" where
  "member_text g i kv \<equiv> json_quote (fst kv) @ '':'' @ json_colon g @ JSON_print g i (snd kv)"

lemma parses_members:
  assumes "blanks sep" "blanks fin"
  shows "kvs \<noteq> [] \<Longrightarrow> \<forall>kv \<in> set kvs. parses g i (snd kv) \<Longrightarrow> distinct (map fst (acc @ kvs)) \<Longrightarrow>
   2 * length (js_join ('','' @ sep) (map (member_text g i) kvs)) + 1 \<le> n \<Longrightarrow>
   json_members n acc (js_join ('','' @ sep) (map (member_text g i) kvs) @ fin @ ''}'' @ t) = Some (JObj (acc @ kvs), t)"
proof (induction kvs arbitrary: n acc)
  case (Cons kv kvs)
  obtain m where n: "n = Suc m" using Cons.prems(4) by (cases n) auto
  obtain k v where kv: "kv = (k, v)" by fastforce
  have set: "obj_set k v acc = acc @ [(k, v)]"
    using Cons.prems(3) kv by (intro obj_set_fresh) auto
  have key: "json_chars (concat (map json_escape k) @ CHR 0x22 # r) = Some (k, r)" for r
    by (rule json_chars_quote)
  have skip: "json_value m (json_colon g @ s) = json_value m s" for s
    by (simp add: json_value_skip)
  show ?case
  proof (cases kvs)
    case Nil
    have "json_value m (JSON_print g i v @ fin @ CHR ''}'' # t) = Some (v, fin @ CHR ''}'' # t)"
      using Cons.prems n Nil kv assms(2) by (intro parsesD) (auto intro: value_end_blanks)
    then show ?thesis using Nil n kv set key assms(2) by (simp add: json_quote_def skip)
  next
    case (Cons kw kws)
    let ?rest = "js_join ('','' @ sep) (map (member_text g i) kvs) @ fin @ ''}'' @ t"
    have "json_value m (JSON_print g i v @ CHR '','' # sep @ ?rest) = Some (v, CHR '','' # sep @ ?rest)"
      using Cons.prems n Cons kv by (intro parsesD) auto
    moreover have "json_members m (acc @ [(k, v)]) ?rest = Some (JObj ((acc @ [(k, v)]) @ kvs), t)"
      using Cons.prems n Cons kv by (intro Cons.IH) auto
    ultimately show ?thesis using n Cons kv set key assms(1)
      by (simp add: json_quote_def skip json_members_skip)
  qed
qed simp

lemma hd_member_text: "\<exists>r. js_join sep (map (member_text g i) (kv # kvs)) @ t = CHR 0x22 # r"
  by (cases kvs) (simp_all add: json_quote_def)

lemma print_obj:
  "kvs \<noteq> [] \<Longrightarrow> JSON_print g i (JObj kvs) = ''{'' @ json_line g (i @ g) @
     js_join ('','' @ json_line g (i @ g)) (map (member_text g (i @ g)) kvs) @ json_line g i @ ''}''"
  by (simp add: case_prod_unfold)

lemma print_start: "\<exists>d r. JSON_print g i v = d # r \<and> \<not> json_blank d \<and> d \<noteq> CHR '']''"
proof (cases v)
  case (JNum n)
  obtain d ds where sn: "show_nat (nat \<bar>n\<bar>) = d # ds" by (meson neq_Nil_conv show_nat_nonempty)
  have "is_digit d" using show_nat_digits [of d "nat \<bar>n\<bar>"] sn by simp
  then have "\<not> json_blank d \<and> d \<noteq> CHR '']''" by (auto simp: is_digit_def json_blank_def)
  with JNum sn show ?thesis by (cases "n < 0") (auto simp: show_int_def)
qed (auto simp: show_bool_def json_quote_def)

lemma hd_elements: "\<exists>d r. js_join sep (map (JSON_print g i) (v # vs)) @ t = d # r \<and> \<not> json_blank d \<and> d \<noteq> CHR '']''"
  using print_start [of g i v] by (cases vs) auto

lemma parses_array:
  assumes "vs \<noteq> []" "\<forall>v \<in> set vs. parses g (i @ g) v" "blanks g" "blanks i"
  shows "parses g i (JArr vs)"
  unfolding parses_def
proof (intro allI impI)
  fix n t assume n: "2 * length (JSON_print g i (JArr vs)) \<le> n"
  let ?sep = "json_line g (i @ g)" and ?fin = "json_line g i"
  let ?es = "js_join ('','' @ ?sep) (map (JSON_print g (i @ g)) vs) @ ?fin @ '']'' @ t"
  obtain m where m: "n = Suc m" "2 * length (js_join ('','' @ ?sep) (map (JSON_print g (i @ g)) vs)) + 1 \<le> m"
    using n assms(1) by (cases n) auto
  obtain d r where d: "?es = d # r" "\<not> json_blank d" "d \<noteq> CHR '']''"
    using hd_elements [of "'','' @ ?sep" g "i @ g" "hd vs" "tl vs" "?fin @ '']'' @ t"] assms(1) by auto
  have w: "blanks ?sep" "blanks ?fin" using assms(3,4) by simp_all
  have "json_value n (CHR ''['' # ?sep @ ?es) = json_elements m [] (?sep @ ?es)"
    using m(1) w(1) d by simp
  also have "\<dots> = Some (JArr vs, t)"
    using parses_elements [OF w assms(1,2) m(2), of "[]" t] w(1) by (simp add: json_elements_skip)
  finally show "json_value n (JSON_print g i (JArr vs) @ t) = Some (JArr vs, t)" using assms(1) by simp
qed

lemma parses_object:
  assumes "kvs \<noteq> []" "\<forall>kv \<in> set kvs. parses g (i @ g) (snd kv)" "distinct (map fst kvs)" "blanks g" "blanks i"
  shows "parses g i (JObj kvs)"
  unfolding parses_def
proof (intro allI impI)
  fix n t assume n: "2 * length (JSON_print g i (JObj kvs)) \<le> n"
  let ?sep = "json_line g (i @ g)" and ?fin = "json_line g i"
  let ?ms = "js_join ('','' @ ?sep) (map (member_text g (i @ g)) kvs) @ ?fin @ ''}'' @ t"
  obtain m where m: "n = Suc m" "2 * length (js_join ('','' @ ?sep) (map (member_text g (i @ g)) kvs)) + 1 \<le> m"
    using n unfolding print_obj [OF assms(1)] by (cases n) auto
  obtain r where r: "?ms = CHR 0x22 # r"
    using hd_member_text [of "'','' @ ?sep" g "i @ g" "hd kvs" "tl kvs" "?fin @ ''}'' @ t"] assms(1) by auto
  have w: "blanks ?sep" "blanks ?fin" using assms(4,5) by simp_all
  have "json_value n (CHR ''{'' # ?sep @ ?ms) = json_members m [] (?sep @ ?ms)"
    using m(1) w(1) r by simp
  also have "\<dots> = Some (JObj kvs, t)"
    using parses_members [OF w assms(1,2) _ m(2), of "[]" t] w(1) assms(3) by (simp add: json_members_skip)
  finally show "json_value n (JSON_print g i (JObj kvs) @ t) = Some (JObj kvs, t)"
    unfolding print_obj [OF assms(1)] by simp
qed

lemma print_parses: "json_ok v \<Longrightarrow> blanks g \<Longrightarrow> blanks i \<Longrightarrow> parses g i v"
proof (induction v arbitrary: i)
  case (JArr vs)
  show ?case
  proof (cases "vs = []")
    case True
    show ?thesis by (rule parsesI) (simp add: True)
  next
    case False
    have "parses g (i @ g) v" if "v \<in> set vs" for v
      using JArr that by (intro JArr.IH [of v]) (auto simp: list_all_iff)
    with False JArr.prems show ?thesis by (intro parses_array) auto
  qed
next
  case (JObj kvs)
  show ?case
  proof (cases "kvs = []")
    case True
    show ?thesis by (rule parsesI) (simp add: True)
  next
    case False
    have "parses g (i @ g) (snd kv)" if "kv \<in> set kvs" for kv
      using JObj that by (intro JObj.IH [of kv]) (auto simp: list_all_iff snds.simps)
    with False JObj.prems show ?thesis by (intro parses_object) auto
  qed
next
  case (JNum n)
  show ?case by (rule parsesI) (simp add: json_value_number del: json_value.simps)
next
  case (JStr s)
  show ?case
    by (rule parsesI) (simp add: json_quote_def json_chars_quote)
next
  case JNull
  show ?case by (rule parsesI) simp
next
  case (JBool b)
  show ?case by (rule parsesI) (simp add: show_bool_def)
qed

lemma parse_print:
  assumes "json_ok v" "blanks g"
  shows "JSON_parse (JSON_print g [] v) = Inr v"
proof -
  have "json_value (2 * length (JSON_print g [] v) + 2) (JSON_print g [] v @ []) = Some (v, [])"
    by (rule parsesD) (simp_all add: print_parses assms value_end_def)
  then show ?thesis by (simp add: JSON_parse_def skip_ws_def)
qed

lemma print_plain: "JSON_print [] i v = JSON_stringify v"
proof (induction v arbitrary: i)
  case (JArr vs)
  then have "map (JSON_print [] i) vs = map JSON_stringify vs" by simp
  then show ?case by (cases "vs = []") (simp_all add: json_line_def del: map_eq_conv)
next
  case (JObj kvs)
  have "map (\<lambda>(k, v). json_quote k @ '':'' @ JSON_print [] i v) kvs = map (\<lambda>(k, v). json_quote k @ '':'' @ JSON_stringify v) kvs"
    using JObj by (auto simp: snds.simps)
  then show ?case by (cases "kvs = []") (simp_all add: json_line_def json_colon_def del: map_eq_conv)
qed simp_all

lemma parse_stringify: "json_ok v \<Longrightarrow> JSON_parse (JSON_stringify v) = Inr v"
  using parse_print [of v "[]"] by (simp add: print_plain)

lemma parse_stringify_gap: "json_ok v \<Longrightarrow> JSON_parse (JSON_stringify_gap n v) = Inr v"
  by (simp add: JSON_stringify_gap_def parse_print json_blank_def list_all_iff)

end
