(* ===== verification/Interfaces.thy ===== *)
theory Interfaces
  imports Complex_Main Json
begin

text \<open>
  The data model of the user interface: the enumerations under \<open>modules/app/enums\<close>, the
  interfaces under \<open>modules/app/interfaces\<close> and the display tables of the utilities. An
  interface is a record, an interface that extends another is an extension of its record, an
  optional property is an \<open>option\<close>, a dictionary is an association list in the enumeration
  order of its keys and \<open>any\<close> is the type \<^typ>\<open>json\<close>. A JavaScript number is a \<^typ>\<open>real\<close>
  where the code computes with fractions and an \<^typ>\<open>int\<close> where it counts; rounding of
  doubles is not modelled. Field names carry a prefix where two interfaces share a name.
\<close>

section \<open>Enumerations\<close>

datatype NotificationType = UNKNOWN | INFO | WARNING | ERROR | SUCCESS

datatype OperationProcessingStage = LOADING_STATE | PROCESSING_FILTERS | EXECUTING_SERVICE_HANDLER

datatype OsFamily = WINDOWS | LINUX | MACOS | OTHER

datatype ProcessingStage =
    CREATED | INITIALIZING | LOADING_INITIAL_STATE | SYNCHRONIZING | EXECUTING_CREATE_HANDLER
  | EXECUTING_START_HANDLER | INDEXING_INITIAL_STATE | AVAILABLE | PAUSED | STOPPED

datatype ServiceOption =
    INSTRUMENTATION | PERIODIC_MAINTENANCE | PERSISTENCE | REPLICATION | OWNER_SELECTION
  | STRICT_UPDATE_CHECKING | HTML_USER_INTERFACE | CONCURRENT_UPDATE_HANDLING
  | CONCURRENT_GET_HANDLING | IDEMPOTENT_POST | ON_DEMAND_LOAD | LIFO_QUEUE
  | URI_NAMESPACE_OWNER | UTILITY | FACTORY | FACTORY_ITEM | DOCUMENT_OWNER
  | TRANSACTION_PENDING | NONE_OPTION

text \<open>The reverse lookup \<open>ServiceOption[ServiceOption.X]\<close> gives the name of the constant.\<close>

primrec service_option_name :: "ServiceOption \<Rightarrow> string" where
  "service_option_name INSTRUMENTATION = ''INSTRUMENTATION''"
| "service_option_name PERIODIC_MAINTENANCE = ''PERIODIC_MAINTENANCE''"
| "service_option_name PERSISTENCE = ''PERSISTENCE''"
| "service_option_name REPLICATION = ''REPLICATION''"
| "service_option_name OWNER_SELECTION = ''OWNER_SELECTION''"
| "service_option_name STRICT_UPDATE_CHECKING = ''STRICT_UPDATE_CHECKING''"
| "service_option_name HTML_USER_INTERFACE = ''HTML_USER_INTERFACE''"
| "service_option_name CONCURRENT_UPDATE_HANDLING = ''CONCURRENT_UPDATE_HANDLING''"
| "service_option_name CONCURRENT_GET_HANDLING = ''CONCURRENT_GET_HANDLING''"
| "service_option_name IDEMPOTENT_POST = ''IDEMPOTENT_POST''"
| "service_option_name ON_DEMAND_LOAD = ''ON_DEMAND_LOAD''"
| "service_option_name LIFO_QUEUE = ''LIFO_QUEUE''"
| "service_option_name URI_NAMESPACE_OWNER = ''URI_NAMESPACE_OWNER''"
| "service_option_name UTILITY = ''UTILITY''"
| "service_option_name FACTORY = ''FACTORY''"
| "service_option_name FACTORY_ITEM = ''FACTORY_ITEM''"
| "service_option_name DOCUMENT_OWNER = ''DOCUMENT_OWNER''"
| "service_option_name TRANSACTION_PENDING = ''TRANSACTION_PENDING''"
| "service_option_name NONE_OPTION = ''NONE''"

section \<open>Service documents\<close>

record ServiceDocument =
  documentVersion :: "int option"
  documentUpdateTimeMicros :: "real option"
  documentExpirationTimeMicros :: "real option"
  documentOwner :: "string option"
  documentSelfLink :: "string option"
  documentSourceLink :: "string option"
  documentKind :: "string option"
  documentEpoch :: "int option"
  documentTransactionId :: "string option"
  documentAuthPrincipalLink :: "string option"
  documentUpdateAction :: "string option"

definition emptyDocument :: ServiceDocument where
  "emptyDocument = \<lparr>documentVersion = None, documentUpdateTimeMicros = None,
     documentExpirationTimeMicros = None, documentOwner = None, documentSelfLink = None,
     documentSourceLink = None, documentKind = None, documentEpoch = None,
     documentTransactionId = None, documentAuthPrincipalLink = None,
     documentUpdateAction = None\<rparr>"

record Node = ServiceDocument +
  groupReference :: string
  nodeStatus :: string
  nodeOptions :: "string list"
  nodeId :: string
  membershipQuorum :: int
  nodeX :: "real option"
  nodeY :: "real option"

record NodeGroup = ServiceDocument +
  groupConfig :: "(string \<times> json) list"
  groupNodes :: "(string \<times> Node) list"
  membershipUpdateTimeMicros :: real

record ProcessLog = ServiceDocument +
  logItems :: "string list"

record NumericRange =
  rangeType :: string
  rangeMin :: int
  rangeMax :: int
  isMinInclusive :: string
  isMaxInclusive :: string
  precisionStep :: string

record QueryTerm =
  propertyName :: string
  propertyType :: "string option"
  matchValue :: "string option"
  matchType :: "string option"
  termRange :: "NumericRange option"

datatype BooleanClause =
  BooleanClause (clauseTerm: "QueryTerm option") (occurance: "string option")
    (booleanClauses: "BooleanClause option list option")

record QuerySpecification =
  specQuery :: BooleanClause
  specOptions :: "string list option"
  linkTerms :: "QueryTerm list option"
  sortTerm :: "QueryTerm option"
  groupSortTerm :: "QueryTerm option"
  groupByTerm :: "QueryTerm option"
  sortOrder :: "string option"
  groupSortOrder :: "string option"
  resultLimit :: "int option"
  groupResultLimit :: "int option"
  expectedResultCount :: "int option"

record TaskState =
  taskStage :: "string option"
  isDirect :: "bool option"
  taskFailure :: "json option"
  durationMicros :: "real option"

record ServiceDocumentQueryResult = ServiceDocument +
  documentLinks :: "string list"
  documents :: "(string \<times> json) list option"
  selectedLinks :: "string list option"
  selectedLinksPerDocument :: "(string \<times> json) list option"
  selectedDocuments :: "(string \<times> string) list option"
  documentCount :: "int option"
  prevPageLink :: "string option"
  nextPageLink :: "string option"
  nextPageLinksPerGroup :: "(string \<times> string) list option"
  queryTimeMicros :: real

record QueryTask = ServiceDocument +
  taskTenantLinks :: "string list option"
  taskInfo :: TaskState
  querySpec :: QuerySpecification
  taskResults :: "ServiceDocumentQueryResult option"
  indexLink :: "string option"
  nodeSelectorLink :: "string option"

record SerializedOperation = ServiceDocument +
  opAction :: string
  opHost :: string
  opPort :: int
  opPath :: string
  opId :: int
  opReferer :: string
  opJsonBody :: string
  opStatusCode :: int
  opOptions :: "string list"
  opQuery :: "string option"
  opContextId :: "string option"
  opTransactionId :: "string option"
  opUserInfo :: "string option"

record ServiceConfiguration = ServiceDocument +
  configMaintenanceIntervalMicros :: int
  operationQueueLimit :: int
  configEpoch :: int
  configOptions :: "string list"

record ServiceStatsLogHistogram =
  histogramBins :: "real list"

record ServiceStatsTimeSeries =
  seriesBins :: "(string \<times> json) list"

record ServiceStatsEntry =
  entryName :: string
  latestValue :: real
  accumulatedValue :: real
  entryVersion :: int
  lastUpdateMicrosUtc :: real
  entryKind :: string
  entryUnit :: "string option"
  sourceTimeMicrosUtc :: "real option"
  serviceReference :: "string option"
  logHistogram :: "ServiceStatsLogHistogram option"
  timeSeriesStats :: "ServiceStatsTimeSeries option"

record ServiceStats = ServiceDocument +
  statsKind :: string
  statsEntries :: "(string \<times> ServiceStatsEntry) list"

record SystemHostInfo =
  hostProperties :: "(string \<times> string) list"
  environmentVariables :: "(string \<times> string) list"
  availableProcessorCount :: int
  freeMemoryByteCount :: real
  totalMemoryByteCount :: real
  maxMemoryByteCount :: real
  freeDiskByteCount :: real
  usableDiskByteCount :: real
  totalDiskByteCount :: real
  ipAddresses :: "string list"
  osName :: string
  osFamily :: string

record ServiceHostState = ServiceDocument +
  bindAddress :: string
  httpPort :: int
  httpsPort :: int
  maintenanceIntervalMicros :: int
  operationTimeoutMicros :: int
  serviceCacheClearDelayMicros :: int
  sslClientAuthMode :: string
  responsePayloadSizeLimit :: int
  requestPayloadSizeLimit :: int
  hostId :: string
  isPeerSynchronizationEnabled :: bool
  peerSynchronizationTimeLimitSeconds :: int
  isAuthorizationEnabled :: bool
  systemInfo :: SystemHostInfo
  lastMaintenanceTimeUtcMicros :: int
  isProcessOwner :: bool
  isServiceStateCaching :: bool
  codeProperties :: "(string \<times> json) list"
  serviceCount :: int
  relativeMemoryLimits :: "(string \<times> json) list"
  requestRateLimits :: "(string \<times> json) list"
  initialPeerNodes :: "string list"
  publicUri :: "string option"
  storageSandboxFileReference :: "string option"
  resourceSandboxFileReference :: "string option"
  privateKeyFileReference :: "string option"
  privateKeyPassphrase :: "string option"
  certificateFileReference :: "string option"
  documentIndexReference :: "string option"
  authorizationServiceReference :: "string option"
  transactionServiceReference :: "string option"
  operationTracingLinkExclusionList :: "json option"
  operationTracingLevel :: "string option"

section \<open>Interfaces of the views\<close>

record DisplayInfo =
  className :: string
  iconClassName :: string
  displayName :: string

record DocumentLink =
  linkPrefix :: string
  linkType :: string
  linkId :: string

record EventContext =
  eventType :: string
  eventData :: "(string \<times> json) list"

record KeyValuePair =
  pairKey :: string
  pairValue :: json

record Link =
  linkSource :: Node
  linkTarget :: Node

record Notification =
  notificationType :: string
  messages :: "string list"

record ModalContext =
  modalName :: string
  modalData :: "(string \<times> json) list"
  modalNotifications :: "Notification list option"
  modalCondition :: "json option"

record NodeGroupCircle =
  circleGroup :: "string option"
  circleX :: real
  circleY :: real
  circleR :: real

record TimelineEvent =
  eventDate :: real
  eventDetails :: "(string \<times> json) list"

record Timeline =
  timelineName :: string
  timelineData :: "TimelineEvent list"

record UrlFragment =
  protocol :: string
  host :: string
  hostname :: string
  port :: "string option"
  pathname :: string
  search :: string
  hash :: string

section \<open>Display tables\<close>

definition OsUtil :: "OsFamily \<Rightarrow> DisplayInfo" where
  "OsUtil f = (case f of
     OTHER \<Rightarrow> \<lparr>className = ''other'', iconClassName = ''fa fa-asterisk'', displayName = ''Other''\<rparr>
   | WINDOWS \<Rightarrow> \<lparr>className = ''windows'', iconClassName = ''fa fa-windows'', displayName = ''Windows''\<rparr>
   | LINUX \<Rightarrow> \<lparr>className = ''linux'', iconClassName = ''fa fa-linux'', displayName = ''Linux''\<rparr>
   | MACOS \<Rightarrow> \<lparr>className = ''mac'', iconClassName = ''fa fa-apple'', displayName = ''Mac OS''\<rparr>)"

text \<open>The static members of \<open>ProcessingStageUtil\<close> by name; \<^term>\<open>None\<close> is \<open>undefined\<close>.\<close>

definition ProcessingStageUtil :: "(string \<times> DisplayInfo) list" where
  "ProcessingStageUtil = [
     (''UNKNOWN'', \<lparr>className = ''created-status'', iconClassName = ''fa fa-ban'',
        displayName = ''Unknown''\<rparr>),
     (''UNAVAILABLE'', \<lparr>className = ''created-status'', iconClassName = ''fa fa-ban'',
        displayName = ''Unknown''\<rparr>),
     (''CREATED'', \<lparr>className = ''created-status'', iconClassName = ''fa fa-dot-circle-o'',
        displayName = ''Created''\<rparr>),
     (''REPLACED'', \<lparr>className = ''created-status'', iconClassName = ''fa fa-random'',
        displayName = ''Replaced''\<rparr>),
     (''INITIALIZING'', \<lparr>className = ''created-status'', iconClassName = ''fa fa-dot-circle-o'',
        displayName = ''Initializing''\<rparr>),
     (''LOADING_INITIAL_STATE'', \<lparr>className = ''execute-status'',
        iconClassName = ''fa fa-spinner fa-pulse'', displayName = ''Loading Initial State''\<rparr>),
     (''SYNCHRONIZING'', \<lparr>className = ''execute-status'', iconClassName = ''fa fa-refresh fa-spin'',
        displayName = ''Synchronizing''\<rparr>),
     (''EXECUTING_CREATE_HANDLER'', \<lparr>className = ''execute-status'',
        iconClassName = ''fa fa-cog fa-spin'', displayName = ''Executing: Create Handler''\<rparr>),
     (''EXECUTING_START_HANDLER'', \<lparr>className = ''execute-status'',
        iconClassName = ''fa fa-cog fa-spin'', displayName = ''Executing: Start Handler''\<rparr>),
     (''INDEXING_INITIAL_STATE'', \<lparr>className = ''execute-status'',
        iconClassName = ''fa fa-cog fa-spin'', displayName = ''Indexing: Initial State''\<rparr>),
     (''AVAILABLE'', \<lparr>className = ''finished-status'', iconClassName = ''fa fa-check-circle-o'',
        displayName = ''Available''\<rparr>),
     (''PAUSED'', \<lparr>className = ''skipped-status'', iconClassName = ''fa fa-pause-circle-o'',
        displayName = ''Paused''\<rparr>),
     (''STOPPED'', \<lparr>className = ''failed-status'', iconClassName = ''fa fa-dot-circle-o'',
        displayName = ''Stopped''\<rparr>)]"

text \<open>The key under which the enumeration names a stage (\<open>ProcessingStage[i]\<close>).\<close>

primrec stage_name :: "ProcessingStage \<Rightarrow> string" where
  "stage_name CREATED = ''CREATED''"
| "stage_name INITIALIZING = ''INITIALIZING''"
| "stage_name LOADING_INITIAL_STATE = ''LOADING_INITIAL_STATE''"
| "stage_name SYNCHRONIZING = ''SYNCHRONIZING''"
| "stage_name EXECUTING_CREATE_HANDLER = ''EXECUTING_CREATE_HANDLER''"
| "stage_name EXECUTING_START_HANDLER = ''EXECUTING_START_HANDLER''"
| "stage_name INDEXING_INITIAL_STATE = ''INDEXING_INITIAL_STATE''"
| "stage_name AVAILABLE = ''AVAILABLE''"
| "stage_name PAUSED = ''PAUSED''"
| "stage_name STOPPED = ''STOPPED''"

text \<open>The index of a stage (\<open>ProcessingStage.X\<close>), its position in the enumeration.\<close>

primrec stage_index :: "ProcessingStage \<Rightarrow> nat" where
  "stage_index CREATED = 0"
| "stage_index INITIALIZING = 1"
| "stage_index LOADING_INITIAL_STATE = 2"
| "stage_index SYNCHRONIZING = 3"
| "stage_index EXECUTING_CREATE_HANDLER = 4"
| "stage_index EXECUTING_START_HANDLER = 5"
| "stage_index INDEXING_INITIAL_STATE = 6"
| "stage_index AVAILABLE = 7"
| "stage_index PAUSED = 8"
| "stage_index STOPPED = 9"

lemma stage_display: "map_of ProcessingStageUtil (stage_name s) \<noteq> None"
  by (cases s) (simp_all add: ProcessingStageUtil_def)

lemma stage_index_inject [simp]: "stage_index s = stage_index t \<longleftrightarrow> s = t"
  by (cases s; cases t) simp_all

end
