(* ===== verification/StringUtil.thy ===== *)
theory StringUtil
  imports RxParse Uri Interfaces
begin

text \<open>
  \<open>modules/app/utils/string.util.ts\<close> and \<open>modules/app/utils/odata.util.ts\<close>: HTML ids,
  document links, urls, query parameters, number and time formats. The functions of lodash,
  moment and numeral that the sources call are the fields of a record \<open>libs\<close>, an
  argument of the definitions that use them; \<open>build_type\<close> is the text the build writes into
  \<open>enums/url.ts\<close>.
\<close>

section \<open>The library functions the utilities call\<close>

record libs =
  lo_intersection :: "string list \<Rightarrow> string list \<Rightarrow> string list"
  lo_difference :: "string list \<Rightarrow> string list \<Rightarrow> string list"
  lo_sortBy :: "string list \<Rightarrow> string list"
  moment_local_format :: "real \<Rightarrow> string \<Rightarrow> string"
  moment_utc_local_format :: "string \<Rightarrow> string \<Rightarrow> string"
  duration_as_seconds :: "real \<Rightarrow> real"
  duration_as_milliseconds :: "real \<Rightarrow> real"
  numeral_format :: "real \<Rightarrow> string \<Rightarrow> string"
  build_type :: string

text \<open>
  What lodash documents: \<open>intersection\<close> gives the unique values included in both arrays and
  \<open>difference\<close> the values of the first array not included in the second; the order of both
  results is the one of the first array.
\<close>

fun first_occurrences :: "'a list \<Rightarrow> 'a list" where
  "first_occurrences [] = []"
| "first_occurrences (x # xs) = x # first_occurrences (filter (\<lambda>y. y \<noteq> x) xs)"

definition lodash_intersection_doc :: "(string list \<Rightarrow> string list \<Rightarrow> string list) \<Rightarrow> bool" where
  "lodash_intersection_doc f \<longleftrightarrow>
     (\<forall>xs ys. f xs ys = first_occurrences (filter (\<lambda>x. x \<in> set ys) xs))"

definition lodash_difference_doc :: "(string list \<Rightarrow> string list \<Rightarrow> string list) \<Rightarrow> bool" where
  "lodash_difference_doc f \<longleftrightarrow> (\<forall>xs ys. f xs ys = filter (\<lambda>x. x \<notin> set ys) xs)"

text \<open>\<open>_.join(_.slice(xs, m, n), '/')\<close>; a negative end counts from the end of the array.\<close>

definition lo_slice :: "'a list \<Rightarrow> nat \<Rightarrow> int \<Rightarrow> 'a list" where
  "lo_slice xs m n = drop m (take (if n < 0 then nat (int (length xs) + n) else nat n) xs)"

section \<open>HTML ids\<close>

text \<open>
  The optional arguments of \<open>encodeToId\<close> and \<open>decodeFromId\<close>. A pattern given as text is
  represented by the regular expression it denotes; the spacer is matched literally, so it is
  to be free of the characters with a meaning in a pattern, as the default \<open>-\<close> is. The
  replacements of a pair are free of \<open>$\<close>. \<^term>\<open>None\<close> in a second option is the value
  \<open>false\<close> of the parameter \<open>replace\<close>.
\<close>

definition default_exclude :: regex where
  "default_exclude = RxClass (\<lambda>c. \<not> is_alnum c)"

definition default_encode_replace :: "(regex \<times> string) list" where
  "default_encode_replace = [(rx_lit ''-47-'', ''_'')]"

definition default_decode_replace :: "(regex \<times> string) list" where
  "default_decode_replace = [(rx_lit ''_'', ''/'')]"

definition replace_each :: "(regex \<times> string) list \<Rightarrow> string \<Rightarrow> string" where
  "replace_each rs s = foldl (\<lambda>s (r, t). rx_replace_all r (\<lambda>_. t) s) s rs"

definition show_code :: "string \<Rightarrow> string" where
  "show_code m = (case m of [] \<Rightarrow> ''NaN'' | c # _ \<Rightarrow> show_nat (of_char c))"

definition encodeToId ::
  "string option \<Rightarrow> string option \<Rightarrow> regex option \<Rightarrow> string option \<Rightarrow>
   (regex \<times> string) list option option \<Rightarrow> string option" where
  "encodeToId s prefix exclude spacer repl =
     (case s of
        None \<Rightarrow> None
      | Some s \<Rightarrow>
          (let prefix = case_option ''id_'' (\<lambda>x. x) prefix;
               exclude = case_option default_exclude (\<lambda>x. x) exclude;
               spacer = case_option ''-'' (\<lambda>x. x) spacer;
               repl = case_option (Some default_encode_replace) (\<lambda>x. x) repl;
               s = rx_replace_all exclude (\<lambda>matched. spacer @ show_code matched @ spacer) s;
               s = (case repl of None \<Rightarrow> s | Some rs \<Rightarrow> replace_each rs s)
           in Some (prefix @ s)))"

text \<open>
  The text \<open>decodeFromId\<close> returns is a list of code units of sixteen bits, since
  \<open>String.fromCharCode\<close> reduces its argument modulo \<^term>\<open>2 ^ 16 :: nat\<close>. Numerals are
  read exactly: the ones beyond the integers a double represents are not modelled.
\<close>

definition charcode_rx :: "string \<Rightarrow> regex" where
  "charcode_rx spacer = rx_seq [rx_lit spacer, rx_plus (RxClass is_digit), rx_lit spacer]"

definition fromCharCode :: "nat \<Rightarrow> nat" where
  "fromCharCode n = n mod 65536"

definition decode_piece :: "nat \<Rightarrow> char + string \<Rightarrow> nat" where
  "decode_piece spacerLength p =
     (case p of
        Inl c \<Rightarrow> of_char c
      | Inr matched \<Rightarrow>
          fromCharCode (read_nat
            (take (length matched - spacerLength - spacerLength) (drop spacerLength matched))))"

definition decodeFromId ::
  "string option \<Rightarrow> string option \<Rightarrow> string option \<Rightarrow>
   (regex \<times> string) list option option \<Rightarrow> nat list option" where
  "decodeFromId s prefix spacer repl =
     (case s of
        None \<Rightarrow> None
      | Some s \<Rightarrow>
          (let prefix = case_option ''id_'' (\<lambda>x. x) prefix;
               spacer = case_option ''-'' (\<lambda>x. x) spacer;
               repl = case_option (Some default_decode_replace) (\<lambda>x. x) repl;
               s = (if prefix \<noteq> [] then drop (length prefix) s else s);
               s = (case repl of None \<Rightarrow> s | Some rs \<Rightarrow> replace_each rs s)
           in Some (map (decode_piece (length spacer)) (rx_pieces (charcode_rx spacer) s))))"

section \<open>Document links\<close>

definition default_document_link :: "string list \<Rightarrow> DocumentLink" where
  "default_document_link linkFragments =
     \<lparr>linkPrefix = linkFragments ! 0,
      linkType = js_join ''/'' (lo_slice linkFragments 1 (int (length linkFragments) - 2)),
      linkId = linkFragments ! (length linkFragments - 1)\<rparr>"

definition parseDocumentLink :: "libs \<Rightarrow> string \<Rightarrow> string \<Rightarrow> DocumentLink" where
  "parseDocumentLink L documentLink factoryLink =
     (let linkFragments = js_split CHR ''/'' documentLink in
      if length linkFragments < 3 then \<lparr>linkPrefix = [], linkType = [], linkId = []\<rparr>
      else if factoryLink = [] then default_document_link linkFragments
      else
        (let factoryLinkFragments = js_split CHR ''/'' factoryLink;
             linkIntersection = lo_intersection L linkFragments factoryLinkFragments in
         if length linkIntersection = 0 then default_document_link linkFragments
         else if length linkIntersection = 1 then
           \<lparr>linkPrefix = linkIntersection ! 0, linkType = [],
            linkId = linkFragments ! (length linkFragments - 1)\<rparr>
         else
           \<lparr>linkPrefix = linkIntersection ! 0,
            linkType = js_join ''/'' (tl linkIntersection),
            linkId = js_join ''/'' (lo_difference L linkFragments factoryLinkFragments)\<rparr>))"

section \<open>Urls\<close>

definition host_char :: "char \<Rightarrow> bool" where
  "host_char c \<longleftrightarrow> c \<notin> {CHR '':'', CHR ''/'', CHR ''?'', CHR ''#''}"

definition path_char :: "char \<Rightarrow> bool" where
  "path_char c \<longleftrightarrow> c \<notin> {CHR ''?'', CHR ''#''}"

definition search_char :: "char \<Rightarrow> bool" where
  "search_char c \<longleftrightarrow> c \<noteq> CHR ''#''"

text \<open>The dot of a pattern: every character but the line terminators.\<close>

definition dot_char :: "char \<Rightarrow> bool" where
  "dot_char c \<longleftrightarrow> c \<noteq> CHR 0x0A \<and> c \<noteq> CHR 0x0D"

definition protocol_rx :: regex where
  "protocol_rx = rx_seq [rx_lit ''http'', rx_opt (rx_lit ''s''), rx_lit '':'']"

definition host_rx :: regex where
  "host_rx = RxSeq
     (RxGroup 3 (RxStar (RxClass host_char)))
     (rx_opt (RxSeq (rx_lit '':'') (RxGroup 4 (rx_plus (RxClass is_digit)))))"

definition url_rx :: regex where
  "url_rx = rx_seq [
     RxBegin,
     RxGroup 1 protocol_rx,
     rx_lit ''//'',
     RxGroup 2 host_rx,
     RxGroup 5 (RxSeq (rx_lit ''/'') (RxStar (RxClass path_char))),
     RxGroup 6 (rx_opt (RxSeq (rx_lit ''?'') (RxStar (RxClass search_char)))),
     RxGroup 7 (rx_opt (RxSeq (rx_lit ''#'') (RxStar (RxClass dot_char)))),
     RxEnd]"

text \<open>A group of the pattern that takes part in every match is read without the option.\<close>

definition group_text :: "rxmatch \<Rightarrow> nat \<Rightarrow> string" where
  "group_text m n = case_option [] (\<lambda>x. x) (rx_group m n)"

definition parseUrl :: "string \<Rightarrow> UrlFragment option" where
  "parseUrl url =
     (case rx_exec url_rx url of
        None \<Rightarrow> None
      | Some m \<Rightarrow> Some \<lparr>protocol = group_text m 1, host = group_text m 2,
          hostname = group_text m 3, port = rx_group m 4, pathname = group_text m 5,
          search = group_text m 6, hash = group_text m 7\<rparr>)"

text \<open>
  \<open>getQueryParametersByName\<close> makes a pattern of the name at run time, with the brackets of the name
  escaped and every other character as it is, so that a dollar sign or a plus in the name has its
  meaning in the pattern. The outcomes are an exception of the pattern or of
  \<open>decodeURIComponent\<close>, \<open>null\<close> and a text.
\<close>

definition escape_brackets :: "string \<Rightarrow> string" where
  "escape_brackets name =
     rx_replace_all (RxClass (\<lambda>c. c = CHR ''['' \<or> c = CHR '']'')) (\<lambda>m. CHR 0x5C # m) name"

definition query_param_source :: "string \<Rightarrow> string" where
  "query_param_source name = ''[?&]'' @ name @ ''(=([^&#]*)|&|#|$)''"

definition getQueryParametersByName :: "string \<Rightarrow> string \<Rightarrow> string option result" where
  "getQueryParametersByName url name =
     (case RegExp_exec (query_param_source (escape_brackets name)) url of
        Inl e \<Rightarrow> Inl e
      | Inr None \<Rightarrow> Inr None
      | Inr (Some results) \<Rightarrow>
          if \<not> truthy (rx_group results 2) then Inr (Some [])
          else
            (case decodeURIComponent
                    (rx_replace_all (rx_chr CHR ''+'') (\<lambda>_. '' '') (group_text results 2)) of
               None \<Rightarrow> Inl URIError
             | Some s \<Rightarrow> Inr (Some s)))"

definition hasQueryParameter :: "string \<Rightarrow> bool" where
  "hasQueryParameter url =
     (rx_exec (RxSeq (rx_lit ''?'') (RxStar (RxClass search_char))) url \<noteq> None)"

section \<open>The type of a log item\<close>

definition rx_range :: "char \<Rightarrow> char \<Rightarrow> regex" where
  "rx_range a b = RxClass (\<lambda>c. (of_char a :: nat) \<le> of_char c \<and> (of_char c :: nat) \<le> of_char b)"

text \<open>The flag \<open>i\<close>: a letter of the pattern matches both of its cases.\<close>

definition rx_nocase :: "string \<Rightarrow> regex" where
  "rx_nocase cs = RxClass (\<lambda>c. upper_char c \<in> set cs)"

definition LOG_ITEM_TYPE_REGEX :: regex where
  "LOG_ITEM_TYPE_REGEX = (let d = RxClass is_digit in rx_seq [
     rx_lit ''['', RxStar d, rx_lit '']['', rx_nocase ''IWS'', rx_lit ''][''
     , d, d, d, d, rx_lit ''-''
     , rx_range CHR ''0'' CHR ''1'', d, rx_lit ''-''
     , rx_range CHR ''0'' CHR ''3'', d, rx_nocase ''T''
     , rx_range CHR ''0'' CHR ''2'', d, rx_lit '':''
     , rx_range CHR ''0'' CHR ''5'', d, rx_lit '':''
     , rx_range CHR ''0'' CHR ''5'', d, rx_lit ''.''
     , d, d, d, rx_nocase ''Z'', rx_lit '']''])"

section \<open>Times and numbers\<close>

definition time_format :: "bool \<Rightarrow> string" where
  "time_format timeOnly = (if timeOnly then ''hh:mm A'' else ''M/D/YY hh:mm A'')"

definition getTimeStamp :: "libs \<Rightarrow> real \<Rightarrow> bool \<Rightarrow> string" where
  "getTimeStamp L timeInMicroseconds timeOnly =
     (if timeInMicroseconds = 0 then ''Never''
      else moment_local_format L (timeInMicroseconds / 1000) (time_format timeOnly))"

definition formatTimeStamp :: "libs \<Rightarrow> string \<Rightarrow> bool \<Rightarrow> string" where
  "formatTimeStamp L timeString timeOnly =
     moment_utc_local_format L timeString (time_format timeOnly)"

definition formatNumber :: "libs \<Rightarrow> real \<Rightarrow> bool \<Rightarrow> string" where
  "formatNumber L n usePrefix =
     (if n < 1000 \<or> \<not> usePrefix then numeral_format L n ''0,0''
      else if n \<ge> 1000 \<and> n < 10000 then numeral_format L n ''0.0a''
      else ''10k+'')"

definition formatDurationToSeconds :: "libs \<Rightarrow> real \<Rightarrow> string" where
  "formatDurationToSeconds L microseconds =
     formatNumber L (duration_as_seconds L (microseconds / 1000)) False"

definition formatDurationToMilliseconds :: "libs \<Rightarrow> real \<Rightarrow> string" where
  "formatDurationToMilliseconds L microseconds =
     formatNumber L (duration_as_milliseconds L (microseconds / 1000)) False"

definition formatDataSize :: "libs \<Rightarrow> real \<Rightarrow> string" where
  "formatDataSize L bytes = numeral_format L bytes ''0.00 b''"

definition formatPercentage :: "libs \<Rightarrow> real \<Rightarrow> string" where
  "formatPercentage L n = numeral_format L n ''0.000 %''"

section \<open>OData parameters\<close>

definition DEFAULT_PAGE_SIZE :: nat where "DEFAULT_PAGE_SIZE = 25"
definition PAGE_LIMIT :: nat where "PAGE_LIMIT = 10000"
definition DEFAULT_LOG_SIZE :: nat where "DEFAULT_LOG_SIZE = 1000"
definition ODATA_LIMIT :: string where "ODATA_LIMIT = ''$limit''"
definition ODATA_COUNT :: string where "ODATA_COUNT = ''$count''"
definition ODATA_ORDER_BY :: string where "ODATA_ORDER_BY = ''$orderby''"

definition odata_pageLimit :: string where
  "odata_pageLimit = ODATA_LIMIT @ ''='' @ show_nat PAGE_LIMIT"

definition odata_limit :: "nat option \<Rightarrow> string" where
  "odata_limit pageSize = ODATA_LIMIT @ ''='' @ show_nat (case_option DEFAULT_PAGE_SIZE (\<lambda>x. x) pageSize)"

definition odata_count :: string where
  "odata_count = ODATA_COUNT @ ''=true''"

definition odata_orderBy :: "string \<Rightarrow> string option \<Rightarrow> string" where
  "odata_orderBy property order =
     ODATA_ORDER_BY @ ''='' @ property @ '' '' @ case_option ''asc'' (\<lambda>x. x) order"

end
