(* ===== verification/IdEncoding.thy ===== *)
theory IdEncoding
  imports StringUtil
begin

text \<open>
  What \<open>encodeToId\<close> and \<open>decodeFromId\<close> of \<open>string.util.ts\<close> promise with their default
  arguments: the id of a text is the text with every character that is not alphanumeric
  replaced by a token, and decoding reads the tokens back.
\<close>

section \<open>Lemmas on the encoding of ids\<close>

lemma subst_lit_hit:
  "p \<noteq> [] \<Longrightarrow> subst_pieces f (rx_pieces_from (rx_lit p) i (p @ t)) =
     f p @ subst_pieces f (rx_pieces_from (rx_lit p) (i + length p) t)"
  by (subst rx_pieces_match [where g = "[]" and cs = "[]"]) auto

lemma subst_lit_miss:
  "\<not> starts_with p (x # xs) \<Longrightarrow> subst_pieces f (rx_pieces_from (rx_lit p) i (x # xs)) =
     x # subst_pieces f (rx_pieces_from (rx_lit p) (Suc i) xs)"
  by (subst rx_pieces_none) auto

lemma subst_lit_none:
  "hd p \<notin> set u \<Longrightarrow> p \<noteq> [] \<Longrightarrow> subst_pieces f (rx_pieces_from (rx_lit p) i (u @ t)) =
     u @ subst_pieces f (rx_pieces_from (rx_lit p) (i + length u) t)"
proof (induction u arbitrary: i)
  case (Cons x u)
  then have "\<not> starts_with p (x # u @ t)" by (cases p) auto
  with Cons show ?case by (simp add: subst_lit_miss)
qed simp

definition code_token :: "char \<Rightarrow> string" where
  "code_token c = (if is_alnum c then [c] else ''-'' @ show_nat (of_char c) @ ''-'')"

definition id_token :: "char \<Rightarrow> string" where
  "id_token c = (if c = CHR ''/'' then ''_'' else code_token c)"

text \<open>
  The texts the encoding is injective on: none has a character that is neither
  alphanumeric nor a slash, followed by \<open>47\<close> and a character that is not alphanumeric.
\<close>

fun id_safe :: "string \<Rightarrow> bool" where
  "id_safe (c # d # e # f # s) =
     ((is_alnum c \<or> c = CHR ''/'' \<or> d \<noteq> CHR ''4'' \<or> e \<noteq> CHR ''7'' \<or> is_alnum f) \<and>
      id_safe (d # e # f # s))"
| "id_safe s = True"

lemma alnum_not_dash [simp]: "is_alnum c \<Longrightarrow> c \<noteq> CHR ''-''"
  by (auto simp: is_alnum_def is_upper_def is_lower_def is_digit_def)

lemma not_alnum_chars [simp]:
  "\<not> is_alnum CHR ''-''" "\<not> is_alnum CHR ''/''" "\<not> is_alnum CHR ''_''"
  by (simp_all add: is_alnum_def is_upper_def is_lower_def is_digit_def)

lemma digit_alnum [simp]: "is_digit c \<Longrightarrow> is_alnum c"
  by (simp add: is_alnum_def)

lemma dash_not_digits [simp]: "CHR ''-'' \<notin> set (show_nat n)"
  using show_nat_digits alnum_not_dash digit_alnum by blast

lemma show_nat_47: "show_nat 47 = ''47''"
  by code_simp

lemma starts_with_47:
  "starts_with ''-47-'' (''-'' @ show_nat n @ ''-'' @ t) \<longleftrightarrow> n = 47"
proof
  assume "starts_with ''-47-'' (''-'' @ show_nat n @ ''-'' @ t)"
  then obtain r where r: "show_nat n @ CHR ''-'' # t = ''47'' @ CHR ''-'' # r"
    by (auto simp: starts_with_iff)
  have "takeWhile (\<lambda>c. c \<noteq> CHR ''-'') (show_nat n @ CHR ''-'' # t) = show_nat n"
    by (subst takeWhile_append2) auto
  moreover have "takeWhile (\<lambda>c. c \<noteq> CHR ''-'') (''47'' @ CHR ''-'' # r) = ''47''" by simp
  ultimately have "show_nat n = show_nat 47" using r show_nat_47 by metis
  then show "n = 47" by simp
qed (simp add: show_nat_47)

lemma code_tokens_47:
  "starts_with ''47-'' (concat (map code_token s)) \<longleftrightarrow>
     (\<exists>f r. s = CHR ''4'' # CHR ''7'' # f # r \<and> \<not> is_alnum f)"
proof -
  have tok: "concat (map code_token (c # r)) = (if is_alnum c then c else CHR ''-'') #
      (if is_alnum c then concat (map code_token r)
       else show_nat (of_char c) @ ''-'' @ concat (map code_token r))" for c r
    by (simp add: code_token_def)
  have 4: "is_alnum CHR ''4''" "is_alnum CHR ''7''" "\<not> is_alnum CHR ''-''"
    by (auto simp: is_alnum_def is_digit_def is_upper_def is_lower_def)
  show ?thesis
  proof (cases s)
    case (Cons a s1)
    show ?thesis
    proof (cases s1)
      case s1: (Cons b s2)
      show ?thesis
      proof (cases s2)
        case s2: (Cons d s3)
        show ?thesis unfolding Cons s1 s2 tok using 4 by (auto split: if_splits)
      qed (use Cons s1 4 tok [of a "[b]"] tok [of b "[]"] in \<open>auto split: if_splits\<close>)
    qed (use Cons 4 tok [of a "[]"] in \<open>auto split: if_splits\<close>)
  qed simp
qed

lemma encode_replace_tokens:
  "id_safe s \<Longrightarrow>
   subst_pieces (\<lambda>_. ''_'') (rx_pieces_from (rx_lit ''-47-'') i (concat (map code_token s))) =
     concat (map id_token s)"
proof (induction s arbitrary: i)
  case (Cons c s)
  let ?T = "concat (map code_token s)"
  let ?F = "\<lambda>i t. subst_pieces (\<lambda>_. ''_'') (rx_pieces_from (rx_lit ''-47-'') i t)"
  have safe: "id_safe s" using Cons.prems by (cases "c # s" rule: id_safe.cases) auto
  note IH = Cons.IH [OF safe]
  consider (alnum) "is_alnum c" | (slash) "c = CHR ''/''" | (other) "\<not> is_alnum c" "c \<noteq> CHR ''/''"
    by blast
  then show ?case
  proof cases
    case alnum
    then have "?F i ([c] @ ?T) = c # ?F (Suc i) ?T"
      by (subst subst_lit_none) auto
    moreover have "code_token c = [c]" "id_token c = [c]"
      using alnum by (auto simp: code_token_def id_token_def)
    ultimately show ?thesis using IH by simp
  next
    case slash
    have "code_token CHR ''/'' = ''-47-''"
      by (simp add: code_token_def show_nat_47)
    with slash IH show ?thesis
      using subst_lit_hit [of "''-47-''" "\<lambda>_. ''_''" i ?T] by (simp add: id_token_def)
  next
    case other
    let ?n = "of_char c :: nat"
    have "(of_char CHR ''/'' :: nat) = 47" by simp
    then have "?n \<noteq> 47" using other(2) by (metis of_char_eq_iff)
    then have m1: "\<not> starts_with ''-47-'' (CHR ''-'' # show_nat ?n @ ''-'' @ ?T)"
      using starts_with_47 [of ?n ?T] by simp
    have m2: "\<not> starts_with ''-47-'' (CHR ''-'' # ?T)"
    proof
      assume "starts_with ''-47-'' (CHR ''-'' # ?T)"
      then have "starts_with ''47-'' ?T" by simp
      then obtain f r where "s = CHR ''4'' # CHR ''7'' # f # r" "\<not> is_alnum f"
        by (auto simp: code_tokens_47)
      with Cons.prems other show False by simp
    qed
    have "?F i (code_token c @ ?T) = CHR ''-'' # ?F (Suc i) (show_nat ?n @ CHR ''-'' # ?T)"
      using other m1 subst_lit_miss [OF m1] by (simp add: code_token_def)
    also have "\<dots> = CHR ''-'' # show_nat ?n @ ?F (Suc i + length (show_nat ?n)) (CHR ''-'' # ?T)"
      by (subst subst_lit_none) auto
    also have "\<dots> = code_token c @ ?F (Suc (Suc i + length (show_nat ?n))) ?T"
      using other subst_lit_miss [OF m2] by (simp add: code_token_def)
    finally show ?thesis using other IH by (simp add: id_token_def)
  qed
qed simp

lemma encode_tokens:
  "rx_replace_all default_exclude (\<lambda>m. ''-'' @ show_code m @ ''-'') s = concat (map code_token s)"
  unfolding default_exclude_def rx_replace_class
  by (rule arg_cong [where f = concat]) (simp add: code_token_def show_code_def)

lemma encodeToId_tokens:
  "id_safe s \<Longrightarrow>
   encodeToId (Some s) None None None None = Some (''id_'' @ concat (map id_token s))"
  using encode_replace_tokens [of s 0]
  unfolding encodeToId_def Let_def option.case encode_tokens
  by (simp add: replace_each_def default_encode_replace_def rx_replace_all_def rx_pieces_def
      del: rx_lit.simps)

lemma concat_map_concat:
  "concat (map f (concat (map g xs))) = concat (map (\<lambda>x. concat (map f (g x))) xs)"
  by (induction xs) auto

lemma decode_replace_tokens:
  "replace_each default_decode_replace (concat (map id_token s)) =
     concat (map (\<lambda>c. if c = CHR ''/'' then ''/'' else code_token c) s)"
proof -
  let ?h = "\<lambda>c. if c = CHR ''_'' then ''/'' else [c]"
  have id: "CHR ''_'' \<notin> set u \<Longrightarrow> concat (map ?h u) = u" for u
    by (induction u) auto
  have digits: "CHR ''_'' \<notin> set (show_nat n)" for n
    using show_nat_digits not_alnum_chars digit_alnum by blast
  have "concat (map ?h (id_token c)) = (if c = CHR ''/'' then ''/'' else code_token c)" for c
  proof (cases "c = CHR ''/''")
    case False
    have "CHR ''_'' \<notin> set (code_token c)"
      using digits [of "of_char c"] by (auto simp: code_token_def)
    with False show ?thesis by (simp add: id_token_def id)
  qed (simp add: id_token_def)
  then show ?thesis
    by (simp add: replace_each_def default_decode_replace_def rx_replace_class
        concat_map_concat)
qed

lemma charcode_hit:
  assumes "\<forall>c \<in> set ds. is_digit c" and "ds \<noteq> []"
  shows "\<exists>cs. rx (charcode_rx ''-'') (i, ''-'' @ ds @ ''-'' @ t, []) =
           (i + length (''-'' @ ds @ ''-''), t, []) # cs"
proof -
  obtain d ds' where ds: "ds = d # ds'" using assms(2) by (cases ds) auto
  have nd: "\<not> is_digit CHR ''-''" using digit_alnum not_alnum_chars(1) by blast
  obtain cs where "rx (RxStar (RxClass is_digit)) (Suc (Suc i), ds' @ CHR ''-'' # t, []) =
      (Suc (Suc i) + length ds', CHR ''-'' # t, []) # cs"
    using rx_star_class_hd [of is_digit "Suc (Suc i)" "ds' @ CHR ''-'' # t" "[]"] assms(1) ds nd
    by auto
  then show ?thesis
    using ds assms(1) by (auto simp: charcode_rx_def rx_plus_def simp del: rx.simps(5) rx_lit.simps)
qed

lemma charcode_miss:
  "x \<noteq> CHR ''-'' \<Longrightarrow> rx (charcode_rx ''-'') (i, x # xs, []) = []"
  by (simp add: charcode_rx_def)

lemma decode_tokens:
  "map (decode_piece 1) (rx_pieces_from (charcode_rx ''-'') i
     (concat (map (\<lambda>c. if c = CHR ''/'' then ''/'' else code_token c) s))) = map of_char s"
proof (induction s arbitrary: i)
  case Nil
  show ?case by (simp add: charcode_rx_def)
next
  case (Cons c s)
  let ?T = "concat (map (\<lambda>c. if c = CHR ''/'' then ''/'' else code_token c) s)"
  let ?ds = "show_nat (of_char c)"
  show ?case
  proof (cases "c = CHR ''/'' \<or> is_alnum c")
    case True
    then have "c \<noteq> CHR ''-''" by auto
    then have "rx_pieces_from (charcode_rx ''-'') i (c # ?T) =
        Inl c # rx_pieces_from (charcode_rx ''-'') (Suc i) ?T"
      by (intro rx_pieces_none charcode_miss)
    with True Cons.IH show ?thesis by (auto simp: code_token_def decode_piece_def)
  next
    case False
    obtain cs where "rx (charcode_rx ''-'') (i, (''-'' @ ?ds @ ''-'') @ ?T, []) =
        (i + length (''-'' @ ?ds @ ''-''), ?T, []) # cs"
      using charcode_hit [of ?ds i ?T] show_nat_digits by auto
    from rx_pieces_match [OF this]
    have "rx_pieces_from (charcode_rx ''-'') i (''-'' @ ?ds @ ''-'' @ ?T) =
        Inr (''-'' @ ?ds @ ''-'') # rx_pieces_from (charcode_rx ''-'') (i + length (''-'' @ ?ds @ ''-'')) ?T"
      by simp
    moreover have "(of_char c :: nat) < 65536" using nat_of_char_less_256 [of c] by linarith
    ultimately show ?thesis
      using False Cons.IH by (simp add: code_token_def decode_piece_def fromCharCode_def)
  qed
qed

section \<open>Properties of the ids\<close>

lemma id_decodes:
  assumes "id_safe s"
  shows "decodeFromId (encodeToId (Some s) None None None None) None None None =
         Some (map of_char s)"
  using decode_tokens [of 0 s]
  by (simp add: encodeToId_tokens [OF assms, simplified] decodeFromId_def Let_def
      decode_replace_tokens rx_pieces_def)

text \<open>
  C11. Decoding an HTML id with \<open>decodeFromId\<close> gives back the text \<open>encodeToId\<close> made it from,
  both with their default arguments, for every text in which no character that is neither
  alphanumeric nor a slash is followed by \<open>47\<close> and a character that is not alphanumeric.
\<close>

theorem id_roundtrip:
  assumes "id_safe s"
  shows "decodeFromId (encodeToId (Some s) None None None None) None None None =
         Some (map of_char s)"
  by (rule id_decodes [OF assms])

theorem id_roundtrip_witness:
  "decodeFromId (encodeToId (Some ''/core/examples/a-b'') None None None None) None None None =
   Some (map of_char ''/core/examples/a-b'')"
  by (rule id_roundtrip) code_simp

text \<open>
  The round trip does not hold of every text: the id of \<open>-47-\<close> decodes to \<open>-45/45-\<close>,
  since the spacer of one character code, the digits \<open>47\<close> of the text and the spacer of the
  next code read as the code of a slash.
\<close>

lemma id_roundtrip_fails:
  "decodeFromId (encodeToId (Some ''-47-'') None None None None) None None None =
     Some (map of_char ''-45/45-'')"
  by code_simp

end
