(* ===== verification/UrlParsing.thy ===== *)
theory UrlParsing
  imports StringUtil
begin

text \<open>
  What \<open>parseUrl\<close> of \<open>string.util.ts\<close> promises: it is the inverse of writing a url.
\<close>

section \<open>Properties of the urls\<close>

text \<open>A text that starts with a mark.\<close>

definition tagged :: "char \<Rightarrow> (char \<Rightarrow> bool) \<Rightarrow> string \<Rightarrow> bool" where
  "tagged c P u \<longleftrightarrow> (\<exists>w. u = [c] @ w \<and> (\<forall>x \<in> set w. P x))"

text \<open>The shape of a parsed url and the url a fragment stands for.\<close>

definition url_wf :: "UrlFragment \<Rightarrow> bool" where
  "url_wf f \<longleftrightarrow>
     protocol f \<in> {''http:'', ''https:''} \<and>
     (\<forall>c \<in> set (hostname f). host_char c) \<and>
     (case port f of
        None \<Rightarrow> host f = hostname f
      | Some p \<Rightarrow> host f = hostname f @ '':'' @ p \<and> p \<noteq> [] \<and> (\<forall>c \<in> set p. is_digit c)) \<and>
     tagged CHR ''/'' path_char (pathname f) \<and>
     (search f = [] \<or> tagged CHR ''?'' search_char (search f)) \<and>
     (hash f = [] \<or> tagged CHR ''#'' dot_char (hash f))"

definition print_url :: "UrlFragment \<Rightarrow> string" where
  "print_url f = protocol f @ ''//'' @ host f @ pathname f @ search f @ hash f"

definition url_captures :: "UrlFragment \<Rightarrow> captures" where
  "url_captures f =
     [(7, hash f), (6, search f), (5, pathname f), (2, host f)] @
     (case port f of None \<Rightarrow> [] | Some p \<Rightarrow> [(4, p)]) @ [(3, hostname f), (1, protocol f)]"

lemma eats_tagged:
  "rx_eats (RxSeq (rx_lit [c]) (RxStar (RxClass P))) u t i g g' \<longleftrightarrow> tagged c P u \<and> g' = g"
  by (auto simp: rx_eats_simps tagged_def)

lemma eats_opt_tagged:
  "rx_eats (rx_opt (RxSeq (rx_lit [c]) (RxStar (RxClass P)))) u t i g g' \<longleftrightarrow>
     (u = [] \<or> tagged c P u) \<and> g' = g"
  by (auto simp: rx_opt_def eats_alt eats_tagged eats_eps simp del: rx_lit.simps)

lemma eats_protocol:
  "rx_eats protocol_rx u t i g g' \<longleftrightarrow>
     u \<in> {''http:'', ''https:''} \<and> g' = g"
  by (auto simp: protocol_rx_def rx_eats_simps simp del: rx_lit.simps)

lemma eats_digits:
  "rx_eats (rx_plus (RxClass P)) u t i g g' \<longleftrightarrow> u \<noteq> [] \<and> (\<forall>c \<in> set u. P c) \<and> g' = g"
proof (cases u)
  case (Cons x xs)
  have "(\<exists>u1 u2. x # xs = u1 @ u2 \<and> (\<exists>y. u1 = [y] \<and> P y) \<and> (\<forall>y \<in> set u2. P y)) \<longleftrightarrow>
      P x \<and> (\<forall>y \<in> set xs. P y)"
    by (auto intro: exI [of _ "[x]"])
  with Cons show ?thesis by (simp add: rx_eats_simps) blast
qed (simp add: rx_eats_simps)

definition host_shape :: "string \<Rightarrow> string \<Rightarrow> string option \<Rightarrow> bool" where
  "host_shape u hn p \<longleftrightarrow> (\<forall>c \<in> set hn. host_char c) \<and>
     (case p of
        None \<Rightarrow> u = hn
      | Some q \<Rightarrow> u = hn @ '':'' @ q \<and> q \<noteq> [] \<and> (\<forall>c \<in> set q. is_digit c))"

definition host_captures :: "string \<Rightarrow> string option \<Rightarrow> captures" where
  "host_captures hn p = (case p of None \<Rightarrow> [] | Some q \<Rightarrow> [(4, q)]) @ [(3, hn)]"

lemma eats_host:
  "rx_eats host_rx u t i g g' \<longleftrightarrow> (\<exists>hn p. host_shape u hn p \<and> g' = host_captures hn p @ g)"
proof -
  have "rx_eats host_rx u t i g g' \<longleftrightarrow>
     (\<exists>hn. (\<forall>c \<in> set hn. host_char c) \<and>
        ((\<exists>q. u = hn @ '':'' @ q \<and> q \<noteq> [] \<and> (\<forall>c \<in> set q. is_digit c) \<and> g' = (4, q) # (3, hn) # g) \<or>
         u = hn \<and> g' = (3, hn) # g))"
    by (simp add: host_rx_def eats_seq eats_group eats_star_class rx_opt_def eats_alt eats_eps
        eats_lit eats_digits del: rx_lit.simps) blast
  also have "\<dots> \<longleftrightarrow> (\<exists>hn p. host_shape u hn p \<and> g' = host_captures hn p @ g)"
    unfolding split_option_ex by (simp add: host_shape_def host_captures_def) blast
  finally show ?thesis .
qed

lemma eats_seqE:
  assumes "rx_eats (RxSeq a b) u t i g g'"
  obtains u1 u2 g1 where "u = u1 @ u2" "rx_eats a u1 (u2 @ t) i g g1"
    "rx_eats b u2 t (i + length u1) g1 g'"
  using assms by (auto simp: eats_seq)

lemma eats_seqI:
  "rx_eats a u1 (u2 @ t) i g g1 \<Longrightarrow> rx_eats b u2 t (i + length u1) g1 g' \<Longrightarrow>
   rx_eats (RxSeq a b) (u1 @ u2) t i g g'"
  by (auto simp: eats_seq)

lemmas url_part_eats = eats_begin eats_end eats_group eats_protocol eats_lit eats_tagged eats_opt_tagged
  eats_host

lemma url_wf_parts:
  "url_wf f \<longleftrightarrow> protocol f \<in> {''http:'', ''https:''} \<and> host_shape (host f) (hostname f) (port f) \<and>
     tagged CHR ''/'' path_char (pathname f) \<and>
     (search f = [] \<or> tagged CHR ''?'' search_char (search f)) \<and>
     (hash f = [] \<or> tagged CHR ''#'' dot_char (hash f))"
  by (auto simp: url_wf_def host_shape_def split: option.splits)

lemma url_captures_parts:
  "url_captures f = [(7, hash f), (6, search f), (5, pathname f), (2, host f)] @
     host_captures (hostname f) (port f) @ [(1, protocol f)]"
  by (simp add: url_captures_def host_captures_def)

lemma eats_url_sound:
  assumes "rx_eats url_rx u t 0 [] g"
  shows "t = [] \<and> (\<exists>f. url_wf f \<and> u = print_url f \<and> g = url_captures f)"
proof -
  from assms obtain pr ho hn p pa se ha where
    shape: "t = []" "u = pr @ ''//'' @ ho @ pa @ se @ ha" "pr \<in> {''http:'', ''https:''}"
      "host_shape ho hn p" "tagged CHR ''/'' path_char pa"
      "se = [] \<or> tagged CHR ''?'' search_char se" "ha = [] \<or> tagged CHR ''#'' dot_char ha"
    and g: "g = (7, ha) # (6, se) # (5, pa) # (2, ho) # host_captures hn p @ [(1, pr)]"
    unfolding url_rx_def rx_seq.simps
    by (elim eats_seqE) (simp only: url_part_eats append_Nil2, elim exE conjE, simp)
  let ?f = "\<lparr>protocol = pr, host = ho, hostname = hn, port = p, pathname = pa, search = se, hash = ha\<rparr>"
  have "url_wf ?f" "u = print_url ?f" "g = url_captures ?f"
    using shape g by (simp_all add: url_wf_parts print_url_def url_captures_parts)
  with shape(1) show ?thesis by blast
qed

lemma eats_url_complete:
  assumes f: "url_wf f"
  shows "rx_eats url_rx (print_url f) [] 0 [] (url_captures f)"
proof -
  have b: "rx_eats RxBegin [] t 0 g g" and s: "rx_eats (rx_lit ''//'') ''//'' t i g g"
    and e: "rx_eats RxEnd [] [] i g g" for t i g
    by (simp_all add: url_part_eats del: rx_lit.simps)
  have grp: "rx_eats r u t i g g1 \<Longrightarrow> rx_eats (RxGroup n r) u t i g ((n, u) # g1)" for r u t i g g1 n
    by (simp add: eats_group)
  have pr: "rx_eats protocol_rx (protocol f) t i g g"
    and ho: "rx_eats host_rx (host f) t i g (host_captures (hostname f) (port f) @ g)"
    and pa: "rx_eats (RxSeq (rx_lit ''/'') (RxStar (RxClass path_char))) (pathname f) t i g g"
    and se: "rx_eats (rx_opt (RxSeq (rx_lit ''?'') (RxStar (RxClass search_char)))) (search f) t i g g"
    and ha: "rx_eats (rx_opt (RxSeq (rx_lit ''#'') (RxStar (RxClass dot_char)))) (hash f) t i g g"
    for t i g
    using f unfolding url_wf_parts url_part_eats by blast+
  have "rx_eats url_rx ([] @ protocol f @ ''//'' @ host f @ pathname f @ search f @ hash f @ []) [] 0 []
      ((7, hash f) # (6, search f) # (5, pathname f) # (2, host f) #
        (host_captures (hostname f) (port f) @ [(1, protocol f)]))"
    unfolding url_rx_def rx_seq.simps
    by (rule eats_seqI, rule b, rule eats_seqI, rule grp, rule pr, rule eats_seqI, rule s,
        rule eats_seqI, rule grp, rule ho, rule eats_seqI, rule grp, rule pa,
        rule eats_seqI, rule grp, rule se, rule eats_seqI, rule grp, rule ha, rule e)
  then show ?thesis by (simp add: print_url_def url_captures_parts)
qed

lemma takeWhile_unique:
  "u @ v = u' @ v' \<Longrightarrow> \<forall>c \<in> set u. P c \<Longrightarrow> \<forall>c \<in> set u'. P c \<Longrightarrow>
   v = [] \<or> \<not> P (hd v) \<Longrightarrow> v' = [] \<or> \<not> P (hd v') \<Longrightarrow> u = u' \<and> v = v'"
proof (induction u arbitrary: u')
  case Nil
  then show ?case by (cases u') auto
next
  case (Cons x u)
  then show ?case by (cases u') auto
qed

lemma hd_tagged:
  assumes "se = [] \<or> tagged a P se" "ha = [] \<or> tagged b Q ha" "\<not> R a" "\<not> R b"
  shows "se @ ha = [] \<or> \<not> R (hd (se @ ha))"
  using assms by (cases se; cases ha) (simp_all add: tagged_def)

lemma tagged_all: "tagged c P u \<Longrightarrow> P c \<Longrightarrow> \<forall>x \<in> set u. P x"
  by (auto simp: tagged_def)

lemma print_url_inject:
  assumes f: "url_wf f" and f': "url_wf f'" and eq: "print_url f = print_url f'"
  shows "f = f'"
proof -
  have pro: "protocol f = protocol f' \<and>
      host f @ pathname f @ search f @ hash f = host f' @ pathname f' @ search f' @ hash f'"
    using f f' eq by (auto simp: print_url_def url_wf_parts)
  let ?tail = "\<lambda>f. pathname f @ search f @ hash f"
  let ?ps = "\<lambda>f. case port f of None \<Rightarrow> [] | Some q \<Rightarrow> '':'' @ q"
  have host: "url_wf f \<Longrightarrow> host f = hostname f @ ?ps f" for f
    by (auto simp: url_wf_parts host_shape_def split: option.splits)
  have stop: "url_wf f \<Longrightarrow> \<not> host_char (hd (?ps f @ ?tail f)) \<and> ?ps f @ ?tail f \<noteq> []" for f
    by (auto simp: url_wf_parts tagged_def host_char_def split: option.splits)
  have hn: "hostname f = hostname f' \<and> ?ps f @ ?tail f = ?ps f' @ ?tail f'"
    using pro f f' host [OF f] host [OF f'] stop [OF f] stop [OF f']
    by (intro takeWhile_unique [where P = host_char]) (auto simp: url_wf_parts host_shape_def)
  have nd: "\<not> is_digit CHR ''/''" "CHR '':'' \<noteq> CHR ''/''" by (simp_all add: is_digit_def)
  have tails: "port f = port f' \<and> ?tail f = ?tail f'"
  proof (cases "port f"; cases "port f'")
    fix q q' assume "port f = Some q" "port f' = Some q'"
    then show ?thesis
      using f f' hn nd takeWhile_unique [of q "?tail f" q' "?tail f'" is_digit]
      by (auto simp: url_wf_parts host_shape_def tagged_def)
  qed (use f f' hn in \<open>auto simp: url_wf_parts tagged_def\<close>)
  have path: "\<forall>c \<in> set (pathname f). path_char c" "search f @ hash f = [] \<or> \<not> path_char (hd (search f @ hash f))"
    "\<forall>c \<in> set (search f). search_char c" "hash f = [] \<or> \<not> search_char (hd (hash f))"
    if "url_wf f" for f
  proof -
    have p: "tagged CHR ''/'' path_char (pathname f)"
      and s: "search f = [] \<or> tagged CHR ''?'' search_char (search f)"
      and h: "hash f = [] \<or> tagged CHR ''#'' dot_char (hash f)"
      using that unfolding url_wf_parts by blast+
    show "\<forall>c \<in> set (pathname f). path_char c"
      by (rule tagged_all [OF p]) (simp add: path_char_def)
    show "search f @ hash f = [] \<or> \<not> path_char (hd (search f @ hash f))"
      by (rule hd_tagged [where R = path_char, OF s h]) (simp_all add: path_char_def)
    show "\<forall>c \<in> set (search f). search_char c"
      using s tagged_all [of "CHR ''?''" search_char "search f"] by (auto simp: search_char_def)
    show "hash f = [] \<or> \<not> search_char (hd (hash f))"
      using h by (auto simp: tagged_def search_char_def)
  qed
  have "pathname f = pathname f' \<and> search f @ hash f = search f' @ hash f'"
    using tails path(1,2) [OF f] path(1,2) [OF f'] takeWhile_unique by blast
  moreover from this have "search f = search f' \<and> hash f = hash f'"
    using path(3,4) [OF f] path(3,4) [OF f'] takeWhile_unique by blast
  ultimately show ?thesis
    using pro hn tails host [OF f] host [OF f'] by simp
qed

lemma parseUrl_captures:
  assumes "g = url_captures f"
  shows "group_text (k, m, g) 1 = protocol f" "group_text (k, m, g) 2 = host f"
    "group_text (k, m, g) 3 = hostname f" "rx_group (k, m, g) 4 = port f"
    "group_text (k, m, g) 5 = pathname f" "group_text (k, m, g) 6 = search f"
    "group_text (k, m, g) 7 = hash f"
  using assms
  by (auto simp: group_text_def rx_group_def url_captures_def split: option.splits)

lemma parse_print_url: "parseUrl url = Some f \<longleftrightarrow> url_wf f \<and> url = print_url f"
proof -
  have sound: "\<exists>f. parseUrl url = Some f \<and> url_wf f \<and> url = print_url f"
    if hit: "rx_exec url_rx url = Some mm" for mm
  proof -
    obtain k m g where mm: "mm = (k, m, g)" by (cases mm)
    obtain u t where ut: "url = u @ m @ t" "k = length u" "rx_eats url_rx m t k [] g"
      using rx_exec_eats [of url_rx url k m g] hit mm by blast
    have "k = 0" using ut(3) unfolding url_rx_def rx_seq.simps(3) eats_seq [of RxBegin] eats_begin by blast
    then obtain f' where f': "t = []" "url_wf f'" "m = print_url f'" "g = url_captures f'"
      using ut eats_url_sound by metis
    have "parseUrl url = Some f'"
      unfolding parseUrl_def hit mm by (simp add: parseUrl_captures [OF f'(4)] del: One_nat_def)
    then show ?thesis using f' ut \<open>k = 0\<close> by auto
  qed
  show ?thesis
  proof
    assume "parseUrl url = Some f"
    then obtain mm where "rx_exec url_rx url = Some mm"
      by (auto simp: parseUrl_def split: option.splits)
    then show "url_wf f \<and> url = print_url f"
      using sound \<open>parseUrl url = Some f\<close> by auto
  next
    assume f: "url_wf f \<and> url = print_url f"
    then have "rx_exec url_rx url \<noteq> None"
      unfolding rx_exec_None_eats using eats_url_complete by (metis append_Nil append_Nil2 list.size(3))
    then obtain f' where "parseUrl url = Some f'" "url_wf f'" "url = print_url f'"
      using sound by auto
    then show "parseUrl url = Some f" using f print_url_inject by blast
  qed
qed

text \<open>
  C6. \<open>parseUrl\<close> is the inverse of writing a url: it returns a fragment exactly when the
  fragment is well formed (the protocol is \<open>http:\<close> or \<open>https:\<close>, the host is the hostname
  with the port, and so on) and the url is its parts in order; otherwise it returns \<open>null\<close>.
  In particular a url has at most one decomposition.
\<close>

theorem parseUrl_iff: "parseUrl url = Some f \<longleftrightarrow> url_wf f \<and> url = print_url f"
  by (rule parse_print_url)

end
