(* ===== verification/QueryParams.thy ===== *)
theory QueryParams
  imports StringUtil
begin

text \<open>
  What \<open>getQueryParametersByName\<close> and \<open>hasQueryParameter\<close> of \<open>string.util.ts\<close> promise: reading
  a query parameter is a lookup in the list of the parameters the url was built from. The pattern
  is made of the name of the parameter, so the first step is what the parser of patterns makes of a
  name whose characters have no meaning in a pattern.
\<close>

section \<open>The pattern of a parameter\<close>

definition query_group :: regex where
  "query_group =
     RxGroup 1 (RxAlt
       (RxSeq (rx_lit ''='') (RxGroup 2 (RxStar (RxClass (\<lambda>c. c \<noteq> CHR ''&'' \<and> c \<noteq> CHR ''#'')))))
       (RxAlt (rx_lit ''&'') (RxAlt (rx_lit ''#'') RxEnd)))"

definition query_param_rx :: "string \<Rightarrow> regex" where
  "query_param_rx name =
     rx_seq (RxClass (\<lambda>c. c = CHR ''?'' \<or> c = CHR ''&'') # map rx_chr name @ [query_group])"

definition query_literal_rx :: "string \<Rightarrow> regex" where
  "query_literal_rx name =
     rx_seq [RxClass (\<lambda>c. c = CHR ''?'' \<or> c = CHR ''&''), rx_lit name, query_group]"

lemma rx_query_param: "rx (query_param_rx name) c = rx (query_literal_rx name) c"
proof -
  have "rx (query_param_rx name) c =
      concat (map (rx (rx_seq (map rx_chr name @ [query_group]))) (rx (RxClass (\<lambda>c. c = CHR ''?'' \<or> c = CHR ''&'')) c))"
    unfolding query_param_rx_def by (cases "map rx_chr name @ [query_group]") simp_all
  then show ?thesis
    using rx_seq_literal [of "[query_group]" name]
    by (simp add: query_literal_rx_def) (simp only: rx.simps(3) [symmetric] comp_def cong: map_cong)
qed

lemma class_set_codes: "rx_code 63 c \<longleftrightarrow> c = CHR ''?''" "rx_code 38 c \<longleftrightarrow> c = CHR ''&''" "rx_code 35 c \<longleftrightarrow> c = CHR ''#''"
  by (auto simp: rx_code_def of_char_eq_iff [symmetric, where 'a = nat])

lemma query_tail_tokens:
  "lex_pattern url n ''(=([^&#]*)|&|#|$)'' = Some
     [TOpen, TAtom (rx_chr CHR ''=''), TOpen, TAtom (RxClass (\<lambda>c. c \<noteq> CHR ''&'' \<and> c \<noteq> CHR ''#'')),
      TQuant 0 None True, TClose, TBar, TAtom (rx_chr CHR ''&''), TBar, TAtom (rx_chr CHR ''#''), TBar,
      TAssert RxEnd, TClose]"
  by (simp add: lex_one_def read_class_def class_set_codes quant_token_def)

lemma query_head_token:
  "lex_pattern url n (''[?&]'' @ cs) =
     map_option ((#) (TAtom (RxClass (\<lambda>c. c = CHR ''?'' \<or> c = CHR ''&'')))) (lex_pattern url n cs)"
  by (simp add: lex_one_def read_class_def class_set_codes)

lemma RegExp_query:
  assumes "pattern_plain name"
  shows "RegExp url (query_param_source (escape_brackets name)) = Inr (query_param_rx name)"
proof -
  have esc: "escape_brackets name = concat (map escape_bracket name)"
    unfolding escape_brackets_def rx_replace_class
    by (rule arg_cong [where f = concat]) (simp add: escape_bracket_def)
  show ?thesis
    unfolding RegExp_def query_param_source_def query_head_token esc lex_literal [OF assms] query_tail_tokens
    by (simp add: parse_literal new_level_def add_term_def end_alt_def close_level_def level_rx_def
        rx_quantify_def query_param_rx_def query_group_def rev_map comp_def numeral_2_eq_2)
qed

lemma getQuery_plain:
  "pattern_plain name \<Longrightarrow> getQueryParametersByName url name =
     (case rx_exec (query_param_rx name) url of
        None \<Rightarrow> Inr None
      | Some results \<Rightarrow>
          if \<not> truthy (rx_group results 2) then Inr (Some [])
          else
            (case decodeURIComponent
                    (rx_replace_all (rx_chr CHR ''+'') (\<lambda>_. '' '') (group_text results 2)) of
               None \<Rightarrow> Inl URIError
             | Some s \<Rightarrow> Inr (Some s)))"
  by (simp add: getQueryParametersByName_def RegExp_exec_def RegExp_query split: option.splits)

section \<open>Properties of the query parameters\<close>

definition param_text :: "string \<times> string \<Rightarrow> string" where
  "param_text p = fst p @ ''='' @ encodeURIComponent (snd p)"

definition query_url :: "string \<Rightarrow> (string \<times> string) list \<Rightarrow> string" where
  "query_url base ps = base @ ''?'' @ js_join ''&'' (map param_text ps)"

definition plain_key :: "string \<Rightarrow> bool" where
  "plain_key k \<longleftrightarrow> set k \<inter> {CHR ''?'', CHR ''&'', CHR ''='', CHR ''#''} = {}"

lemma param_hit:
  assumes "sep \<in> {CHR ''?'', CHR ''&''}" and e: "set e \<inter> {CHR ''&'', CHR ''#''} = {}"
    and "rest = [] \<or> (\<exists>r. rest = CHR ''&'' # r)"
  shows "\<exists>j cs. rx (query_param_rx name) (i, sep # name @ ''='' @ e @ rest, []) =
           (j, rest, [(1, ''='' @ e), (2, e)]) # cs"
proof -
  let ?P = "\<lambda>c. c \<noteq> CHR ''&'' \<and> c \<noteq> CHR ''#''"
  have tw: "takeWhile ?P (e @ rest) = e" "dropWhile ?P (e @ rest) = rest"
    using assms(3) e by (auto simp: takeWhile_append2 dropWhile_append2 disjoint_iff)
  obtain cs where "rx (RxStar (RxClass ?P)) (Suc (Suc (i + length name)), e @ rest, []) =
      (Suc (Suc (i + length name)) + length e, rest, []) # cs"
    using rx_star_class_hd [of ?P "Suc (Suc (i + length name))" "e @ rest" "[]"] tw by auto
  then show ?thesis
    using assms(1) by (auto simp: rx_query_param query_literal_rx_def query_group_def simp del: rx.simps(5))
qed

lemma param_miss:
  assumes "plain_key k" "plain_key name" "k \<noteq> name"
  shows "rx (query_param_rx name) (i, sep # k @ ''='' @ t, []) = []"
proof -
  have "starts_with name (k @ ''='' @ t) \<Longrightarrow> \<exists>c r. k = name @ c # r"
  proof -
    assume "starts_with name (k @ ''='' @ t)"
    then obtain r where r: "k @ CHR ''='' # t = name @ r" by (auto simp: starts_with_iff)
    then show ?thesis
      using assms by (auto simp: append_eq_append_conv2 Cons_eq_append_conv plain_key_def)
        (metis neq_Nil_conv append_Nil2)
  qed
  then show ?thesis
    using assms(1) by (auto simp: rx_query_param query_literal_rx_def query_group_def plain_key_def)
qed

lemma search_skip:
  "\<forall>c \<in> set u. c \<notin> {CHR ''?'', CHR ''&''} \<Longrightarrow>
   rx_search (query_param_rx name) i (u @ t) = rx_search (query_param_rx name) (i + length u) t"
proof (induction u arbitrary: i)
  case (Cons x u)
  then have "rx (query_param_rx name) (i, x # u @ t, []) = []" by (simp add: rx_query_param query_literal_rx_def query_group_def)
  with Cons show ?case by (simp add: rx_search_miss)
qed simp

lemma encode_plain: "set (encodeURIComponent v) \<inter> {CHR ''&'', CHR ''#''} = {}"
  using uri.enc_safe [of _ v] by auto

definition params_tail :: "(string \<times> string) list \<Rightarrow> string" where
  "params_tail ps = concat (map (\<lambda>q. CHR ''&'' # param_text q) ps)"

lemma params_tail_simps [simp]:
  "params_tail [] = []" "params_tail (p # ps) = CHR ''&'' # param_text p @ params_tail ps"
  by (simp_all add: params_tail_def)

lemma search_param_hit:
  assumes "sep \<in> {CHR ''?'', CHR ''&''}"
  shows "\<exists>m. rx_search (query_param_rx name) i (sep # param_text (name, v) @ params_tail ps) =
           Some (i, m, [(1, ''='' @ encodeURIComponent v), (2, encodeURIComponent v)])"
proof -
  have "params_tail ps = [] \<or> (\<exists>r. params_tail ps = CHR ''&'' # r)" by (cases ps) auto
  from param_hit [OF assms encode_plain [of v] this, of name i]
  show ?thesis using rx_search_hit by (fastforce simp: param_text_def)
qed

lemma search_param_miss:
  assumes "plain_key k" "plain_key name" "k \<noteq> name"
  shows "rx_search (query_param_rx name) i (sep # param_text (k, v) @ t) =
           rx_search (query_param_rx name) (Suc i + length (param_text (k, v))) t"
proof -
  have "\<forall>c \<in> set (param_text (k, v)). c \<notin> {CHR ''?'', CHR ''&''}"
    using assms(1) uri.enc_safe [of _ v] by (auto simp: param_text_def plain_key_def)
  moreover have "rx (query_param_rx name) (i, sep # param_text (k, v) @ t, []) = []"
    using param_miss [OF assms] by (simp add: param_text_def)
  ultimately show ?thesis by (simp add: rx_search_miss(1) search_skip)
qed

text \<open>What a search over the parameters finds: the value the list has for the name.\<close>

definition finds :: "rxmatch option \<Rightarrow> string option \<Rightarrow> bool" where
  "finds r v \<longleftrightarrow>
     (case v of
        None \<Rightarrow> r = None
      | Some v \<Rightarrow> \<exists>j m. r = Some (j, m, [(1, ''='' @ encodeURIComponent v), (2, encodeURIComponent v)]))"

lemma search_params_tail:
  assumes "plain_key name" "\<forall>p \<in> set ps. plain_key (fst p)"
  shows "finds (rx_search (query_param_rx name) i (params_tail ps)) (map_of ps name)"
  using assms(2)
proof (induction ps arbitrary: i)
  case Nil
  have "rx (query_param_rx name) (i, [], []) = []" by (simp add: rx_query_param query_literal_rx_def query_group_def)
  then show ?case by (simp add: finds_def rx_search_miss)
next
  case (Cons p ps)
  obtain k v where p: "p = (k, v)" by fastforce
  show ?case
  proof (cases "k = name")
    case True
    then show ?thesis using search_param_hit [of "CHR ''&''" name i v ps] p by (auto simp: finds_def)
  next
    case False
    then show ?thesis using Cons assms(1) p by (simp add: search_param_miss)
  qed
qed

lemma query_url_tail:
  "query_url base (p # ps) = base @ CHR ''?'' # param_text p @ params_tail ps"
proof -
  have "js_join ''&'' (map param_text (p # ps)) = param_text p @ params_tail ps" for p
    by (induction ps arbitrary: p) auto
  then show ?thesis by (simp add: query_url_def)
qed

lemma search_params:
  assumes "plain_key name" "\<forall>p \<in> set ps. plain_key (fst p)" "plain_key base" "ps \<noteq> []"
  shows "finds (rx_exec (query_param_rx name) (query_url base ps)) (map_of ps name)"
proof -
  obtain k v qs where ps: "ps = (k, v) # qs" using assms(4) by (metis neq_Nil_conv surj_pair)
  have base: "\<forall>c \<in> set base. c \<notin> {CHR ''?'', CHR ''&''}" using assms(3) by (auto simp: plain_key_def)
  have skip: "rx_exec (query_param_rx name) (query_url base ps) =
      rx_search (query_param_rx name) (length base) (CHR ''?'' # param_text (k, v) @ params_tail qs)"
    by (simp add: ps query_url_tail rx_exec_def search_skip [OF base])
  show ?thesis
  proof (cases "k = name")
    case True
    then show ?thesis
      using search_param_hit [of "CHR ''?''" name "length base" v qs] ps
      unfolding skip by (auto simp: finds_def)
  next
    case False
    then show ?thesis
      using assms ps search_params_tail [OF assms(1), of qs] unfolding skip
      by (simp add: search_param_miss)
  qed
qed

lemma decode_plus:
  "decodeURIComponent (rx_replace_all (rx_chr CHR ''+'') (\<lambda>_. '' '') (encodeURIComponent v)) = Some v"
proof -
  have "CHR ''+'' \<notin> set (encodeURIComponent v)" using uri.enc_safe by auto
  then have "rx_replace_all (rx_chr CHR ''+'') (\<lambda>_. '' '') (encodeURIComponent v) = encodeURIComponent v"
    by (intro rx_replace_class_none) auto
  then show ?thesis by (simp add: uri.dec_enc)
qed

text \<open>A url with one parameter, whose value is any text without the marks that end it.\<close>

lemma single_param:
  assumes "plain_key base" "set e \<inter> {CHR ''&'', CHR ''#'', CHR ''+''} = {}" "e \<noteq> []"
    and "decodeURIComponent e = Some v"
    and "pattern_plain k"
  shows "getQueryParametersByName (base @ ''?'' @ k @ ''='' @ e) k = Inr (Some v)"
proof -
  have base: "\<forall>c \<in> set base. c \<notin> {CHR ''?'', CHR ''&''}" using assms(1) by (auto simp: plain_key_def)
  obtain j cs where "rx (query_param_rx k) (length base, CHR ''?'' # k @ ''='' @ e @ [], []) =
      (j, [], [(1, ''='' @ e), (2, e)]) # cs"
    using param_hit [of "CHR ''?''" e "[]" k "length base"] assms(2) by auto
  then obtain m where "rx_exec (query_param_rx k) (base @ ''?'' @ k @ ''='' @ e) =
      Some (length base, m, [(1, ''='' @ e), (2, e)])"
    using search_skip [OF base, of k 0 "CHR ''?'' # k @ ''='' @ e"] rx_search_hit
    by (fastforce simp: rx_exec_def)
  moreover have "rx_replace_all (rx_chr CHR ''+'') (\<lambda>_. '' '') e = e"
    using assms(2) by (intro rx_replace_class_none) auto
  ultimately show ?thesis
    using assms(3,4) by (simp add: getQuery_plain [OF assms(5)] rx_group_def group_text_def truthy_def)
qed

lemma params_lookup:
  assumes "plain_key name" "\<forall>p \<in> set ps. plain_key (fst p)" "plain_key base" "ps \<noteq> []"
    and "pattern_plain name"
  shows "getQueryParametersByName (query_url base ps) name = Inr (map_of ps name)"
proof (cases "map_of ps name")
  case None
  then show ?thesis
    using search_params [OF assms(1-4)] by (simp add: finds_def getQuery_plain [OF assms(5)])
next
  case (Some v)
  then obtain j m where "rx_exec (query_param_rx name) (query_url base ps) =
      Some (j, m, [(1, ''='' @ encodeURIComponent v), (2, encodeURIComponent v)])"
    using search_params [OF assms(1-4)] by (auto simp: finds_def)
  moreover have "encodeURIComponent v = [] \<longleftrightarrow> v = []"
    using uri.enc_inject [of v "[]"] by (simp add: encodeURIComponent_def)
  ultimately show ?thesis
    using Some decode_plus [of v]
    by (auto simp: getQuery_plain [OF assms(5)] rx_group_def group_text_def truthy_def)
qed

text \<open>
  C12. Reading a query parameter is a lookup: for a url built from a base and a list of at least
  one parameter, with \<open>encodeURIComponent\<close> on the values, \<open>getQueryParametersByName\<close> returns the
  first value listed under the name, decoded, and \<open>null\<close> when no parameter has the name. The
  base and the names are free of the characters \<open>? & = #\<close>, and the name that is looked up, which the
  code puts into a regular expression, has none of the characters \<open>^ $ \ . * + ? ( ) { } |\<close>; it may have
  brackets, which the code escapes.
\<close>

theorem getQueryParametersByName_lookup:
  assumes "plain_key name" "\<forall>p \<in> set ps. plain_key (fst p)" "plain_key base" "ps \<noteq> []"
    and "pattern_plain name"
  shows "getQueryParametersByName (query_url base ps) name = Inr (map_of ps name)"
  by (rule params_lookup [OF assms])

theorem getQueryParametersByName_lookup_witness:
  "getQueryParametersByName
     (query_url ''/core/node-selectors/default/forwarding''
        [(''peer'', ''a b''), (''path'', ''/core/x?y=1'')]) ''path'' =
   Inr (Some ''/core/x?y=1'')"
  using getQueryParametersByName_lookup [of "''path''"
    "[(''peer'', ''a b''), (''path'', ''/core/x?y=1'')]" "''/core/node-selectors/default/forwarding''"]
  by (simp add: plain_key_def pattern_plain_def)

text \<open>
  A name with a meaning in the pattern is not found: \<open>$limit\<close> asks for the end of the text before
  its first letter, and a parenthesis that is never closed is a \<open>SyntaxError\<close>.
\<close>

lemma dollar_name_not_found:
  "getQueryParametersByName ''/core/examples?$limit=25'' ''$limit'' = Inr None"
  "getQueryParametersByName ''/core/examples?a=1'' ''a('' = Inl SyntaxError"
  by code_simp+

lemma has_query_iff: "hasQueryParameter url \<longleftrightarrow> CHR ''?'' \<in> set url"
proof -
  let ?r = "RxSeq (rx_lit ''?'') (RxStar (RxClass search_char))"
  have eats: "rx_eats ?r m t i [] g \<longleftrightarrow> (\<exists>w. m = CHR ''?'' # w \<and> (\<forall>c \<in> set w. search_char c)) \<and> g = []"
    for m t i g
    by (auto simp: eats_seq eats_lit eats_star_class simp del: rx_lit.simps)
  show ?thesis
  proof
    assume "hasQueryParameter url"
    then obtain k m g where "rx_exec ?r url = Some (k, m, g)"
      by (auto simp: hasQueryParameter_def simp del: rx_lit.simps)
    then obtain u t w where "url = u @ (CHR ''?'' # w) @ t" using rx_exec_eats eats by metis
    then show "CHR ''?'' \<in> set url" by simp
  next
    assume "CHR ''?'' \<in> set url"
    then obtain u t where "url = u @ ''?'' @ t" by (metis append_Cons append_Nil in_set_conv_decomp)
    moreover have "rx_eats ?r ''?'' t (length u) [] []" unfolding eats by simp
    ultimately show "hasQueryParameter url"
      unfolding hasQueryParameter_def rx_exec_None_eats by blast
  qed
qed

text \<open>
  \<open>hasQueryParameter\<close> answers whether the url has a question mark anywhere, the fragment
  after a \<open>#\<close> included.
\<close>

lemma hasQueryParameter_iff: "hasQueryParameter url \<longleftrightarrow> CHR ''?'' \<in> set url"
  by (rule has_query_iff)

end
