(* ===== verification/DocumentLinks.thy ===== *)
theory DocumentLinks
  imports StringUtil "HOL-Library.Char_ord" "HOL-Library.List_Lexorder"
begin

text \<open>
  What \<open>parseDocumentLink\<close> of \<open>string.util.ts\<close> promises: with the link of the factory it splits
  a document link into the factory and the id; without it the fragment before the id is lost.
\<close>

lemma first_occurrences_distinct: "distinct xs \<Longrightarrow> first_occurrences xs = xs"
proof (induction xs)
  case (Cons x xs)
  then have "filter (\<lambda>y. y \<noteq> x) xs = xs" by (auto simp: filter_id_conv)
  with Cons show ?case by simp
qed simp

lemma js_split_slash_append: "js_split c (u @ [c] @ v) = js_split c u @ js_split c v"
  using js_split_append [of c u v] by simp

lemma intersection_prefix:
  assumes "lodash_intersection_doc f" "distinct ys" "set zs \<inter> set ys = {}"
  shows "f (ys @ zs) ys = ys"
proof -
  have "filter (\<lambda>x. x \<in> set ys) ys = ys" "filter (\<lambda>x. x \<in> set ys) zs = []"
    using assms(3) by (auto simp: filter_id_conv filter_empty_conv)
  then have "f (ys @ zs) ys = first_occurrences ys"
    using assms(1) unfolding lodash_intersection_doc_def by (metis filter_append append_Nil2)
  then show ?thesis using first_occurrences_distinct [OF assms(2)] by simp
qed

lemma difference_prefix:
  assumes "lodash_difference_doc f" "set zs \<inter> set ys = {}"
  shows "f (ys @ zs) ys = zs"
proof -
  have "filter (\<lambda>x. x \<notin> set ys) ys = []" "filter (\<lambda>x. x \<notin> set ys) zs = zs"
    using assms(2) by (auto simp: filter_id_conv filter_empty_conv)
  then show ?thesis using assms(1) unfolding lodash_difference_doc_def
    by (metis (no_types, lifting) filter_append append_Nil)
qed

text \<open>
  Parsing the link of a document against the link of its factory inverts their
  composition: the prefix and the type are the first fragment and the other fragments of the
  factory, and the id is what follows it, if the fragments of the factory are distinct, at
  least two, and none of them is a fragment of the id.
\<close>

lemma parseDocumentLink_factory:
  assumes "lodash_intersection_doc (lo_intersection L)" "lodash_difference_doc (lo_difference L)"
    and fl: "js_split CHR ''/'' factoryLink = p # t # ts" "distinct (p # t # ts)"
    and i: "set (js_split CHR ''/'' i) \<inter> set (p # t # ts) = {}"
  shows "parseDocumentLink L (factoryLink @ ''/'' @ i) factoryLink =
    \<lparr>linkPrefix = p, linkType = js_join ''/'' (t # ts), linkId = i\<rparr>"
proof -
  let ?is = "js_split CHR ''/'' i"
  have frags: "js_split CHR ''/'' (factoryLink @ ''/'' @ i) = (p # t # ts) @ ?is"
    using js_split_slash_append fl(1) by simp
  have "lo_intersection L ((p # t # ts) @ ?is) (p # t # ts) = p # t # ts"
    using intersection_prefix assms(1) fl(2) i by blast
  moreover have "lo_difference L ((p # t # ts) @ ?is) (p # t # ts) = ?is"
    using difference_prefix assms(2) i by blast
  moreover have "\<not> length ((p # t # ts) @ ?is) < 3" "factoryLink \<noteq> []"
    using fl(1) js_split_nonempty [of "CHR ''/''" i] by (cases ?is; auto)+
  ultimately show ?thesis
    unfolding parseDocumentLink_def Let_def frags fl(1) by simp
qed

text \<open>The functions lodash documents, to instantiate the record.\<close>

definition doc_libs :: libs where
  "doc_libs = \<lparr>lo_intersection = (\<lambda>xs ys. first_occurrences (filter (\<lambda>x. x \<in> set ys) xs)),
     lo_difference = (\<lambda>xs ys. filter (\<lambda>x. x \<notin> set ys) xs),
     lo_sortBy = sort, moment_local_format = (\<lambda>_ f. f), moment_utc_local_format = (\<lambda>s _. s),
     duration_as_seconds = (\<lambda>ms. ms / 1000), duration_as_milliseconds = (\<lambda>ms. ms),
     numeral_format = (\<lambda>_ f. f), build_type = ''dev''\<rparr>"

lemma doc_libs_doc [simp]:
  "lodash_intersection_doc (lo_intersection doc_libs)" "lodash_difference_doc (lo_difference doc_libs)"
  by (simp_all add: doc_libs_def lodash_intersection_doc_def lodash_difference_doc_def)

lemma parseDocumentLink_factory_witness:
  "parseDocumentLink doc_libs (''/core/examples'' @ ''/'' @ ''a1/b2'') ''/core/examples'' =
    \<lparr>linkPrefix = [], linkType = js_join ''/'' [''core'', ''examples''], linkId = ''a1/b2''\<rparr>"
  by (rule parseDocumentLink_factory) simp_all

lemma default_link:
  assumes "\<forall>w \<in> set (p # mid @ [x, i]). CHR ''/'' \<notin> set w"
  shows "parseDocumentLink L (js_join ''/'' (p # mid @ [x, i])) [] =
    \<lparr>linkPrefix = p, linkType = js_join ''/'' mid, linkId = i\<rparr>"
proof -
  have "js_split CHR ''/'' (js_join ''/'' (p # mid @ [x, i])) = p # mid @ [x, i]"
    using assms by (intro js_split_join) simp_all
  moreover have "nat (1 + int (length mid)) = Suc (length mid)" by simp
  ultimately show ?thesis
    by (simp add: parseDocumentLink_def default_document_link_def lo_slice_def nth_append)
qed

text \<open>
  Without the link of a factory, the prefix is the first fragment and the id the last, but
  the type leaves out the fragment before the id: two links that differ only there parse
  alike.
\<close>

lemma parseDocumentLink_default_drops:
  assumes "\<forall>w \<in> set (p # mid @ [x, i]). CHR ''/'' \<notin> set w"
  shows "parseDocumentLink L (js_join ''/'' (p # mid @ [x, i])) [] =
    \<lparr>linkPrefix = p, linkType = js_join ''/'' mid, linkId = i\<rparr>"
  by (rule default_link [OF assms])

lemma parseDocumentLink_default_drops_witness:
  "parseDocumentLink doc_libs (js_join ''/'' ([] # [''core''] @ [''examples'', ''a1''])) [] =
    \<lparr>linkPrefix = [], linkType = js_join ''/'' [''core''], linkId = ''a1''\<rparr>"
  by (rule parseDocumentLink_default_drops) simp

end
