(* ===== verification/WebSocketLib.thy ===== *)
theory WebSocketLib
  imports Json "HOL-Library.Multiset"
begin

text \<open>
  \<open>ws-service-lib.js\<close>: services that run in the browser over a WebSocket to the node. The state
  of a connection is the record \<open>connection\<close>; every method of the library is a function on it,
  and the handlers \<open>onerror\<close>, \<open>onopen\<close> and \<open>onmessage\<close> are the steps the browser takes.

  The functions a caller hands to the library are identifiers, and a call of one of them is an
  event in the trace \<open>out\<close> of the connection, as are the frames sent. The closures the library
  itself makes are the constructors of \<open>done_handler\<close>. What a callback does is a later step: the
  library calls a callback of the caller as the last thing a handler does, apart from removing the
  handler from \<open>doneHandlers\<close>, which commutes with the requests a callback can make since they get
  fresh ids. An exception that leaves a handler is returned beside the state reached, with the
  changes made before it.
\<close>

section \<open>Data\<close>

type_synonym callback = nat

text \<open>The code a done handler gets: the number 500, or a text cut out of a frame.\<close>

datatype status = CNum nat | CStr string

text \<open>
  \<open>CreateDone\<close> is the closure of \<open>createService\<close>, \<open>ServiceDone\<close> the one that \<open>subscribe\<close>,
  \<open>unsubscribe\<close> and \<open>stop\<close> share. \<^term>\<open>None\<close> is an argument left \<open>undefined\<close>.
\<close>

datatype done_handler =
    CreateDone callback "callback option" "callback option"
  | ServiceDone "callback option" "callback option"

record Operation =
  op_action :: "json option"
  op_statusCode :: int
  op_body :: "json option"
  op_id :: "json option"
  oncompletion :: "string option"

record WebSocketService =
  service_uri :: "json option"
  handleRequest :: callback

datatype event =
    Connect string
  | Send string
  | Done done_handler status "string option"
  | CallReady callback WebSocketService
  | CallSuccess callback
  | CallFailure callback status "string option"
  | CallRequest callback Operation

record request =
  req_method :: string
  req_path :: string
  req_body :: "json option"
  req_doneHandler :: "done_handler option"

record connection =
  ready :: bool
  onmessage_set :: bool
  services :: "(string \<times> WebSocketService) list"
  doneHandlers :: "(string \<times> done_handler) list"
  requestCounter :: nat
  requestQueue :: "request list"
  failure :: "string option"
  out :: "event list"

text \<open>What the library reads of the browser: its location, and the path of a link.\<close>

record browser =
  location_protocol :: string
  location_host :: string
  anchor_pathname :: "string \<Rightarrow> string"

definition emit :: "event \<Rightarrow> connection \<Rightarrow> connection" where
  "emit e wsc = wsc\<lparr>out := out wsc @ [e]\<rparr>"

section \<open>Conversions of the language\<close>

text \<open>\<open>ToString\<close> of a value; inside an array \<open>null\<close> is the empty text.\<close>

fun js_to_string :: "json \<Rightarrow> string" where
  "js_to_string JNull = ''null''"
| "js_to_string (JBool b) = show_bool b"
| "js_to_string (JNum i) = show_int i"
| "js_to_string (JStr s) = s"
| "js_to_string (JArr vs) =
     js_join '','' (map (\<lambda>v. case v of JNull \<Rightarrow> [] | _ \<Rightarrow> js_to_string v) vs)"
| "js_to_string (JObj kvs) = ''[object Object]''"

definition opt_to_string :: "json option \<Rightarrow> string" where
  "opt_to_string v = show_opt js_to_string v"

text \<open>\<open>JSON.parse\<close> converts its argument to a text first.\<close>

definition JSON_parse_value :: "json option \<Rightarrow> json result" where
  "JSON_parse_value v = JSON_parse (opt_to_string v)"

text \<open>Reading a property: a \<open>TypeError\<close> on \<open>null\<close>.\<close>

definition get_property :: "string \<Rightarrow> json \<Rightarrow> json option result" where
  "get_property k v = (case v of JNull \<Rightarrow> Inl TypeError | _ \<Rightarrow> Inr (jget k v))"

text \<open>
  The code as a number, for the comparisons; the status of a frame is a numeral of decimal
  digits, and every other text is \<open>NaN\<close> in the model.
\<close>

definition status_number :: "status \<Rightarrow> nat option" where
  "status_number c =
     (case c of
        CNum n \<Rightarrow> Some n
      | CStr s \<Rightarrow> if s \<noteq> [] \<and> list_all is_digit s then Some (read_nat s) else None)"

definition status_ok :: "status \<Rightarrow> bool" where
  "status_ok c = (case status_number c of None \<Rightarrow> False | Some n \<Rightarrow> 200 \<le> n \<and> n < 300)"

section \<open>The library\<close>

definition WS_SERVICE_PATH :: string where
  "WS_SERVICE_PATH = ''/ws-service''"

definition getLocation :: "browser \<Rightarrow> string \<Rightarrow> string" where
  "getLocation B href = anchor_pathname B href"

definition getWebsocketUri :: "browser \<Rightarrow> string \<Rightarrow> string" where
  "getWebsocketUri B endpoint =
     (let proto = (if indexOf ''https'' (toLowerCase (location_protocol B)) \<noteq> None
                   then ''wss:'' else ''ws:'')
      in proto @ ''//'' @ location_host B @ endpoint)"

definition optional_call :: "(callback \<Rightarrow> event) \<Rightarrow> callback option \<Rightarrow> connection \<Rightarrow> connection" where
  "optional_call ev f wsc = (case f of None \<Rightarrow> wsc | Some f \<Rightarrow> emit (ev f) wsc)"

text \<open>The body of the closure of \<open>createService\<close>.\<close>

definition create_done ::
  "callback \<Rightarrow> callback option \<Rightarrow> callback option \<Rightarrow> status \<Rightarrow> string option \<Rightarrow>
   connection \<Rightarrow> connection \<times> jserror option" where
  "create_done handle onServiceReady onFailure code body me =
     (if status_ok code then
        (case JSON_parse_value (Some (case body of None \<Rightarrow> JNull | Some s \<Rightarrow> JStr s)) of
           Inl e \<Rightarrow> (me, Some e)
         | Inr v \<Rightarrow>
             (case get_property ''uri'' v of
                Inl e \<Rightarrow> (me, Some e)
              | Inr serviceUri \<Rightarrow>
                  (let service = \<lparr>service_uri = serviceUri, handleRequest = handle\<rparr>;
                       me = me\<lparr>services := obj_set (opt_to_string serviceUri) service (services me)\<rparr>
                   in (case onServiceReady of
                         None \<Rightarrow> (me, Some TypeError)
                       | Some f \<Rightarrow> (emit (CallReady f service) me, None)))))
      else (optional_call (\<lambda>f. CallFailure f code body) onFailure me, None))"

text \<open>The body of the closures of \<open>subscribe\<close>, \<open>unsubscribe\<close> and \<open>stop\<close>.\<close>

definition service_done ::
  "callback option \<Rightarrow> callback option \<Rightarrow> status \<Rightarrow> string option \<Rightarrow>
   connection \<Rightarrow> connection \<times> jserror option" where
  "service_done onSuccess onFailure code body me =
     (if status_ok code then (optional_call CallSuccess onSuccess me, None)
      else (optional_call (\<lambda>f. CallFailure f code body) onFailure me, None))"

definition call_done ::
  "done_handler \<Rightarrow> status \<Rightarrow> string option \<Rightarrow> connection \<Rightarrow> connection \<times> jserror option" where
  "call_done h code body me =
     (let me = emit (Done h code body) me in
      case h of
        CreateDone handle onServiceReady onFailure \<Rightarrow>
          create_done handle onServiceReady onFailure code body me
      | ServiceDone onSuccess onFailure \<Rightarrow> service_done onSuccess onFailure code body me)"

definition request_text :: "nat \<Rightarrow> string \<Rightarrow> string \<Rightarrow> json option \<Rightarrow> string" where
  "request_text requestId method path body =
     show_nat requestId @ crlf @ method @ '' '' @ path @
     (case body of None \<Rightarrow> [] | Some b \<Rightarrow> crlf @ JSON_stringify b)"

definition doRequest ::
  "connection \<Rightarrow> string \<Rightarrow> string \<Rightarrow> json option \<Rightarrow> done_handler option \<Rightarrow>
   connection \<times> jserror option" where
  "doRequest wsc method path body doneHandler =
     (if \<not> ready wsc then
        (wsc\<lparr>requestQueue := requestQueue wsc @
           [\<lparr>req_method = method, req_path = path, req_body = body, req_doneHandler = doneHandler\<rparr>]\<rparr>,
         None)
      else
        (case failure wsc of
           Some f \<Rightarrow>
             (case doneHandler of
                None \<Rightarrow> (wsc, Some TypeError)
              | Some h \<Rightarrow> call_done h (CNum 500) (Some f) wsc)
         | None \<Rightarrow>
             (let requestId = requestCounter wsc;
                  wsc = wsc\<lparr>requestCounter := requestCounter wsc + 1\<rparr>;
                  wsc = emit (Send (request_text requestId method path body)) wsc
              in (case doneHandler of
                    None \<Rightarrow> (wsc, None)
                  | Some h \<Rightarrow>
                      (wsc\<lparr>doneHandlers := obj_set (show_nat requestId) h (doneHandlers wsc)\<rparr>, None)))))"

text \<open>The loop over the queue that \<open>onerror\<close> and \<open>onopen\<close> have; an exception leaves it.\<close>

fun flush_requests :: "request list \<Rightarrow> connection \<Rightarrow> connection \<times> jserror option" where
  "flush_requests [] me = (me, None)"
| "flush_requests (r # rs) me =
     (case doRequest me (req_method r) (req_path r) (req_body r) (req_doneHandler r) of
        (me', Some e) \<Rightarrow> (me', Some e)
      | (me', None) \<Rightarrow> flush_requests rs me')"

definition become_ready :: "connection \<Rightarrow> connection \<times> jserror option" where
  "become_ready me =
     (if \<not> ready me then
        (case flush_requests (requestQueue me) (me\<lparr>ready := True\<rparr>) of
           (me', Some e) \<Rightarrow> (me', Some e)
         | (me', None) \<Rightarrow> (me'\<lparr>requestQueue := []\<rparr>, None))
      else (me, None))"

definition WebSocketConnection :: "browser \<Rightarrow> string \<Rightarrow> connection" where
  "WebSocketConnection B endpoint =
     \<lparr>ready = False, onmessage_set = False, services = [], doneHandlers = [], requestCounter = 0,
      requestQueue = [], failure = None, out = [Connect (getWebsocketUri B endpoint)]\<rparr>"

definition onerror :: "string \<Rightarrow> connection \<Rightarrow> connection \<times> jserror option" where
  "onerror endpoint me =
     become_ready (me\<lparr>failure := Some (''Failed to establish a websocket connection to '' @ endpoint)\<rparr>)"

definition onopen :: "connection \<Rightarrow> connection \<times> jserror option" where
  "onopen me = become_ready (me\<lparr>onmessage_set := True\<rparr>)"

definition new_Operation :: Operation where
  "new_Operation =
     \<lparr>op_action = Some JNull, op_statusCode = 200, op_body = Some JNull, op_id = Some (JNum 0),
      oncompletion = None\<rparr>"

text \<open>The part of a frame after its first line.\<close>

definition frame_crlf :: "string \<Rightarrow> nat" where
  "frame_crlf data = (case indexOf crlf data of None \<Rightarrow> length data | Some i \<Rightarrow> i)"

definition frame_body :: "string \<Rightarrow> string option" where
  "frame_body data =
     (if frame_crlf data = length data then None else Some (drop (frame_crlf data + 2) data))"

definition onmessage_post :: "string \<Rightarrow> connection \<Rightarrow> connection \<times> jserror option" where
  "onmessage_post data me =
     (let serviceUri = substr data 5 (frame_crlf data - 5) in
      case JSON_parse_value (Some (case frame_body data of None \<Rightarrow> JNull | Some s \<Rightarrow> JStr s)) of
        Inl e \<Rightarrow> (me, Some e)
      | Inr sop \<Rightarrow>
          (case map_of (services me) serviceUri of
             None \<Rightarrow> (me, None)
           | Some service \<Rightarrow>
               (case get_property ''action'' sop of
                  Inl e \<Rightarrow> (me, Some e)
                | Inr action \<Rightarrow>
                    (case JSON_parse_value (jget ''jsonBody'' sop) of
                       Inl e \<Rightarrow> (me, Some e)
                     | Inr body \<Rightarrow>
                         (emit (CallRequest (handleRequest service)
                            (new_Operation\<lparr>op_action := action, op_id := jget ''id'' sop,
                               op_body := Some body, oncompletion := Some serviceUri\<rparr>)) me, None)))))"

definition onmessage_response :: "string \<Rightarrow> connection \<Rightarrow> connection \<times> jserror option" where
  "onmessage_response data me =
     (case indexOf '' '' data of
        None \<Rightarrow> (me, None)
      | Some spaceIndex \<Rightarrow>
          (let statusCode = substr data 0 spaceIndex;
               requestId = substr data (spaceIndex + 1) (frame_crlf data - spaceIndex - 1) in
           case map_of (doneHandlers me) requestId of
             None \<Rightarrow> (me, None)
           | Some h \<Rightarrow>
               (case call_done h (CStr statusCode) (frame_body data) me of
                  (me', Some e) \<Rightarrow> (me', Some e)
                | (me', None) \<Rightarrow>
                    (me'\<lparr>doneHandlers := obj_delete requestId (doneHandlers me')\<rparr>, None))))"

definition onmessage :: "string \<Rightarrow> connection \<Rightarrow> connection \<times> jserror option" where
  "onmessage data me =
     (if indexOf ''POST'' data = Some 0 then onmessage_post data me else onmessage_response data me)"

definition createService ::
  "callback \<Rightarrow> callback option \<Rightarrow> callback option \<Rightarrow> connection \<Rightarrow> connection \<times> jserror option" where
  "createService handle onServiceReady onFailure me =
     doRequest me ''POST'' WS_SERVICE_PATH None (Some (CreateDone handle onServiceReady onFailure))"

text \<open>A property whose value is \<open>undefined\<close> is left out by \<open>JSON.stringify\<close>.\<close>

definition opt_property :: "string \<Rightarrow> json option \<Rightarrow> (string \<times> json) list" where
  "opt_property k v = (case v of None \<Rightarrow> [] | Some x \<Rightarrow> [(k, x)])"

definition subscribe ::
  "WebSocketService \<Rightarrow> string \<Rightarrow> callback option \<Rightarrow> callback option \<Rightarrow> connection \<Rightarrow>
   connection \<times> jserror option" where
  "subscribe service serviceUri onSuccess onFailure me =
     doRequest me ''POST'' serviceUri
       (Some (JObj (opt_property ''reference'' (service_uri service) @ [(''replayState'', JBool True)])))
       (Some (ServiceDone onSuccess onFailure))"

definition unsubscribe ::
  "WebSocketService \<Rightarrow> string \<Rightarrow> callback option \<Rightarrow> callback option \<Rightarrow> connection \<Rightarrow>
   connection \<times> jserror option" where
  "unsubscribe service serviceUri onSuccess onFailure me =
     doRequest me ''DELETE'' serviceUri
       (Some (JObj (opt_property ''reference'' (service_uri service))))
       (Some (ServiceDone onSuccess onFailure))"

definition stop ::
  "browser \<Rightarrow> WebSocketService \<Rightarrow> callback option \<Rightarrow> callback option \<Rightarrow> connection \<Rightarrow>
   connection \<times> jserror option" where
  "stop B service onSuccess onFailure me =
     doRequest me ''DELETE'' (getLocation B (opt_to_string (service_uri service))) None
       (Some (ServiceDone onSuccess onFailure))"

definition response_json :: "Operation \<Rightarrow> json" where
  "response_json op =
     JObj (opt_property ''id'' (op_id op) @
       [(''responseHeaders'', JObj []), (''statusCode'', JNum (op_statusCode op))] @
       opt_property ''responseJsonBody'' (map_option (\<lambda>b. JStr (JSON_stringify b)) (op_body op)))"

text \<open>\<open>complete\<close> of an operation, and \<open>fail\<close>, of which the second definition is the one in force.\<close>

definition complete :: "browser \<Rightarrow> Operation \<Rightarrow> connection \<Rightarrow> connection \<times> jserror option" where
  "complete B op me =
     (case oncompletion op of
        None \<Rightarrow> (me, None)
      | Some serviceUri \<Rightarrow>
          doRequest me ''REPLY'' (getLocation B serviceUri) (Some (response_json op)) None)"

definition fail ::
  "browser \<Rightarrow> json option \<Rightarrow> json option \<Rightarrow> Operation \<Rightarrow> connection \<Rightarrow> connection \<times> jserror option" where
  "fail B exception body op me = complete B (op\<lparr>op_statusCode := 500, op_body := body\<rparr>) me"

end
