(* ===== verification/WebSocketProps.thy ===== *)
theory WebSocketProps
  imports WebSocketLib
begin

text \<open>
  What the connection of \<open>ws-service-lib.js\<close> promises. The locale \<open>request_channel\<close> is the
  contract between \<open>doRequest\<close> and its callers: a request that carries a done handler raises
  nothing, keeps the numbering of the requests, and its handler is either awaited or answered.
  The step relation \<open>ws_step\<close> is what can happen to a connection; its invariant is proved by
  rule induction.
\<close>

section \<open>The contract of a request\<close>

locale request_channel =
  fixes request :: "'s \<Rightarrow> 'r \<Rightarrow> 's \<times> jserror option"
    and accepts :: "'r \<Rightarrow> bool"
    and handler :: "'r \<Rightarrow> 'h"
    and awaited :: "'s \<Rightarrow> 'h multiset"
    and answered :: "'s \<Rightarrow> 'h multiset"
    and inv :: "'s \<Rightarrow> bool"
  assumes request_ok: "accepts r \<Longrightarrow> snd (request s r) = None"
    and request_inv: "inv s \<Longrightarrow> inv (fst (request s r))"
    and request_accounts: "inv s \<Longrightarrow> accepts r \<Longrightarrow>
      awaited (fst (request s r)) + answered (fst (request s r)) =
      awaited s + answered s + {#handler r#}"
begin

lemma issue_inv: "inv s \<Longrightarrow> inv (foldl (\<lambda>s r. fst (request s r)) s rs)"
  by (induction rs arbitrary: s) (auto intro: request_inv)

lemma issue_accounts:
  "inv s \<Longrightarrow> list_all accepts rs \<Longrightarrow>
   awaited (foldl (\<lambda>s r. fst (request s r)) s rs) + answered (foldl (\<lambda>s r. fst (request s r)) s rs) =
   awaited s + answered s + mset (map handler rs)"
proof (induction rs arbitrary: s)
  case (Cons r rs)
  then show ?case using request_inv [of s r] request_accounts [of s r] by (simp add: ac_simps)
qed simp

end

section \<open>Observations of a connection\<close>

text \<open>The frames sent, the done handlers called, and the ones still to be called.\<close>

definition sent :: "connection \<Rightarrow> string list" where
  "sent c = concat (map (\<lambda>e. case e of Send t \<Rightarrow> [t] | _ \<Rightarrow> []) (out c))"

definition calls :: "connection \<Rightarrow> (done_handler \<times> status \<times> string option) list" where
  "calls c = concat (map (\<lambda>e. case e of Done h s b \<Rightarrow> [(h, s, b)] | _ \<Rightarrow> []) (out c))"

definition has_handler :: "request \<Rightarrow> bool" where
  "has_handler r \<longleftrightarrow> req_doneHandler r \<noteq> None"

definition ws_answered :: "connection \<Rightarrow> done_handler multiset" where
  "ws_answered c = mset (map fst (calls c))"

definition ws_awaited :: "connection \<Rightarrow> done_handler multiset" where
  "ws_awaited c = mset (map snd (doneHandlers c)) +
     mset (concat (map (\<lambda>r. case_option [] (\<lambda>h. [h]) (req_doneHandler r)) (requestQueue c)))"

text \<open>
  The requests are numbered in the order of their frames, and a handler waits under the number
  of a frame that was sent.
\<close>

definition ids_ok :: "connection \<Rightarrow> bool" where
  "ids_ok c \<longleftrightarrow>
     length (sent c) = requestCounter c \<and>
     (\<forall>i < length (sent c). starts_with (show_nat i @ crlf) (sent c ! i)) \<and>
     distinct (map fst (doneHandlers c)) \<and>
     fst ` set (doneHandlers c) \<subseteq> show_nat ` {..<requestCounter c}"

lemma sent_emit [simp]:
  "sent (emit (Send t) c) = sent c @ [t]" "sent (emit (Done h s b) c) = sent c"
  "sent (emit (CallReady f w) c) = sent c" "sent (emit (CallSuccess f) c) = sent c"
  "sent (emit (CallFailure f s b) c) = sent c" "sent (emit (CallRequest f op) c) = sent c"
  by (simp_all add: sent_def emit_def)

lemma calls_emit [simp]:
  "calls (emit (Send t) c) = calls c" "calls (emit (Done h s b) c) = calls c @ [(h, s, b)]"
  "calls (emit (CallReady f w) c) = calls c" "calls (emit (CallSuccess f) c) = calls c"
  "calls (emit (CallFailure f s b) c) = calls c" "calls (emit (CallRequest f op) c) = calls c"
  by (simp_all add: calls_def emit_def)

lemma emit_fields [simp]:
  "ready (emit e c) = ready c" "onmessage_set (emit e c) = onmessage_set c"
  "services (emit e c) = services c" "doneHandlers (emit e c) = doneHandlers c"
  "requestCounter (emit e c) = requestCounter c" "requestQueue (emit e c) = requestQueue c"
  "failure (emit e c) = failure c" "out (emit e c) = out c @ [e]"
  by (simp_all add: emit_def)

lemma obs_update [simp]:
  "sent (c\<lparr>ready := a\<rparr>) = sent c" "sent (c\<lparr>services := b\<rparr>) = sent c"
  "sent (c\<lparr>doneHandlers := d\<rparr>) = sent c" "sent (c\<lparr>requestCounter := n\<rparr>) = sent c"
  "sent (c\<lparr>requestQueue := q\<rparr>) = sent c" "sent (c\<lparr>failure := f\<rparr>) = sent c"
  "sent (c\<lparr>onmessage_set := a\<rparr>) = sent c"
  "calls (c\<lparr>ready := a\<rparr>) = calls c" "calls (c\<lparr>services := b\<rparr>) = calls c"
  "calls (c\<lparr>doneHandlers := d\<rparr>) = calls c" "calls (c\<lparr>requestCounter := n\<rparr>) = calls c"
  "calls (c\<lparr>requestQueue := q\<rparr>) = calls c" "calls (c\<lparr>failure := f\<rparr>) = calls c"
  "calls (c\<lparr>onmessage_set := a\<rparr>) = calls c"
  by (simp_all add: sent_def calls_def)

section \<open>Calling a done handler\<close>

text \<open>A call of a done handler changes the services and the trace only, and sends nothing.\<close>

lemma call_done_fields [simp]:
  "ready (fst (call_done h s b c)) = ready c"
  "onmessage_set (fst (call_done h s b c)) = onmessage_set c"
  "doneHandlers (fst (call_done h s b c)) = doneHandlers c"
  "requestCounter (fst (call_done h s b c)) = requestCounter c"
  "requestQueue (fst (call_done h s b c)) = requestQueue c"
  "failure (fst (call_done h s b c)) = failure c"
  "sent (fst (call_done h s b c)) = sent c"
  "calls (fst (call_done h s b c)) = calls c @ [(h, s, b)]"
  by (auto simp: call_done_def create_done_def service_done_def optional_call_def Let_def
      split: done_handler.splits option.splits sum.splits)

lemma call_done_requests:
  "CallRequest f op \<in> set (out (fst (call_done h s b c))) \<longleftrightarrow> CallRequest f op \<in> set (out c)"
  by (auto simp: call_done_def create_done_def service_done_def optional_call_def Let_def
      split: done_handler.splits option.splits sum.splits)

lemma call_done_failure [simp]: "snd (call_done h (CNum 500) b c) = None"
  by (simp add: call_done_def create_done_def service_done_def status_ok_def status_number_def
      Let_def split: done_handler.splits)

section \<open>The channel of the library\<close>

abbreviation do_request :: "connection \<Rightarrow> request \<Rightarrow> connection \<times> jserror option" where
  "do_request c r \<equiv> doRequest c (req_method r) (req_path r) (req_body r) (req_doneHandler r)"

lemma doRequest_queue:
  "\<not> ready c \<Longrightarrow> do_request c r = (c\<lparr>requestQueue := requestQueue c @ [r]\<rparr>, None)"
  by (simp add: doRequest_def)

lemma doRequest_fields [simp]:
  "ready (fst (doRequest c m p b h)) = ready c"
  "onmessage_set (fst (doRequest c m p b h)) = onmessage_set c"
  "failure (fst (doRequest c m p b h)) = failure c"
  "ready c \<Longrightarrow> requestQueue (fst (doRequest c m p b h)) = requestQueue c"
  by (auto simp: doRequest_def Let_def split: option.splits)

lemma doRequest_requests:
  "CallRequest f op \<in> set (out (fst (doRequest c m p b h))) \<longleftrightarrow> CallRequest f op \<in> set (out c)"
  by (auto simp: doRequest_def Let_def call_done_requests split: option.splits)

lemma doRequest_ok: "h \<noteq> None \<Longrightarrow> snd (doRequest c m p b h) = None"
  by (auto simp: doRequest_def Let_def split: option.splits)

lemma fresh_key: "ids_ok c \<Longrightarrow> show_nat (requestCounter c) \<notin> fst ` set (doneHandlers c)"
  by (auto simp: ids_ok_def)

lemma ids_ok_send:
  assumes "ids_ok c"
  shows "ids_ok (emit (Send (request_text (requestCounter c) m p b))
           (c\<lparr>requestCounter := Suc (requestCounter c)\<rparr>))"
proof -
  have "starts_with (show_nat n @ crlf) (request_text n m p b)" for n
    unfolding request_text_def by (metis append_assoc starts_with_append)
  moreover have "length (sent c) = requestCounter c" using assms by (simp add: ids_ok_def)
  ultimately show ?thesis
    using assms unfolding ids_ok_def
    by (auto simp: nth_append less_Suc_eq image_subset_iff lessThan_Suc)
qed

lemma ids_ok_doRequest: "ids_ok c \<Longrightarrow> ids_ok (fst (doRequest c m p b h))"
proof (cases "ready c \<and> failure c = None")
  case True
  assume c: "ids_ok c"
  let ?n = "requestCounter c"
  let ?d = "emit (Send (request_text ?n m p b)) (c\<lparr>requestCounter := Suc ?n\<rparr>)"
  have d: "ids_ok ?d" using ids_ok_send [OF c] .
  show ?thesis
  proof (cases h)
    case (Some h')
    have "obj_set (show_nat ?n) h' (doneHandlers c) = doneHandlers c @ [(show_nat ?n, h')]"
      by (rule obj_set_fresh [OF fresh_key [OF c]])
    then have "ids_ok (?d\<lparr>doneHandlers := obj_set (show_nat ?n) h' (doneHandlers c)\<rparr>)"
      using d fresh_key [OF c] by (auto simp: ids_ok_def)
    then show ?thesis using True Some by (simp add: doRequest_def Let_def)
  qed (use True d in \<open>simp add: doRequest_def Let_def\<close>)
next
  case False
  assume "ids_ok c"
  then show ?thesis
    using False by (auto simp: doRequest_def ids_ok_def split: option.splits)
qed

lemma doRequest_accounts:
  assumes "ids_ok c" "has_handler r"
  shows "ws_awaited (fst (do_request c r)) + ws_answered (fst (do_request c r)) =
         ws_awaited c + ws_answered c + {#the (req_doneHandler r)#}"
proof -
  obtain h where h: "req_doneHandler r = Some h" using assms(2) by (auto simp: has_handler_def)
  have "obj_set (show_nat (requestCounter c)) h (doneHandlers c) =
      doneHandlers c @ [(show_nat (requestCounter c), h)]"
    by (rule obj_set_fresh [OF fresh_key [OF assms(1)]])
  then show ?thesis
    by (cases "ready c"; cases "failure c")
      (simp_all add: h doRequest_def Let_def ws_awaited_def ws_answered_def)
qed

interpretation ws: request_channel
  do_request has_handler "\<lambda>r. the (req_doneHandler r)" ws_awaited ws_answered ids_ok
proof (unfold_locales, goal_cases)
  case (1 r s)
  then show ?case by (simp add: has_handler_def doRequest_ok)
qed (simp_all add: ids_ok_doRequest doRequest_accounts)

section \<open>Becoming ready\<close>

abbreviation issue :: "connection \<Rightarrow> request list \<Rightarrow> connection" where
  "issue \<equiv> foldl (\<lambda>c r. fst (do_request c r))"

text \<open>When every request has a handler, the loop over the queue runs to its end.\<close>

lemma flush_issue:
  "list_all has_handler rs \<Longrightarrow> flush_requests rs c = (issue c rs, None)"
proof (induction rs arbitrary: c)
  case (Cons r rs)
  then have "snd (do_request c r) = None" using ws.request_ok by simp
  with Cons show ?case by (auto split: prod.splits option.splits)
qed simp

lemma issue_fields:
  "ready (issue c rs) = ready c" "onmessage_set (issue c rs) = onmessage_set c"
  "failure (issue c rs) = failure c"
  "ready c \<Longrightarrow> requestQueue (issue c rs) = requestQueue c"
  by (induction rs arbitrary: c) auto

lemma issue_requests: "CallRequest f op \<in> set (out (issue c rs)) \<longleftrightarrow> CallRequest f op \<in> set (out c)"
  by (induction rs arbitrary: c) (auto simp: doRequest_requests)

lemma become_ready_issue:
  assumes "list_all has_handler (requestQueue c)" "\<not> ready c"
  shows "become_ready c = ((issue (c\<lparr>ready := True\<rparr>) (requestQueue c))\<lparr>requestQueue := []\<rparr>, None)"
  using assms by (simp add: become_ready_def flush_issue)

section \<open>What can happen to a connection\<close>

text \<open>
  The browser reports an error, the opening or a message; the caller creates a service, uses one
  that was created, or completes an operation that was handed to it, with a body and a status of
  its choice. The steps say nothing about an exception a handler ends with: the state it leaves
  is the next state.
\<close>

inductive ws_step :: "browser \<Rightarrow> string \<Rightarrow> connection \<Rightarrow> connection \<Rightarrow> bool" for B endpoint where
  step_error: "ws_step B endpoint c (fst (onerror endpoint c))"
| step_open: "ws_step B endpoint c (fst (onopen c))"
| step_message: "onmessage_set c \<Longrightarrow> ws_step B endpoint c (fst (onmessage data c))"
| step_create: "ws_step B endpoint c (fst (createService f g h c))"
| step_subscribe: "w \<in> snd ` set (services c) \<Longrightarrow> ws_step B endpoint c (fst (subscribe w uri g h c))"
| step_unsubscribe: "w \<in> snd ` set (services c) \<Longrightarrow> ws_step B endpoint c (fst (unsubscribe w uri g h c))"
| step_stop: "w \<in> snd ` set (services c) \<Longrightarrow> ws_step B endpoint c (fst (stop B w g h c))"
| step_complete: "CallRequest f op0 \<in> set (out c) \<Longrightarrow> oncompletion op = oncompletion op0 \<Longrightarrow>
    ws_step B endpoint c (fst (complete B op c))"
| step_fail: "CallRequest f op0 \<in> set (out c) \<Longrightarrow> oncompletion op = oncompletion op0 \<Longrightarrow>
    ws_step B endpoint c (fst (fail B e b op c))"

inductive ws_reach :: "browser \<Rightarrow> string \<Rightarrow> connection \<Rightarrow> bool" for B endpoint where
  reach_init: "ws_reach B endpoint (WebSocketConnection B endpoint)"
| reach_step: "ws_reach B endpoint c \<Longrightarrow> ws_step B endpoint c c' \<Longrightarrow> ws_reach B endpoint c'"

inductive_cases ws_stepE: "ws_step B endpoint c c'"

text \<open>
  The invariant: the numbering; a failure, a message handler or a delivered operation means that
  the connection is ready; before it is ready, nothing was sent and every queued request has a
  done handler; once it is ready, the queue is empty.
\<close>

definition ready_ok :: "connection \<Rightarrow> bool" where
  "ready_ok c \<longleftrightarrow>
     (failure c \<noteq> None \<longrightarrow> ready c) \<and> (onmessage_set c \<longrightarrow> ready c) \<and>
     ((\<exists>f op. CallRequest f op \<in> set (out c)) \<longrightarrow> ready c) \<and>
     (\<not> ready c \<longrightarrow> requestCounter c = 0) \<and>
     (ready c \<longrightarrow> requestQueue c = []) \<and> list_all has_handler (requestQueue c)"

definition ws_inv :: "connection \<Rightarrow> bool" where
  "ws_inv c \<longleftrightarrow> ids_ok c \<and> ready_ok c"

lemma inv_init: "ws_inv (WebSocketConnection B endpoint)"
  by (simp add: ws_inv_def ids_ok_def ready_ok_def WebSocketConnection_def sent_def)

lemma inv_doRequest [inv_intros]:
  assumes "ws_inv c" "h \<noteq> None \<or> ready c"
  shows "ws_inv (fst (doRequest c m p b h))"
proof -
  have "ready_ok (fst (doRequest c m p b h))"
  proof (cases "ready c")
    case True
    then show ?thesis using assms(1) by (simp add: ws_inv_def ready_ok_def)
  next
    case False
    then show ?thesis
      using assms by (auto simp: ws_inv_def ready_ok_def doRequest_def has_handler_def)
  qed
  then show ?thesis using assms(1) ids_ok_doRequest by (simp add: ws_inv_def)
qed

lemma inv_become_ready:
  assumes "ids_ok c" "list_all has_handler (requestQueue c)" "ready c \<longrightarrow> requestQueue c = []"
  shows "ws_inv (fst (become_ready c))"
proof (cases "ready c")
  case True
  then show ?thesis using assms by (simp add: become_ready_def ws_inv_def ready_ok_def)
next
  case False
  have "ids_ok (c\<lparr>ready := True\<rparr>)" using assms(1) by (simp add: ids_ok_def)
  then have "ids_ok (issue (c\<lparr>ready := True\<rparr>) (requestQueue c))" by (rule ws.issue_inv)
  then show ?thesis
    using False assms(2) by (simp add: become_ready_issue ws_inv_def ids_ok_def ready_ok_def issue_fields)
qed

lemma inv_open [inv_intros]: "ws_inv c \<Longrightarrow> ws_inv (fst (onopen c))"
  unfolding onopen_def by (rule inv_become_ready) (auto simp: ws_inv_def ids_ok_def ready_ok_def)

lemma inv_error [inv_intros]: "ws_inv c \<Longrightarrow> ws_inv (fst (onerror e c))"
  unfolding onerror_def by (rule inv_become_ready) (auto simp: ws_inv_def ids_ok_def ready_ok_def)

lemma inv_call_done: "ws_inv c \<Longrightarrow> ready c \<Longrightarrow> ws_inv (fst (call_done h s b c))"
  by (simp add: ws_inv_def ids_ok_def ready_ok_def)

lemma inv_delete: "ws_inv c \<Longrightarrow> ws_inv (c\<lparr>doneHandlers := obj_delete k (doneHandlers c)\<rparr>)"
  using distinct_obj_delete [of "doneHandlers c" k]
  by (auto simp: ws_inv_def ids_ok_def ready_ok_def obj_delete_def)

lemma inv_message [inv_intros]:
  assumes "ws_inv c" "onmessage_set c"
  shows "ws_inv (fst (onmessage data c))"
proof -
  have r: "ready c" using assms by (simp add: ws_inv_def ready_ok_def)
  have "ws_inv (fst (onmessage_post data c))"
    using assms(1) r by (auto simp: onmessage_post_def Let_def ws_inv_def ids_ok_def ready_ok_def
        split: sum.splits option.splits)
  moreover have "ws_inv (fst (onmessage_response data c))"
    using assms(1) r inv_call_done [OF assms(1) r] inv_delete
    by (auto simp: onmessage_response_def Let_def split: option.splits prod.splits)
      (metis fst_conv)+
  ultimately show ?thesis by (simp add: onmessage_def)
qed

lemma inv_step: "ws_step B endpoint c c' \<Longrightarrow> ws_inv c \<Longrightarrow> ws_inv c'"
proof (induction rule: ws_step.induct)
  case (step_complete f op0 c op)
  then have "ready c" by (auto simp: ws_inv_def ready_ok_def)
  with step_complete show ?case by (auto simp: complete_def intro: inv_intros split: option.splits)
next
  case (step_fail f op0 c op e b)
  then have "ready c" by (auto simp: ws_inv_def ready_ok_def)
  with step_fail show ?case by (auto simp: fail_def complete_def intro: inv_intros split: option.splits)
qed (auto simp: createService_def subscribe_def unsubscribe_def stop_def intro: inv_intros)

lemma reach_inv: "ws_reach B endpoint c \<Longrightarrow> ws_inv c"
  by (induction rule: ws_reach.induct) (auto intro: inv_init inv_step)

section \<open>Properties of the requests\<close>

lemma issue_sends:
  "ready c \<Longrightarrow> failure c = None \<Longrightarrow> ids_ok c \<Longrightarrow> list_all has_handler rs \<Longrightarrow>
   sent (issue c rs) = sent c @
     map (\<lambda>(i, r). request_text i (req_method r) (req_path r) (req_body r)) (enumerate (requestCounter c) rs) \<and>
   doneHandlers (issue c rs) = doneHandlers c @
     map (\<lambda>(i, r). (show_nat i, the (req_doneHandler r))) (enumerate (requestCounter c) rs) \<and>
   calls (issue c rs) = calls c"
proof (induction rs arbitrary: c)
  case (Cons r rs)
  let ?c = "fst (do_request c r)"
  obtain h where h: "req_doneHandler r = Some h" using Cons.prems(4) by (auto simp: has_handler_def)
  have "requestCounter ?c = Suc (requestCounter c)" "calls ?c = calls c"
    "sent ?c = sent c @ [request_text (requestCounter c) (req_method r) (req_path r) (req_body r)]"
    "doneHandlers ?c = doneHandlers c @ [(show_nat (requestCounter c), h)]"
    using Cons.prems(1,2) obj_set_fresh [OF fresh_key [OF Cons.prems(3)]]
    by (simp_all add: doRequest_def Let_def h)
  with Cons.IH [of ?c] Cons.prems h ids_ok_doRequest [OF Cons.prems(3)] show ?case by simp
qed simp

lemma issue_fails:
  "ready c \<Longrightarrow> failure c = Some f \<Longrightarrow> list_all has_handler rs \<Longrightarrow>
   sent (issue c rs) = sent c \<and> doneHandlers (issue c rs) = doneHandlers c \<and>
   calls (issue c rs) = calls c @ map (\<lambda>r. (the (req_doneHandler r), CNum 500, Some f)) rs"
proof (induction rs arbitrary: c)
  case (Cons r rs)
  let ?c = "fst (do_request c r)"
  obtain h where h: "req_doneHandler r = Some h" using Cons.prems(3) by (auto simp: has_handler_def)
  have "sent ?c = sent c" "doneHandlers ?c = doneHandlers c" "calls ?c = calls c @ [(h, CNum 500, Some f)]"
    using Cons.prems(1,2) by (simp_all add: doRequest_def h)
  with Cons.IH [of ?c] Cons.prems h show ?case by simp
qed simp

lemma reach_create: "ws_reach B e (fst (createService f g h (WebSocketConnection B e)))"
  by (rule reach_step [OF reach_init step_create])

lemma not_ready_create: "\<not> ready (fst (createService f g h (WebSocketConnection B e)))"
  by (simp add: createService_def WebSocketConnection_def)

text \<open>
  C1. In every state a connection can reach, the frames it sent are numbered 0, 1, 2, \<dots> in the
  order they were sent, each frame starts with its number, no two handlers wait under the same
  number, and every handler that waits does so under the number of a frame that was sent.
\<close>

theorem ws_request_ids:
  assumes "ws_reach B endpoint c"
  shows "length (sent c) = requestCounter c \<and>
    (\<forall>i < length (sent c). starts_with (show_nat i @ crlf) (sent c ! i)) \<and>
    distinct (map fst (doneHandlers c)) \<and>
    fst ` set (doneHandlers c) \<subseteq> show_nat ` {..<requestCounter c}"
  using reach_inv [OF assms] by (simp add: ws_inv_def ids_ok_def)

theorem ws_request_ids_witness:
  "\<exists>c. ws_reach \<lparr>location_protocol = ''https:'', location_host = ''h'', anchor_pathname = (\<lambda>x. x)\<rparr> ''/e'' c \<and>
     length (sent c) = 1 \<and> fst ` set (doneHandlers c) \<subseteq> show_nat ` {..<1}"
proof -
  let ?B = "\<lparr>location_protocol = ''https:'', location_host = ''h'', anchor_pathname = (\<lambda>x. x)\<rparr>"
  let ?c = "fst (onopen (fst (createService 0 (Some 1) None (WebSocketConnection ?B ''/e''))))"
  have r: "ws_reach ?B ''/e'' ?c" by (rule reach_step [OF reach_create step_open])
  have "requestCounter ?c = 1"
    by (simp add: onopen_def become_ready_def createService_def WebSocketConnection_def doRequest_def Let_def)
  then show ?thesis using ws_request_ids [OF r] r by metis
qed

text \<open>
  Before a connection is ready it has sent nothing and only collects requests, each with a
  done handler; once it is ready no request is left in the queue.
\<close>

lemma ws_queue_discipline:
  assumes "ws_reach B endpoint c"
  shows "(\<not> ready c \<longrightarrow> sent c = [] \<and> doneHandlers c = [] \<and> failure c = None) \<and>
    (ready c \<longrightarrow> requestQueue c = []) \<and>
    (\<forall>r \<in> set (requestQueue c). req_doneHandler r \<noteq> None)"
  using reach_inv [OF assms]
  by (auto simp: ws_inv_def ids_ok_def ready_ok_def has_handler_def list_all_iff)

lemma ws_queue_discipline_witness:
  "list_all (\<lambda>r. req_doneHandler r \<noteq> None) (requestQueue (fst (createService 0 (Some 1) None
      (WebSocketConnection \<lparr>location_protocol = [], location_host = ''h'', anchor_pathname = (\<lambda>x. x)\<rparr> ''/e''))))"
  using ws_queue_discipline [OF reach_create] unfolding list_all_iff by blast

text \<open>
  C3. When the socket opens, the requests collected so far go out in the order they were made,
  numbered from 0, each done handler is registered under the number of its request, the queue is
  emptied, no done handler is called and no exception is raised.
\<close>

theorem onopen_flushes:
  assumes "ws_reach B endpoint c" "\<not> ready c"
  shows "snd (onopen c) = None \<and> requestQueue (fst (onopen c)) = [] \<and> ready (fst (onopen c)) \<and>
    calls (fst (onopen c)) = calls c \<and>
    sent (fst (onopen c)) =
      map (\<lambda>(i, r). request_text i (req_method r) (req_path r) (req_body r)) (enumerate 0 (requestQueue c)) \<and>
    doneHandlers (fst (onopen c)) =
      map (\<lambda>(i, r). (show_nat i, the (req_doneHandler r))) (enumerate 0 (requestQueue c))"
proof -
  let ?c = "c\<lparr>onmessage_set := True\<rparr>"
  have inv: "ws_inv c" using reach_inv [OF assms(1)] .
  then have q: "list_all has_handler (requestQueue ?c)" "\<not> ready ?c" "requestCounter c = 0"
    "failure c = None" "sent c = []" "doneHandlers c = []"
    using assms(2) by (auto simp: ws_inv_def ready_ok_def ids_ok_def)
  have "ids_ok (?c\<lparr>ready := True\<rparr>)" using inv by (simp add: ws_inv_def ids_ok_def)
  from issue_sends [OF _ _ this q(1)] show ?thesis
    unfolding onopen_def become_ready_issue [OF q(1,2)]
    using q by (simp add: issue_fields)
qed

theorem onopen_flushes_witness:
  "snd (onopen (fst (createService 0 (Some 1) None
      (WebSocketConnection \<lparr>location_protocol = [], location_host = ''h'', anchor_pathname = (\<lambda>x. x)\<rparr> ''/e'')))) = None"
  using onopen_flushes [OF reach_create not_ready_create] by blast

text \<open>
  C4. When the socket fails before it opened, the done handler of every collected request is
  called once, in the order of the requests, with the code 500 and the failure message; nothing
  is sent, the queue is emptied and no exception is raised.
\<close>

theorem onerror_fails_queue:
  assumes "ws_reach B endpoint c" "\<not> ready c"
  shows "snd (onerror endpoint c) = None \<and> requestQueue (fst (onerror endpoint c)) = [] \<and>
    sent (fst (onerror endpoint c)) = [] \<and>
    calls (fst (onerror endpoint c)) = calls c @
      map (\<lambda>r. (the (req_doneHandler r), CNum 500,
        Some (''Failed to establish a websocket connection to '' @ endpoint))) (requestQueue c)"
proof -
  let ?f = "''Failed to establish a websocket connection to '' @ endpoint"
  let ?c = "c\<lparr>failure := Some ?f\<rparr>"
  have "ws_inv c" using reach_inv [OF assms(1)] .
  then have q: "list_all has_handler (requestQueue ?c)" "\<not> ready ?c" "sent c = []"
    using assms(2) by (auto simp: ws_inv_def ready_ok_def ids_ok_def)
  from issue_fails [of "?c\<lparr>ready := True\<rparr>" ?f, OF _ _ q(1)] show ?thesis
    unfolding onerror_def become_ready_issue [OF q(1,2)] using q(3) by simp
qed

theorem onerror_fails_queue_witness:
  "sent (fst (onerror ''/e'' (fst (createService 0 (Some 1) None
      (WebSocketConnection \<lparr>location_protocol = [], location_host = ''h'', anchor_pathname = (\<lambda>x. x)\<rparr> ''/e''))))) = []"
  using onerror_fails_queue [OF reach_create not_ready_create] by blast

text \<open>
  C5. Becoming ready, by the opening of the socket or by its failure, neither loses nor repeats a
  done handler: the handlers that are awaited and the ones that were called are together the same
  multiset as before.
\<close>

theorem become_ready_conserves:
  assumes "ws_reach B endpoint c"
  shows "ws_awaited (fst (onopen c)) + ws_answered (fst (onopen c)) = ws_awaited c + ws_answered c \<and>
    ws_awaited (fst (onerror endpoint c)) + ws_answered (fst (onerror endpoint c)) =
      ws_awaited c + ws_answered c"
proof -
  have inv: "ws_inv c" using reach_inv [OF assms] .
  have hs: "list_all has_handler rs \<Longrightarrow>
      concat (map (\<lambda>r. case_option [] (\<lambda>h. [h]) (req_doneHandler r)) rs) = map (\<lambda>r. the (req_doneHandler r)) rs" for rs
    by (induction rs) (auto simp: has_handler_def)
  have main: "ws_awaited (fst (become_ready d)) + ws_answered (fst (become_ready d)) = ws_awaited d + ws_answered d"
    if d: "ids_ok d" "list_all has_handler (requestQueue d)" for d
  proof (cases "ready d")
    case False
    let ?i = "issue (d\<lparr>ready := True\<rparr>) (requestQueue d)"
    have "ids_ok (d\<lparr>ready := True\<rparr>)" using d(1) by (simp add: ids_ok_def)
    from ws.issue_accounts [OF this d(2)]
    have "mset (map snd (doneHandlers ?i)) + ws_answered ?i = ws_awaited d + ws_answered d"
      using hs [OF d(2)] by (simp add: ws_awaited_def issue_fields ws_answered_def ac_simps)
    then show ?thesis
      unfolding become_ready_issue [OF d(2) False] by (simp add: ws_awaited_def ws_answered_def)
  qed (simp add: become_ready_def)
  have "ids_ok (c\<lparr>onmessage_set := True\<rparr>)" "ids_ok (c\<lparr>failure := f\<rparr>)" "list_all has_handler (requestQueue c)" for f
    using inv by (simp_all add: ws_inv_def ids_ok_def ready_ok_def)
  then show ?thesis
    unfolding onopen_def onerror_def by (simp add: main) (simp add: ws_awaited_def ws_answered_def)
qed

theorem become_ready_conserves_witness:
  "ws_awaited (fst (onopen (fst (createService 0 (Some 1) None
      (WebSocketConnection \<lparr>location_protocol = [], location_host = ''h'', anchor_pathname = (\<lambda>x. x)\<rparr> ''/e''))))) =
   {#CreateDone 0 (Some 1) None#}"
proof -
  let ?B = "\<lparr>location_protocol = [], location_host = ''h'', anchor_pathname = (\<lambda>x. x)\<rparr>"
  let ?c = "fst (createService 0 (Some 1) None (WebSocketConnection ?B ''/e''))"
  have c: "ws_awaited ?c = {#CreateDone 0 (Some 1) None#}" "calls ?c = []"
    by (simp_all add: createService_def WebSocketConnection_def doRequest_def ws_awaited_def calls_def)
  have "calls (fst (onopen ?c)) = calls ?c"
    by (simp add: onopen_def become_ready_def createService_def WebSocketConnection_def doRequest_def Let_def
        calls_def)
  then show ?thesis
    using become_ready_conserves [OF reach_create [of ?B "''/e''" 0 "Some 1" None]] c
    by (simp add: ws_answered_def)
qed

end
