(* ===== verification/WebSocketMessages.thy ===== *)
theory WebSocketMessages
  imports WebSocketProps
begin

text \<open>
  What \<open>onmessage\<close>, \<open>complete\<close> and \<open>fail\<close> of \<open>ws-service-lib.js\<close> do with the frames of the node: a
  response reaches the handler of its request once, a request reaches its service, and the reply
  carries the id of the request and its body.
\<close>

section \<open>Cutting frames\<close>

lemma indexOf_crlf: "CHR 0x0D \<notin> set u \<Longrightarrow> indexOf crlf (u @ crlf @ v) = Some (length u)"
  by (induction u) (auto simp: crlf_def)

lemma indexOf_no_crlf: "CHR 0x0D \<notin> set u \<Longrightarrow> indexOf crlf u = None"
  by (induction u) (auto simp: crlf_def)

definition frame :: "string \<Rightarrow> string option \<Rightarrow> string" where
  "frame line body = line @ (case body of None \<Rightarrow> [] | Some b \<Rightarrow> crlf @ b)"

lemma frame_cut:
  assumes "CHR 0x0D \<notin> set line"
  shows "frame_crlf (frame line body) = length line" "frame_body (frame line body) = body"
proof -
  show crlf: "frame_crlf (frame line body) = length line"
    using assms by (cases body) (simp_all add: frame_def frame_crlf_def indexOf_crlf indexOf_no_crlf)
  show "frame_body (frame line body) = body"
    unfolding frame_body_def crlf by (cases body) (simp_all add: frame_def crlf_def)
qed

lemma digits_no [simp]:
  "CHR 0x0D \<notin> set (show_nat n)" "CHR '' '' \<notin> set (show_nat n)" "CHR ''P'' \<notin> set (show_nat n)"
  by (auto simp: is_digit_def dest!: show_nat_digits)

text \<open>The frame of a response: the status, the number of the request and the body.\<close>

definition response_frame :: "nat \<Rightarrow> nat \<Rightarrow> string option \<Rightarrow> string" where
  "response_frame code i body = frame (show_nat code @ '' '' @ show_nat i) body"

lemma response_cut:
  "indexOf '' '' (response_frame code i body) = Some (length (show_nat code))"
  "frame_crlf (response_frame code i body) = length (show_nat code @ '' '' @ show_nat i)"
  "frame_body (response_frame code i body) = body"
  "indexOf ''POST'' (response_frame code i body) \<noteq> Some 0"
proof -
  have tw: "takeWhile (\<lambda>x. x \<noteq> CHR '' '') (show_nat code @ CHR '' '' # r) = show_nat code" for r
    by (subst takeWhile_append2) auto
  show "indexOf '' '' (response_frame code i body) = Some (length (show_nat code))"
    by (simp add: response_frame_def frame_def indexOf_char tw)
  show "frame_crlf (response_frame code i body) = length (show_nat code @ '' '' @ show_nat i)"
    "frame_body (response_frame code i body) = body"
    unfolding response_frame_def by (rule frame_cut; simp)+
  obtain d ds where "show_nat code = d # ds" by (meson neq_Nil_conv show_nat_nonempty)
  moreover have "d \<noteq> CHR ''P''" using calculation digits_no(3) [of code] by auto
  ultimately show "indexOf ''POST'' (response_frame code i body) \<noteq> Some 0"
    by (simp add: response_frame_def frame_def)
qed

lemma onmessage_response_frame:
  "onmessage (response_frame code i body) c =
     (case map_of (doneHandlers c) (show_nat i) of
        None \<Rightarrow> (c, None)
      | Some h \<Rightarrow>
          (case call_done h (CStr (show_nat code)) body c of
             (c', Some e) \<Rightarrow> (c', Some e)
           | (c', None) \<Rightarrow> (c'\<lparr>doneHandlers := obj_delete (show_nat i) (doneHandlers c')\<rparr>, None)))"
proof -
  have "substr (response_frame code i body) 0 (length (show_nat code)) = show_nat code"
    "substr (response_frame code i body) (length (show_nat code) + 1)
       (frame_crlf (response_frame code i body) - length (show_nat code) - 1) = show_nat i"
    unfolding response_cut by (simp_all add: substr_def response_frame_def frame_def)
  then show ?thesis
    using response_cut(4) [of code i body]
    by (cases "map_of (doneHandlers c) (show_nat i)")
      (simp_all add: onmessage_def onmessage_response_def Let_def response_cut(1,2,3))
qed

section \<open>Properties of the responses\<close>

text \<open>
  The done handler of a response raises in one case: the handler of \<open>createService\<close>, called with a
  success status, when the body is no JSON text or is \<open>null\<close>, or when there is no callback for the
  ready service.
\<close>

definition body_no_service :: "string option \<Rightarrow> bool" where
  "body_no_service body =
     (case JSON_parse (case body of None \<Rightarrow> ''null'' | Some t \<Rightarrow> t) of Inl _ \<Rightarrow> True | Inr v \<Rightarrow> v = JNull)"

lemma create_done_raises:
  "snd (create_done f r g (CStr (show_nat code)) body c) \<noteq> None \<longleftrightarrow>
     200 \<le> code \<and> code < 300 \<and> (r = None \<or> body_no_service body)"
proof -
  have ok: "status_ok (CStr (show_nat code)) \<longleftrightarrow> 200 \<le> code \<and> code < 300"
    by (auto simp: status_ok_def status_number_def list_all_iff dest: show_nat_digits)
  have read: "JSON_parse_value (Some (case body of None \<Rightarrow> JNull | Some s \<Rightarrow> JStr s)) =
      JSON_parse (case body of None \<Rightarrow> ''null'' | Some t \<Rightarrow> t)"
    by (simp add: JSON_parse_value_def opt_to_string_def show_opt_def split: option.splits)
  show ?thesis
    unfolding create_done_def ok read body_no_service_def
    by (auto simp: get_property_def Let_def split: option.splits sum.splits json.splits)
qed

lemma call_done_raises:
  "snd (call_done h (CStr (show_nat code)) body c) \<noteq> None \<longleftrightarrow>
     (\<exists>f r g. h = CreateDone f r g \<and> 200 \<le> code \<and> code < 300 \<and> (r = None \<or> body_no_service body))"
  by (cases h)
    (simp_all add: call_done_def Let_def service_done_def create_done_raises del: not_None_eq not_Some_eq)

text \<open>
  C2. A response is delivered to the handler of its request: if a handler waits under the number
  in the frame, it is the handler that is called, once, with the status and the body of the frame.
  When the call raises nothing the handler no longer waits, and a further response with the
  same number, whatever its status and body, changes nothing. When the call raises, the exception
  leaves \<open>onmessage\<close> and the handler still waits; that happens exactly for the handler of
  \<open>createService\<close> with a status from 200 to 299 when there is no callback for the ready service or
  the body is no JSON text or is \<open>null\<close>. The callbacks of the caller are events of the trace and raise
  nothing themselves.
\<close>

theorem response_delivered_once:
  assumes "map_of (doneHandlers c) (show_nat i) = Some h"
  shows "\<exists>c' e. onmessage (response_frame code i body) c = (c', e) \<and>
    calls c' = calls c @ [(h, CStr (show_nat code), body)] \<and>
    doneHandlers c' = (if e = None then obj_delete (show_nat i) (doneHandlers c) else doneHandlers c) \<and>
    (e = None \<longrightarrow> onmessage (response_frame code' i body') c' = (c', None)) \<and>
    (e \<noteq> None \<longleftrightarrow> (\<exists>f r g. h = CreateDone f r g \<and> 200 \<le> code \<and> code < 300 \<and>
       (r = None \<or> body_no_service body)))"
proof -
  obtain d e where d: "call_done h (CStr (show_nat code)) body c = (d, e)" by fastforce
  then have fields: "doneHandlers d = doneHandlers c" "calls d = calls c @ [(h, CStr (show_nat code), body)]"
    using call_done_fields(3,8) [of h "CStr (show_nat code)" body c] by simp_all
  have raises: "e \<noteq> None \<longleftrightarrow> (\<exists>f r g. h = CreateDone f r g \<and> 200 \<le> code \<and> code < 300 \<and>
      (r = None \<or> body_no_service body))"
    using call_done_raises [of h code body c] d by simp
  have gone: "map_of (obj_delete (show_nat i) (doneHandlers c)) (show_nat i) = None"
    by (simp add: map_of_obj_delete)
  show ?thesis
  proof (cases e)
    case None
    then have "onmessage (response_frame code i body) c =
        (d\<lparr>doneHandlers := obj_delete (show_nat i) (doneHandlers c)\<rparr>, None)"
      using assms d fields by (simp add: onmessage_response_frame)
    then show ?thesis
      using None fields raises gone by (simp add: onmessage_response_frame [of code' i body'])
  next
    case (Some x)
    then have "onmessage (response_frame code i body) c = (d, Some x)"
      using assms d by (simp add: onmessage_response_frame)
    then show ?thesis using Some fields raises by simp
  qed
qed

definition sample_browser :: browser where
  "sample_browser = \<lparr>location_protocol = ''http:'', location_host = ''h'', anchor_pathname = (\<lambda>x. x)\<rparr>"

definition opened_connection :: connection where
  "opened_connection = fst (onopen (fst (createService 4 (Some 5) (Some 6) (WebSocketConnection sample_browser ''/e''))))"

theorem response_delivered_once_witness:
  "map_of (doneHandlers opened_connection) (show_nat 0) = Some (CreateDone 4 (Some 5) (Some 6)) \<and>
   (\<exists>c' e. onmessage (response_frame 404 0 None) opened_connection = (c', e) \<and>
      calls c' = calls opened_connection @ [(CreateDone 4 (Some 5) (Some 6), CStr (show_nat 404), None)] \<and>
      onmessage (response_frame 201 0 None) c' = (c', None))"
proof -
  have h: "map_of (doneHandlers opened_connection) (show_nat 0) = Some (CreateDone 4 (Some 5) (Some 6))"
    by code_simp
  from response_delivered_once [OF this, of 404 None 201 None] h show ?thesis by auto
qed

text \<open>
  C14. A created service gets the requests sent to its link: of a \<open>POST\<close> frame whose body parses to
  an object, whatever members it has and in whatever order, the request handler of the service is
  called with a new operation that has the action and the id of the object, its \<open>jsonBody\<close>
  parsed, and the status 200, and completes to the link of the service. A link without a
  service changes nothing; a \<open>jsonBody\<close> that is missing or is no JSON text raises, and no handler is
  called.
\<close>

theorem request_dispatched:
  assumes "CHR 0x0D \<notin> set uri" "JSON_parse t = Inr (JObj kvs)"
  shows "onmessage (frame (''POST '' @ uri) (Some t)) c =
    (case map_of (services c) uri of
       None \<Rightarrow> (c, None)
     | Some service \<Rightarrow>
         (case map_of kvs ''jsonBody'' of
            None \<Rightarrow> (c, Some SyntaxError)
          | Some u \<Rightarrow>
              (case JSON_parse (js_to_string u) of
                 Inl e \<Rightarrow> (c, Some e)
               | Inr body \<Rightarrow>
                   (emit (CallRequest (handleRequest service)
                      \<lparr>op_action = map_of kvs ''action'', op_statusCode = 200, op_body = Some body,
                       op_id = map_of kvs ''id'', oncompletion = Some uri\<rparr>) c, None))))"
proof -
  let ?f = "frame (''POST '' @ uri) (Some t)"
  have cut: "frame_crlf ?f = 5 + length uri" "frame_body ?f = Some t"
    using frame_cut [of "''POST '' @ uri"] assms(1) by simp_all
  have "substr ?f 5 (frame_crlf ?f - 5) = uri"
    unfolding cut by (simp add: substr_def frame_def)
  moreover have "indexOf ''POST'' ?f = Some 0" by (simp add: frame_def)
  moreover have "JSON_parse ''undefined'' = Inl SyntaxError" by code_simp
  ultimately show ?thesis
    using assms(2) cut(2)
    by (simp add: onmessage_def onmessage_post_def Let_def JSON_parse_value_def opt_to_string_def
        show_opt_def get_property_def jget_def new_Operation_def split: option.splits sum.splits)
qed

definition serving_connection :: connection where
  "serving_connection = fst (onmessage (response_frame 201 0 (Some (JSON_stringify (JObj [(''uri'', JStr ''/u'')])))) opened_connection)"

lemma serving_service: "map_of (services serving_connection) ''/u'' = Some \<lparr>service_uri = Some (JStr ''/u''), handleRequest = 4\<rparr>"
  by code_simp

text \<open>An operation as \<open>SerializedOperation\<close> of the node prints it.\<close>

definition sample_operation :: "(string \<times> json) list" where
  "sample_operation =
     [(''action'', JStr ''PATCH''), (''host'', JStr ''h''), (''port'', JNum 8000), (''path'', JStr ''/u''),
      (''id'', JNum 17), (''referer'', JStr ''http://h''), (''jsonBody'', JStr ''{ \"n\": 3 }''),
      (''statusCode'', JNum 200), (''options'', JArr [JStr ''REMOTE'']),
      (''documentVersion'', JNum 0), (''documentExpirationTimeMicros'', JNum 0)]"

theorem request_dispatched_witness:
  "onmessage (frame (''POST '' @ ''/u'') (Some (JSON_stringify (JObj sample_operation)))) serving_connection =
    (emit (CallRequest 4
       \<lparr>op_action = Some (JStr ''PATCH''), op_statusCode = 200, op_body = Some (JObj [(''n'', JNum 3)]),
        op_id = Some (JNum 17), oncompletion = Some ''/u''\<rparr>) serving_connection, None)"
proof -
  have "JSON_parse (JSON_stringify (JObj sample_operation)) = Inr (JObj sample_operation)"
    by (rule parse_stringify) (simp add: sample_operation_def)
  moreover have "JSON_parse ''{ \"n\": 3 }'' = Inr (JObj [(''n'', JNum 3)])" by code_simp
  ultimately show ?thesis
    using request_dispatched [of "''/u''" _ sample_operation serving_connection]
    by (simp add: serving_service) (simp add: sample_operation_def)
qed

section \<open>Properties of the replies\<close>

lemma json_ok_response:
  assumes "\<forall>i \<in> set_option (op_id op). json_ok i"
  shows "json_ok (response_json op)"
  using assms by (auto simp: response_json_def opt_property_def split: option.splits)

lemma response_json_reads:
  "jget ''id'' (response_json op) = op_id op"
  "jget ''statusCode'' (response_json op) = Some (JNum (op_statusCode op))"
  "jget ''responseJsonBody'' (response_json op) = map_option (\<lambda>b. JStr (JSON_stringify b)) (op_body op)"
  by (auto simp: response_json_def jget_def opt_property_def split: option.splits)

text \<open>
  C13. Completing an operation that was handed to a service, the id and body of which have no object
  with a key twice: on an open connection one frame is sent and
  nothing else changes but the request counter, a \<open>REPLY\<close> to the path of the service under the next
  request number, for which no handler waits. Its body parses back to an
  object with the id of the operation, its status and its body printed as JSON, which parses back
  to the body of the operation. On a connection that is not ready yet the same request is put at
  the end of the queue and nothing is sent; on a failed one nothing changes and a \<open>TypeError\<close> is
  raised, since a reply has no handler to tell.
\<close>

theorem reply_frame:
  assumes "oncompletion op = Some uri"
    and "\<forall>i \<in> set_option (op_id op). json_ok i" "\<forall>b \<in> set_option (op_body op). json_ok b"
  shows "\<exists>v. complete B op c =
       (if \<not> ready c then
          (c\<lparr>requestQueue := requestQueue c @ [\<lparr>req_method = ''REPLY'', req_path = getLocation B uri,
             req_body = Some v, req_doneHandler = None\<rparr>]\<rparr>, None)
        else if failure c \<noteq> None then (c, Some TypeError)
        else
          (emit (Send (show_nat (requestCounter c) @ crlf @ ''REPLY '' @ getLocation B uri @ crlf @
             JSON_stringify v)) (c\<lparr>requestCounter := requestCounter c + 1\<rparr>), None)) \<and>
      JSON_parse (JSON_stringify v) = Inr v \<and>
      jget ''id'' v = op_id op \<and> jget ''statusCode'' v = Some (JNum (op_statusCode op)) \<and>
      (\<forall>b \<in> set_option (op_body op).
         \<exists>t. jget ''responseJsonBody'' v = Some (JStr t) \<and> JSON_parse t = Inr b)"
proof (intro exI conjI)
  show "complete B op c =
       (if \<not> ready c then
          (c\<lparr>requestQueue := requestQueue c @ [\<lparr>req_method = ''REPLY'', req_path = getLocation B uri,
             req_body = Some (response_json op), req_doneHandler = None\<rparr>]\<rparr>, None)
        else if failure c \<noteq> None then (c, Some TypeError)
        else
          (emit (Send (show_nat (requestCounter c) @ crlf @ ''REPLY '' @ getLocation B uri @ crlf @
             JSON_stringify (response_json op))) (c\<lparr>requestCounter := requestCounter c + 1\<rparr>), None))"
    using assms(1) by (auto simp: complete_def doRequest_def Let_def request_text_def)
  show "JSON_parse (JSON_stringify (response_json op)) = Inr (response_json op)"
    by (rule parse_stringify) (rule json_ok_response [OF assms(2)])
  show "\<forall>b \<in> set_option (op_body op).
      \<exists>t. jget ''responseJsonBody'' (response_json op) = Some (JStr t) \<and> JSON_parse t = Inr b"
    using assms(3) by (simp add: response_json_reads parse_stringify)
qed (simp_all add: response_json_reads)

theorem reply_frame_witness:
  "\<exists>v. complete sample_browser
       \<lparr>op_action = None, op_statusCode = 200, op_body = Some (JNum 3), op_id = Some (JNum 17), oncompletion = Some ''/u''\<rparr>
       opened_connection =
     (emit (Send (''1'' @ crlf @ ''REPLY /u'' @ crlf @ JSON_stringify v)) (opened_connection\<lparr>requestCounter := 2\<rparr>), None) \<and>
     jget ''id'' v = Some (JNum 17)"
proof -
  let ?op = "\<lparr>op_action = None, op_statusCode = 200, op_body = Some (JNum 3), op_id = Some (JNum 17), oncompletion = Some ''/u''\<rparr>"
  have "ready opened_connection" "failure opened_connection = None" "requestCounter opened_connection = 1"
    "getLocation sample_browser ''/u'' = ''/u''" "show_nat 1 = ''1''" by code_simp+
  with reply_frame [of ?op "''/u''" sample_browser opened_connection] show ?thesis
    by (auto simp: numeral_2_eq_2)
qed

text \<open>
  C39. A connection can reach a state in which completing a request that was handed to its service
  raises a \<open>TypeError\<close>: after a failure of the open socket \<open>doRequest\<close> calls the done handler of
  the reply, which is \<open>null\<close>.
\<close>

theorem reply_after_failure_throws:
  "\<exists>c f op. ws_reach sample_browser ''/e'' c \<and> CallRequest f op \<in> set (out c) \<and>
     complete sample_browser op c = (c, Some TypeError)"
proof -
  let ?f = "frame ''POST /u'' (Some (JSON_stringify (JObj [(''id'', JNum 17), (''jsonBody'', JStr ''3'')])))"
  let ?d = "fst (onmessage ?f serving_connection)"
  let ?c = "fst (onerror ''/e'' ?d)"
  let ?op = "\<lparr>op_action = None, op_statusCode = 200, op_body = Some (JNum 3), op_id = Some (JNum 17), oncompletion = Some ''/u''\<rparr>"
  have "onmessage_set opened_connection" "onmessage_set serving_connection" by code_simp+
  moreover have "ws_reach sample_browser ''/e'' opened_connection"
    unfolding opened_connection_def by (rule reach_step [OF reach_create step_open])
  ultimately have "ws_reach sample_browser ''/e'' ?c"
    unfolding serving_connection_def by (meson reach_step step_message step_error)
  moreover have "CallRequest 4 ?op \<in> set (out ?c)" by code_simp
  moreover have "ready ?c" "failure ?c \<noteq> None" by code_simp+
  then have "complete sample_browser ?op ?c = (?c, Some TypeError)"
    by (auto simp: complete_def doRequest_def)
  ultimately show ?thesis by blast
qed

text \<open>
  Of the two definitions of \<open>fail\<close> the second is in force: the exception it is called with is
  not in the reply. Failing an operation with an exception only, on an open connection, sends
  the status 500 and no body.
\<close>

lemma fail_drops_exception:
  assumes "ready c" "failure c = None" "oncompletion op = Some uri"
  shows "sent (fst (fail B (Some exception) None op c)) = sent c @
    [request_text (requestCounter c) ''REPLY'' (getLocation B uri)
       (Some (JObj (opt_property ''id'' (op_id op) @
          [(''responseHeaders'', JObj []), (''statusCode'', JNum 500)])))]"
  using assms by (simp add: fail_def complete_def doRequest_def Let_def response_json_def opt_property_def)

lemma fail_drops_exception_witness:
  "sent (fst (fail sample_browser (Some (JStr ''broken'')) None
      (new_Operation\<lparr>oncompletion := Some ''/u''\<rparr>) opened_connection)) = sent opened_connection @
    [request_text (requestCounter opened_connection) ''REPLY'' (getLocation sample_browser ''/u'')
       (Some (JObj (opt_property ''id'' (op_id (new_Operation\<lparr>oncompletion := Some ''/u''\<rparr>)) @
          [(''responseHeaders'', JObj []), (''statusCode'', JNum 500)])))]"
  by (rule fail_drops_exception) code_simp+

end
