(* ===== verification/Runtime.thy ===== *)
theory Runtime
  imports StringUtil
begin

text \<open>
  What the components of the user interface share at run time: the effects they have on the
  browser, the server and the other components, and their subscriptions. A component is a record
  that extends \<open>rt\<close>: the handle the next subscription gets, the live subscriptions, each with the
  code to run for what it delivers, and the effects performed so far, the oldest first. Handlers
  are functions on the record of the component. A response of the server and a value of a subject
  are delivered by a separate step, and only to a live subscription: an HTTP subscription ends with
  its response, a subject subscription lives until it is unsubscribed.
\<close>

section \<open>Effects\<close>

text \<open>
  The requests, with the link and the body; \<open>HttpPostBasic\<close> carries the value of an
  \<open>Authorization\<close> header as well. The header \<open>Content-Type: application/json\<close> that every
  request with a body has is left out.
\<close>

datatype http =
    HttpGet string
  | HttpPost string string
  | HttpPostBasic string string string
  | HttpPatch string string
  | HttpPut string string
  | HttpDelete string

text \<open>\<open>Navigate\<close> is \<open>router.navigate\<close> with its array of commands.\<close>

datatype 'e effect =
    Request http
  | RequestAll "http list"
  | Notify "Notification list"
  | Navigate "string list"
  | Publish 'e

text \<open>The error a failed request is reported with.\<close>

record server_error =
  err_statusCode :: "int option"
  err_message :: "string option"

definition error_text :: "string \<Rightarrow> server_error \<Rightarrow> string" where
  "error_text s err =
     s @ '': ['' @ show_opt show_int (err_statusCode err) @ ''] '' @ show_opt (\<lambda>x. x) (err_message err)"

text \<open>\<open>notificationService.set([{type: 'ERROR', messages: [m]}])\<close>.\<close>

definition error_notification :: "string \<Rightarrow> server_error \<Rightarrow> Notification list" where
  "error_notification s err = [\<lparr>notificationType = ''ERROR'', messages = [error_text s err]\<rparr>]"

section \<open>Subscriptions\<close>

record ('c, 'e) rt =
  nextHandle :: nat
  live :: "(nat \<times> 'c) list"
  effects :: "'e effect list"

definition new_rt :: "('c, 'e) rt" where
  "new_rt = \<lparr>nextHandle = 0, live = [], effects = []\<rparr>"

definition perform :: "'e effect \<Rightarrow> ('c, 'e, 'm) rt_scheme \<Rightarrow> ('c, 'e, 'm) rt_scheme" where
  "perform e s = s\<lparr>effects := effects s @ [e]\<rparr>"

text \<open>The handle the subscription gets is the \<open>nextHandle\<close> of the state before.\<close>

definition subscribe_rt :: "'c \<Rightarrow> ('c, 'e, 'm) rt_scheme \<Rightarrow> ('c, 'e, 'm) rt_scheme" where
  "subscribe_rt cb s = s\<lparr>nextHandle := Suc (nextHandle s), live := live s @ [(nextHandle s, cb)]\<rparr>"

text \<open>\<open>if (!_.isUndefined(sub)) sub.unsubscribe()\<close>.\<close>

definition unsubscribe_rt :: "nat option \<Rightarrow> ('c, 'e, 'm) rt_scheme \<Rightarrow> ('c, 'e, 'm) rt_scheme" where
  "unsubscribe_rt sub s =
     (case sub of None \<Rightarrow> s | Some h \<Rightarrow> s\<lparr>live := filter (\<lambda>(k, _). k \<noteq> h) (live s)\<rparr>)"

text \<open>An HTTP subscription ends when its response is delivered.\<close>

definition end_rt :: "nat \<Rightarrow> ('c, 'e, 'm) rt_scheme \<Rightarrow> ('c, 'e, 'm) rt_scheme" where
  "end_rt h s = unsubscribe_rt (Some h) s"

section \<open>Lemmas\<close>

text \<open>The handles are given out in order: each live one is below the next.\<close>

definition handles_ok :: "('c, 'e, 'm) rt_scheme \<Rightarrow> bool" where
  "handles_ok s \<longleftrightarrow> distinct (map fst (live s)) \<and> (\<forall>h \<in> fst ` set (live s). h < nextHandle s)"

lemma rt_fields [simp]:
  "nextHandle (perform e s) = nextHandle s" "live (perform e s) = live s"
  "effects (perform e s) = effects s @ [e]"
  "nextHandle (subscribe_rt cb s) = Suc (nextHandle s)"
  "live (subscribe_rt cb s) = live s @ [(nextHandle s, cb)]" "effects (subscribe_rt cb s) = effects s"
  "nextHandle (unsubscribe_rt sub s) = nextHandle s" "effects (unsubscribe_rt sub s) = effects s"
  "nextHandle (end_rt h s) = nextHandle s" "effects (end_rt h s) = effects s"
  by (simp_all add: perform_def subscribe_rt_def unsubscribe_rt_def end_rt_def split: option.splits)

lemma live_unsubscribe:
  "set (live (unsubscribe_rt sub s)) = {x \<in> set (live s). Some (fst x) \<noteq> sub}"
  by (auto simp: unsubscribe_rt_def split: option.splits)

lemma live_end: "set (live (end_rt h s)) = {x \<in> set (live s). fst x \<noteq> h}"
  by (auto simp: end_rt_def live_unsubscribe)

lemma handles_ok_new: "handles_ok new_rt"
  by (simp add: handles_ok_def new_rt_def)

lemma handles_ok_perform [inv_intros]: "handles_ok s \<Longrightarrow> handles_ok (perform e s)"
  by (simp add: handles_ok_def)

lemma handles_ok_subscribe [inv_intros]: "handles_ok s \<Longrightarrow> handles_ok (subscribe_rt cb s)"
  by (force simp: handles_ok_def)

lemma distinct_map_filter: "distinct (map f xs) \<Longrightarrow> distinct (map f (filter P xs))"
  by (induction xs) auto

lemma handles_ok_unsubscribe [inv_intros]: "handles_ok s \<Longrightarrow> handles_ok (unsubscribe_rt sub s)"
  by (auto simp: handles_ok_def unsubscribe_rt_def distinct_map_filter split: option.splits)

lemma handles_ok_end [inv_intros]: "handles_ok s \<Longrightarrow> handles_ok (end_rt h s)"
  by (simp add: end_rt_def handles_ok_unsubscribe)

end
