(* ===== verification/BaseServ.thy ===== *)
theory BaseServ
  imports Runtime QueryParams DocumentLinks
begin

text \<open>
  \<open>modules/app/services/base.service.ts\<close> and \<open>modules/app/enums/url.ts\<close>: the links of the requests,
  with the forwarding to the selected node. A method of the service is the request it makes; the
  result is a sum since reading the parameters of a link may raise a \<open>URIError\<close>. The state of the
  service is what the subjects of \<open>node-selector.service.ts\<close> told it last.
\<close>

section \<open>Urls\<close>

definition API_PREFIX :: "libs \<Rightarrow> string" where
  "API_PREFIX L = (if build_type L = ''prod'' then [] else ''/api'')"

definition URL_CONFIG_SUFFIX :: string where "URL_CONFIG_SUFFIX = ''/config''"
definition URL_STATS_SUFFIX :: string where "URL_STATS_SUFFIX = ''/stats''"
definition URL_NODE_SELECTOR :: string where "URL_NODE_SELECTOR = ''/core/node-selectors''"
definition URL_Root :: string where "URL_Root = ''/core/ui/default''"
definition URL_RootPostBody :: json where
  "URL_RootPostBody = JObj [(''kind'', JStr ''com:vmware:xenon:ui:UiService:QueryRequest'')]"
definition URL_Authentication :: string where "URL_Authentication = ''/core/authn/basic''"
definition URL_CoreManagement :: string where "URL_CoreManagement = ''/core/management''"
definition URL_NodeGroup :: string where "URL_NodeGroup = ''/core/node-groups/''"
definition URL_Log :: string where "URL_Log = ''/core/management/process-log''"
definition URL_Query :: string where "URL_Query = ''/core/query-tasks''"
definition URL_QueryLocal :: string where "URL_QueryLocal = ''/core/local-query-tasks''"
definition URL_DocumentIndex :: string where "URL_DocumentIndex = ''/core/document-index''"

section \<open>The state of the service\<close>

record base =
  hostNodeId :: "string option"
  selectedNodeId :: "string option"
  selectedNodeGroupReference :: "string option"

definition new_base :: base where
  "new_base = \<lparr>hostNodeId = None, selectedNodeId = None, selectedNodeGroupReference = None\<rparr>"

text \<open>The two subscriptions of the constructor; \<^term>\<open>None\<close> is a node that is not there.\<close>

definition base_on_selected :: "libs \<Rightarrow> Node option \<Rightarrow> base \<Rightarrow> base" where
  "base_on_selected L node s =
     s\<lparr>selectedNodeId := Some (case node of None \<Rightarrow> [] | Some n \<Rightarrow> nodeId n),
       selectedNodeGroupReference := Some (case node of None \<Rightarrow> ''default''
         | Some n \<Rightarrow> linkId (parseDocumentLink L (groupReference n) []))\<rparr>"

definition base_on_host :: "Node option \<Rightarrow> base \<Rightarrow> base" where
  "base_on_host node s = s\<lparr>hostNodeId := Some (case node of None \<Rightarrow> [] | Some n \<Rightarrow> nodeId n)\<rparr>"

section \<open>Links\<close>

definition getForwardingLink :: "base \<Rightarrow> string \<Rightarrow> string \<Rightarrow> string result" where
  "getForwardingLink s targetLink query =
     (case getQueryParametersByName targetLink ''path'' of
        Inl e \<Rightarrow> Inl e
      | Inr pathInTargetLink \<Rightarrow>
          (let path = (if truthy pathInTargetLink then ''/core/query-page/'' @ the pathInTargetLink
                       else targetLink) in
           case getQueryParametersByName targetLink ''peer'' of
             Inl e \<Rightarrow> Inl e
           | Inr peerInTargetLink \<Rightarrow>
               (let peer = (if truthy peerInTargetLink then peerInTargetLink else selectedNodeId s) in
                Inr (URL_NODE_SELECTOR @ ''/'' @ show_opt (\<lambda>x. x) (selectedNodeGroupReference s) @
                  ''/forwarding?peer='' @ show_opt (\<lambda>x. x) peer @ ''&path='' @ encodeURIComponent path @
                  ''&query='' @ encodeURIComponent query @ ''&target=PEER_ID''))))"

definition append_option :: "string \<Rightarrow> string \<Rightarrow> string" where
  "append_option link odataOption =
     (if odataOption \<noteq> [] then link @ (if hasQueryParameter link then [] else ''?'') @ odataOption
      else link)"

definition get_link :: "base \<Rightarrow> string \<Rightarrow> string \<Rightarrow> bool \<Rightarrow> string result" where
  "get_link s link odataOption autoForward =
     (if autoForward \<and> selectedNodeId s \<noteq> hostNodeId s then getForwardingLink s link odataOption
      else Inr (append_option link odataOption))"

definition send_link :: "base \<Rightarrow> string \<Rightarrow> bool \<Rightarrow> string result" where
  "send_link s link autoForward =
     (if autoForward \<and> selectedNodeId s \<noteq> hostNodeId s then getForwardingLink s link [] else Inr link)"

definition map_result :: "('a \<Rightarrow> 'b) \<Rightarrow> 'a result \<Rightarrow> 'b result" where
  "map_result f r = (case r of Inl e \<Rightarrow> Inl e | Inr x \<Rightarrow> Inr (f x))"

text \<open>The results of calls made one after the other, the first exception ending them.\<close>

fun collect_results :: "'a result list \<Rightarrow> 'a list result" where
  "collect_results [] = Inr []"
| "collect_results (r # rs) = (case r of Inl e \<Rightarrow> Inl e | Inr x \<Rightarrow> map_result (\<lambda>xs. x # xs) (collect_results rs))"

section \<open>Requests\<close>

definition getDocumentInternal :: "libs \<Rightarrow> base \<Rightarrow> string \<Rightarrow> string \<Rightarrow> bool \<Rightarrow> string \<Rightarrow> http result" where
  "getDocumentInternal L s targetLink odataOption autoForward suffix =
     map_result (\<lambda>link. HttpGet (API_PREFIX L @ link))
       (get_link s (targetLink @ suffix) odataOption autoForward)"

definition getDocumentLinks :: "libs \<Rightarrow> base \<Rightarrow> string \<Rightarrow> string \<Rightarrow> bool \<Rightarrow> http result" where
  "getDocumentLinks L s targetLink odataOption autoForward =
     map_result (\<lambda>link. HttpGet (API_PREFIX L @ link)) (get_link s targetLink odataOption autoForward)"

definition getDocument :: "libs \<Rightarrow> base \<Rightarrow> string \<Rightarrow> string \<Rightarrow> bool \<Rightarrow> http result" where
  "getDocument L s targetLink odataOption autoForward =
     getDocumentInternal L s targetLink odataOption autoForward []"

definition getDocumentConfig :: "libs \<Rightarrow> base \<Rightarrow> string \<Rightarrow> bool \<Rightarrow> http result" where
  "getDocumentConfig L s targetLink autoForward =
     getDocumentInternal L s targetLink [] autoForward URL_CONFIG_SUFFIX"

definition getDocumentStats :: "libs \<Rightarrow> base \<Rightarrow> string \<Rightarrow> bool \<Rightarrow> http result" where
  "getDocumentStats L s targetLink autoForward =
     getDocumentInternal L s targetLink [] autoForward URL_STATS_SUFFIX"

fun getDocuments :: "libs \<Rightarrow> base \<Rightarrow> string list \<Rightarrow> string \<Rightarrow> bool \<Rightarrow> http list result" where
  "getDocuments L s [] odataOption autoForward = Inr []"
| "getDocuments L s (l # ls) odataOption autoForward =
     (case get_link s l odataOption autoForward of
        Inl e \<Rightarrow> Inl e
      | Inr link \<Rightarrow>
          map_result (\<lambda>rs. HttpGet (API_PREFIX L @ link) # rs) (getDocuments L s ls odataOption autoForward))"

text \<open>A document without a self link gets the link it was asked for.\<close>

definition fill_self_link :: "string \<Rightarrow> 'm ServiceDocument_scheme \<Rightarrow> 'm ServiceDocument_scheme" where
  "fill_self_link targetLink doc =
     (case documentSelfLink doc of
        None \<Rightarrow> doc\<lparr>documentSelfLink := Some targetLink\<rparr>
      | Some _ \<Rightarrow> doc)"

definition received_documents ::
  "string list \<Rightarrow> 'm ServiceDocument_scheme list \<Rightarrow> 'm ServiceDocument_scheme list" where
  "received_documents targetLinks docs = map2 fill_self_link targetLinks docs"

text \<open>A body that is a text is sent as it is, every other body as JSON.\<close>

definition body_text :: "json \<Rightarrow> string" where
  "body_text body = (case body of JStr s \<Rightarrow> s | _ \<Rightarrow> JSON_stringify body)"

definition post :: "libs \<Rightarrow> base \<Rightarrow> string \<Rightarrow> json \<Rightarrow> bool \<Rightarrow> http result" where
  "post L s targetLink body autoForward =
     map_result (\<lambda>link. HttpPost (API_PREFIX L @ link) (body_text body)) (send_link s targetLink autoForward)"

definition patch :: "libs \<Rightarrow> base \<Rightarrow> string \<Rightarrow> json \<Rightarrow> bool \<Rightarrow> http result" where
  "patch L s targetLink body autoForward =
     map_result (\<lambda>link. HttpPatch (API_PREFIX L @ link) (body_text body)) (send_link s targetLink autoForward)"

definition put :: "libs \<Rightarrow> base \<Rightarrow> string \<Rightarrow> json \<Rightarrow> bool \<Rightarrow> http result" where
  "put L s targetLink body autoForward =
     map_result (\<lambda>link. HttpPut (API_PREFIX L @ link) (body_text body)) (send_link s targetLink autoForward)"

definition delete :: "libs \<Rightarrow> base \<Rightarrow> string \<Rightarrow> bool \<Rightarrow> http result" where
  "delete L s targetLink autoForward =
     map_result (\<lambda>link. HttpDelete (API_PREFIX L @ link)) (send_link s targetLink autoForward)"

text \<open>\<open>onError\<close>: the parsed body of the response, or a text when the body is a falsy value.\<close>

definition onError_base :: "json \<Rightarrow> json" where
  "onError_base body =
     (case body of
        JNull \<Rightarrow> JStr ''Server error''
      | JBool b \<Rightarrow> if b then body else JStr ''Server error''
      | JNum n \<Rightarrow> if n \<noteq> 0 then body else JStr ''Server error''
      | JStr s \<Rightarrow> if s \<noteq> [] then body else JStr ''Server error''
      | _ \<Rightarrow> body)"

section \<open>Lemmas on the links\<close>

lemma collect_results_Inr: "collect_results rs = Inr ys \<Longrightarrow> rs = map Inr ys"
proof (induction rs arbitrary: ys)
  case (Cons r rs)
  then obtain x where x: "r = Inr x" by (cases r) auto
  with Cons.prems obtain xs where "collect_results rs = Inr xs" "ys = x # xs"
    by (cases "collect_results rs") (auto simp: map_result_def)
  with Cons.IH x show ?case by simp
qed simp

lemma plain_names [simp]:
  "pattern_plain ''path''" "pattern_plain ''peer''" "pattern_plain ''query''" "pattern_plain ''target''"
  by (simp_all add: pattern_plain_def)

lemma no_question_params:
  assumes "CHR ''?'' \<notin> set link" "CHR ''&'' \<notin> set link" "pattern_plain name"
  shows "getQueryParametersByName link name = Inr None"
proof -
  have "rx_search (query_param_rx name) 0 (link @ []) = rx_search (query_param_rx name) (length link) []"
    using assms search_skip [of link name 0 "[]"] by auto
  moreover have "rx (query_param_rx name) (length link, [], []) = []" by (simp add: rx_query_param query_literal_rx_def)
  ultimately show ?thesis
    by (simp add: getQuery_plain [OF assms(3)] rx_exec_def rx_search_miss)
qed

lemma encode_unreserved: "\<forall>c \<in> set s. uri_unreserved c \<Longrightarrow> encodeURIComponent s = s"
  by (induction s) (auto simp: encodeURIComponent_def encode_char_def)

text \<open>The forwarding link as a url with a list of parameters.\<close>

lemma forwarding_link_params:
  assumes "CHR ''?'' \<notin> set link" "CHR ''&'' \<notin> set link"
    and "selectedNodeId s = Some peer" "\<forall>c \<in> set peer. uri_unreserved c"
    and "selectedNodeGroupReference s = Some grp"
  shows "getForwardingLink s link query = Inr (query_url (URL_NODE_SELECTOR @ ''/'' @ grp @ ''/forwarding'')
    [(''peer'', peer), (''path'', link), (''query'', query), (''target'', ''PEER_ID'')])"
proof -
  have "encodeURIComponent ''PEER_ID'' = ''PEER_ID''"
    by (rule encode_unreserved) (simp add: uri_unreserved_def is_alnum_def is_upper_def)
  then show ?thesis
    using assms encode_unreserved [OF assms(4)]
    by (simp add: getForwardingLink_def no_question_params truthy_def show_opt_def query_url_def param_text_def)
qed

section \<open>Properties\<close>

lemma forwarding_reads_back:
  assumes "CHR ''?'' \<notin> set link" "CHR ''&'' \<notin> set link"
    and "selectedNodeId s = Some peer" "\<forall>c \<in> set peer. uri_unreserved c"
    and "selectedNodeGroupReference s = Some grp" "plain_key grp"
  shows "\<exists>url. getForwardingLink s link query = Inr url \<and>
    starts_with (''/core/node-selectors/'' @ grp @ ''/forwarding?'') url \<and>
    getQueryParametersByName url ''peer'' = Inr (Some peer) \<and>
    getQueryParametersByName url ''path'' = Inr (Some link) \<and>
    getQueryParametersByName url ''query'' = Inr (Some query) \<and>
    getQueryParametersByName url ''target'' = Inr (Some ''PEER_ID'')"
proof -
  let ?ps = "[(''peer'', peer), (''path'', link), (''query'', query), (''target'', ''PEER_ID'')]"
  let ?b = "URL_NODE_SELECTOR @ ''/'' @ grp @ ''/forwarding''"
  have b: "plain_key ?b" using assms(6) by (auto simp: plain_key_def URL_NODE_SELECTOR_def)
  have keys: "\<forall>p \<in> set ?ps. plain_key (fst p)" by (simp add: plain_key_def)
  have look: "plain_key name \<Longrightarrow> pattern_plain name \<Longrightarrow> getQueryParametersByName (query_url ?b ?ps) name = Inr (map_of ?ps name)" for name
    using params_lookup [OF _ keys b] by simp
  show ?thesis
    using forwarding_link_params [OF assms(1-5)] look [of "''peer''"] look [of "''path''"] look [of "''query''"]
      look [of "''target''"]
    by (intro exI [of _ "query_url ?b ?ps"]) (simp add: plain_key_def query_url_def starts_with_iff URL_NODE_SELECTOR_def)
qed

text \<open>
  C7. A request that is forwarded to the selected node goes to the forwarding service of the node
  selector of its group, and names the node, the target and its query so that they read back: the
  address begins with the path \<open>/core/node-selectors/<group>/forwarding\<close>, and its parameters \<open>peer\<close>,
  \<open>path\<close>, \<open>query\<close> and \<open>target\<close> are the id of the selected node, the link, the query and
  \<open>PEER_ID\<close>. The link has no \<open>?\<close> and no \<open>&\<close>, the query may have any characters. The id of the node and
  the name of the group are written without encoding: the id has unreserved characters only,
  the group none of \<open>? & = #\<close>.
\<close>

theorem forwarding_roundtrip:
  assumes "CHR ''?'' \<notin> set link" "CHR ''&'' \<notin> set link"
    and "selectedNodeId s = Some peer" "\<forall>c \<in> set peer. uri_unreserved c"
    and "selectedNodeGroupReference s = Some grp" "plain_key grp"
  shows "\<exists>url. getForwardingLink s link query = Inr url \<and>
    starts_with (''/core/node-selectors/'' @ grp @ ''/forwarding?'') url \<and>
    getQueryParametersByName url ''peer'' = Inr (Some peer) \<and>
    getQueryParametersByName url ''path'' = Inr (Some link) \<and>
    getQueryParametersByName url ''query'' = Inr (Some query) \<and>
    getQueryParametersByName url ''target'' = Inr (Some ''PEER_ID'')"
  using assms by (rule forwarding_reads_back)

theorem forwarding_roundtrip_witness:
  "\<exists>url. getForwardingLink \<lparr>hostNodeId = Some ''n1'', selectedNodeId = Some ''n2'', selectedNodeGroupReference = Some ''default''\<rparr>
      ''/core/examples'' ''$limit=25&$count=true'' = Inr url \<and>
    getQueryParametersByName url ''peer'' = Inr (Some ''n2'') \<and>
    getQueryParametersByName url ''path'' = Inr (Some ''/core/examples'') \<and>
    getQueryParametersByName url ''query'' = Inr (Some ''$limit=25&$count=true'') \<and>
    getQueryParametersByName url ''target'' = Inr (Some ''PEER_ID'')"
  using forwarding_roundtrip [of "''/core/examples''" "\<lparr>hostNodeId = Some ''n1'', selectedNodeId = Some ''n2'', selectedNodeGroupReference = Some ''default''\<rparr>"
    "''n2''" "''default''" "''$limit=25&$count=true''"]
  by (simp add: uri_unreserved_def is_alnum_def is_lower_def is_digit_def plain_key_def) blast

text \<open>
  Requests go to the node whose data is shown: when the selected node is the host, or the
  caller asks for no forwarding, a document is read from its own link; otherwise from the
  forwarding link of the selected node.
\<close>

lemma getDocument_target:
  "getDocument L s link [] autoForward =
     (if autoForward \<and> selectedNodeId s \<noteq> hostNodeId s
      then map_result (\<lambda>u. HttpGet (API_PREFIX L @ u)) (getForwardingLink s link [])
      else Inr (HttpGet (API_PREFIX L @ link)))"
  by (simp add: getDocument_def getDocumentInternal_def get_link_def append_option_def map_result_def)

text \<open>
  An option added to a link that already has a query is not separated from it: for a link
  \<open>base?k=v\<close> the parameter \<open>k\<close> of the link with the option added reads \<open>v\<close> followed by the option,
  for every option without the characters \<open>% & # +\<close> and a \<open>k\<close> without a meaning in a pattern.
\<close>

lemma append_option_runs_together:
  assumes "plain_key base" "odataOption \<noteq> []" "set odataOption \<inter> set ''%&#+'' = {}" "pattern_plain k"
  shows "getQueryParametersByName (append_option (query_url base [(k, v)]) odataOption) k =
         Inr (Some (v @ odataOption))"
proof -
  have "CHR ''?'' \<in> set (query_url base [(k, v)])" by (simp add: query_url_def)
  then have "append_option (query_url base [(k, v)]) odataOption =
      base @ ''?'' @ k @ ''='' @ (encodeURIComponent v @ odataOption)"
    using assms(2) by (simp add: append_option_def has_query_iff query_url_def param_text_def)
  moreover have "decodeURIComponent (encodeURIComponent v @ odataOption) = Some (v @ odataOption)"
    using assms(3) by (simp add: decode_encode_append decode_plain)
  moreover have "set (encodeURIComponent v @ odataOption) \<inter> {CHR ''&'', CHR ''#'', CHR ''+''} = {}"
    using assms(3) uri.enc_safe [of _ v] by auto
  ultimately show ?thesis using single_param [OF assms(1)] assms(2,4) by simp
qed

lemma append_option_runs_together_witness:
  "getQueryParametersByName (append_option (query_url ''/core/examples'' [(''expand'', ''true'')]) ''$limit=25'') ''expand'' =
     Inr (Some (''true'' @ ''$limit=25''))"
  by (rule append_option_runs_together) (simp_all add: plain_key_def pattern_plain_def)

text \<open>
  After a node was selected, requests are forwarded through the node group of that node: the
  group reference of the service is the last fragment of the reference of the node.
\<close>

lemma selected_group:
  assumes "\<forall>w \<in> set (p # mid @ [x, g]). CHR ''/'' \<notin> set w"
    and "groupReference n = js_join ''/'' (p # mid @ [x, g])"
  shows "selectedNodeGroupReference (base_on_selected L (Some n) s) = Some g \<and>
         selectedNodeId (base_on_selected L (Some n) s) = Some (nodeId n)"
  using default_link [OF assms(1)] assms(2) by (simp add: base_on_selected_def)

definition sample_node :: "string \<Rightarrow> string \<Rightarrow> Node" where
  "sample_node i g = ServiceDocument.extend emptyDocument
     \<lparr>groupReference = g, nodeStatus = ''AVAILABLE'', nodeOptions = [], nodeId = i,
      membershipQuorum = 1, nodeX = None, nodeY = None\<rparr>"

lemma selected_group_witness:
  "selectedNodeGroupReference (base_on_selected doc_libs (Some (sample_node ''n2'' ''http://h:8000/core/node-groups/default'')) new_base) =
     Some ''default''"
  using selected_group [of "''http:''" "[[], ''h:8000'', ''core'']" "''node-groups''" "''default''"
    "sample_node ''n2'' ''http://h:8000/core/node-groups/default''" doc_libs new_base]
  by (simp add: sample_node_def emptyDocument_def ServiceDocument.extend_def)

end
