(* ===== verification/Auth.thy ===== *)
theory Auth
  imports BaseServ
begin

text \<open>
  \<open>authentication.service.ts\<close>, \<open>authentication.guard.ts\<close> and \<open>login.component.ts\<close>: who may enter a
  view, and the way to the login page and back. The state \<open>auth\<close> of the service includes the
  local storage of the browser. \<open>diff_seconds\<close> stands for \<open>moment().diff(moment(t), 'seconds')\<close>
  with the value \<open>t\<close> read from the storage, and \<open>None\<close> is \<open>NaN\<close>, which moment documents for an
  invalid moment such as \<open>moment(null)\<close>; \<open>now_iso\<close> stands for \<open>moment().toISOString()\<close>.
\<close>

section \<open>Base64\<close>

definition base64_char :: "nat \<Rightarrow> char" where
  "base64_char n =
     (if n < 26 then char_of (65 + n) else if n < 52 then char_of (71 + n)
      else if n < 62 then char_of (n - 4) else if n = 62 then CHR ''+'' else CHR ''/'')"

fun btoa :: "string \<Rightarrow> string" where
  "btoa [] = []"
| "btoa [a] =
     (let x = of_char a * 65536 :: nat in
      [base64_char (x div 262144), base64_char (x div 4096 mod 64), CHR ''='', CHR ''=''])"
| "btoa [a, b] =
     (let x = of_char a * 65536 + of_char b * 256 :: nat in
      [base64_char (x div 262144), base64_char (x div 4096 mod 64), base64_char (x div 64 mod 64), CHR ''=''])"
| "btoa (a # b # c # s) =
     (let x = of_char a * 65536 + of_char b * 256 + of_char c :: nat in
      [base64_char (x div 262144), base64_char (x div 4096 mod 64), base64_char (x div 64 mod 64),
       base64_char (x mod 64)]) @ btoa s"

section \<open>The service\<close>

definition LAST_LOGIN_KEY :: string where "LAST_LOGIN_KEY = ''lastLogInTimeInSec''"
definition MAX_COOKIE_AGE_IN_SECONDS :: real where "MAX_COOKIE_AGE_IN_SECONDS = 3600"

record auth =
  redirectUrl :: "string option"
  isAuthorizationEnabled_auth :: "bool option"
  localStorage :: "(string \<times> string) list"

definition new_auth :: "(string \<times> string) list \<Rightarrow> auth" where
  "new_auth storage = \<lparr>redirectUrl = None, isAuthorizationEnabled_auth = None, localStorage = storage\<rparr>"

definition isCookieValid :: "(string option \<Rightarrow> real option) \<Rightarrow> auth \<Rightarrow> bool" where
  "isCookieValid diff_seconds s =
     (case diff_seconds (map_of (localStorage s) LAST_LOGIN_KEY) of
        None \<Rightarrow> True
      | Some d \<Rightarrow> \<not> (d \<ge> MAX_COOKIE_AGE_IN_SECONDS))"

text \<open>\<open>isLoggedIn\<close> knows the answer, or asks the server for it.\<close>

datatype login_check = Known bool | AskServer http

definition isLoggedIn :: "libs \<Rightarrow> (string option \<Rightarrow> real option) \<Rightarrow> auth \<Rightarrow> login_check" where
  "isLoggedIn L diff_seconds s =
     (case isAuthorizationEnabled_auth s of
        None \<Rightarrow> AskServer (HttpGet (API_PREFIX L @ URL_CoreManagement))
      | Some False \<Rightarrow> Known True
      | Some True \<Rightarrow> Known (isCookieValid diff_seconds s))"

text \<open>
  The answers of the server: the flag of the host state, or an error. The body of the error is
  \<^term>\<open>None\<close> when it is \<open>null\<close>, and reading its status raises a \<open>TypeError\<close>.
\<close>

definition on_management :: "bool option \<Rightarrow> auth \<Rightarrow> auth \<times> bool result" where
  "on_management flag s = (s\<lparr>isAuthorizationEnabled_auth := flag\<rparr>, Inr True)"

definition on_management_error ::
  "(string option \<Rightarrow> real option) \<Rightarrow> server_error option \<Rightarrow> auth \<Rightarrow> auth \<times> bool result" where
  "on_management_error diff_seconds err s =
     (case err of
        None \<Rightarrow> (s, Inl TypeError)
      | Some e \<Rightarrow>
          if err_statusCode e = Some 401 \<or> err_statusCode e = Some 403 then
            (let s = s\<lparr>isAuthorizationEnabled_auth := Some True\<rparr> in (s, Inr (isCookieValid diff_seconds s)))
          else (s, Inr False))"

definition login_request :: "libs \<Rightarrow> string \<Rightarrow> string \<Rightarrow> http" where
  "login_request L username password =
     HttpPostBasic (API_PREFIX L @ URL_Authentication)
       (JSON_stringify (JObj [(''requestType'', JStr ''LOGIN'')]))
       (''Basic '' @ btoa (username @ '':'' @ password))"

definition on_login :: "string \<Rightarrow> auth \<Rightarrow> auth" where
  "on_login now_iso s = s\<lparr>localStorage := obj_set LAST_LOGIN_KEY now_iso (localStorage s)\<rparr>"

definition logout_request :: "libs \<Rightarrow> http" where
  "logout_request L =
     HttpPost (API_PREFIX L @ URL_Authentication) (JSON_stringify (JObj [(''requestType'', JStr ''LOGOUT'')]))"

definition on_logout :: "auth \<Rightarrow> auth" where
  "on_logout s = s\<lparr>localStorage := obj_delete LAST_LOGIN_KEY (localStorage s)\<rparr>"

section \<open>The guard\<close>

text \<open>
  \<open>canActivate\<close>: what the guard does with the answer of \<open>isLoggedIn\<close>, for the view at a url. The
  result is the state, the commands of the navigation if there is one, and whether the view may be entered. \<open>canActivateChild\<close> is
  the same.
\<close>

definition canActivate :: "string \<Rightarrow> bool result \<Rightarrow> auth \<Rightarrow> auth \<times> string list \<times> bool" where
  "canActivate url answer s =
     (case answer of
        Inr loggedIn \<Rightarrow>
          if loggedIn then (s, [], True)
          else (s\<lparr>redirectUrl := Some url\<rparr>, [''/login''], False)
      | Inl _ \<Rightarrow> (s\<lparr>redirectUrl := Some url\<rparr>, [''/login''], False))"

definition canActivateChild :: "string \<Rightarrow> bool result \<Rightarrow> auth \<Rightarrow> auth \<times> string list \<times> bool" where
  "canActivateChild url answer s = canActivate url answer s"

section \<open>The login page\<close>

datatype login_cb = LoginCb

record login = "(login_cb, unit) rt" +
  auth_of :: auth
  username :: "string option"
  password :: "string option"
  validationErrorMessage :: "string option"
  isLoading_login :: bool
  loginServiceSubscription :: "nat option"

definition new_login :: "auth \<Rightarrow> login" where
  "new_login a = \<lparr>nextHandle = 0, live = [], effects = [], auth_of = a, username = None, password = None,
     validationErrorMessage = None, isLoading_login = False, loginServiceSubscription = None\<rparr>"

definition login_validate :: "login \<Rightarrow> login \<times> bool" where
  "login_validate s =
     (if \<not> truthy (username s) then
        (s\<lparr>validationErrorMessage := Some ''Username can not be empty''\<rparr>, False)
      else if \<not> truthy (password s) then
        (s\<lparr>validationErrorMessage := Some ''Password can not be empty''\<rparr>, False)
      else (s, True))"

definition onLogin :: "libs \<Rightarrow> login \<Rightarrow> login" where
  "onLogin L s =
     (case login_validate s of
        (s, False) \<Rightarrow> s
      | (s, True) \<Rightarrow>
          (let s = s\<lparr>isLoading_login := True\<rparr>;
               s = perform (Request (login_request L (the (username s)) (the (password s)))) s
           in (subscribe_rt LoginCb s)\<lparr>loginServiceSubscription := Some (nextHandle s)\<rparr>))"

definition login_next :: "string \<Rightarrow> nat \<Rightarrow> login \<Rightarrow> login" where
  "login_next now_iso h s =
     (let s = (end_rt h s)\<lparr>auth_of := on_login now_iso (auth_of s)\<rparr>;
          s = s\<lparr>validationErrorMessage := Some [], isLoading_login := False\<rparr>;
          url = (if truthy (redirectUrl (auth_of s)) then the (redirectUrl (auth_of s)) else ''/main/dashboard'')
      in perform (Navigate [url]) s)"

definition login_error :: "server_error \<Rightarrow> nat \<Rightarrow> login \<Rightarrow> login" where
  "login_error err h s =
     (end_rt h s)\<lparr>validationErrorMessage :=
        (if err_statusCode err = Some 401 \<or> err_statusCode err = Some 403
         then Some ''Invalid user name or password'' else Some ''Server error''),
      isLoading_login := False\<rparr>"

definition login_ngOnDestroy :: "login \<Rightarrow> login" where
  "login_ngOnDestroy s = unsubscribe_rt (loginServiceSubscription s) s"

section \<open>Properties\<close>

lemma refused_url: "canActivate url answer a = (a', nav, False) \<Longrightarrow> redirectUrl a' = Some url"
  by (auto simp: canActivate_def split: sum.splits if_splits)

text \<open>
  A view is entered exactly when the user counts as logged in. Otherwise, also when asking the
  server raised an exception, the url of the view is kept and the browser goes to the login page.
\<close>

lemma guard_decides:
  "canActivate url answer s =
     (if answer = Inr True then (s, [], True)
      else (s\<lparr>redirectUrl := Some url\<rparr>, [''/login''], False))"
  by (auto simp: canActivate_def split: sum.splits)

text \<open>
  The address that \<open>router.navigate([url])\<close> of Angular leads to is computed by Angular: it cuts an
  absolute command at its slashes, and every part becomes a segment of the path, encoded. The
  encoding of a segment and the address are parameters. What the theorem relies on is that the
  encoding keeps letters, digits and the other characters no url gives a meaning to, and that a
  segment has no question mark.
\<close>

abbreviation parts :: "string \<Rightarrow> string list" where
  "parts url \<equiv> js_split (CHR ''/'') url"

definition router_path :: "string \<Rightarrow> bool" where
  "router_path url \<longleftrightarrow> starts_with ''/'' url \<and> (\<exists>p \<in> set (parts url). p \<noteq> []) \<and> ''..'' \<notin> set (parts url)"

definition segments_address :: "(string \<Rightarrow> string) \<Rightarrow> string \<Rightarrow> string" where
  "segments_address segment url =
     concat (map (\<lambda>p. CHR ''/'' # segment p) (filter (\<lambda>p. p \<noteq> []) (parts url)))"

definition plain_path :: "string \<Rightarrow> bool" where
  "plain_path url \<longleftrightarrow> router_path url \<and> (\<forall>p \<in> set (tl (parts url)). p \<noteq> [] \<and> list_all uri_unreserved p)"

lemma concat_parts: "concat (map (\<lambda>p. c # p) (js_split c s)) = c # s"
  by (induction s) (auto simp: split: list.splits)

lemma plain_address:
  assumes "plain_path url" "\<forall>p. list_all uri_unreserved p \<longrightarrow> segment p = p"
  shows "segments_address segment url = url"
proof -
  obtain r where url: "url = CHR ''/'' # r"
    using assms(1) by (auto simp: plain_path_def router_path_def starts_with_iff)
  then have ps: "parts url = [] # parts r" by simp
  then have plain: "\<forall>p \<in> set (parts r). p \<noteq> [] \<and> list_all uri_unreserved p"
    using assms(1) by (simp add: plain_path_def)
  then have "segments_address segment url = concat (map (\<lambda>p. CHR ''/'' # p) (parts r))"
    unfolding segments_address_def ps using assms(2) by (auto intro!: arg_cong [where f = concat])
  then show ?thesis by (simp add: url concat_parts)
qed

text \<open>
  C38. After a login the page navigates, once, with the url of the view that was refused as its only
  command, the message is cleared and the request is over. For a url that is a plain path, segments
  of unreserved characters after slashes, Angular leads to that url; a url with a query is not
  returned to: its question mark becomes a character of a segment, and the address is another.
\<close>

theorem login_returns_to_view:
  assumes "canActivate url answer a = (a', nav, False)" "url \<noteq> []"
    and "truthy u" "truthy p"
    and router: "\<forall>v. router_path v \<longrightarrow> address [v] = segments_address segment v"
    and keeps: "\<forall>v. list_all uri_unreserved v \<longrightarrow> segment v = v"
    and no_query: "\<forall>v. CHR ''?'' \<notin> set (segment v)"
  shows "effects (login_next now 0 (onLogin L ((new_login a')\<lparr>username := u, password := p\<rparr>))) =
      [Request (login_request L (the u) (the p)), Navigate [url]] \<and>
    live (login_next now 0 (onLogin L ((new_login a')\<lparr>username := u, password := p\<rparr>))) = [] \<and>
    \<not> isLoading_login (login_next now 0 (onLogin L ((new_login a')\<lparr>username := u, password := p\<rparr>))) \<and>
    (plain_path url \<longrightarrow> address [url] = url) \<and>
    (router_path url \<and> CHR ''?'' \<in> set url \<longrightarrow> address [url] \<noteq> url)"
proof -
  have "CHR ''?'' \<notin> set (segments_address segment url)"
    using no_query by (auto simp: segments_address_def)
  moreover have "plain_path url \<longrightarrow> segments_address segment url = url"
    using plain_address keeps by blast
  ultimately have "(plain_path url \<longrightarrow> address [url] = url) \<and> (router_path url \<and> CHR ''?'' \<in> set url \<longrightarrow> address [url] \<noteq> url)"
    using router by (auto simp: plain_path_def)
  then show ?thesis
    using refused_url [OF assms(1)] assms(2-4)
    by (simp add: new_login_def onLogin_def login_validate_def login_next_def Let_def perform_def
        subscribe_rt_def end_rt_def unsubscribe_rt_def on_login_def truthy_def split: option.splits)
qed

theorem login_returns_to_view_witness:
  "effects (login_next ''t'' 0 (onLogin doc_libs ((new_login ((new_auth [])\<lparr>redirectUrl := Some ''/main/query?node=n1''\<rparr>))
      \<lparr>username := Some ''u'', password := Some ''p''\<rparr>))) =
   [Request (login_request doc_libs ''u'' ''p''), Navigate [''/main/query?node=n1'']] \<and>
   segments_address encodeURIComponent ''/main/query?node=n1'' \<noteq> ''/main/query?node=n1''"
proof -
  have "list_all uri_unreserved v \<Longrightarrow> encodeURIComponent v = v" for v
    by (rule encode_unreserved) (simp add: list_all_iff)
  moreover have "CHR ''?'' \<notin> set (encodeURIComponent v)" for v
    using uri.enc_safe [of "CHR ''?''" v] by auto
  moreover have "router_path ''/main/query?node=n1''" by code_simp
  ultimately show ?thesis
    using login_returns_to_view [of "''/main/query?node=n1''" "Inr False" "new_auth []"
      "(new_auth [])\<lparr>redirectUrl := Some ''/main/query?node=n1''\<rparr>" "[''/login'']" "Some ''u''" "Some ''p''"
      "\<lambda>cs. segments_address encodeURIComponent (hd cs)" encodeURIComponent "''t''" doc_libs]
    by (simp add: canActivate_def truthy_def)
qed

text \<open>
  C40. No login time counts as a login: once the server is known to require authorization, a user
  who never logged in, for whom the storage has no login time and moment gives no difference, is
  let into every view.
\<close>

theorem never_logged_in_is_let_in:
  assumes "diff_seconds None = None" "map_of (localStorage s) LAST_LOGIN_KEY = None"
    and "isAuthorizationEnabled_auth s = Some True"
  shows "isLoggedIn L diff_seconds s = Known True \<and>
         snd (snd (canActivate url (Inr (isCookieValid diff_seconds s)) s))"
  using assms by (simp add: isLoggedIn_def isCookieValid_def canActivate_def)

theorem never_logged_in_is_let_in_witness:
  "isLoggedIn doc_libs (\<lambda>t. map_option (\<lambda>_. 10) t) ((new_auth [])\<lparr>isAuthorizationEnabled_auth := Some True\<rparr>) = Known True"
  using never_logged_in_is_let_in [of "\<lambda>t. map_option (\<lambda>_. 10) t" "(new_auth [])\<lparr>isAuthorizationEnabled_auth := Some True\<rparr>" doc_libs]
  by (simp add: new_auth_def)

end
