(* ===== verification/Query.thy ===== *)
theory Query
  imports BaseServ
begin

text \<open>
  The query view: \<open>query-clause-nested.component.ts\<close>, \<open>query-nested.component.ts\<close>,
  \<open>query-clause.component.ts\<close>, \<open>query.component.ts\<close> and \<open>query-result-detail.component.ts\<close>.
  The clauses a user composes become a query task; the task is posted twice, first to count and
  then to query, and the result is read page by page.

  Two contracts are stated as locales: \<open>clause_tracker\<close> for the lists of clauses with their id
  counter, and \<open>paginator\<close> for the reading of pages under a lock.
\<close>

section \<open>Contracts\<close>

text \<open>
  \<open>clause_list\<close> is what all lists of clauses promise: an added clause gets the next number, and
  a removal keeps the counter unless it empties the list. \<open>clause_tracker\<close> is the stronger promise
  that a removal never changes the counter.
\<close>

locale clause_list =
  fixes ids :: "'s \<Rightarrow> int list"
    and tracker :: "'s \<Rightarrow> int"
    and add :: "'s \<Rightarrow> 's"
    and remove :: "int \<Rightarrow> 's \<Rightarrow> 's"
  assumes ids_add: "ids (add s) = ids s @ [tracker s + 1]"
    and tracker_add: "tracker (add s) = tracker s + 1"
    and ids_remove: "ids (remove i s) = filter (\<lambda>j. j \<noteq> i) (ids s)"
    and tracker_kept: "ids (remove i s) \<noteq> [] \<Longrightarrow> tracker (remove i s) = tracker s"
begin

definition tracked :: "'s \<Rightarrow> bool" where
  "tracked s \<longleftrightarrow> distinct (ids s) \<and> (\<forall>i \<in> set (ids s). i \<le> tracker s)"

lemma tracked_add: "tracked s \<Longrightarrow> tracked (add s)"
  by (force simp: tracked_def ids_add tracker_add)

lemma tracked_remove: "tracked s \<Longrightarrow> tracked (remove i s)"
  using tracker_kept [of i s] by (cases "ids (remove i s) = []") (auto simp: tracked_def ids_remove)

text \<open>Additions and removals, in any order.\<close>

fun edits :: "int option list \<Rightarrow> 's \<Rightarrow> 's" where
  "edits [] s = s"
| "edits (None # es) s = edits es (add s)"
| "edits (Some i # es) s = edits es (remove i s)"

lemma tracked_edits: "tracked s \<Longrightarrow> tracked (edits es s)"
  by (induction es s rule: edits.induct) (auto intro: tracked_add tracked_remove)

end

locale clause_tracker = clause_list +
  assumes tracker_remove: "tracker (remove i s) = tracker s"
begin

lemma removed_stays_removed:
  "i \<le> tracker s \<Longrightarrow> i \<notin> set (ids s) \<Longrightarrow> i \<notin> set (ids (edits es s))"
  by (induction es s rule: edits.induct) (auto simp: ids_add tracker_add ids_remove tracker_remove)

end

text \<open>
  Pages are read under a lock: asking for the next page while one is on its way, or when there is
  none, does nothing; otherwise one request for the next page goes out and the lock is taken.
\<close>

locale paginator =
  fixes locked :: "'s \<Rightarrow> bool"
    and next_link :: "'s \<Rightarrow> string option"
    and requested :: "'s \<Rightarrow> string list"
    and load :: "'s \<Rightarrow> 's"
  assumes load_idle: "locked s \<or> next_link s = None \<Longrightarrow> load s = s"
    and load_requests: "\<not> locked s \<Longrightarrow> next_link s = Some l \<Longrightarrow>
      locked (load s) \<and> requested (load s) = requested s @ [l]"
begin

lemma load_twice: "load (load s) = load s"
  by (metis load_idle load_requests not_None_eq)

lemma load_many: "(load ^^ Suc n) s = load s"
  by (induction n) (simp_all add: load_twice)

lemma scrolling_requests_once:
  assumes "\<not> locked s" "next_link s = Some l"
  shows "requested ((load ^^ Suc n) s) = requested s @ [l]"
  using load_requests [OF assms] load_many [of n s] by metis

end

text \<open>
  The links that are asked for when pages arrive one after the other, and the link after the last of
  them: \<open>follow l p\<close> is the link to the next page when the page \<open>p\<close> was read from \<open>l\<close>.
\<close>

fun page_links :: "(string \<Rightarrow> 'p \<Rightarrow> string option) \<Rightarrow> string \<Rightarrow> 'p list \<Rightarrow> (string list \<times> string) option" where
  "page_links follow l [] = Some ([], l)"
| "page_links follow l (p # ps) =
     (case follow l p of
        None \<Rightarrow> None
      | Some l' \<Rightarrow> map_option (\<lambda>(ls, e). (l # ls, e)) (page_links follow l' ps))"

text \<open>
  A list that is read page by page: a page that names a further one extends the list, frees the lock
  and sets the link to that one.
\<close>

locale paged_list = paginator locked next_link requested load
  for locked :: "'s \<Rightarrow> bool" and next_link :: "'s \<Rightarrow> string option" and requested :: "'s \<Rightarrow> string list"
    and load :: "'s \<Rightarrow> 's" +
  fixes listed :: "'s \<Rightarrow> string list"
    and answer :: "'p \<Rightarrow> 's \<Rightarrow> 's"
    and page_docs :: "'p \<Rightarrow> string list"
    and follow :: "string \<Rightarrow> 'p \<Rightarrow> string option"
    and ok :: "'s \<Rightarrow> bool"
  assumes load_keeps: "ok s \<Longrightarrow> ok (load s) \<and> listed (load s) = listed s \<and> next_link (load s) = next_link s"
    and answer_page: "ok s \<Longrightarrow> next_link s = Some l \<Longrightarrow> follow l p = Some l' \<Longrightarrow>
      ok (answer p s) \<and> \<not> locked (answer p s) \<and> next_link (answer p s) = Some l' \<and>
      listed (answer p s) = listed s @ page_docs p \<and> requested (answer p s) = requested s"
begin

lemma page_read:
  assumes "ok s" "\<not> locked s" "next_link s = Some l" "follow l p = Some l'"
  shows "let s' = answer p ((load ^^ Suc n) s) in
    ok s' \<and> \<not> locked s' \<and> next_link s' = Some l' \<and> listed s' = listed s @ page_docs p \<and>
    requested s' = requested s @ [l]"
  using load_requests [OF assms(2,3)] load_keeps [OF assms(1)] answer_page [of "load s" l p l'] assms(3,4)
  unfolding load_many Let_def by simp

lemma pages_read:
  assumes "ok s" "\<not> locked s" "next_link s = Some l" "page_links follow l (map snd ps) = Some (ls, e)"
  shows "let s' = fold (\<lambda>(n, p) s. answer p ((load ^^ Suc n) s)) ps s in
    listed s' = listed s @ concat (map (page_docs \<circ> snd) ps) \<and> requested s' = requested s @ ls \<and>
    next_link s' = Some e \<and> \<not> locked s'"
  using assms
proof (induction ps arbitrary: s l ls)
  case Nil
  then show ?case by simp
next
  case (Cons np ps)
  obtain n p where np: "np = (n, p)" by (cases np)
  obtain l' ls' where f: "follow l p = Some l'" "page_links follow l' (map snd ps) = Some (ls', e)" "ls = l # ls'"
    using Cons.prems(4) by (auto simp: np split: option.splits)
  have s1: "ok (answer p ((load ^^ Suc n) s))" "\<not> locked (answer p ((load ^^ Suc n) s))"
    "next_link (answer p ((load ^^ Suc n) s)) = Some l'"
    "listed (answer p ((load ^^ Suc n) s)) = listed s @ page_docs p"
    "requested (answer p ((load ^^ Suc n) s)) = requested s @ [l]"
    using page_read [OF Cons.prems(1-3) f(1), of n] unfolding Let_def by blast+
  from Cons.IH [OF s1(1-3) f(2)] s1(4,5) f(3) show ?case
    by (simp only: np fold.simps comp_def Let_def list.map concat.simps snd_conv split_conv append_assoc append_Cons append_Nil) simp
qed

end

text \<open>
  A page is the handle of its request and the result. After the link \<open>l\<close>, a page leads to the
  forwarding link of the page it names, which is not the link it was read from.
\<close>

definition page_follow :: "libs \<Rightarrow> base \<Rightarrow> string \<Rightarrow> nat \<times> ServiceDocumentQueryResult \<Rightarrow> string option" where
  "page_follow L b l p =
     (case nextPageLink (snd p) of
        None \<Rightarrow> None
      | Some m \<Rightarrow>
          if m = [] \<or> l = API_PREFIX L @ m then None
          else (case getForwardingLink b m [] of Inl e \<Rightarrow> None | Inr u \<Rightarrow> Some (API_PREFIX L @ u)))"

section \<open>Nested clauses\<close>

definition default_range :: NumericRange where
  "default_range = \<lparr>rangeType = ''DOUBLE'', rangeMin = 0, rangeMax = 0, isMinInclusive = ''true'',
     isMaxInclusive = ''true'', precisionStep = ''16''\<rparr>"

record QueryClauseNestedComponent =
  nested_id :: int
  nested_type :: string
  nested_isFirst :: bool
  nested_occurance :: string
  nested_propertyName :: string
  nested_propertyMatchType :: string
  nested_propertyValue :: string
  nested_propertyValueRange :: NumericRange

definition new_nested_clause :: "int \<Rightarrow> QueryClauseNestedComponent" where
  "new_nested_clause i = \<lparr>nested_id = i, nested_type = ''string'', nested_isFirst = False,
     nested_occurance = ''MUST_OCCUR'', nested_propertyName = [], nested_propertyMatchType = ''WILDCARD'',
     nested_propertyValue = [], nested_propertyValueRange = default_range\<rparr>"

definition string_clause :: "string \<Rightarrow> string \<Rightarrow> string \<Rightarrow> string \<Rightarrow> BooleanClause" where
  "string_clause matcht val nam occ =
     BooleanClause (Some \<lparr>propertyName = nam, propertyType = None, matchValue = Some val,
       matchType = Some matcht, termRange = None\<rparr>) (Some occ) None"

definition range_clause :: "string \<Rightarrow> NumericRange \<Rightarrow> string \<Rightarrow> BooleanClause" where
  "range_clause nam rng occ =
     BooleanClause (Some \<lparr>propertyName = nam, propertyType = None, matchValue = None,
       matchType = None, termRange = Some rng\<rparr>) (Some occ) None"

text \<open>\<^term>\<open>None\<close> is the \<open>null\<close> of an unknown type.\<close>

definition nested_getClause :: "QueryClauseNestedComponent \<Rightarrow> BooleanClause option" where
  "nested_getClause c =
     (if nested_type c = ''string'' then
        Some (string_clause (nested_propertyMatchType c) (nested_propertyValue c)
          (nested_propertyName c) (nested_occurance c))
      else if nested_type c = ''range'' then
        Some (range_clause (nested_propertyName c) (nested_propertyValueRange c) (nested_occurance c))
      else None)"

record QueryNestedComponent =
  queryClauseNestedComponents :: "QueryClauseNestedComponent list"
  nested_clauses :: "int list"
  nested_clauseIdTracker :: int

definition new_nested :: QueryNestedComponent where
  "new_nested = \<lparr>queryClauseNestedComponents = [], nested_clauses = [1], nested_clauseIdTracker = 1\<rparr>"

definition getClauses :: "QueryNestedComponent \<Rightarrow> BooleanClause option list" where
  "getClauses s = map nested_getClause (queryClauseNestedComponents s)"

definition nested_onAddClause :: "QueryNestedComponent \<Rightarrow> QueryNestedComponent" where
  "nested_onAddClause s =
     (let s = s\<lparr>nested_clauseIdTracker := nested_clauseIdTracker s + 1\<rparr>
      in s\<lparr>nested_clauses := nested_clauses s @ [nested_clauseIdTracker s]\<rparr>)"

definition nested_onDeleteClause :: "int \<Rightarrow> QueryNestedComponent \<Rightarrow> QueryNestedComponent" where
  "nested_onDeleteClause i s = s\<lparr>nested_clauses := filter (\<lambda>j. j \<noteq> i) (nested_clauses s)\<rparr>"

interpretation nested: clause_tracker
  nested_clauses nested_clauseIdTracker nested_onAddClause nested_onDeleteClause
  by unfold_locales (simp_all add: nested_onAddClause_def nested_onDeleteClause_def Let_def)

section \<open>Clauses\<close>

record QueryClauseComponent =
  queryNestedComponent :: "QueryNestedComponent option"
  clause_id :: int
  clause_type :: string
  clause_isFirst :: bool
  clause_occurance :: string
  clause_propertyName :: string
  clause_propertyMatchType :: string
  clause_propertyValue :: string
  clause_propertyValueRange :: NumericRange
  clause_sortOrder :: string

definition new_clause :: "int \<Rightarrow> QueryClauseComponent" where
  "new_clause i = \<lparr>queryNestedComponent = None, clause_id = i, clause_type = ''string'', clause_isFirst = False,
     clause_occurance = ''MUST_OCCUR'', clause_propertyName = [], clause_propertyMatchType = ''TERM'',
     clause_propertyValue = [], clause_propertyValueRange = default_range, clause_sortOrder = ''ASC''\<rparr>"

text \<open>The results of the five kinds of clauses; a sort clause is an order and a property.\<close>

datatype clause_value =
    BoolClause BooleanClause
  | SortClause string string
  | GroupClause QueryTerm
  | NullClause

definition getNestedClause :: "QueryClauseComponent \<Rightarrow> clause_value result" where
  "getNestedClause c =
     (case queryNestedComponent c of
        None \<Rightarrow> Inl TypeError
      | Some n \<Rightarrow> Inr (BoolClause (BooleanClause None (Some (clause_occurance c)) (Some (getClauses n)))))"

definition getClause :: "QueryClauseComponent \<Rightarrow> clause_value result" where
  "getClause c =
     (if clause_type c = ''string'' then
        Inr (BoolClause (string_clause (clause_propertyMatchType c) (clause_propertyValue c)
          (clause_propertyName c) (clause_occurance c)))
      else if clause_type c = ''range'' then
        Inr (BoolClause (range_clause (clause_propertyName c) (clause_propertyValueRange c) (clause_occurance c)))
      else if clause_type c = ''sort'' then Inr (SortClause (clause_sortOrder c) (clause_propertyName c))
      else if clause_type c = ''group'' then
        Inr (GroupClause \<lparr>propertyName = clause_propertyName c, propertyType = Some ''STRING'',
          matchValue = None, matchType = None, termRange = None\<rparr>)
      else if clause_type c = ''nested'' then getNestedClause c
      else Inr NullClause)"

section \<open>Query tasks as JSON\<close>

text \<open>The values in the order of their keys in the source; a property left out is not printed.\<close>

definition opt_key :: "string \<Rightarrow> json option \<Rightarrow> (string \<times> json) list" where
  "opt_key k v = (case v of None \<Rightarrow> [] | Some x \<Rightarrow> [(k, x)])"

definition range_json :: "NumericRange \<Rightarrow> json" where
  "range_json r = JObj [(''precisionStep'', JStr (precisionStep r)), (''isMaxInclusive'', JStr (isMaxInclusive r)),
     (''isMinInclusive'', JStr (isMinInclusive r)), (''max'', JNum (rangeMax r)), (''min'', JNum (rangeMin r)),
     (''type'', JStr (rangeType r))]"

definition term_json :: "QueryTerm \<Rightarrow> json" where
  "term_json t = JObj (opt_key ''matchType'' (map_option JStr (matchType t)) @
     opt_key ''matchValue'' (map_option JStr (matchValue t)) @
     [(''propertyName'', JStr (propertyName t))] @
     opt_key ''propertyType'' (map_option JStr (propertyType t)) @
     opt_key ''range'' (map_option range_json (termRange t)))"

fun clause_json :: "BooleanClause \<Rightarrow> json" where
  "clause_json (BooleanClause t occ cs) =
     JObj (opt_key ''term'' (map_option term_json t) @
       opt_key ''booleanClauses'' (map_option (\<lambda>cs. JArr (map (case_option JNull clause_json) cs)) cs) @
       opt_key ''occurance'' (map_option JStr occ))"

text \<open>
  The specification under construction: the options, the clauses, and the keys added for sorting
  and grouping in the order they are added.
\<close>

record spec =
  spec_options :: "string list"
  spec_clauses :: "json list"
  spec_extra :: "(string \<times> json) list"

definition spec_json :: "spec \<Rightarrow> json" where
  "spec_json s = JObj ([(''options'', JArr (map JStr (spec_options s))),
     (''resultLimit'', JNum (int DEFAULT_PAGE_SIZE)),
     (''query'', JObj [(''booleanClauses'', JArr (spec_clauses s)), (''occurance'', JStr ''MUST_OCCUR'')])] @
     spec_extra s)"

definition add_clause :: "QueryClauseComponent \<Rightarrow> spec \<Rightarrow> spec result" where
  "add_clause c s =
     (case getClause c of
        Inl e \<Rightarrow> Inl e
      | Inr clause \<Rightarrow>
          (case clause of
             SortClause ord property \<Rightarrow>
               Inr (s\<lparr>spec_options := spec_options s @ [''SORT''],
                  spec_extra := obj_set ''sortOrder'' (JStr ord) (obj_set ''sortTerm''
                    (JObj [(''propertyName'', JStr property), (''propertyType'', JStr ''STRING'')]) (spec_extra s))\<rparr>)
           | GroupClause t \<Rightarrow>
               Inr (s\<lparr>spec_options := spec_options s @ [''GROUP_BY''],
                  spec_extra := obj_set ''groupSortTerm'' (term_json t)
                    (obj_set ''groupByTerm'' (term_json t) (spec_extra s))\<rparr>)
           | BoolClause b \<Rightarrow> Inr (s\<lparr>spec_clauses := spec_clauses s @ [clause_json b]\<rparr>)
           | NullClause \<Rightarrow> Inr (s\<lparr>spec_clauses := spec_clauses s @ [JNull]\<rparr>)))"

fun add_clauses :: "QueryClauseComponent list \<Rightarrow> spec \<Rightarrow> spec result" where
  "add_clauses [] s = Inr s"
| "add_clauses (c # cs) s = (case add_clause c s of Inl e \<Rightarrow> Inl e | Inr s' \<Rightarrow> add_clauses cs s')"

section \<open>The query view\<close>

datatype query_cb = CountCb | QueryCb | NextPageCb

record query_options =
  queryVersionsOption :: string
  deletedDocumentInclusionOption :: string
  ownerSelectionOption :: string

record query = "(query_cb, unit) rt" +
  query_base :: base
  queryClauseComponents :: "QueryClauseComponent list"
  queryBuilderMode :: string
  interactiveQueryClauses :: "int list"
  advancedQueryTaskInput :: string
  isQueried :: bool
  clauseIdTracker :: int
  interactiveQueryOptions :: query_options
  queryTask :: "json option"
  queryResultLinks :: "string list option"
  queryResultCount :: "int option"
  selectedResultDocumentLink :: string
  queryResultNextPageLink :: "string option"
  requestResultNextPageLinkRequestLocked :: bool
  baseServiceSubscription :: "nat option"
  baseServiceGetQueryResultNextPageSubscription :: "nat option"

definition new_query :: "string \<Rightarrow> base \<Rightarrow> query" where
  "new_query sampleQueryTask b = \<lparr>nextHandle = 0, live = [], effects = [], query_base = b,
     queryClauseComponents = [], queryBuilderMode = ''interactive'', interactiveQueryClauses = [1],
     advancedQueryTaskInput = sampleQueryTask, isQueried = False, clauseIdTracker = 1,
     interactiveQueryOptions = \<lparr>queryVersionsOption = [], deletedDocumentInclusionOption = [], ownerSelectionOption = []\<rparr>,
     queryTask = None, queryResultLinks = None, queryResultCount = Some 0, selectedResultDocumentLink = [],
     queryResultNextPageLink = None, requestResultNextPageLinkRequestLocked = False,
     baseServiceSubscription = None, baseServiceGetQueryResultNextPageSubscription = None\<rparr>"

definition query_ngOnDestroy :: "query \<Rightarrow> query" where
  "query_ngOnDestroy s =
     unsubscribe_rt (baseServiceGetQueryResultNextPageSubscription s) (unsubscribe_rt (baseServiceSubscription s) s)"

text \<open>
  \<open>getSelectedResultDocumentLink\<close>: \<open>options\<close> is read without a check, and \<open>indexOf\<close> of an array or
  a text.
\<close>

definition options_include :: "json option \<Rightarrow> string \<Rightarrow> bool result" where
  "options_include opts name =
     (case opts of
        Some (JArr vs) \<Rightarrow> Inr (JStr name \<in> set vs)
      | Some (JStr s) \<Rightarrow> Inr (indexOf name s \<noteq> None)
      | _ \<Rightarrow> Inl TypeError)"

definition truthy_json :: "json option \<Rightarrow> bool" where
  "truthy_json v =
     (case v of
        None \<Rightarrow> False | Some JNull \<Rightarrow> False | Some (JBool b) \<Rightarrow> b | Some (JNum n) \<Rightarrow> n \<noteq> 0
      | Some (JStr s) \<Rightarrow> s \<noteq> [] | Some _ \<Rightarrow> True)"

definition getSelectedResultDocumentLink :: "query \<Rightarrow> string result" where
  "getSelectedResultDocumentLink s =
     (let link = selectedResultDocumentLink s;
          querySpec = Option.bind (queryTask s) (jget ''querySpec'') in
      if truthy_json (queryTask s) \<and> truthy_json querySpec then
        (case options_include (Option.bind querySpec (jget ''options'')) ''INCLUDE_ALL_VERSIONS'' of
           Inl e \<Rightarrow> Inl e
         | Inr included \<Rightarrow>
             Inr (if included \<and> indexOf ''?documentVersion'' link \<noteq> None
                  then replace_first ''?'' ''&'' link else link))
      else Inr link)"

definition isResultLinkSelected :: "string \<Rightarrow> query \<Rightarrow> bool" where
  "isResultLinkSelected l s = (selectedResultDocumentLink s = l)"

definition onQueryBuilderModeChanged :: "string \<Rightarrow> query \<Rightarrow> query" where
  "onQueryBuilderModeChanged m s = s\<lparr>queryBuilderMode := m\<rparr>"

definition onQueryVersionsOptionChanged :: "string \<Rightarrow> query \<Rightarrow> query" where
  "onQueryVersionsOptionChanged v s =
     s\<lparr>interactiveQueryOptions := (interactiveQueryOptions s)\<lparr>queryVersionsOption := v\<rparr>\<rparr>"

definition onDeletedDocumentInclusionOptionChanged :: "string \<Rightarrow> query \<Rightarrow> query" where
  "onDeletedDocumentInclusionOptionChanged v s =
     s\<lparr>interactiveQueryOptions := (interactiveQueryOptions s)\<lparr>deletedDocumentInclusionOption := v\<rparr>\<rparr>"

definition onOwnerSelectionOptionChanged :: "string \<Rightarrow> query \<Rightarrow> query" where
  "onOwnerSelectionOptionChanged v s =
     s\<lparr>interactiveQueryOptions := (interactiveQueryOptions s)\<lparr>ownerSelectionOption := v\<rparr>\<rparr>"

definition onAddClause :: "query \<Rightarrow> query" where
  "onAddClause s =
     (let s = s\<lparr>clauseIdTracker := clauseIdTracker s + 1\<rparr>
      in s\<lparr>interactiveQueryClauses := interactiveQueryClauses s @ [clauseIdTracker s]\<rparr>)"

definition onDeleteClause :: "int \<Rightarrow> query \<Rightarrow> query" where
  "onDeleteClause i s = s\<lparr>interactiveQueryClauses := filter (\<lambda>j. j \<noteq> i) (interactiveQueryClauses s)\<rparr>"

definition onClearQuery :: "query \<Rightarrow> query" where
  "onClearQuery s =
     (let s = (if queryBuilderMode s = ''interactive''
               then s\<lparr>clauseIdTracker := 1, interactiveQueryClauses := [1]\<rparr>
               else if queryBuilderMode s = ''advanced'' then s\<lparr>advancedQueryTaskInput := []\<rparr> else s)
      in s\<lparr>queryResultLinks := Some [], queryResultCount := Some 0, isQueried := False\<rparr>)"

definition getQueryOptions :: "query \<Rightarrow> string list" where
  "getQueryOptions s =
     (let opts = interactiveQueryOptions s in
      (if queryVersionsOption opts \<noteq> [] then [''INCLUDE_ALL_VERSIONS''] else []) @
      (if deletedDocumentInclusionOption opts \<noteq> [] then [''INCLUDE_DELETED''] else []) @
      (if ownerSelectionOption opts \<noteq> [] then [''OWNER_SELECTION''] else []))"

definition buildInteractiveQueryTask :: "query \<Rightarrow> json result" where
  "buildInteractiveQueryTask s =
     map_result (\<lambda>sp. JObj [(''taskInfo'', JObj [(''isDirect'', JBool True)]), (''querySpec'', spec_json sp)])
       (add_clauses (queryClauseComponents s)
          \<lparr>spec_options = getQueryOptions s, spec_clauses = [], spec_extra = []\<rparr>)"

definition buildAdvancedQueryTask :: "query \<Rightarrow> json result" where
  "buildAdvancedQueryTask s = JSON_parse (advancedQueryTaskInput s)"

text \<open>\<open>_.isEmpty\<close>.\<close>

definition json_isEmpty :: "json \<Rightarrow> bool" where
  "json_isEmpty v =
     (case v of JStr s \<Rightarrow> s = [] | JArr vs \<Rightarrow> vs = [] | JObj kvs \<Rightarrow> kvs = [] | _ \<Rightarrow> True)"

text \<open>
  The task that counts: the option \<open>COUNT\<close> is added and the limit removed. A specification that is
  not an object cannot be given options.
\<close>

definition count_spec :: "json \<Rightarrow> json result" where
  "count_spec v =
     (case v of
        JObj kvs \<Rightarrow>
          (if truthy_json (map_of kvs ''options'') then
             (case map_of kvs ''options'' of
                Some (JArr os) \<Rightarrow>
                  Inr (JObj (obj_delete ''resultLimit'' (obj_set ''options'' (JArr (os @ [JStr ''COUNT''])) kvs)))
              | _ \<Rightarrow> Inl TypeError)
           else Inr (JObj (obj_delete ''resultLimit'' (obj_set ''options'' (JArr [JStr ''COUNT'']) kvs))))
      | JArr vs \<Rightarrow> Inr (JArr vs)
      | _ \<Rightarrow> Inl TypeError)"

definition count_task :: "json \<Rightarrow> json result" where
  "count_task v =
     (case v of
        JObj kvs \<Rightarrow>
          (case map_of kvs ''querySpec'' of
             None \<Rightarrow> Inl TypeError
           | Some sp \<Rightarrow> map_result (\<lambda>sp'. JObj (obj_set ''querySpec'' sp' kvs)) (count_spec sp))
      | _ \<Rightarrow> Inl TypeError)"

text \<open>
  The text of an exception in a message. The messages of the engine are not modelled: of a
  built-in exception only its name is given.
\<close>

definition error_name :: "jserror \<Rightarrow> string" where
  "error_name e =
     (case e of TypeError \<Rightarrow> ''TypeError'' | SyntaxError \<Rightarrow> ''SyntaxError'' | URIError \<Rightarrow> ''URIError''
      | ErrorMsg m \<Rightarrow> ''Error: '' @ m)"

definition notify_invalid :: "jserror \<Rightarrow> query \<Rightarrow> query" where
  "notify_invalid e s =
     perform (Notify [\<lparr>notificationType = ''ERROR'', messages = [''Invalid query: '' @ error_name e]\<rparr>]) s"

definition build_task :: "query \<Rightarrow> json option result" where
  "build_task s =
     (if queryBuilderMode s = ''interactive'' then map_result Some (buildInteractiveQueryTask s)
      else if queryBuilderMode s = ''advanced'' then map_result Some (buildAdvancedQueryTask s)
      else Inr None)"

definition onQuery :: "libs \<Rightarrow> query \<Rightarrow> query" where
  "onQuery L s =
     (let s = s\<lparr>selectedResultDocumentLink := [], queryResultLinks := Some [], queryTask := None\<rparr> in
      case build_task s of
        Inl e \<Rightarrow> notify_invalid e s
      | Inr t \<Rightarrow>
          (let s = s\<lparr>queryTask := t\<rparr> in
           case t of
             None \<Rightarrow> notify_invalid (ErrorMsg ''The query is empty'') s
           | Some task \<Rightarrow>
               if json_isEmpty task then notify_invalid (ErrorMsg ''The query is empty'') s
               else
                 (case count_task task of
                    Inl e \<Rightarrow> notify_invalid e s
                  | Inr queryCountTask \<Rightarrow>
                      (case post L (query_base s) URL_Query queryCountTask True of
                         Inl e \<Rightarrow> notify_invalid e s
                       | Inr r \<Rightarrow>
                           (subscribe_rt CountCb (perform (Request r) s))
                             \<lparr>baseServiceSubscription := Some (nextHandle s)\<rparr>))))"

text \<open>
  The page a request for the next page is sent for. The link is there whenever it is called; an
  exception of the request leaves the lock taken.
\<close>

definition getNextPage :: "libs \<Rightarrow> query \<Rightarrow> query" where
  "getNextPage L s =
     (let s = s\<lparr>requestResultNextPageLinkRequestLocked := True\<rparr> in
      case getDocument L (query_base s) (show_opt (\<lambda>x. x) (queryResultNextPageLink s)) [] False of
        Inl e \<Rightarrow> s
      | Inr r \<Rightarrow>
          (subscribe_rt NextPageCb (perform (Request r) s))
            \<lparr>baseServiceGetQueryResultNextPageSubscription := Some (nextHandle s)\<rparr>)"

definition onLoadNextPage :: "libs \<Rightarrow> query \<Rightarrow> query" where
  "onLoadNextPage L s =
     (if queryResultNextPageLink s = None \<or> requestResultNextPageLinkRequestLocked s then s
      else getNextPage L s)"

definition onSelectQueryResult :: "string \<Rightarrow> query \<Rightarrow> query" where
  "onSelectQueryResult l s = s\<lparr>selectedResultDocumentLink := l\<rparr>"

text \<open>
  The responses. The results of a task are \<^term>\<open>None\<close> when it has none; reading one of them is
  then a \<open>TypeError\<close>, which nothing catches and which leaves the state as it is.
\<close>

definition on_count :: "libs \<Rightarrow> nat \<Rightarrow> ServiceDocumentQueryResult option \<Rightarrow> query \<Rightarrow> query" where
  "on_count L h results s =
     (let s = (end_rt h s)\<lparr>isQueried := True\<rparr> in
      case results of
        None \<Rightarrow> s
      | Some r \<Rightarrow>
          (let s = s\<lparr>queryResultCount := documentCount r\<rparr> in
           if documentCount r = Some 0 then s
           else
             (case post L (query_base s) URL_Query (case queryTask s of None \<Rightarrow> JNull | Some t \<Rightarrow> t) True of
                Inl e \<Rightarrow> s
              | Inr q \<Rightarrow> subscribe_rt QueryCb (perform (Request q) s))))"

definition on_query :: "libs \<Rightarrow> nat \<Rightarrow> ServiceDocumentQueryResult option \<Rightarrow> query \<Rightarrow> query" where
  "on_query L h results s =
     (let s = end_rt h s in
      case results of
        None \<Rightarrow> s
      | Some r \<Rightarrow>
          (let s = s\<lparr>queryResultNextPageLink := nextPageLink r\<rparr> in
           if nextPageLink r = None then s else getNextPage L s))"

definition on_next_page :: "nat \<Rightarrow> ServiceDocumentQueryResult option \<Rightarrow> query \<Rightarrow> query" where
  "on_next_page h results s =
     (let s = end_rt h s in
      case results of
        None \<Rightarrow> s
      | Some r \<Rightarrow>
          if queryResultNextPageLink s = nextPageLink r then s
          else
            (let s = s\<lparr>requestResultNextPageLinkRequestLocked := False,
                       queryResultLinks := Some (case_option [] (\<lambda>x. x) (queryResultLinks s) @ documentLinks r)\<rparr> in
             if truthy (nextPageLink r) then
               (case getForwardingLink (query_base s) (the (nextPageLink r)) [] of
                  Inl e \<Rightarrow> s
                | Inr l \<Rightarrow> s\<lparr>queryResultNextPageLink := Some l\<rparr>)
             else s))"

definition on_query_error :: "nat \<Rightarrow> server_error \<Rightarrow> query \<Rightarrow> query" where
  "on_query_error h err s = perform (Notify (error_notification ''Failed to query'' err)) (end_rt h s)"

interpretation clauses: clause_tracker
  interactiveQueryClauses clauseIdTracker onAddClause onDeleteClause
  by unfold_locales (simp_all add: onAddClause_def onDeleteClause_def Let_def)

section \<open>The detail of a result\<close>

datatype result_cb = ResultCb

record result_detail = "(result_cb, unit) rt" +
  detail_base :: base
  detail_link :: "string option"
  selectedResultDocument :: "ServiceDocumentQueryResult option"
  baseServiceGetResultSubscription :: "nat option"

definition detail_getData :: "libs \<Rightarrow> result_detail \<Rightarrow> result_detail" where
  "detail_getData L s =
     (let link = ''?documentSelfLink='' @ show_opt (\<lambda>x. x) (detail_link s) in
      case getDocument L (detail_base s) (URL_DocumentIndex @ link) [] True of
        Inl e \<Rightarrow> s
      | Inr r \<Rightarrow>
          (subscribe_rt ResultCb (perform (Request r) s))
            \<lparr>baseServiceGetResultSubscription := Some (nextHandle s)\<rparr>)"

text \<open>The change of the input: its previous and its current value, if it changed.\<close>

definition detail_ngOnChanges ::
  "libs \<Rightarrow> (string option \<times> string option) option \<Rightarrow> result_detail \<Rightarrow> result_detail" where
  "detail_ngOnChanges L change s =
     (case change of
        None \<Rightarrow> s
      | Some (previous, current) \<Rightarrow>
          if current = previous \<or> \<not> truthy current then s
          else detail_getData L (s\<lparr>detail_link := current\<rparr>))"

definition detail_ngOnDestroy :: "result_detail \<Rightarrow> result_detail" where
  "detail_ngOnDestroy s = unsubscribe_rt (baseServiceGetResultSubscription s) s"

definition detail_next :: "nat \<Rightarrow> ServiceDocumentQueryResult \<Rightarrow> result_detail \<Rightarrow> result_detail" where
  "detail_next h d s = (end_rt h s)\<lparr>selectedResultDocument := Some d\<rparr>"

definition detail_error :: "nat \<Rightarrow> server_error \<Rightarrow> result_detail \<Rightarrow> result_detail" where
  "detail_error h err s =
     perform (Notify (error_notification ''Failed to retrieve details for the selected query result'' err)) (end_rt h s)"

end
