(* ===== verification/QueryProps.thy ===== *)
theory QueryProps
  imports Query
begin

text \<open>
  What the query view promises: the ids of its clauses, the tasks it builds and posts, and the
  reading of its result page by page, with what happens at the last page, after an error and when
  a second query starts while a page is on its way.
\<close>

section \<open>The ids of the clauses\<close>

text \<open>A sequence of additions and deletions of clauses.\<close>

datatype clause_edit = AddClause | DeleteClause int

fun edit_clauses :: "clause_edit list \<Rightarrow> query \<Rightarrow> query" where
  "edit_clauses [] s = s"
| "edit_clauses (AddClause # es) s = edit_clauses es (onAddClause s)"
| "edit_clauses (DeleteClause i # es) s = edit_clauses es (onDeleteClause i s)"

lemma edit_clauses_edits:
  "edit_clauses es s = clauses.edits (map (\<lambda>e. case e of AddClause \<Rightarrow> None | DeleteClause i \<Rightarrow> Some i) es) s"
  by (induction es s rule: edit_clauses.induct) simp_all

lemma edit_clauses_append: "edit_clauses (es @ fs) s = edit_clauses fs (edit_clauses es s)"
  by (induction es s rule: edit_clauses.induct) simp_all

lemma tracked_new: "clauses.tracked (new_query t b)"
  by (simp add: clauses.tracked_def new_query_def)

text \<open>
  C18. The ids of the clauses are distinct, whatever clauses are added and deleted in a new view, and
  the id of a deleted clause is not given to a later one.
\<close>

theorem clause_ids_never_reused:
  "distinct (interactiveQueryClauses (edit_clauses es (new_query t b))) \<and>
   (i \<in> set (interactiveQueryClauses (edit_clauses es (new_query t b))) \<longrightarrow>
    i \<notin> set (interactiveQueryClauses (edit_clauses (es @ DeleteClause i # fs) (new_query t b))))"
proof -
  let ?s = "edit_clauses es (new_query t b)"
  have tr: "clauses.tracked ?s"
    unfolding edit_clauses_edits by (rule clauses.tracked_edits [OF tracked_new])
  have "i \<notin> set (interactiveQueryClauses (edit_clauses fs (onDeleteClause i ?s)))"
    if i: "i \<in> set (interactiveQueryClauses ?s)"
    unfolding edit_clauses_edits [of fs]
  proof (rule clauses.removed_stays_removed)
    show "i \<le> clauseIdTracker (onDeleteClause i ?s)"
      using tr i by (simp add: clauses.tracked_def clauses.tracker_remove)
    show "i \<notin> set (interactiveQueryClauses (onDeleteClause i ?s))"
      by (simp add: clauses.ids_remove)
  qed
  then show ?thesis
    using tr by (simp add: clauses.tracked_def edit_clauses_append)
qed

theorem clause_ids_never_reused_witness:
  "2 \<notin> set (interactiveQueryClauses (edit_clauses ([AddClause] @ DeleteClause 2 # [AddClause]) (new_query [] new_base)))"
proof -
  have "2 \<in> set (interactiveQueryClauses (edit_clauses [AddClause] (new_query [] new_base)))"
    by (simp add: onAddClause_def new_query_def Let_def)
  then show ?thesis
    using clause_ids_never_reused [of "[AddClause]" "[]" new_base 2 "[AddClause]"] by blast
qed

section \<open>The tasks\<close>

definition is_boolean :: "QueryClauseComponent \<Rightarrow> bool" where
  "is_boolean c \<longleftrightarrow> clause_type c \<in> {''string'', ''range''} \<or>
     clause_type c = ''nested'' \<and> queryNestedComponent c \<noteq> None"

definition boolean_clause :: "QueryClauseComponent \<Rightarrow> BooleanClause" where
  "boolean_clause c = (case getClause c of Inr (BoolClause b) \<Rightarrow> b | _ \<Rightarrow> BooleanClause None None None)"

lemma add_boolean:
  "is_boolean c \<Longrightarrow> add_clause c s = Inr (s\<lparr>spec_clauses := spec_clauses s @ [clause_json (boolean_clause c)]\<rparr>)"
  by (auto simp: is_boolean_def boolean_clause_def add_clause_def getClause_def getNestedClause_def split: option.splits)

lemma add_booleans:
  "list_all is_boolean cs \<Longrightarrow>
   add_clauses cs s = Inr (s\<lparr>spec_clauses := spec_clauses s @ map (\<lambda>c. clause_json (boolean_clause c)) cs\<rparr>)"
  by (induction cs arbitrary: s) (simp_all add: add_boolean)

lemma add_clause_sort:
  "clause_type c = ''sort'' \<Longrightarrow>
   add_clause c s = Inr (s\<lparr>spec_options := spec_options s @ [''SORT''],
     spec_extra := obj_set ''sortOrder'' (JStr (clause_sortOrder c)) (obj_set ''sortTerm''
       (JObj [(''propertyName'', JStr (clause_propertyName c)), (''propertyType'', JStr ''STRING'')]) (spec_extra s))\<rparr>)"
  by (simp add: add_clause_def getClause_def)

lemma add_clauses_append:
  "add_clauses (cs @ ds) s = (case add_clauses cs s of Inl e \<Rightarrow> Inl e | Inr s' \<Rightarrow> add_clauses ds s')"
  by (induction cs arbitrary: s) (auto split: sum.splits)

text \<open>
  C16. The task built from string, range and nested clauses followed by a sort clause holds the
  boolean clauses in the order of the view, the chosen options and \<open>SORT\<close>, the page size as the
  limit, and the sort term and order of the sort clause.
\<close>

theorem interactive_task:
  assumes "queryClauseComponents s = cs @ [d]" "list_all is_boolean cs" "clause_type d = ''sort''"
  shows "buildInteractiveQueryTask s = Inr (JObj [(''taskInfo'', JObj [(''isDirect'', JBool True)]),
    (''querySpec'', JObj [
      (''options'', JArr (map JStr (getQueryOptions s @ [''SORT'']))),
      (''resultLimit'', JNum 25),
      (''query'', JObj [(''booleanClauses'', JArr (map (\<lambda>c. clause_json (boolean_clause c)) cs)),
         (''occurance'', JStr ''MUST_OCCUR'')]),
      (''sortTerm'', JObj [(''propertyName'', JStr (clause_propertyName d)), (''propertyType'', JStr ''STRING'')]),
      (''sortOrder'', JStr (clause_sortOrder d))])])"
  using assms(1) by (simp add: buildInteractiveQueryTask_def add_clauses_append add_booleans [OF assms(2)]
      add_clause_sort [OF assms(3)] map_result_def spec_json_def DEFAULT_PAGE_SIZE_def)

definition sorted_query :: query where
  "sorted_query = (new_query [] new_base)\<lparr>queryClauseComponents :=
     [(new_clause 1)\<lparr>clause_propertyName := ''name'', clause_propertyValue := ''a''\<rparr>] @
     [(new_clause 2)\<lparr>clause_type := ''sort'', clause_propertyName := ''name''\<rparr>]\<rparr>"

lemma interactive_task_built: "\<exists>t. buildInteractiveQueryTask sorted_query = Inr t"
  by (simp add: sorted_query_def new_query_def buildInteractiveQueryTask_def add_clause_def getClause_def
      new_clause_def map_result_def)

theorem interactive_task_witness:
  "\<exists>t. buildInteractiveQueryTask sorted_query = Inr t"
  using interactive_task [of sorted_query "[(new_clause 1)\<lparr>clause_propertyName := ''name'', clause_propertyValue := ''a''\<rparr>]"
    "(new_clause 2)\<lparr>clause_type := ''sort'', clause_propertyName := ''name''\<rparr>"]
  by (simp add: sorted_query_def is_boolean_def new_clause_def)

text \<open>Every task of the interactive mode can be turned into a task that counts.\<close>

lemma add_clause_options:
  "add_clause c s = Inr s' \<Longrightarrow> \<exists>os. spec_options s' = spec_options s @ os"
  by (auto simp: add_clause_def split: sum.splits clause_value.splits)

lemma count_spec_json:
  "count_spec (spec_json s) = Inr (JObj (obj_delete ''resultLimit''
     (obj_set ''options'' (JArr (map JStr (spec_options s) @ [JStr ''COUNT'']))
       ((''options'', JArr (map JStr (spec_options s))) # (''resultLimit'', JNum (int DEFAULT_PAGE_SIZE)) #
        (''query'', JObj [(''booleanClauses'', JArr (spec_clauses s)), (''occurance'', JStr ''MUST_OCCUR'')]) #
        spec_extra s))))"
  by (simp add: count_spec_def spec_json_def truthy_json_def)

lemma send_plain:
  assumes "CHR ''?'' \<notin> set link" "CHR ''&'' \<notin> set link"
  shows "\<exists>u. send_link b link a = Inr u"
  using no_question_params [OF assms]
  by (simp add: send_link_def getForwardingLink_def)

text \<open>
  C15. A query in the interactive mode whose clauses are complete is always posted: it is counted
  first, by one request that carries the task with the option \<open>COUNT\<close> added as the last option and
  without the limit of the page; nothing is reported as invalid, and the former result and
  selection are cleared.
\<close>

theorem onQuery_counts_first:
  assumes "queryBuilderMode s = ''interactive''" "buildInteractiveQueryTask s = Inr t"
  shows "\<exists>options rest c link. count_task t = Inr c \<and>
    jget ''options'' (the (jget ''querySpec'' t)) = Some (JArr options) \<and>
    jget ''querySpec'' c = Some (JObj ((''options'', JArr (options @ [JStr ''COUNT''])) # rest)) \<and>
    ''resultLimit'' \<notin> fst ` set rest \<and>
    effects (onQuery L s) = effects s @ [Request (HttpPost (API_PREFIX L @ link) (JSON_stringify c))] \<and>
    queryTask (onQuery L s) = Some t \<and> queryResultLinks (onQuery L s) = Some [] \<and>
    live (onQuery L s) = live s @ [(nextHandle s, CountCb)]"
proof -
  let ?s = "s\<lparr>selectedResultDocumentLink := [], queryResultLinks := Some [], queryTask := None\<rparr>"
  obtain sp where t: "t = JObj [(''taskInfo'', JObj [(''isDirect'', JBool True)]), (''querySpec'', spec_json sp)]"
    using assms(2) by (auto simp: buildInteractiveQueryTask_def map_result_def split: sum.splits)
  let ?os = "map JStr (spec_options sp)"
  let ?rest = "obj_delete ''resultLimit'' ((''query'', JObj [(''booleanClauses'', JArr (spec_clauses sp)),
      (''occurance'', JStr ''MUST_OCCUR'')]) # spec_extra sp)"
  let ?c = "JObj [(''taskInfo'', JObj [(''isDirect'', JBool True)]),
      (''querySpec'', JObj ((''options'', JArr (?os @ [JStr ''COUNT''])) # ?rest))]"
  have c: "count_task t = Inr ?c"
    by (simp add: t count_task_def count_spec_json map_result_def obj_delete_def)
  obtain u where u: "send_link (query_base s) URL_Query True = Inr u"
    using send_plain [of URL_Query] by (auto simp: URL_Query_def)
  have b: "build_task ?s = Inr (Some t)"
    using assms by (simp add: build_task_def buildInteractiveQueryTask_def getQueryOptions_def map_result_def)
  have p: "post L (query_base s) URL_Query ?c True = Inr (HttpPost (API_PREFIX L @ u) (JSON_stringify ?c))"
    by (simp add: post_def u map_result_def body_text_def)
  have "\<not> json_isEmpty t" by (simp add: t json_isEmpty_def)
  with b c p have on: "onQuery L s = (subscribe_rt CountCb (perform (Request (HttpPost (API_PREFIX L @ u) (JSON_stringify ?c)))
      (?s\<lparr>queryTask := Some t\<rparr>)))\<lparr>baseServiceSubscription := Some (nextHandle s)\<rparr>"
    by (simp add: onQuery_def Let_def)
  have "jget ''options'' (the (jget ''querySpec'' t)) = Some (JArr ?os)"
    "jget ''querySpec'' ?c = Some (JObj ((''options'', JArr (?os @ [JStr ''COUNT''])) # ?rest))"
    by (simp_all add: t jget_def spec_json_def)
  moreover have "''resultLimit'' \<notin> fst ` set ?rest" by (auto simp: obj_delete_def)
  moreover have "effects (onQuery L s) = effects s @ [Request (HttpPost (API_PREFIX L @ u) (JSON_stringify ?c))]"
    "queryTask (onQuery L s) = Some t" "queryResultLinks (onQuery L s) = Some []"
    "live (onQuery L s) = live s @ [(nextHandle s, CountCb)]"
    unfolding on by (simp_all add: subscribe_rt_def perform_def del: JSON_stringify.simps)
  ultimately show ?thesis using c by blast
qed

theorem onQuery_counts_first_witness:
  "queryTask (onQuery doc_libs sorted_query) \<noteq> None"
proof -
  obtain t where "buildInteractiveQueryTask sorted_query = Inr t"
    using interactive_task_built by blast
  moreover have "queryBuilderMode sorted_query = ''interactive''" by (simp add: sorted_query_def new_query_def)
  ultimately show ?thesis using onQuery_counts_first by fastforce
qed

section \<open>Pages\<close>

text \<open>The links the view has sent \<open>GET\<close> requests for.\<close>

definition query_gets :: "query \<Rightarrow> string list" where
  "query_gets s = concat (map (\<lambda>e. case e of Request (HttpGet u) \<Rightarrow> [u] | _ \<Rightarrow> []) (effects s))"

definition query_next :: "libs \<Rightarrow> query \<Rightarrow> string option" where
  "query_next L s = map_option (\<lambda>l. API_PREFIX L @ l) (queryResultNextPageLink s)"

lemma getNextPage_eq:
  "queryResultNextPageLink s = Some l \<Longrightarrow>
   getNextPage L s = (subscribe_rt NextPageCb (perform (Request (HttpGet (API_PREFIX L @ l)))
     (s\<lparr>requestResultNextPageLinkRequestLocked := True\<rparr>)))
       \<lparr>baseServiceGetQueryResultNextPageSubscription := Some (nextHandle s)\<rparr>"
  by (simp add: getNextPage_def getDocument_def getDocumentInternal_def get_link_def append_option_def
      map_result_def show_opt_def Let_def)

interpretation pages: paginator
  requestResultNextPageLinkRequestLocked "query_next L" query_gets "onLoadNextPage L" for L
proof (unfold_locales, goal_cases)
  case (1 s)
  then show ?case by (auto simp: onLoadNextPage_def query_next_def)
next
  case (2 s l)
  then obtain m where "queryResultNextPageLink s = Some m" "l = API_PREFIX L @ m"
    by (auto simp: query_next_def)
  with 2 show ?case
    by (simp add: onLoadNextPage_def getNextPage_eq query_gets_def subscribe_rt_def perform_def)
qed

text \<open>
  C19. However often the user scrolls to the end while a page is on its way, the next page is asked
  for once: \<open>n + 1\<close> calls of \<open>onLoadNextPage\<close> add one request, for the link of the next page.
\<close>

theorem next_page_requested_once:
  assumes "\<not> requestResultNextPageLinkRequestLocked s" "queryResultNextPageLink s = Some l"
  shows "query_gets ((onLoadNextPage L ^^ Suc n) s) = query_gets s @ [API_PREFIX L @ l]"
  using pages.scrolling_requests_once [OF assms(1), of L] assms(2) by (simp add: query_next_def)

theorem next_page_requested_once_witness:
  "query_gets ((onLoadNextPage doc_libs ^^ Suc 4) ((new_query [] new_base)\<lparr>queryResultNextPageLink := Some ''/p2''\<rparr>)) =
   query_gets ((new_query [] new_base)\<lparr>queryResultNextPageLink := Some ''/p2''\<rparr>) @ [API_PREFIX doc_libs @ ''/p2'']"
  by (rule next_page_requested_once) (simp_all add: new_query_def)

definition query_listed :: "query \<Rightarrow> string list" where
  "query_listed s = case_option [] (\<lambda>x. x) (queryResultLinks s)"

interpretation read_pages: paged_list
  requestResultNextPageLinkRequestLocked "query_next L" query_gets "onLoadNextPage L"
  query_listed "\<lambda>p. on_next_page (fst p) (Some (snd p))" "\<lambda>p. documentLinks (snd p)" "page_follow L b"
  "\<lambda>s. query_base s = b" for L b
proof (unfold_locales, goal_cases)
  case (1 s)
  then show ?case
    by (cases "queryResultNextPageLink s") (simp_all add: onLoadNextPage_def getNextPage_eq query_listed_def
        query_next_def subscribe_rt_def perform_def)
next
  case (2 s l p l')
  then show ?case
    by (auto simp: page_follow_def query_next_def on_next_page_def Let_def query_listed_def query_gets_def
        end_rt_def unsubscribe_rt_def truthy_def split: option.splits sum.splits if_splits)
qed

definition sample_results :: "string list \<Rightarrow> string option \<Rightarrow> ServiceDocumentQueryResult" where
  "sample_results ls l = ServiceDocument.extend emptyDocument
     \<lparr>documentLinks = ls, documents = None, selectedLinks = None, selectedLinksPerDocument = None,
      selectedDocuments = None, documentCount = None, prevPageLink = None, nextPageLink = l,
      nextPageLinksPerGroup = None, queryTimeMicros = 0\<rparr>"

lemma sample_results_sel [simp]:
  "documentLinks (sample_results ls l) = ls" "nextPageLink (sample_results ls l) = l"
  by (simp_all add: sample_results_def emptyDocument_def ServiceDocument.extend_def)

text \<open>
  C20. The result of a query is the concatenation of its pages: when pages arrive that each lead to a
  further one, and the user scrolls to the end any number of times, at least once, before each of
  them arrives, the documents of all pages are listed in order, and each page has been asked for
  exactly once, in order, by the link that the page before has named.
\<close>

theorem pages_concatenated:
  assumes "\<not> requestResultNextPageLinkRequestLocked s" "queryResultNextPageLink s = Some l"
    and "page_links (page_follow L (query_base s)) (API_PREFIX L @ l) (map snd ps) = Some (ls, e)"
  shows "let s' = fold (\<lambda>(n, p) s. on_next_page (fst p) (Some (snd p)) ((onLoadNextPage L ^^ Suc n) s)) ps s in
    query_listed s' = query_listed s @ concat (map (\<lambda>np. documentLinks (snd (snd np))) ps) \<and>
    query_gets s' = query_gets s @ ls \<and> query_next L s' = Some e"
  using read_pages.pages_read [OF refl assms(1), of L "API_PREFIX L @ l" ps ls e] assms(2,3)
  by (simp add: query_next_def Let_def comp_def)

theorem pages_concatenated_witness:
  "query_listed (fold (\<lambda>(n, p) s. on_next_page (fst p) (Some (snd p)) ((onLoadNextPage doc_libs ^^ Suc n) s))
      [(3, 0, sample_results [''/c''] (Some ''/p3'')), (0, 1, sample_results [''/d'', ''/e''] (Some ''/p4''))]
      ((new_query [] new_base)\<lparr>queryResultLinks := Some [''/a''], queryResultNextPageLink := Some ''/p2''\<rparr>)) =
    [''/a'', ''/c'', ''/d'', ''/e'']"
proof -
  let ?s = "(new_query [] new_base)\<lparr>queryResultLinks := Some [''/a''], queryResultNextPageLink := Some ''/p2''\<rparr>"
  let ?ps = "[(3, 0, sample_results [''/c''] (Some ''/p3'')), (0, 1, sample_results [''/d'', ''/e''] (Some ''/p4''))]
    :: (nat \<times> nat \<times> ServiceDocumentQueryResult) list"
  let ?u = "''/core/node-selectors/undefined/forwarding?peer=undefined&path=%2Fp3&query=&target=PEER_ID''"
  let ?v = "''/core/node-selectors/undefined/forwarding?peer=undefined&path=%2Fp4&query=&target=PEER_ID''"
  have u: "getForwardingLink new_base ''/p3'' [] = Inr ?u" "getForwardingLink new_base ''/p4'' [] = Inr ?v"
    by code_simp+
  have "page_links (page_follow doc_libs (query_base ?s)) (API_PREFIX doc_libs @ ''/p2'') (map snd ?ps) =
      Some ([API_PREFIX doc_libs @ ''/p2'', API_PREFIX doc_libs @ ?u], API_PREFIX doc_libs @ ?v)"
    using u by (simp add: page_follow_def new_query_def)
  from pages_concatenated [OF _ _ this] show ?thesis
    by (simp add: new_query_def query_listed_def Let_def)
qed

text \<open>
  The last page is read again and again: a page without a link to a further one leaves the link
  by which it was read in place and frees the lock, so the next scroll asks for it again and its
  documents are listed twice.
\<close>

lemma last_page_duplicated:
  assumes "queryResultLinks s = Some ls" "queryResultNextPageLink s = Some l" "nextPageLink r = None"
  shows "query_gets (onLoadNextPage L (on_next_page h (Some r) s)) = query_gets s @ [API_PREFIX L @ l] \<and>
    queryResultLinks (on_next_page h' (Some r) (onLoadNextPage L (on_next_page h (Some r) s))) =
      Some (ls @ documentLinks r @ documentLinks r)"
  using assms
  by (simp add: on_next_page_def onLoadNextPage_def getNextPage_eq end_rt_def unsubscribe_rt_def Let_def
      truthy_def query_gets_def subscribe_rt_def perform_def)

lemma last_page_duplicated_witness:
  "queryResultLinks (on_next_page 1 (Some (sample_results [''/c''] None)) (onLoadNextPage doc_libs
      (on_next_page 0 (Some (sample_results [''/c''] None))
        ((new_query [] new_base)\<lparr>queryResultLinks := Some [''/a''], queryResultNextPageLink := Some ''/p2''\<rparr>)))) =
    Some ([''/a''] @ [''/c''] @ [''/c''])"
  using last_page_duplicated [of "(new_query [] new_base)\<lparr>queryResultLinks := Some [''/a''], queryResultNextPageLink := Some ''/p2''\<rparr>"
      "[''/a'']" "''/p2''" "sample_results [''/c''] None" doc_libs 0 1]
  by (simp add: new_query_def)

text \<open>
  After an error no further page is read: an error on the request of a page leaves the lock
  taken, and \<open>onLoadNextPage\<close> then does nothing, also after the query is cleared; starting another
  query does not free the lock either.
\<close>

lemma page_error_stops_paging:
  assumes "requestResultNextPageLinkRequestLocked s"
  shows "onLoadNextPage L (on_query_error h err s) = on_query_error h err s \<and>
    onLoadNextPage L (onClearQuery (on_query_error h err s)) = onClearQuery (on_query_error h err s) \<and>
    requestResultNextPageLinkRequestLocked (onQuery L (on_query_error h err s))"
proof -
  have q: "requestResultNextPageLinkRequestLocked (onQuery L s) = requestResultNextPageLinkRequestLocked s" for s
    by (simp add: onQuery_def notify_invalid_def Let_def subscribe_rt_def perform_def split: sum.splits option.splits)
  have e: "requestResultNextPageLinkRequestLocked (on_query_error h err s)"
    using assms by (simp add: on_query_error_def perform_def end_rt_def unsubscribe_rt_def)
  then show ?thesis by (simp add: onLoadNextPage_def onClearQuery_def Let_def q)
qed

lemma page_error_stops_paging_witness:
  "onLoadNextPage doc_libs (on_query_error 0 \<lparr>err_statusCode = Some 500, err_message = None\<rparr>
      ((new_query [] new_base)\<lparr>requestResultNextPageLinkRequestLocked := True\<rparr>)) =
   on_query_error 0 \<lparr>err_statusCode = Some 500, err_message = None\<rparr>
      ((new_query [] new_base)\<lparr>requestResultNextPageLinkRequestLocked := True\<rparr>)"
  using page_error_stops_paging [of "(new_query [] new_base)\<lparr>requestResultNextPageLinkRequestLocked := True\<rparr>"]
  by simp

text \<open>
  A page of an earlier query is listed in the result of a later one: a second query does not end
  the request of a page that is on its way, and its documents become the result of the second query.
\<close>

lemma stale_page_mixes:
  assumes "(h, NextPageCb) \<in> set (live s)" "queryResultNextPageLink s \<noteq> nextPageLink r"
  shows "(h, NextPageCb) \<in> set (live (onQuery L s)) \<and>
    queryResultLinks (on_next_page h (Some r) (onQuery L s)) = Some (documentLinks r)"
proof -
  have q: "queryResultNextPageLink (onQuery L s) = queryResultNextPageLink s"
    "queryResultLinks (onQuery L s) = Some []" "set (live s) \<subseteq> set (live (onQuery L s))"
    by (auto simp: onQuery_def notify_invalid_def Let_def subscribe_rt_def perform_def split: sum.splits option.splits)
  then show ?thesis
    using assms by (auto simp: on_next_page_def end_rt_def unsubscribe_rt_def Let_def split: sum.splits)
qed

lemma stale_page_mixes_witness:
  "queryResultLinks (on_next_page 0 (Some (sample_results [''/old''] None)) (onQuery doc_libs
      (getNextPage doc_libs ((new_query [] new_base)\<lparr>queryResultNextPageLink := Some ''/p2''\<rparr>)))) = Some [''/old'']"
  using stale_page_mixes [of 0 "getNextPage doc_libs ((new_query [] new_base)\<lparr>queryResultNextPageLink := Some ''/p2''\<rparr>)"
      "sample_results [''/old''] None" doc_libs]
  by (simp add: getNextPage_eq new_query_def subscribe_rt_def perform_def)

text \<open>
  The link of the selected result is not there for a task without options: in the advanced mode
  a task whose specification has no \<open>options\<close> makes \<open>getSelectedResultDocumentLink\<close> raise a
  \<open>TypeError\<close>.
\<close>

lemma selected_link_without_options:
  assumes "queryTask s = Some (JObj kvs)" "map_of kvs ''querySpec'' = Some (JObj sp)" "map_of sp ''options'' = None"
  shows "getSelectedResultDocumentLink s = Inl TypeError"
  using assms by (simp add: getSelectedResultDocumentLink_def Let_def jget_def truthy_json_def options_include_def)

lemma selected_link_without_options_witness:
  "getSelectedResultDocumentLink ((new_query [] new_base)\<lparr>queryTask :=
      Some (JObj [(''querySpec'', JObj [(''query'', JNull)])])\<rparr>) = Inl TypeError"
  by (rule selected_link_without_options [where sp = "[(''query'', JNull)]"
        and kvs = "[(''querySpec'', JObj [(''query'', JNull)])]"]) simp_all

end
