(* ===== verification/ServiceDetail.thy ===== *)
theory ServiceDetail
  imports QueryProps IdEncoding
begin

text \<open>
  \<open>components/main/service/service-detail.component.ts\<close>: the list of the child services of a
  factory, read page by page. The id of the service comes from the route, encoded by
  \<open>encodeToId\<close>.
\<close>

section \<open>State\<close>

datatype service_cb = SelectedNodeCb | RouteParamsCb | LinksCb | ChildListCb | ChildNextPageCb | CreateCb

text \<open>What the view does to the router and to the address bar.\<close>

datatype service_event = NavigateServices "string option" | ReplaceState string

record service_detail = "(service_cb, service_event) rt" +
  sd_base :: base
  modal_name :: "string option"
  modal_documentSelfLink :: "string option"
  modal_body :: string
  serviceLinks :: "string list"
  childServicesLinks :: "string list"
  childServiceNextPageLink :: "string option"
  childServiceNextPageLinkRequestLocked :: bool
  selectedServiceId :: "string option"
  selectedChildServiceId :: "string option"
  activatedRouteParamsSubscription :: "nat option"
  nodeSelectorServiceGetSelectedSubscription :: "nat option"
  baseServiceGetLinksSubscription :: "nat option"
  baseServiceGetChildServiceListSubscription :: "nat option"
  baseServiceGetChildServiceListNextPageSubscription :: "nat option"

definition new_service_detail :: "base \<Rightarrow> service_detail" where
  "new_service_detail b = \<lparr>nextHandle = 0, live = [], effects = [], sd_base = b, modal_name = Some [],
     modal_documentSelfLink = Some [], modal_body = [], serviceLinks = [], childServicesLinks = [],
     childServiceNextPageLink = None, childServiceNextPageLinkRequestLocked = False,
     selectedServiceId = None, selectedChildServiceId = None, activatedRouteParamsSubscription = None,
     nodeSelectorServiceGetSelectedSubscription = None, baseServiceGetLinksSubscription = None,
     baseServiceGetChildServiceListSubscription = None,
     baseServiceGetChildServiceListNextPageSubscription = None\<rparr>"

text \<open>A decoded id as a text of the model, whose code units are below 256.\<close>

definition units_text :: "nat list option \<Rightarrow> string option" where
  "units_text us = map_option (map char_of) us"

section \<open>Operations\<close>

definition sd_ngOnInit :: "service_detail \<Rightarrow> service_detail" where
  "sd_ngOnInit s =
     (let s = (subscribe_rt SelectedNodeCb s)\<lparr>nodeSelectorServiceGetSelectedSubscription := Some (nextHandle s)\<rparr>
      in (subscribe_rt RouteParamsCb s)\<lparr>activatedRouteParamsSubscription := Some (nextHandle s)\<rparr>)"

text \<open>The selected node changes: back to the grid, with the node of the address.\<close>

definition sd_on_selected_node :: "string option \<Rightarrow> service_detail \<Rightarrow> service_detail" where
  "sd_on_selected_node node_param s = perform (Publish (NavigateServices node_param)) s"

definition child_list_option :: string where
  "child_list_option = odata_limit None @ ''&'' @ odata_orderBy ''documentSelfLink'' None"

definition sd_getData :: "libs \<Rightarrow> service_detail \<Rightarrow> service_detail" where
  "sd_getData L s =
     (let s = (if serviceLinks s = [] then
                 (let s = s\<lparr>childServicesLinks := []\<rparr> in
                  case post L (sd_base s) URL_Root URL_RootPostBody True of
                    Inl e \<Rightarrow> s
                  | Inr r \<Rightarrow> (subscribe_rt LinksCb (perform (Request r) s))
                      \<lparr>baseServiceGetLinksSubscription := Some (nextHandle s)\<rparr>)
               else s)
      in case getDocument L (sd_base s) (show_opt (\<lambda>x. x) (selectedServiceId s)) child_list_option True of
           Inl e \<Rightarrow> s
         | Inr r \<Rightarrow> (subscribe_rt ChildListCb (perform (Request r) s))
             \<lparr>baseServiceGetChildServiceListSubscription := Some (nextHandle s)\<rparr>)"

definition sd_on_params :: "libs \<Rightarrow> string option \<Rightarrow> string option \<Rightarrow> service_detail \<Rightarrow> service_detail" where
  "sd_on_params L i childId s =
     (let sid = units_text (decodeFromId i None None None) in
      sd_getData L (s\<lparr>selectedServiceId := sid, selectedChildServiceId := childId,
        modal_name := sid, modal_documentSelfLink := sid, modal_body := []\<rparr>))"

definition sd_ngOnDestroy :: "service_detail \<Rightarrow> service_detail" where
  "sd_ngOnDestroy s =
     unsubscribe_rt (activatedRouteParamsSubscription s)
       (unsubscribe_rt (nodeSelectorServiceGetSelectedSubscription s)
         (unsubscribe_rt (baseServiceGetChildServiceListSubscription s)
           (unsubscribe_rt (baseServiceGetLinksSubscription s) s)))"

definition getChildServiceLinks :: "libs \<Rightarrow> service_detail \<Rightarrow> string list" where
  "getChildServiceLinks L s =
     map (\<lambda>l. linkId (parseDocumentLink L l (case_option [] (\<lambda>x. x) (selectedServiceId s)))) (childServicesLinks s)"

definition getSelectedServiceRouterId :: "string option \<Rightarrow> string option" where
  "getSelectedServiceRouterId i = encodeToId i None None None None"

definition onCreateChildService :: "libs \<Rightarrow> service_detail \<Rightarrow> service_detail" where
  "onCreateChildService L s =
     (if \<not> truthy (modal_documentSelfLink s) \<or> modal_body s = [] then s
      else
        (case post L (sd_base s) (the (modal_documentSelfLink s)) (JStr (modal_body s)) True of
           Inl e \<Rightarrow> s
         | Inr r \<Rightarrow> subscribe_rt CreateCb (perform (Request r) s)))"

definition on_created :: "nat \<Rightarrow> string option \<Rightarrow> service_detail \<Rightarrow> service_detail" where
  "on_created h selfLink s =
     (perform (Notify [\<lparr>notificationType = ''SUCCESS'',
        messages = [''Child Service '' @ show_opt (\<lambda>x. x) selfLink @ '' Created'']\<rparr>]) (end_rt h s))\<lparr>modal_body := []\<rparr>"

definition on_create_error :: "nat \<Rightarrow> server_error \<Rightarrow> service_detail \<Rightarrow> service_detail" where
  "on_create_error h err s =
     perform (Notify [\<lparr>notificationType = ''ERROR'', messages =
        [''['' @ show_opt show_int (err_statusCode err) @ ''] '' @ show_opt (\<lambda>x. x) (err_message err)]\<rparr>]) (end_rt h s)"

text \<open>The path in the address bar is replaced by a \<open>replace\<close> of the first occurrence.\<close>

definition onSelectChildService :: "string \<Rightarrow> string \<Rightarrow> string \<Rightarrow> service_detail \<Rightarrow> service_detail" where
  "onSelectChildService serviceId basePath childServiceId s =
     (let path = (case selectedChildServiceId s of
                    None \<Rightarrow> replace_first serviceId (serviceId @ ''/'' @ childServiceId) basePath
                  | Some old \<Rightarrow> replace_first old childServiceId basePath)
      in (perform (Publish (ReplaceState path)) s)\<lparr>selectedChildServiceId := Some childServiceId\<rparr>)"

definition sd_onLoadNextPage :: "libs \<Rightarrow> service_detail \<Rightarrow> service_detail" where
  "sd_onLoadNextPage L s =
     (if childServiceNextPageLink s = None \<or> childServiceNextPageLinkRequestLocked s then s
      else
        (let s = s\<lparr>childServiceNextPageLinkRequestLocked := True\<rparr> in
         case getDocument L (sd_base s) (show_opt (\<lambda>x. x) (childServiceNextPageLink s)) [] False of
           Inl e \<Rightarrow> s
         | Inr r \<Rightarrow> (subscribe_rt ChildNextPageCb (perform (Request r) s))
             \<lparr>baseServiceGetChildServiceListNextPageSubscription := Some (nextHandle s)\<rparr>))"

definition sd_on_next_page :: "nat \<Rightarrow> ServiceDocumentQueryResult option \<Rightarrow> service_detail \<Rightarrow> service_detail" where
  "sd_on_next_page h results s =
     (let s = end_rt h s in
      case results of
        None \<Rightarrow> s
      | Some r \<Rightarrow>
          if childServiceNextPageLink s = nextPageLink r then s
          else
            (let s = s\<lparr>childServiceNextPageLinkRequestLocked := False,
                       childServicesLinks := childServicesLinks s @ documentLinks r\<rparr> in
             if truthy (nextPageLink r) then
               (case getForwardingLink (sd_base s) (the (nextPageLink r)) [] of
                  Inl e \<Rightarrow> s
                | Inr l \<Rightarrow> s\<lparr>childServiceNextPageLink := Some l\<rparr>)
             else s))"

definition sd_on_links :: "libs \<Rightarrow> nat \<Rightarrow> string list \<Rightarrow> service_detail \<Rightarrow> service_detail" where
  "sd_on_links L h links s = (end_rt h s)\<lparr>serviceLinks := lo_sortBy L links\<rparr>"

definition sd_on_child_list :: "nat \<Rightarrow> ServiceDocumentQueryResult \<Rightarrow> service_detail \<Rightarrow> service_detail" where
  "sd_on_child_list h doc s =
     (let s = (end_rt h s)\<lparr>childServicesLinks := documentLinks doc\<rparr> in
      if truthy (nextPageLink doc) then
        (case getForwardingLink (sd_base s) (the (nextPageLink doc)) [] of
           Inl e \<Rightarrow> s
         | Inr l \<Rightarrow> s\<lparr>childServiceNextPageLink := Some l\<rparr>)
      else s)"

definition sd_on_links_error :: "nat \<Rightarrow> server_error \<Rightarrow> service_detail \<Rightarrow> service_detail" where
  "sd_on_links_error h err s =
     perform (Notify (error_notification ''Failed to retrieve factory services'' err)) (end_rt h s)"

definition sd_on_list_error :: "nat \<Rightarrow> server_error \<Rightarrow> service_detail \<Rightarrow> service_detail" where
  "sd_on_list_error h err s =
     perform (Notify (error_notification ''Failed to retrieve factory service details'' err)) (end_rt h s)"

section \<open>Pages\<close>

definition sd_gets :: "service_detail \<Rightarrow> string list" where
  "sd_gets s = concat (map (\<lambda>e. case e of Request (HttpGet u) \<Rightarrow> [u] | _ \<Rightarrow> []) (effects s))"

definition sd_next :: "libs \<Rightarrow> service_detail \<Rightarrow> string option" where
  "sd_next L s = map_option (\<lambda>l. API_PREFIX L @ l) (childServiceNextPageLink s)"

lemma sd_load_eq:
  "childServiceNextPageLink s = Some l \<Longrightarrow> \<not> childServiceNextPageLinkRequestLocked s \<Longrightarrow>
   sd_onLoadNextPage L s = (subscribe_rt ChildNextPageCb (perform (Request (HttpGet (API_PREFIX L @ l)))
     (s\<lparr>childServiceNextPageLinkRequestLocked := True\<rparr>)))
       \<lparr>baseServiceGetChildServiceListNextPageSubscription := Some (nextHandle s)\<rparr>"
  by (simp add: sd_onLoadNextPage_def getDocument_def getDocumentInternal_def get_link_def append_option_def
      map_result_def show_opt_def Let_def)

interpretation children: paginator
  childServiceNextPageLinkRequestLocked "sd_next L" sd_gets "sd_onLoadNextPage L" for L
proof (unfold_locales, goal_cases)
  case (1 s)
  then show ?case by (auto simp: sd_onLoadNextPage_def sd_next_def)
next
  case (2 s l)
  then obtain m where "childServiceNextPageLink s = Some m" "l = API_PREFIX L @ m"
    by (auto simp: sd_next_def)
  with 2 show ?case
    by (simp add: sd_load_eq sd_gets_def subscribe_rt_def perform_def)
qed

interpretation read_children: paged_list
  childServiceNextPageLinkRequestLocked "sd_next L" sd_gets "sd_onLoadNextPage L"
  childServicesLinks "\<lambda>p. sd_on_next_page (fst p) (Some (snd p))" "\<lambda>p. documentLinks (snd p)" "page_follow L b"
  "\<lambda>s. sd_base s = b" for L b
proof (unfold_locales, goal_cases)
  case (1 s)
  then show ?case
    by (cases "childServiceNextPageLink s = None \<or> childServiceNextPageLinkRequestLocked s")
      (auto simp: children.load_idle sd_next_def sd_load_eq subscribe_rt_def perform_def)
next
  case (2 s l p l')
  then show ?case
    by (auto simp: page_follow_def sd_next_def sd_on_next_page_def Let_def sd_gets_def
        end_rt_def unsubscribe_rt_def truthy_def split: option.splits sum.splits if_splits)
qed

section \<open>Properties\<close>

text \<open>The children of a service are the concatenation of the pages, each of them asked for once.\<close>

lemma children_concatenated:
  assumes "\<not> childServiceNextPageLinkRequestLocked s" "childServiceNextPageLink s = Some l"
    and "page_links (page_follow L (sd_base s)) (API_PREFIX L @ l) (map snd ps) = Some (ls, e)"
  shows "let s' = fold (\<lambda>(n, p) s. sd_on_next_page (fst p) (Some (snd p)) ((sd_onLoadNextPage L ^^ Suc n) s)) ps s in
    childServicesLinks s' = childServicesLinks s @ concat (map (\<lambda>np. documentLinks (snd (snd np))) ps) \<and>
    sd_gets s' = sd_gets s @ ls"
  using read_children.pages_read [OF refl assms(1), of L "API_PREFIX L @ l" ps ls e] assms(2,3)
  by (simp add: sd_next_def Let_def comp_def)

text \<open>
  Scrolling asks for the next page of the child services once, however often the end of the
  list is reached while the page is on its way.
\<close>

lemma child_page_requested_once:
  assumes "\<not> childServiceNextPageLinkRequestLocked s" "childServiceNextPageLink s = Some l"
  shows "sd_gets ((sd_onLoadNextPage L ^^ Suc n) s) = sd_gets s @ [API_PREFIX L @ l]"
  using children.scrolling_requests_once [OF assms(1), of L] assms(2) by (simp add: sd_next_def)

lemma child_page_requested_once_witness:
  "sd_gets ((sd_onLoadNextPage doc_libs ^^ Suc 2) ((new_service_detail new_base)\<lparr>childServiceNextPageLink := Some ''/p''\<rparr>)) =
   sd_gets ((new_service_detail new_base)\<lparr>childServiceNextPageLink := Some ''/p''\<rparr>) @ [API_PREFIX doc_libs @ ''/p'']"
  by (rule child_page_requested_once) (simp_all add: new_service_detail_def)

text \<open>
  C37. The route and the view agree on the service: opening the route that \<open>getSelectedServiceRouterId\<close>
  makes for a service selects that service, asks for
  its children with the page size and the order of the self links, and offers it as the service to
  create a child of. The first time, when the links of the services are not known yet, they are asked
  for first. The requests go to the links themselves when the selected node is the host, and to its
  forwarding links otherwise; when making a forwarding link raises, that request is not made. The link of
  the service has no character other than a letter, a digit and a slash that is followed by \<open>47\<close> and
  by a character that is no letter and no digit, where the encoding does not decode back.
\<close>

theorem route_selects_service:
  assumes "id_safe sid" "s' = sd_on_params L (getSelectedServiceRouterId (Some sid)) childId s"
    and "at_host = (selectedNodeId (sd_base s) = hostNodeId (sd_base s))"
  shows "selectedServiceId s' = Some sid \<and> modal_documentSelfLink s' = Some sid \<and>
    effects s' = effects s @
      (if serviceLinks s = [] then
         (case (if at_host then Inr ''/core/ui/default'' else getForwardingLink (sd_base s) ''/core/ui/default'' []) of
            Inl e \<Rightarrow> []
          | Inr u \<Rightarrow> [Request (HttpPost (API_PREFIX L @ u) (JSON_stringify URL_RootPostBody))])
       else []) @
      (case (if at_host then Inr (append_option sid ''$limit=25&$orderby=documentSelfLink asc'')
             else getForwardingLink (sd_base s) sid ''$limit=25&$orderby=documentSelfLink asc'') of
         Inl e \<Rightarrow> []
       | Inr u \<Rightarrow> [Request (HttpGet (API_PREFIX L @ u))])"
proof -
  have "units_text (decodeFromId (getSelectedServiceRouterId (Some sid)) None None None) = Some sid"
    using id_decodes [OF assms(1)] by (simp add: units_text_def getSelectedServiceRouterId_def comp_def)
  moreover have "child_list_option = ''$limit=25&$orderby=documentSelfLink asc''" by code_simp
  moreover have "post L b URL_Root URL_RootPostBody True =
      map_result (\<lambda>u. HttpPost (API_PREFIX L @ u) (JSON_stringify URL_RootPostBody)) (send_link b ''/core/ui/default'' True)" for b
    by (simp add: post_def body_text_def URL_RootPostBody_def URL_Root_def map_result_def)
  ultimately show ?thesis
    unfolding assms(2,3)
    by (simp add: sd_on_params_def sd_getData_def getDocument_def getDocumentInternal_def get_link_def send_link_def
        map_result_def show_opt_def Let_def subscribe_rt_def perform_def split: sum.splits)
qed

theorem route_selects_service_witness:
  "selectedServiceId (sd_on_params doc_libs (getSelectedServiceRouterId (Some ''/core/examples'')) None
      (new_service_detail new_base)) = Some ''/core/examples'' \<and>
   effects (sd_on_params doc_libs (getSelectedServiceRouterId (Some ''/core/examples'')) None (new_service_detail new_base)) =
     [Request (HttpPost (API_PREFIX doc_libs @ ''/core/ui/default'') (JSON_stringify URL_RootPostBody)),
      Request (HttpGet (API_PREFIX doc_libs @ append_option ''/core/examples'' ''$limit=25&$orderby=documentSelfLink asc''))]"
proof -
  have "id_safe ''/core/examples''" by code_simp
  from route_selects_service [OF this refl refl, of doc_libs None "new_service_detail new_base"]
  show ?thesis by (simp add: new_service_detail_def new_base_def)
qed

text \<open>
  The pages of one service are listed under another: when the route changes to a service whose
  children fit on one page, the link to the next page of the service before stays, and the next
  scroll appends that page to the children of the new service.
\<close>

lemma pages_of_previous_service:
  assumes "childServiceNextPageLink s = Some l" "\<not> childServiceNextPageLinkRequestLocked s"
    and "nextPageLink doc = None" "nextPageLink r = None"
  shows "childServicesLinks (sd_on_next_page h' (Some r) (sd_onLoadNextPage L (sd_on_child_list h doc
      (sd_on_params L i c s)))) = documentLinks doc @ documentLinks r \<and>
    sd_gets (sd_onLoadNextPage L (sd_on_child_list h doc (sd_on_params L i c s))) =
      sd_gets (sd_on_params L i c s) @ [API_PREFIX L @ l]"
proof -
  have keep: "childServiceNextPageLink (sd_on_params L i c s) = Some l"
    "\<not> childServiceNextPageLinkRequestLocked (sd_on_params L i c s)"
    using assms(1,2)
    by (auto simp: sd_on_params_def sd_getData_def Let_def subscribe_rt_def perform_def split: sum.splits)
  let ?t = "sd_on_child_list h doc (sd_on_params L i c s)"
  have t: "childServiceNextPageLink ?t = Some l" "\<not> childServiceNextPageLinkRequestLocked ?t"
    "childServicesLinks ?t = documentLinks doc" "effects ?t = effects (sd_on_params L i c s)"
    using keep assms(3) by (simp_all add: sd_on_child_list_def truthy_def Let_def end_rt_def unsubscribe_rt_def)
  show ?thesis
    using assms(4) t
    by (simp add: sd_load_eq [OF t(1,2)] sd_on_next_page_def truthy_def Let_def end_rt_def unsubscribe_rt_def
        subscribe_rt_def perform_def sd_gets_def)
qed

lemma pages_of_previous_service_witness:
  "childServicesLinks (sd_on_next_page 9 (Some (sample_results [''/old''] None)) (sd_onLoadNextPage doc_libs
     (sd_on_child_list 8 (sample_results [''/new''] None) (sd_on_params doc_libs (Some ''id_x'') None
       ((new_service_detail new_base)\<lparr>childServiceNextPageLink := Some ''/p''\<rparr>))))) = [''/new''] @ [''/old'']"
  using pages_of_previous_service [of "(new_service_detail new_base)\<lparr>childServiceNextPageLink := Some ''/p''\<rparr>" "''/p''"
      "sample_results [''/new''] None" "sample_results [''/old''] None" 9 doc_libs 8 "Some ''id_x''" None]
  by (simp add: new_service_detail_def)

text \<open>
  Leaving the view ends its subscriptions, apart from a request for a next page: whatever is
  live afterwards is not one of the four subscriptions the view keeps to unsubscribe.
\<close>

lemma service_detail_destroy:
  "set (live (sd_ngOnDestroy s)) =
     {x \<in> set (live s). Some (fst x) \<notin> {activatedRouteParamsSubscription s,
        nodeSelectorServiceGetSelectedSubscription s, baseServiceGetChildServiceListSubscription s,
        baseServiceGetLinksSubscription s}}"
  by (auto simp: sd_ngOnDestroy_def live_unsubscribe)

end
