(* ===== verification/ProcessLogView.thy ===== *)
theory ProcessLogView
  imports BaseServ
begin

text \<open>
  \<open>components/main/process-log/process-log.component.ts\<close> and \<open>process-log-type.util.ts\<close>: the log of
  the selected node, with its items sorted by type into three caches.
\<close>

section \<open>The type of a log item\<close>

definition ProcessLogTypeUtil :: "(string \<times> DisplayInfo) list" where
  "ProcessLogTypeUtil = [
     (''UNKNOWN'', \<lparr>className = ''unknown'', iconClassName = [], displayName = ''Unknown''\<rparr>),
     (''INFO'', \<lparr>className = ''info'', iconClassName = ''fa fa-info'', displayName = ''INFO''\<rparr>),
     (''WARNING'', \<lparr>className = ''warning'', iconClassName = ''fa fa-exclamation-triangle'', displayName = ''WARNING''\<rparr>),
     (''SEVERE'', \<lparr>className = ''severe'', iconClassName = ''fa fa-exclamation-circle'', displayName = ''SEVERE''\<rparr>)]"

text \<open>
  \<open>getLogType\<close>, for the texts the view asks for: the other properties of the class, its methods,
  are not log types.
\<close>

definition getLogType :: "string \<Rightarrow> DisplayInfo" where
  "getLogType logType =
     (if logType = [] then the (map_of ProcessLogTypeUtil ''UNKNOWN'')
      else (case map_of ProcessLogTypeUtil logType of
              None \<Rightarrow> the (map_of ProcessLogTypeUtil ''UNKNOWN'')
            | Some d \<Rightarrow> d))"

definition code_char :: "char \<Rightarrow> bool" where
  "code_char c \<longleftrightarrow> c \<in> set ''IWS''"

definition getLogItemType :: "string \<Rightarrow> string result" where
  "getLogItemType logItem =
     (case rx_exec LOG_ITEM_TYPE_REGEX logItem of
        None \<Rightarrow> Inr []
      | Some m \<Rightarrow>
          (case rx_exec (RxClass code_char) (fst (snd m)) of
             None \<Rightarrow> Inl TypeError
           | Some c \<Rightarrow>
               (let logItemTypeCode = toUpperCase (fst (snd c)) in
                Inr (if logItemTypeCode = ''I'' then ''INFO''
                     else if logItemTypeCode = ''W'' then ''WARNING''
                     else if logItemTypeCode = ''S'' then ''SEVERE''
                     else []))))"

definition getLogItemTypeClass :: "string \<Rightarrow> string \<Rightarrow> string result" where
  "getLogItemTypeClass logItem additionalClasses =
     map_result (\<lambda>t. className (getLogType t) @ '' '' @ additionalClasses) (getLogItemType logItem)"

definition getLogItemTypeIconClass :: "string \<Rightarrow> string result" where
  "getLogItemTypeIconClass logItem = map_result (\<lambda>t. iconClassName (getLogType t)) (getLogItemType logItem)"

definition getLogTypeClass :: "string \<Rightarrow> string \<Rightarrow> string" where
  "getLogTypeClass logType additionalClasses = className (getLogType logType) @ '' '' @ additionalClasses"

definition getLogTypeIconClass :: "string \<Rightarrow> string" where
  "getLogTypeIconClass logType = iconClassName (getLogType logType)"

section \<open>The view\<close>

datatype log_cb = LogCb | LogSelectedNodeCb

record log_view = "(log_cb, unit) rt" +
  lv_base :: base
  activeFilter :: string
  log_of :: "ProcessLog option"
  infoLogItems :: "string list"
  warningLogItems :: "string list"
  severeLogItems :: "string list"
  lv_baseServiceSubscription :: "nat option"
  lv_nodeSelectorSubscription :: "nat option"

definition new_log_view :: "base \<Rightarrow> log_view" where
  "new_log_view b = \<lparr>nextHandle = 0, live = [], effects = [], lv_base = b, activeFilter = ''all'', log_of = None,
     infoLogItems = [], warningLogItems = [], severeLogItems = [], lv_baseServiceSubscription = None,
     lv_nodeSelectorSubscription = None\<rparr>"

definition lv_getData :: "libs \<Rightarrow> log_view \<Rightarrow> log_view" where
  "lv_getData L s =
     (let s = s\<lparr>infoLogItems := [], warningLogItems := [], severeLogItems := []\<rparr> in
      case getDocument L (lv_base s) URL_Log (''lineCount='' @ show_nat DEFAULT_LOG_SIZE) True of
        Inl e \<Rightarrow> s
      | Inr r \<Rightarrow> (subscribe_rt LogCb (perform (Request r) s))\<lparr>lv_baseServiceSubscription := Some (nextHandle s)\<rparr>)"

definition lv_ngOnInit :: "libs \<Rightarrow> log_view \<Rightarrow> log_view" where
  "lv_ngOnInit L s =
     (let s = lv_getData L s
      in (subscribe_rt LogSelectedNodeCb s)\<lparr>lv_nodeSelectorSubscription := Some (nextHandle s)\<rparr>)"

definition lv_on_selected_node :: "libs \<Rightarrow> log_view \<Rightarrow> log_view" where
  "lv_on_selected_node L s = lv_getData L s"

definition lv_ngOnDestroy :: "log_view \<Rightarrow> log_view" where
  "lv_ngOnDestroy s =
     unsubscribe_rt (lv_nodeSelectorSubscription s) (unsubscribe_rt (lv_baseServiceSubscription s) s)"

text \<open>The body of the loop over the items.\<close>

definition cache_item :: "string \<Rightarrow> log_view \<Rightarrow> log_view result" where
  "cache_item logItem s =
     map_result (\<lambda>t. if t = ''INFO'' then s\<lparr>infoLogItems := infoLogItems s @ [logItem]\<rparr>
       else if t = ''WARNING'' then s\<lparr>warningLogItems := warningLogItems s @ [logItem]\<rparr>
       else if t = ''SEVERE'' then s\<lparr>severeLogItems := severeLogItems s @ [logItem]\<rparr>
       else s) (getLogItemType logItem)"

text \<open>An exception leaves the loop, with the items cached so far.\<close>

fun cache_items :: "string list \<Rightarrow> log_view \<Rightarrow> log_view \<times> jserror option" where
  "cache_items [] s = (s, None)"
| "cache_items (i # is) s = (case cache_item i s of Inl e \<Rightarrow> (s, Some e) | Inr s' \<Rightarrow> cache_items is s')"

definition on_log :: "nat \<Rightarrow> ProcessLog \<Rightarrow> log_view \<Rightarrow> log_view \<times> jserror option" where
  "on_log h l s = cache_items (logItems l) ((end_rt h s)\<lparr>log_of := Some l\<rparr>)"

definition on_log_error :: "nat \<Rightarrow> server_error \<Rightarrow> log_view \<Rightarrow> log_view" where
  "on_log_error h err s = perform (Notify (error_notification ''Failed to retrieve logs'' err)) (end_rt h s)"

definition getLogItems :: "string \<Rightarrow> log_view \<Rightarrow> string list" where
  "getLogItems filt s =
     (case log_of s of
        None \<Rightarrow> []
      | Some l \<Rightarrow>
          if filt = ''all'' then logItems l
          else if filt = ''info'' then infoLogItems s
          else if filt = ''warning'' then warningLogItems s
          else if filt = ''severe'' then severeLogItems s
          else [])"

definition getFullLogLink :: "log_view \<Rightarrow> string result" where
  "getFullLogLink s = getForwardingLink (lv_base s) URL_Log []"

definition isPartialLog :: "log_view \<Rightarrow> bool" where
  "isPartialLog s = (case log_of s of None \<Rightarrow> False | Some l \<Rightarrow> length (logItems l) = DEFAULT_LOG_SIZE)"

definition onFilterApplied :: "string \<Rightarrow> log_view \<Rightarrow> log_view" where
  "onFilterApplied filt s = s\<lparr>activeFilter := filt\<rparr>"

section \<open>Lemmas on the types\<close>

lemma eats_nocase:
  "rx_eats (rx_nocase cs) u t i g g' \<longleftrightarrow> (\<exists>x. u = [x] \<and> upper_char x \<in> set cs \<and> g' = g)"
  by (simp add: rx_nocase_def eats_class)

text \<open>The match of a log item: brackets around digits, then the type code in brackets, then a time.\<close>

lemma log_match_shape:
  assumes "rx_exec LOG_ITEM_TYPE_REGEX s = Some (k, m, g)"
  shows "\<exists>ds c rest. m = ''['' @ ds @ ''][''  @ [c] @ rest \<and> (\<forall>d \<in> set ds. is_digit d) \<and>
    upper_char c \<in> set ''IWS'' \<and> (\<forall>x \<in> set rest. \<not> code_char x)"
proof -
  let ?d = "RxClass is_digit"
  let ?tail = "rx_seq [rx_lit ''][''
     , ?d, ?d, ?d, ?d, rx_lit ''-''
     , rx_range CHR ''0'' CHR ''1'', ?d, rx_lit ''-''
     , rx_range CHR ''0'' CHR ''3'', ?d, rx_nocase ''T''
     , rx_range CHR ''0'' CHR ''2'', ?d, rx_lit '':''
     , rx_range CHR ''0'' CHR ''5'', ?d, rx_lit '':''
     , rx_range CHR ''0'' CHR ''5'', ?d, rx_lit ''.''
     , ?d, ?d, ?d, rx_nocase ''Z'', rx_lit '']'']"
  have rx: "LOG_ITEM_TYPE_REGEX = RxSeq (rx_lit ''['') (RxSeq (RxStar ?d) (RxSeq (rx_lit '']['') (RxSeq (rx_nocase ''IWS'') ?tail)))"
    by (simp add: LOG_ITEM_TYPE_REGEX_def Let_def)
  have digit: "is_digit c \<Longrightarrow> \<not> code_char c" for c by (auto simp: is_digit_def code_char_def)
  have range: "rx_over (\<lambda>c. \<not> code_char c) (rx_range CHR ''0'' b)" if "(of_char b :: nat) < 60" for b
    using that by (auto simp: rx_range_def code_char_def)
  have nocase: "rx_over (\<lambda>c. \<not> code_char c) (rx_nocase [b])" if "b \<notin> set ''IWS''" for b
    using that by (auto simp: rx_nocase_def code_char_def upper_char_def is_lower_def)
  have over: "rx_over (\<lambda>c. \<not> code_char c) ?tail"
    using digit by (simp add: range nocase) (simp add: code_char_def)
  obtain u t where "rx_eats LOG_ITEM_TYPE_REGEX m t k [] g"
    using rx_exec_eats [OF assms] by blast
  then obtain ds c rest t' i' g1 g2 where "m = ''['' @ ds @ ''][''  @ [c] @ rest" "\<forall>d \<in> set ds. is_digit d"
    "upper_char c \<in> set ''IWS''" "rx_eats ?tail rest t' i' g1 g2"
    unfolding rx eats_seq [of "rx_lit ''[''"] eats_seq [of "RxStar ?d"] eats_seq [of "rx_lit ''][''"]
      eats_seq [of "rx_nocase ''IWS''"] eats_lit eats_star_class eats_nocase by blast
  with eats_over [OF over] show ?thesis by blast
qed

lemma first_code:
  "\<forall>x \<in> set u. \<not> code_char x \<Longrightarrow> code_char c \<Longrightarrow> \<exists>k. rx_exec (RxClass code_char) (u @ [c] @ v) = Some (k, [c], [])"
  by (induction u) (auto simp: rx_exec_class)

lemma no_code: "\<forall>x \<in> set u. \<not> code_char x \<Longrightarrow> rx_exec (RxClass code_char) u = None"
proof -
  assume "\<forall>x \<in> set u. \<not> code_char x"
  then have "dropWhile (\<lambda>x. \<not> code_char x) u = []" by simp
  then show ?thesis by (simp only: rx_exec_class list.case)
qed

definition type_of_code :: "char \<Rightarrow> string" where
  "type_of_code c = (if c = CHR ''I'' then ''INFO'' else if c = CHR ''W'' then ''WARNING'' else ''SEVERE'')"

section \<open>Properties\<close>

text \<open>
  The type of a log item is the letter in the second brackets of its first match: a log item has
  no type when it does not match; otherwise the match has the form \<open>[digits][c]...\<close>, and the type is
  the one of \<open>c\<close> when it is one of the capitals \<open>I\<close>, \<open>W\<close> and \<open>S\<close>, while a small letter, which the
  pattern accepts too, raises a \<open>TypeError\<close>.
\<close>

lemma getLogItemType_spec:
  "case rx_exec LOG_ITEM_TYPE_REGEX logItem of
     None \<Rightarrow> getLogItemType logItem = Inr []
   | Some (k, m, g) \<Rightarrow> \<exists>ds c rest. m = ''['' @ ds @ ''][''  @ [c] @ rest \<and> list_all is_digit ds \<and>
       upper_char c \<in> set ''IWS'' \<and>
       getLogItemType logItem = (if c \<in> set ''IWS'' then Inr (type_of_code c) else Inl TypeError)"
proof (cases "rx_exec LOG_ITEM_TYPE_REGEX logItem")
  case (Some x)
  obtain k m g where x: "x = (k, m, g)" by (cases x)
  obtain ds c rest where m: "m = ''['' @ ds @ ''][''  @ [c] @ rest" "\<forall>d \<in> set ds. is_digit d"
    "upper_char c \<in> set ''IWS''" "\<forall>x \<in> set rest. \<not> code_char x"
    using log_match_shape Some x by metis
  have pre: "\<forall>x \<in> set (''['' @ ds @ ''][''). \<not> code_char x"
    using m(2) by (auto simp: code_char_def is_digit_def)
  have "getLogItemType logItem = (if c \<in> set ''IWS'' then Inr (type_of_code c) else Inl TypeError)"
  proof (cases "c \<in> set ''IWS''")
    case True
    then obtain j where "rx_exec (RxClass code_char) m = Some (j, [c], [])"
      using first_code [OF pre, of c rest] m(1) by (auto simp: code_char_def)
    with True show ?thesis
      using Some x by (auto simp: getLogItemType_def toUpperCase_def upper_char_def is_lower_def type_of_code_def)
  next
    case False
    then have "rx_exec (RxClass code_char) m = None"
      using pre m(1,4) by (intro no_code) (auto simp: code_char_def)
    with False show ?thesis using Some x by (simp add: getLogItemType_def)
  qed
  moreover have "list_all is_digit ds" using m(2) by (simp add: list_all_iff)
  ultimately show ?thesis using m(1,3) unfolding Some x option.case prod.case by blast
qed (simp add: getLogItemType_def)

lemma getLogItemType_raises: "getLogItemType i = Inl e \<Longrightarrow> e = TypeError"
  by (auto simp: getLogItemType_def Let_def split: option.splits)

text \<open>The items before the first one whose type raises.\<close>

definition typed_items :: "string list \<Rightarrow> string list" where
  "typed_items items = takeWhile (\<lambda>i. \<not> isl (getLogItemType i)) items"

lemma cache_items_eq:
  "cache_items is s =
     (s\<lparr>infoLogItems := infoLogItems s @ filter (\<lambda>i. getLogItemType i = Inr ''INFO'') (typed_items is),
        warningLogItems := warningLogItems s @ filter (\<lambda>i. getLogItemType i = Inr ''WARNING'') (typed_items is),
        severeLogItems := severeLogItems s @ filter (\<lambda>i. getLogItemType i = Inr ''SEVERE'') (typed_items is)\<rparr>,
      if list_all (\<lambda>i. \<not> isl (getLogItemType i)) is then None else Some TypeError)"
proof (induction "is" arbitrary: s)
  case (Cons i "is")
  show ?case
  proof (cases "getLogItemType i")
    case (Inl e)
    then show ?thesis using getLogItemType_raises [OF Inl] by (simp add: cache_item_def map_result_def typed_items_def)
  next
    case (Inr t)
    then have typed: "typed_items (i # is) = i # typed_items is" by (simp add: typed_items_def)
    from Inr consider "t = ''INFO''" | "t = ''WARNING''" | "t = ''SEVERE''" | "t \<notin> {''INFO'', ''WARNING'', ''SEVERE''}"
      by blast
    then show ?thesis by cases (simp_all add: Cons.IH cache_item_def map_result_def typed Inr)
  qed
qed (simp add: typed_items_def)

lemma typed_items_all: "\<forall>i \<in> set is. \<exists>t. getLogItemType i = Inr t \<Longrightarrow> typed_items is = is"
  by (auto simp: typed_items_def)

text \<open>
  C25. The caches hold the items of the log by type: when the log asked for arrives, the three filters
  show the items of their type in the order of the log, up to the first item whose type raises, and
  \<open>all\<close> shows the whole log. A \<open>TypeError\<close> leaves the handler exactly when there is such an item, one
  with a small letter for its type; without one the filters show every item of their type and nothing
  is raised.
\<close>

theorem log_filters:
  "snd (on_log h l (lv_getData L s)) =
      (if list_all (\<lambda>i. \<not> isl (getLogItemType i)) (logItems l) then None else Some TypeError) \<and>
    getLogItems ''all'' (fst (on_log h l (lv_getData L s))) = logItems l \<and>
    getLogItems ''info'' (fst (on_log h l (lv_getData L s))) =
      filter (\<lambda>i. getLogItemType i = Inr ''INFO'') (takeWhile (\<lambda>i. \<not> isl (getLogItemType i)) (logItems l)) \<and>
    getLogItems ''warning'' (fst (on_log h l (lv_getData L s))) =
      filter (\<lambda>i. getLogItemType i = Inr ''WARNING'') (takeWhile (\<lambda>i. \<not> isl (getLogItemType i)) (logItems l)) \<and>
    getLogItems ''severe'' (fst (on_log h l (lv_getData L s))) =
      filter (\<lambda>i. getLogItemType i = Inr ''SEVERE'') (takeWhile (\<lambda>i. \<not> isl (getLogItemType i)) (logItems l))"
proof -
  let ?s = "lv_getData L s"
  have "infoLogItems ?s = []" "warningLogItems ?s = []" "severeLogItems ?s = []"
    by (simp_all add: lv_getData_def Let_def subscribe_rt_def perform_def split: sum.splits)
  then show ?thesis
    unfolding on_log_def cache_items_eq
    by (simp add: end_rt_def unsubscribe_rt_def getLogItems_def typed_items_def)
qed

definition sample_log :: ProcessLog where
  "sample_log = ServiceDocument.extend emptyDocument \<lparr>logItems =
     [''[12][I][2017-01-09T10:20:30.123Z][x] started'', ''plain'', ''[13][W][2017-01-09T10:20:31.123Z][x] slow'']\<rparr>"

lemma sample_log_items:
  "logItems sample_log =
     [''[12][I][2017-01-09T10:20:30.123Z][x] started'', ''plain'', ''[13][W][2017-01-09T10:20:31.123Z][x] slow'']"
  by (simp add: sample_log_def emptyDocument_def ServiceDocument.extend_def)

lemma sample_log_types:
  "getLogItemType ''[12][I][2017-01-09T10:20:30.123Z][x] started'' = Inr ''INFO''"
  "getLogItemType ''plain'' = Inr []"
  "getLogItemType ''[13][W][2017-01-09T10:20:31.123Z][x] slow'' = Inr ''WARNING''"
  by code_simp+

theorem log_filters_witness:
  "snd (on_log 0 sample_log (lv_getData doc_libs (new_log_view new_base))) = None \<and>
   getLogItems ''warning'' (fst (on_log 0 sample_log (lv_getData doc_libs (new_log_view new_base)))) =
     [''[13][W][2017-01-09T10:20:31.123Z][x] slow'']"
  using log_filters [of 0 sample_log doc_libs "new_log_view new_base"]
  by (simp add: sample_log_items sample_log_types)

text \<open>
  Two logs on their way fill the caches twice: when the selected node changes before the log of
  the node before has arrived, the caches end up with the items of both logs, while \<open>all\<close> shows the
  last one.
\<close>

lemma log_race_mixes:
  assumes "\<forall>i \<in> set (logItems l). \<exists>t. getLogItemType i = Inr t"
    and "\<forall>i \<in> set (logItems l'). \<exists>t. getLogItemType i = Inr t"
    and "s' = fst (on_log h' l' (fst (on_log h l (lv_on_selected_node L (lv_getData L s)))))"
  shows "getLogItems ''all'' s' = logItems l' \<and>
    getLogItems ''info'' s' = filter (\<lambda>i. getLogItemType i = Inr ''INFO'') (logItems l) @
      filter (\<lambda>i. getLogItemType i = Inr ''INFO'') (logItems l')"
proof -
  let ?s = "lv_on_selected_node L (lv_getData L s)"
  have "infoLogItems ?s = []"
    by (simp add: lv_on_selected_node_def lv_getData_def Let_def subscribe_rt_def perform_def split: sum.splits)
  then show ?thesis
    unfolding assms(3) on_log_def cache_items_eq typed_items_all [OF assms(1)] typed_items_all [OF assms(2)]
    by (simp add: end_rt_def unsubscribe_rt_def getLogItems_def)
qed

lemma log_race_mixes_witness:
  "getLogItems ''info'' (fst (on_log 1 sample_log (fst (on_log 0 sample_log
      (lv_on_selected_node doc_libs (lv_getData doc_libs (new_log_view new_base))))))) =
    [''[12][I][2017-01-09T10:20:30.123Z][x] started'', ''[12][I][2017-01-09T10:20:30.123Z][x] started'']"
  using log_race_mixes [of sample_log sample_log _ 1 0 doc_libs "new_log_view new_base", OF _ _ refl]
  by (simp add: sample_log_items sample_log_types)

end
