(* ===== verification/OperationTracing.thy ===== *)
theory OperationTracing
  imports QueryProps
begin

text \<open>
  The operation tracing view: \<open>operation-tracing-clause.component.ts\<close>, \<open>operation-tracing.component.ts\<close>
  and the data preparation of \<open>operation-tracing-chart.component.ts\<close>. The drawing itself is done by d3
  and is not modelled.
\<close>

section \<open>Clauses\<close>

record OperationTracingClauseComponent =
  tc_id :: int
  tc_type :: string
  tc_isFirst :: bool
  tc_hasMoreThanOne :: bool
  tc_occurance :: string
  tc_propertyName :: string
  tc_propertyMatchType :: string
  tc_propertyValue :: string
  tc_propertyValueRange :: NumericRange
  tc_sortOrder :: string

definition tc_getClause :: "OperationTracingClauseComponent \<Rightarrow> BooleanClause option" where
  "tc_getClause c =
     (if tc_type c = ''string'' then
        Some (string_clause (tc_propertyMatchType c) (tc_propertyValue c) (tc_propertyName c) (tc_occurance c))
      else if tc_type c = ''range'' then
        Some (range_clause (tc_propertyName c) (tc_propertyValueRange c) (tc_occurance c))
      else None)"

section \<open>The view\<close>

datatype trace_cb = ManagementCb | ManagementPatchCb | TraceQueryCb | TraceSelectedNodeCb

record trace_options =
  traceMethodsOption :: string
  pathOption :: string
  refererOption :: string

record tracing = "(trace_cb, unit) rt" +
  ot_base :: base
  operationTracingClauseComponents :: "OperationTracingClauseComponent list"
  isRecordingOn :: bool
  traceClauses :: "int list"
  ot_clauseIdTracker :: int
  traceOptions :: trace_options
  management :: "ServiceHostState option"
  traceTask :: "json option"
  traceResult :: "ServiceDocumentQueryResult option option"
  baseServiceManagementSubscription :: "nat option"
  baseServiceManagementPatchSubscription :: "nat option"
  baseServiceQuerySubscription :: "nat option"
  ot_nodeSelectorSubscription :: "nat option"

definition traceMethods :: "string list" where
  "traceMethods = [''GET'', ''POST'', ''PATCH'', ''PUT'', ''OPTIONS'', ''DELETE'']"

definition new_tracing :: "base \<Rightarrow> tracing" where
  "new_tracing b = \<lparr>nextHandle = 0, live = [], effects = [], ot_base = b, operationTracingClauseComponents = [],
     isRecordingOn = False, traceClauses = [], ot_clauseIdTracker = 0,
     traceOptions = \<lparr>traceMethodsOption = ''GET'', pathOption = [], refererOption = []\<rparr>,
     management = None, traceTask = None, traceResult = None, baseServiceManagementSubscription = None,
     baseServiceManagementPatchSubscription = None, baseServiceQuerySubscription = None,
     ot_nodeSelectorSubscription = None\<rparr>"

definition ot_getData :: "libs \<Rightarrow> tracing \<Rightarrow> tracing" where
  "ot_getData L s =
     (case getDocument L (ot_base s) URL_CoreManagement [] True of
        Inl e \<Rightarrow> s
      | Inr r \<Rightarrow> (subscribe_rt ManagementCb (perform (Request r) s))
          \<lparr>baseServiceManagementSubscription := Some (nextHandle s)\<rparr>)"

definition ot_ngOnInit :: "libs \<Rightarrow> tracing \<Rightarrow> tracing" where
  "ot_ngOnInit L s =
     (let s = ot_getData L s
      in (subscribe_rt TraceSelectedNodeCb s)\<lparr>ot_nodeSelectorSubscription := Some (nextHandle s)\<rparr>)"

definition ot_on_selected_node :: "libs \<Rightarrow> tracing \<Rightarrow> tracing" where
  "ot_on_selected_node L s = ot_getData L s"

definition ot_ngOnDestroy :: "tracing \<Rightarrow> tracing" where
  "ot_ngOnDestroy s =
     unsubscribe_rt (baseServiceQuerySubscription s)
       (unsubscribe_rt (baseServiceManagementPatchSubscription s)
         (unsubscribe_rt (baseServiceManagementSubscription s) s))"

text \<open>The level is absent, or a text.\<close>

definition on_management_document :: "nat \<Rightarrow> ServiceHostState \<Rightarrow> tracing \<Rightarrow> tracing" where
  "on_management_document h m s =
     (end_rt h s)\<lparr>management := Some m, isRecordingOn := (operationTracingLevel m = Some ''ALL'')\<rparr>"

definition on_management_document_error :: "nat \<Rightarrow> server_error \<Rightarrow> tracing \<Rightarrow> tracing" where
  "on_management_document_error h err s =
     perform (Notify (error_notification ''Failed to retrieve operation tracing recording status'' err)) (end_rt h s)"

text \<open>
  The number of results. A result is \<open>undefined\<close> or \<open>null\<close> (\<^term>\<open>None\<close>), or has no results
  (\<^term>\<open>Some None\<close>).
\<close>

definition getTraceResultCount :: "tracing \<Rightarrow> int" where
  "getTraceResultCount s =
     (case traceResult s of
        None \<Rightarrow> 0
      | Some None \<Rightarrow> 0
      | Some (Some r) \<Rightarrow>
          (case documentCount r of
             None \<Rightarrow> int (length (documentLinks r))
           | Some n \<Rightarrow> n))"

definition toggle_body :: "bool \<Rightarrow> json" where
  "toggle_body on = JObj [(''enable'', JStr (if on then ''START'' else ''STOP'')),
     (''kind'', JStr ''com:vmware:xenon:services:common:ServiceHostManagementService:ConfigureOperationTracingRequest'')]"

definition onToggleTrace :: "libs \<Rightarrow> tracing \<Rightarrow> tracing" where
  "onToggleTrace L s =
     (let s = s\<lparr>isRecordingOn := \<not> isRecordingOn s\<rparr> in
      case patch L (ot_base s) URL_CoreManagement (toggle_body (isRecordingOn s)) True of
        Inl e \<Rightarrow> s
      | Inr r \<Rightarrow> (subscribe_rt ManagementPatchCb (perform (Request r) s))
          \<lparr>baseServiceManagementPatchSubscription := Some (nextHandle s)\<rparr>)"

definition onTraceMethodOptionChanged :: "string \<Rightarrow> tracing \<Rightarrow> tracing" where
  "onTraceMethodOptionChanged v s = s\<lparr>traceOptions := (traceOptions s)\<lparr>traceMethodsOption := v\<rparr>\<rparr>"

definition onTracePathOptionChanged :: "string \<Rightarrow> tracing \<Rightarrow> tracing" where
  "onTracePathOptionChanged v s = s\<lparr>traceOptions := (traceOptions s)\<lparr>pathOption := v\<rparr>\<rparr>"

definition onTraceRefererOptionChanged :: "string \<Rightarrow> tracing \<Rightarrow> tracing" where
  "onTraceRefererOptionChanged v s = s\<lparr>traceOptions := (traceOptions s)\<lparr>refererOption := v\<rparr>\<rparr>"

definition ot_onAddClause :: "tracing \<Rightarrow> tracing" where
  "ot_onAddClause s =
     (let s = s\<lparr>ot_clauseIdTracker := ot_clauseIdTracker s + 1\<rparr>
      in s\<lparr>traceClauses := traceClauses s @ [ot_clauseIdTracker s]\<rparr>)"

definition ot_onDeleteClause :: "int \<Rightarrow> tracing \<Rightarrow> tracing" where
  "ot_onDeleteClause i s =
     (let s = s\<lparr>traceClauses := filter (\<lambda>j. j \<noteq> i) (traceClauses s)\<rparr>
      in if length (traceClauses s) = 0 then s\<lparr>ot_clauseIdTracker := 0\<rparr> else s)"

definition onClearTrace :: "tracing \<Rightarrow> tracing" where
  "onClearTrace s = s\<lparr>ot_clauseIdTracker := 0, traceClauses := [], traceResult := None\<rparr>"

definition trace_clause :: "string \<Rightarrow> string \<Rightarrow> string \<Rightarrow> json" where
  "trace_clause property val matcht =
     JObj [(''occurance'', JStr ''MUST_OCCUR''),
       (''term'', JObj [(''propertyName'', JStr property), (''matchValue'', JStr val), (''matchType'', JStr matcht)])]"

definition ot_buildInteractiveQueryTask :: "tracing \<Rightarrow> json" where
  "ot_buildInteractiveQueryTask s =
     JObj [(''taskInfo'', JObj [(''isDirect'', JBool True)]),
       (''querySpec'', JObj [(''options'', JArr [JStr ''EXPAND_CONTENT'']),
          (''query'', JObj [(''booleanClauses'', JArr (
             [trace_clause ''referer'' (refererOption (traceOptions s)) ''WILDCARD'',
              trace_clause ''action'' (traceMethodsOption (traceOptions s)) ''TERM'',
              trace_clause ''path'' (pathOption (traceOptions s)) ''WILDCARD''] @
             map (\<lambda>c. case_option JNull clause_json (tc_getClause c)) (operationTracingClauseComponents s))),
           (''occurance'', JStr ''MUST_OCCUR'')])]),
       (''indexLink'', JStr ''/core/operation-index'')]"

text \<open>The task is never empty, so the exception of \<open>onTrace\<close> is not raised.\<close>

definition onTrace :: "libs \<Rightarrow> tracing \<Rightarrow> tracing" where
  "onTrace L s =
     (let s = s\<lparr>traceResult := None, traceTask := None\<rparr>;
          task = ot_buildInteractiveQueryTask s;
          s = s\<lparr>traceTask := Some task\<rparr>
      in if json_isEmpty task then
           perform (Notify [\<lparr>notificationType = ''ERROR'', messages = [''Invalid query: Error: The query is empty'']\<rparr>]) s
         else
           (case post L (ot_base s) URL_QueryLocal task True of
              Inl e \<Rightarrow> perform (Notify [\<lparr>notificationType = ''ERROR'', messages = [''Invalid query: '' @ error_name e]\<rparr>]) s
            | Inr r \<Rightarrow> (subscribe_rt TraceQueryCb (perform (Request r) s))
                \<lparr>baseServiceQuerySubscription := Some (nextHandle s)\<rparr>))"

definition on_trace_result :: "nat \<Rightarrow> ServiceDocumentQueryResult option \<Rightarrow> tracing \<Rightarrow> tracing" where
  "on_trace_result h r s = (end_rt h s)\<lparr>traceResult := Some r\<rparr>"

definition on_trace_error :: "nat \<Rightarrow> server_error \<Rightarrow> tracing \<Rightarrow> tracing" where
  "on_trace_error h err s = perform (Notify (error_notification ''Failed to query'' err)) (end_rt h s)"

interpretation trace_clauses: clause_list
  traceClauses ot_clauseIdTracker ot_onAddClause ot_onDeleteClause
  by unfold_locales (auto simp: ot_onAddClause_def ot_onDeleteClause_def Let_def split: if_splits)

section \<open>The data of the chart\<close>

text \<open>
  A text as a number: a numeral of decimal digits, 0 for the empty text and \<open>NaN\<close> (\<^term>\<open>None\<close>)
  for others; the signs, fractions and exponents a timestamp does not have are not modelled. A
  comparison with \<open>NaN\<close> is false.
\<close>

definition as_number :: "string \<Rightarrow> nat option" where
  "as_number s = (if list_all is_digit s then Some (read_nat s) else None)"

definition num_less :: "nat option \<Rightarrow> nat option \<Rightarrow> bool" where
  "num_less a b = (case (a, b) of (Some x, Some y) \<Rightarrow> x < y | _ \<Rightarrow> False)"

definition range_step :: "nat option \<times> nat option \<Rightarrow> nat option \<Rightarrow> nat option \<times> nat option" where
  "range_step r timestamp =
     (let start = (if fst r = Some 0 then timestamp else fst r);
          fin = (if snd r = Some 0 then timestamp else snd r)
      in if num_less fin timestamp then (start, timestamp)
         else if num_less timestamp start then (timestamp, fin)
         else (start, fin))"

definition getDataTimeRange :: "string list \<Rightarrow> nat option \<times> nat option" where
  "getDataTimeRange links = foldl range_step (Some 0, Some 0) (map as_number links)"

record op_event =
  ev_date :: "nat option"
  ev_event :: string
  ev_object :: SerializedOperation

record op_timeline =
  tl_name :: string
  tl_data :: "op_event list"

text \<open>The date of an event in milliseconds: the key is in microseconds, and a date is an integer.\<close>

definition op_event_of :: "string \<times> SerializedOperation \<Rightarrow> op_event" where
  "op_event_of d = \<lparr>ev_date = map_option (\<lambda>n. n div 1000) (as_number (fst d)), ev_event = opAction (snd d),
     ev_object = snd d\<rparr>"

text \<open>The event goes to the first timeline with its path, or to a new one.\<close>

fun add_event :: "string \<Rightarrow> op_event \<Rightarrow> op_timeline list \<Rightarrow> op_timeline list" where
  "add_event path e [] = [\<lparr>tl_name = path, tl_data = [e]\<rparr>]"
| "add_event path e (t # ts) =
     (if tl_name t = path then t\<lparr>tl_data := tl_data t @ [e]\<rparr> # ts else t # add_event path e ts)"

definition transformData :: "(string \<times> SerializedOperation) list \<Rightarrow> op_timeline list" where
  "transformData docs = foldl (\<lambda>ts d. add_event (opPath (snd d)) (op_event_of d) ts) [] docs"

definition countNames :: "op_timeline list \<Rightarrow> nat" where
  "countNames ts = length (filter (\<lambda>t. tl_name t \<noteq> []) ts)"

text \<open>The range of a group, with the operations at its ends.\<close>

definition group_step ::
  "(nat option \<times> op_event option) \<times> (nat option \<times> op_event option) \<Rightarrow> op_event \<Rightarrow>
   (nat option \<times> op_event option) \<times> (nat option \<times> op_event option)" where
  "group_step r operation =
     (let timestamp = ev_date operation;
          start = (if fst (fst r) = Some 0 then (timestamp, Some operation) else fst r);
          fin = (if fst (snd r) = Some 0 then (timestamp, Some operation) else snd r)
      in if num_less (fst fin) timestamp then (start, (timestamp, Some operation))
         else if num_less timestamp (fst start) then ((timestamp, Some operation), fin)
         else (start, fin))"

definition getGroupOperationsTimeRange ::
  "op_event list \<Rightarrow> (nat option \<times> op_event option) \<times> (nat option \<times> op_event option)" where
  "getGroupOperationsTimeRange ops = foldl group_step ((Some 0, None), (Some 0, None)) ops"

text \<open>
  The position of an operation in the group, in percent; \<^term>\<open>None\<close> is \<open>NaN\<close>, the quotient of 0 by 0.
  The dates are numbers and the operation is in the range.
\<close>

definition timeline_left_position :: "(nat \<times> nat) option \<Rightarrow> nat \<Rightarrow> real option" where
  "timeline_left_position rng date =
     (case rng of
        None \<Rightarrow> Some 0
      | Some (start, fin) \<Rightarrow>
          if fin = start then None
          else Some ((real date - real start) / (real fin - real start) * 100 - 3 / 2))"

section \<open>Properties of the clauses and subscriptions\<close>

fun edit_trace_clauses :: "clause_edit list \<Rightarrow> tracing \<Rightarrow> tracing" where
  "edit_trace_clauses [] s = s"
| "edit_trace_clauses (AddClause # es) s = edit_trace_clauses es (ot_onAddClause s)"
| "edit_trace_clauses (DeleteClause i # es) s = edit_trace_clauses es (ot_onDeleteClause i s)"

lemma edit_trace_clauses_edits:
  "edit_trace_clauses es s =
     trace_clauses.edits (map (\<lambda>e. case e of AddClause \<Rightarrow> None | DeleteClause i \<Rightarrow> Some i) es) s"
  by (induction es s rule: edit_trace_clauses.induct) simp_all

text \<open>
  The ids of the clauses of the tracing view are distinct, whatever clauses are added and
  deleted. Unlike what the comment on the counter says, it does not always increase: after the last
  clause is deleted, the id 1 is given again.
\<close>

lemma trace_clause_ids:
  "distinct (traceClauses (edit_trace_clauses es (new_tracing b))) \<and>
   traceClauses (edit_trace_clauses [AddClause, DeleteClause 1, AddClause] (new_tracing b)) = [1]"
proof
  have "trace_clauses.tracked (new_tracing b)" by (simp add: trace_clauses.tracked_def new_tracing_def)
  then have "trace_clauses.tracked (edit_trace_clauses es (new_tracing b))"
    unfolding edit_trace_clauses_edits by (rule trace_clauses.tracked_edits)
  then show "distinct (traceClauses (edit_trace_clauses es (new_tracing b)))"
    by (simp add: trace_clauses.tracked_def)
  show "traceClauses (edit_trace_clauses [AddClause, DeleteClause 1, AddClause] (new_tracing b)) = [1]"
    by (simp add: new_tracing_def ot_onAddClause_def ot_onDeleteClause_def Let_def)
qed

text \<open>
  The tracing view keeps listening after it is left: once initialised and destroyed, its
  subscription to the selected node is live, and every change of the selected node makes the
  destroyed view send another request.
\<close>

lemma tracing_leaks:
  assumes "s = ot_ngOnDestroy (ot_ngOnInit L (new_tracing b))"
    and "getDocument L b URL_CoreManagement [] True = Inr r"
  shows "live s = [(1, TraceSelectedNodeCb)] \<and>
    effects (ot_on_selected_node L s) = effects s @ [Request r] \<and>
    (1, TraceSelectedNodeCb) \<in> set (live (ot_on_selected_node L s))"
  unfolding assms(1)
  using assms(2)
  by (simp add: ot_ngOnDestroy_def ot_ngOnInit_def ot_getData_def ot_on_selected_node_def new_tracing_def Let_def
      subscribe_rt_def perform_def unsubscribe_rt_def)

lemma tracing_leaks_witness:
  "live (ot_ngOnDestroy (ot_ngOnInit doc_libs (new_tracing new_base))) = [(1, TraceSelectedNodeCb)]"
  using tracing_leaks [OF refl, of doc_libs new_base]
  by (simp add: getDocument_def getDocumentInternal_def get_link_def append_option_def map_result_def new_base_def)

text \<open>
  The switch tells the node what it shows: toggling turns the recording on or off and sends one
  request that starts it when it is on and stops it when it is off; toggling twice restores the
  switch.
\<close>

lemma toggle_trace:
  assumes "selectedNodeId (ot_base s) = hostNodeId (ot_base s)"
  shows "isRecordingOn (onToggleTrace L s) = (\<not> isRecordingOn s) \<and>
    effects (onToggleTrace L s) = effects s @ [Request (HttpPatch (API_PREFIX L @ URL_CoreManagement)
      (JSON_stringify (toggle_body (\<not> isRecordingOn s))))] \<and>
    isRecordingOn (onToggleTrace L (onToggleTrace L s)) = isRecordingOn s"
  using assms
  by (simp add: onToggleTrace_def patch_def send_link_def map_result_def body_text_def toggle_body_def Let_def
      subscribe_rt_def perform_def del: JSON_stringify.simps)

lemma toggle_trace_witness:
  "isRecordingOn (onToggleTrace doc_libs (new_tracing new_base))"
  using toggle_trace [of "new_tracing new_base" doc_libs] by (simp add: new_tracing_def new_base_def)

section \<open>Properties of the chart\<close>

lemma add_event_distinct:
  "distinct ps \<Longrightarrow> path \<notin> set ps \<longrightarrow> f path = [] \<Longrightarrow>
   add_event path e (map (\<lambda>p. \<lparr>tl_name = p, tl_data = f p\<rparr>) ps) =
     map (\<lambda>p. \<lparr>tl_name = p, tl_data = f p @ (if p = path then [e] else [])\<rparr>)
       (if path \<in> set ps then ps else ps @ [path])"
proof (induction ps)
  case (Cons p ps)
  show ?case
  proof (cases "p = path")
    case True
    then have "map (\<lambda>p. \<lparr>tl_name = p, tl_data = f p @ (if p = path then [e] else [])\<rparr>) ps =
        map (\<lambda>p. \<lparr>tl_name = p, tl_data = f p\<rparr>) ps"
      using Cons.prems(1) by (intro map_cong) auto
    then show ?thesis using True by simp
  next
    case False
    then show ?thesis using Cons by auto
  qed
qed simp

lemma first_occurrences_filter:
  "first_occurrences (filter P xs) = filter P (first_occurrences xs)"
proof (induction "length xs" arbitrary: xs P rule: less_induct)
  case less
  show ?case
  proof (cases xs)
    case (Cons x ys)
    have len: "length (filter (\<lambda>y. y \<noteq> x) ys) < length xs" using Cons by (simp add: le_imp_less_Suc)
    have "filter (\<lambda>y. y \<noteq> x) (filter P ys) = filter P (filter (\<lambda>y. y \<noteq> x) ys)"
      by (simp add: conj_commute)
    then show ?thesis using less [OF len, of P] less [of ys P] less [of ys "\<lambda>y. y \<noteq> x"] Cons
      by (auto simp: filter_id_conv) (metis (mono_tags, lifting) filter_cong)
  qed simp
qed

lemma first_occurrences_cons: "first_occurrences (x # xs) = x # filter (\<lambda>y. y \<noteq> x) (first_occurrences xs)"
  by (simp add: first_occurrences_filter)

declare first_occurrences.simps(2) [simp del]
declare first_occurrences_cons [simp]

lemma set_first_occurrences [simp]: "set (first_occurrences xs) = set xs"
  by (induction xs) auto

lemma distinct_first_occurrences [simp]: "distinct (first_occurrences xs)"
  by (induction xs) auto

lemma first_occurrences_snoc:
  "first_occurrences (xs @ [x]) = (if x \<in> set xs then first_occurrences xs else first_occurrences xs @ [x])"
  by (induction xs) auto

lemma transformData_spec:
  "transformData docs =
     map (\<lambda>p. \<lparr>tl_name = p, tl_data = map op_event_of (filter (\<lambda>d. opPath (snd d) = p) docs)\<rparr>)
       (first_occurrences (map (\<lambda>d. opPath (snd d)) docs))"
proof (induction docs rule: rev_induct)
  case (snoc d docs)
  let ?ps = "first_occurrences (map (\<lambda>d. opPath (snd d)) docs)"
  let ?f = "\<lambda>p. map op_event_of (filter (\<lambda>d. opPath (snd d) = p) docs)"
  have new: "opPath (snd d) \<notin> set ?ps \<longrightarrow> ?f (opPath (snd d)) = []"
    by (auto simp: filter_empty_conv image_iff)
  have "transformData (docs @ [d]) = add_event (opPath (snd d)) (op_event_of d) (transformData docs)"
    by (simp add: transformData_def)
  also have "\<dots> = map (\<lambda>p. \<lparr>tl_name = p, tl_data = ?f p @ (if p = opPath (snd d) then [op_event_of d] else [])\<rparr>)
      (if opPath (snd d) \<in> set ?ps then ?ps else ?ps @ [opPath (snd d)])"
    unfolding snoc using add_event_distinct [of ?ps "opPath (snd d)" ?f "op_event_of d"] new by simp
  also have "\<dots> = map (\<lambda>p. \<lparr>tl_name = p, tl_data = map op_event_of (filter (\<lambda>d. opPath (snd d) = p) (docs @ [d]))\<rparr>)
      (first_occurrences (map (\<lambda>d. opPath (snd d)) (docs @ [d])))"
    by (auto simp: first_occurrences_snoc)
  finally show ?case .
qed (simp add: transformData_def)

text \<open>
  The chart has one timeline for each path, in the order in which the paths first occur in the
  trace, and the events of a timeline are the operations on its path, in the order of the trace.
\<close>

lemma transformData_groups:
  "transformData docs =
     map (\<lambda>p. \<lparr>tl_name = p, tl_data = map op_event_of (filter (\<lambda>d. opPath (snd d) = p) docs)\<rparr>)
       (first_occurrences (map (\<lambda>d. opPath (snd d)) docs))"
  by (rule transformData_spec)

lemma range_step_pos:
  "0 < a \<Longrightarrow> a \<le> b \<Longrightarrow> 0 < t \<Longrightarrow> range_step (Some a, Some b) (Some t) = (Some (min a t), Some (max b t))"
  by (auto simp: range_step_def num_less_def Let_def)

lemma range_fold_pos:
  "0 < a \<Longrightarrow> a \<le> b \<Longrightarrow> \<forall>t \<in> set ts. 0 < t \<Longrightarrow>
   foldl range_step (Some a, Some b) (map Some ts) = (Some (Min (insert a (set ts))), Some (Max (insert b (set ts))))"
proof (induction ts arbitrary: a b)
  case (Cons t ts)
  have "Min (insert (min a t) (set ts)) = Min (insert a (insert t (set ts)))"
    "Max (insert (max b t) (set ts)) = Max (insert b (insert t (set ts)))"
    by (cases "ts = []"; simp add: min.assoc max.assoc)+
  moreover have "foldl range_step (Some (min a t), Some (max b t)) (map Some ts) =
      (Some (Min (insert (min a t) (set ts))), Some (Max (insert (max b t) (set ts))))"
    using Cons.prems by (intro Cons.IH) auto
  ultimately show ?case using Cons.prems by (simp add: range_step_pos)
qed simp

text \<open>
  The time range of the chart is the one of the trace: for links that are positive numerals, of
  which there is at least one, it starts at the smallest and ends at the largest of them.
\<close>

lemma data_time_range:
  assumes "ts \<noteq> []" "\<forall>t \<in> set ts. 0 < t"
  shows "getDataTimeRange (map show_nat ts) = (Some (Min (set ts)), Some (Max (set ts)))"
proof -
  obtain t us where ts: "ts = t # us" using assms(1) by (cases ts) auto
  have "as_number (show_nat n) = Some n" for n
    using show_nat_digits by (auto simp: as_number_def list_all_iff)
  then have "getDataTimeRange (map show_nat ts) = foldl range_step (Some 0, Some 0) (map Some ts)"
    by (simp add: getDataTimeRange_def comp_def)
  also have "\<dots> = foldl range_step (Some t, Some t) (map Some us)"
    by (simp add: ts range_step_def num_less_def Let_def)
  also have "\<dots> = (Some (Min (set ts)), Some (Max (set ts)))"
    using range_fold_pos [of t t us] assms(2) ts by simp
  finally show ?thesis .
qed

lemma data_time_range_witness:
  "getDataTimeRange (map show_nat [30, 10, 20]) = (Some (Min (set [30, 10, 20])), Some (Max (set [30, 10, 20])))"
  by (rule data_time_range) simp_all

text \<open>
  In the detail of a group the operations are placed from 1.5 percent left of the start to 1.5
  percent left of the end; the positions are not numbers when all operations have the same date.
\<close>

lemma left_position_bounds:
  assumes "start \<le> date" "date \<le> fin"
  shows "timeline_left_position (Some (start, fin)) date =
      (if start = fin then None else Some ((real date - real start) / (real fin - real start) * 100 - 3 / 2)) \<and>
    (\<forall>p \<in> set_option (timeline_left_position (Some (start, fin)) date). - 3 / 2 \<le> p \<and> p \<le> 197 / 2)"
proof (cases "start = fin")
  case False
  then have lt: "real start < real fin" using assms by simp
  define q where "q = (real date - real start) / (real fin - real start)"
  have "0 \<le> q" "q \<le> 1" using assms lt by (simp_all add: q_def divide_le_eq_1)
  moreover have "timeline_left_position (Some (start, fin)) date = Some (q * 100 - 3 / 2)"
    using False by (simp add: timeline_left_position_def q_def)
  ultimately show ?thesis using False by (auto simp: q_def [symmetric])
qed (simp add: timeline_left_position_def)

lemma left_position_bounds_witness: "timeline_left_position (Some (5, 5)) 5 = None"
  using left_position_bounds [of 5 5 5] by simp

end
