(* ===== verification/NodeSelection.thy ===== *)
theory NodeSelection
  imports Auth
begin

text \<open>
  \<open>node-selector.service.ts\<close>, \<open>node-selector.component.ts\<close>, \<open>navbar.component.ts\<close> and
  \<open>node-info-panel.component.ts\<close>: the node whose data the views show. The selector reads the node
  groups of the host, the user or the address names a node, and the three subjects of the service
  tell the request layer and the navigation bar. A subject has no value of its own: \<open>next\<close> runs the
  callbacks that are subscribed at that moment, so the state of the service is who subscribed. A
  node is \<^term>\<open>None\<close> when it is \<open>undefined\<close> and \<^term>\<open>Some None\<close> when it is \<open>null\<close>.
\<close>

section \<open>The events of the node selector service\<close>

type_synonym node_ref = "Node option option"

datatype node_event =
    SetHostNode node_ref
  | SetSelectedNode node_ref
  | SetNodeSelectorActive bool
  | NavigateNode string

text \<open>\<open>node ? ... : ...\<close>: both missing values count as no node.\<close>

definition node_of :: "node_ref \<Rightarrow> Node option" where
  "node_of r = (case r of Some n \<Rightarrow> n | None \<Rightarrow> None)"

definition setHostNode :: "node_ref \<Rightarrow> ('c, node_event, 'm) rt_scheme \<Rightarrow> ('c, node_event, 'm) rt_scheme" where
  "setHostNode n s = perform (Publish (SetHostNode n)) s"

definition setSelectedNode :: "node_ref \<Rightarrow> ('c, node_event, 'm) rt_scheme \<Rightarrow> ('c, node_event, 'm) rt_scheme" where
  "setSelectedNode n s = perform (Publish (SetSelectedNode n)) s"

definition setNodeSelectorActive :: "bool \<Rightarrow> ('c, node_event, 'm) rt_scheme \<Rightarrow> ('c, node_event, 'm) rt_scheme" where
  "setNodeSelectorActive b s = perform (Publish (SetNodeSelectorActive b)) s"

section \<open>The node selector\<close>

text \<open>The callback for the details keeps the owner of the document that named the groups.\<close>

datatype selector_cb = NodeParamCb | ActiveCb | NodeGroupCb | NodeGroupDetailsCb "string option"

record selector = "(selector_cb, node_event) rt" +
  sel_base :: base
  nodeGroups :: "NodeGroup list option"
  sel_nodeId :: "string option"
  hostNode :: node_ref
  selectedNode :: node_ref
  highlightedNode :: node_ref
  sel_active :: bool
  activatedRouteSubscription :: "nat option"
  baseServiceGetDocumentSubscription :: "nat option"
  baseServiceGetDocumentsSubscription :: "nat option"
  nodeSelectorServiceGetActiveSubscription :: "nat option"

definition new_selector :: "base \<Rightarrow> selector" where
  "new_selector b = \<lparr>nextHandle = 0, live = [], effects = [], sel_base = b, nodeGroups = None,
     sel_nodeId = Some [], hostNode = None, selectedNode = None, highlightedNode = None,
     sel_active = False, activatedRouteSubscription = None, baseServiceGetDocumentSubscription = None,
     baseServiceGetDocumentsSubscription = None, nodeSelectorServiceGetActiveSubscription = None\<rparr>"

text \<open>A node of several groups is taken from the last of them.\<close>

definition getSelectedNodeById :: "selector \<Rightarrow> string \<Rightarrow> node_ref" where
  "getSelectedNodeById s i =
     (case nodeGroups s of
        None \<Rightarrow> Some None
      | Some [] \<Rightarrow> Some None
      | Some gs \<Rightarrow>
          foldl (\<lambda>node g. case map_of (groupNodes g) i of Some n \<Rightarrow> Some (Some n) | None \<Rightarrow> node) None gs)"

text \<open>\<open>id && id !== 'undefined'\<close>.\<close>

definition names_node :: "string option \<Rightarrow> bool" where
  "names_node i \<longleftrightarrow> truthy i \<and> i \<noteq> Some ''undefined''"

definition sel_getData :: "libs \<Rightarrow> selector \<Rightarrow> selector" where
  "sel_getData L s =
     (case getDocument L (sel_base s) URL_NodeGroup [] False of
        Inl e \<Rightarrow> s
      | Inr r \<Rightarrow> (subscribe_rt NodeGroupCb (perform (Request r) s))
          \<lparr>baseServiceGetDocumentSubscription := Some (nextHandle s)\<rparr>)"

definition sel_on_params :: "libs \<Rightarrow> string option \<Rightarrow> selector \<Rightarrow> selector" where
  "sel_on_params L node s =
     (let s = s\<lparr>sel_nodeId := node\<rparr> in
      if nodeGroups s \<noteq> None \<and> nodeGroups s \<noteq> Some [] then
        (let s = s\<lparr>selectedNode := (if names_node (sel_nodeId s) then getSelectedNodeById s (the (sel_nodeId s))
                                    else hostNode s)\<rparr>
         in setSelectedNode (selectedNode s) s)
      else sel_getData L s)"

definition sel_on_active :: "bool \<Rightarrow> selector \<Rightarrow> selector" where
  "sel_on_active isActive s = s\<lparr>sel_active := isActive\<rparr>"

definition sel_ngOnInit :: "selector \<Rightarrow> selector" where
  "sel_ngOnInit s =
     (let s = (subscribe_rt NodeParamCb s)\<lparr>activatedRouteSubscription := Some (nextHandle s)\<rparr>
      in (subscribe_rt ActiveCb s)\<lparr>nodeSelectorServiceGetActiveSubscription := Some (nextHandle s)\<rparr>)"

definition sel_ngOnDestroy :: "selector \<Rightarrow> selector" where
  "sel_ngOnDestroy s =
     unsubscribe_rt (activatedRouteSubscription s)
       (unsubscribe_rt (nodeSelectorServiceGetActiveSubscription s)
         (unsubscribe_rt (baseServiceGetDocumentSubscription s)
           (unsubscribe_rt (baseServiceGetDocumentsSubscription s) s)))"

definition getNodeGroups :: "selector \<Rightarrow> NodeGroup list" where
  "getNodeGroups s = case_option [] (\<lambda>x. x) (nodeGroups s)"

text \<open>Reading the id of \<open>null\<close> raises a \<open>TypeError\<close>.\<close>

definition same_node :: "node_ref \<Rightarrow> node_ref \<Rightarrow> bool result" where
  "same_node h s =
     (case (h, s) of
        (None, _) \<Rightarrow> Inr False
      | (_, None) \<Rightarrow> Inr False
      | (Some (Some a), Some (Some b)) \<Rightarrow> Inr (nodeId a = nodeId b)
      | _ \<Rightarrow> Inl TypeError)"

definition sel_isHostNode :: "selector \<Rightarrow> bool result" where
  "sel_isHostNode s = same_node (hostNode s) (selectedNode s)"

definition onNodeHighlighted :: "node_ref \<Rightarrow> selector \<Rightarrow> selector" where
  "onNodeHighlighted node s = s\<lparr>highlightedNode := node\<rparr>"

definition onNodeSelectionConfirmed :: "string \<Rightarrow> selector \<Rightarrow> selector" where
  "onNodeSelectionConfirmed i s =
     (let s = s\<lparr>selectedNode := getSelectedNodeById s i\<rparr>;
          s = setSelectedNode (selectedNode s) s;
          s = s\<lparr>sel_active := False\<rparr>;
          s = setNodeSelectorActive (sel_active s) s
      in perform (Publish (NavigateNode i)) s)"

definition onViewClosed :: "selector \<Rightarrow> selector" where
  "onViewClosed s = (let s = s\<lparr>sel_active := False\<rparr> in setNodeSelectorActive (sel_active s) s)"

definition sel_on_group :: "libs \<Rightarrow> nat \<Rightarrow> ServiceDocumentQueryResult \<Rightarrow> selector \<Rightarrow> selector" where
  "sel_on_group L h doc s =
     (let s = end_rt h s;
          s = s\<lparr>sel_nodeId := (if names_node (sel_nodeId s) then sel_nodeId s else documentOwner doc)\<rparr>
      in case getDocuments L (sel_base s) (documentLinks doc) [] False of
           Inl e \<Rightarrow> s
         | Inr rs \<Rightarrow> (subscribe_rt (NodeGroupDetailsCb (documentOwner doc)) (perform (RequestAll rs) s))
             \<lparr>baseServiceGetDocumentsSubscription := Some (nextHandle s)\<rparr>)"

definition sel_on_details :: "nat \<Rightarrow> string option \<Rightarrow> NodeGroup list \<Rightarrow> selector \<Rightarrow> selector" where
  "sel_on_details h owner gs s =
     (let s = (end_rt h s)\<lparr>nodeGroups := Some gs\<rparr>;
          s = s\<lparr>hostNode := getSelectedNodeById s (show_opt (\<lambda>x. x) owner)\<rparr>;
          s = s\<lparr>selectedNode := getSelectedNodeById s (show_opt (\<lambda>x. x) (sel_nodeId s))\<rparr>;
          s = s\<lparr>highlightedNode := selectedNode s\<rparr>
      in setSelectedNode (selectedNode s) (setHostNode (hostNode s) s))"

definition sel_on_group_error :: "nat \<Rightarrow> server_error \<Rightarrow> selector \<Rightarrow> selector" where
  "sel_on_group_error h err s =
     perform (Notify (error_notification ''Failed to retrieve node group'' err)) (end_rt h s)"

definition sel_on_details_error :: "nat \<Rightarrow> server_error \<Rightarrow> selector \<Rightarrow> selector" where
  "sel_on_details_error h err s =
     perform (Notify (error_notification ''Failed to retrieve node group details'' err)) (end_rt h s)"

section \<open>The navigation bar\<close>

datatype navbar_cb = NavHostCb | NavSelectedCb | NavActiveCb | NavLogoutCb

record navbar = "(navbar_cb, node_event) rt" +
  nav_auth :: auth
  nav_active :: bool
  nav_hostNode :: node_ref
  nav_selectedNode :: node_ref
  nav_getHostSubscription :: "nat option"
  nav_getSelectedSubscription :: "nat option"
  nav_getActiveSubscription :: "nat option"

definition new_navbar :: "auth \<Rightarrow> navbar" where
  "new_navbar a = \<lparr>nextHandle = 0, live = [], effects = [], nav_auth = a, nav_active = False,
     nav_hostNode = None, nav_selectedNode = None, nav_getHostSubscription = None,
     nav_getSelectedSubscription = None, nav_getActiveSubscription = None\<rparr>"

definition nav_ngOnInit :: "navbar \<Rightarrow> navbar" where
  "nav_ngOnInit s =
     (let s = (subscribe_rt NavHostCb s)\<lparr>nav_getHostSubscription := Some (nextHandle s)\<rparr>;
          s = (subscribe_rt NavSelectedCb s)\<lparr>nav_getSelectedSubscription := Some (nextHandle s)\<rparr>
      in (subscribe_rt NavActiveCb s)\<lparr>nav_getActiveSubscription := Some (nextHandle s)\<rparr>)"

definition nav_ngOnDestroy :: "navbar \<Rightarrow> navbar" where
  "nav_ngOnDestroy s =
     unsubscribe_rt (nav_getHostSubscription s)
       (unsubscribe_rt (nav_getSelectedSubscription s)
         (unsubscribe_rt (nav_getActiveSubscription s) s))"

definition getSelectedNodeId :: "navbar \<Rightarrow> string" where
  "getSelectedNodeId s = (case node_of (nav_selectedNode s) of None \<Rightarrow> ''Unknown'' | Some n \<Rightarrow> nodeId n)"

text \<open>A status that the table does not have raises a \<open>TypeError\<close>.\<close>

definition getSelectedNodeStatusClass :: "string \<Rightarrow> navbar \<Rightarrow> string result" where
  "getSelectedNodeStatusClass baseClass s =
     (case map_of ProcessingStageUtil
        (case node_of (nav_selectedNode s) of None \<Rightarrow> ''UNKNOWN'' | Some n \<Rightarrow> toUpperCase (nodeStatus n)) of
        None \<Rightarrow> Inl TypeError
      | Some d \<Rightarrow> Inr (baseClass @ '' '' @ className d))"

definition nav_isHostNode :: "navbar \<Rightarrow> bool result" where
  "nav_isHostNode s = same_node (nav_hostNode s) (nav_selectedNode s)"

definition onNodeSelectorClicked :: "navbar \<Rightarrow> navbar" where
  "onNodeSelectorClicked s =
     (let s = s\<lparr>nav_active := \<not> nav_active s\<rparr> in setNodeSelectorActive (nav_active s) s)"

definition onLogout :: "libs \<Rightarrow> navbar \<Rightarrow> navbar" where
  "onLogout L s = subscribe_rt NavLogoutCb (perform (Request (logout_request L)) s)"

definition nav_on_logout :: "nat \<Rightarrow> navbar \<Rightarrow> navbar" where
  "nav_on_logout h s =
     perform (Navigate [''/login'']) ((end_rt h s)\<lparr>nav_auth := on_logout (nav_auth s)\<rparr>)"

definition nav_on_logout_error :: "nat \<Rightarrow> server_error \<Rightarrow> navbar \<Rightarrow> navbar" where
  "nav_on_logout_error h err s = perform (Notify (error_notification ''Failed to log out'' err)) (end_rt h s)"

section \<open>The selector, the bar and the request layer together\<close>

text \<open>
  The state of the request layer that all components share is the field \<open>sel_base\<close>. An event of the
  service runs the callbacks that are subscribed; the request layer subscribes in its constructor
  and never unsubscribes.
\<close>

type_synonym shell = "selector \<times> navbar"

definition listens :: "'c \<Rightarrow> ('c, 'e, 'm) rt_scheme \<Rightarrow> bool" where
  "listens cb s = (cb \<in> snd ` set (live s))"

fun deliver :: "libs \<Rightarrow> node_event effect \<Rightarrow> shell \<Rightarrow> shell" where
  "deliver L (Publish (SetHostNode n)) (sel, nav) =
     (sel\<lparr>sel_base := base_on_host (node_of n) (sel_base sel)\<rparr>,
      if listens NavHostCb nav then nav\<lparr>nav_hostNode := n\<rparr> else nav)"
| "deliver L (Publish (SetSelectedNode n)) (sel, nav) =
     (sel\<lparr>sel_base := base_on_selected L (node_of n) (sel_base sel)\<rparr>,
      if listens NavSelectedCb nav then nav\<lparr>nav_selectedNode := n\<rparr> else nav)"
| "deliver L (Publish (SetNodeSelectorActive b)) (sel, nav) =
     (if listens ActiveCb sel then sel_on_active b sel else sel,
      if listens NavActiveCb nav then nav\<lparr>nav_active := b\<rparr> else nav)"
| "deliver L _ sh = sh"

definition new_effects :: "('c, 'e, 'm) rt_scheme \<Rightarrow> ('c, 'e, 'm) rt_scheme \<Rightarrow> 'e effect list" where
  "new_effects s t = drop (length (effects s)) (effects t)"

text \<open>A handler of the selector or of the bar, and the delivery of what it published.\<close>

definition run_selector :: "libs \<Rightarrow> (selector \<Rightarrow> selector) \<Rightarrow> shell \<Rightarrow> shell" where
  "run_selector L f sh =
     (case sh of (sel, nav) \<Rightarrow> foldl (\<lambda>sh e. deliver L e sh) (f sel, nav) (new_effects sel (f sel)))"

definition run_navbar :: "libs \<Rightarrow> (navbar \<Rightarrow> navbar) \<Rightarrow> shell \<Rightarrow> shell" where
  "run_navbar L f sh =
     (case sh of (sel, nav) \<Rightarrow> foldl (\<lambda>sh e. deliver L e sh) (sel, f nav) (new_effects nav (f nav)))"

definition new_shell :: "auth \<Rightarrow> shell" where
  "new_shell a = (sel_ngOnInit (new_selector new_base), nav_ngOnInit (new_navbar a))"

text \<open>
  What can happen while the page is shown: the address changes, an answer or an error arrives at a
  live subscription, or the user acts. Asking for no document gives no answer, so the groups that
  arrive are not empty.
\<close>

inductive shell_step :: "libs \<Rightarrow> shell \<Rightarrow> shell \<Rightarrow> bool" for L where
  address: "listens NodeParamCb (fst sh) \<Longrightarrow> shell_step L sh (run_selector L (sel_on_params L node) sh)"
| answer: "(h, NodeGroupCb) \<in> set (live (fst sh)) \<Longrightarrow> shell_step L sh (run_selector L (sel_on_group L h doc) sh)"
| no_answer: "(h, NodeGroupCb) \<in> set (live (fst sh)) \<Longrightarrow>
    shell_step L sh (run_selector L (sel_on_group_error h err) sh)"
| details: "(h, NodeGroupDetailsCb owner) \<in> set (live (fst sh)) \<Longrightarrow> gs \<noteq> [] \<Longrightarrow>
    shell_step L sh (run_selector L (sel_on_details h owner gs) sh)"
| no_details: "(h, NodeGroupDetailsCb owner) \<in> set (live (fst sh)) \<Longrightarrow>
    shell_step L sh (run_selector L (sel_on_details_error h err) sh)"
| highlight: "shell_step L sh (run_selector L (onNodeHighlighted n) sh)"
| confirm: "shell_step L sh (run_selector L (onNodeSelectionConfirmed i) sh)"
| close: "shell_step L sh (run_selector L onViewClosed sh)"
| toggle: "shell_step L sh (run_navbar L onNodeSelectorClicked sh)"
| log_out: "shell_step L sh (run_navbar L (onLogout L) sh)"
| logged_out: "(h, NavLogoutCb) \<in> set (live (snd sh)) \<Longrightarrow> shell_step L sh (run_navbar L (nav_on_logout h) sh)"
| not_logged_out: "(h, NavLogoutCb) \<in> set (live (snd sh)) \<Longrightarrow>
    shell_step L sh (run_navbar L (nav_on_logout_error h err) sh)"

inductive shell_reach :: "libs \<Rightarrow> auth \<Rightarrow> shell \<Rightarrow> bool" for L a where
  start: "shell_reach L a (new_shell a)"
| step: "shell_reach L a sh \<Longrightarrow> shell_step L sh sh' \<Longrightarrow> shell_reach L a sh'"

inductive_cases shell_stepE: "shell_step L sh sh'"

section \<open>Invariant\<close>

text \<open>An id as the request layer keeps it for a node it was told, or for none so far.\<close>

definition told :: "node_ref \<Rightarrow> string option \<Rightarrow> bool" where
  "told r i \<longleftrightarrow> i = Some (case node_of r of None \<Rightarrow> [] | Some n \<Rightarrow> nodeId n) \<or> r = None \<and> i = None"

definition known_nodes :: "selector \<Rightarrow> Node set" where
  "known_nodes s = {n. \<exists>g \<in> set (getNodeGroups s). \<exists>i. (i, n) \<in> set (groupNodes g)}"

definition subscribed :: "shell \<Rightarrow> bool" where
  "subscribed sh \<longleftrightarrow> handles_ok (fst sh) \<and> handles_ok (snd sh) \<and> listens ActiveCb (fst sh) \<and>
     listens NavHostCb (snd sh) \<and> listens NavSelectedCb (snd sh) \<and> listens NavActiveCb (snd sh)"

definition agreed :: "shell \<Rightarrow> bool" where
  "agreed sh \<longleftrightarrow> nav_active (snd sh) = sel_active (fst sh) \<and> nav_hostNode (snd sh) = hostNode (fst sh) \<and>
     nav_selectedNode (snd sh) = selectedNode (fst sh) \<and>
     told (selectedNode (fst sh)) (selectedNodeId (sel_base (fst sh))) \<and>
     told (hostNode (fst sh)) (hostNodeId (sel_base (fst sh)))"

definition nodes_known :: "selector \<Rightarrow> bool" where
  "nodes_known s \<longleftrightarrow> set_option (node_of (selectedNode s)) \<subseteq> known_nodes s \<and>
     set_option (node_of (hostNode s)) \<subseteq> known_nodes s"

definition shell_ok :: "shell \<Rightarrow> bool" where
  "shell_ok sh \<longleftrightarrow> subscribed sh \<and> agreed sh \<and> nodes_known (fst sh)"

lemma listens_simps [simp]:
  "listens cb (perform e s) = listens cb s"
  "listens cb (subscribe_rt cb' s) = (cb = cb' \<or> listens cb s)"
  by (auto simp: listens_def)

lemma listens_end:
  assumes "handles_ok s" "(h, cb') \<in> set (live s)" "cb \<noteq> cb'"
  shows "listens cb (end_rt h s) = listens cb s"
proof -
  have "k \<noteq> h" if "(k, cb) \<in> set (live s)" for k
    using that assms eq_key_imp_eq_value [of "live s" h cb cb'] by (auto simp: handles_ok_def)
  then have "(k, cb) \<in> set (live (end_rt h s)) \<longleftrightarrow> (k, cb) \<in> set (live s)" for k
    by (auto simp: live_end)
  then show ?thesis by (simp add: listens_def snd_eq_Range Range_iff)
qed

lemma end_rt_selector [simp]:
  "sel_base (end_rt h s) = sel_base s" "nodeGroups (end_rt h s) = nodeGroups s" "sel_nodeId (end_rt h s) = sel_nodeId s"
  "hostNode (end_rt h s) = hostNode s" "selectedNode (end_rt h s) = selectedNode s" "sel_active (end_rt h s) = sel_active s"
  by (simp_all add: end_rt_def unsubscribe_rt_def)

lemma end_rt_navbar [simp]:
  "nav_active (end_rt h s) = nav_active s" "nav_hostNode (end_rt h s) = nav_hostNode s"
  "nav_selectedNode (end_rt h s) = nav_selectedNode s"
  by (simp_all add: end_rt_def unsubscribe_rt_def)

text \<open>The loop of \<open>getSelectedNodeById\<close> gives its start value or a node of one of the groups.\<close>

definition pick_node :: "string \<Rightarrow> node_ref \<Rightarrow> NodeGroup list \<Rightarrow> node_ref" where
  "pick_node i r gs =
     foldl (\<lambda>node g. case map_of (groupNodes g) i of Some n \<Rightarrow> Some (Some n) | None \<Rightarrow> node) r gs"

lemma pick_node_simps [simp]:
  "pick_node i r [] = r"
  "pick_node i r (g # gs) = pick_node i (case map_of (groupNodes g) i of Some n \<Rightarrow> Some (Some n) | None \<Rightarrow> r) gs"
  by (simp_all add: pick_node_def)

lemma pick_node_cases:
  "pick_node i r gs = r \<or> (\<exists>g n. g \<in> set gs \<and> (i, n) \<in> set (groupNodes g) \<and> pick_node i r gs = Some (Some n))"
proof (induction gs arbitrary: r)
  case (Cons g gs)
  show ?case
  proof (cases "map_of (groupNodes g) i")
    case None
    with Cons [of r] show ?thesis by auto
  next
    case (Some n)
    with Cons [of "Some (Some n)"] map_of_SomeD [OF Some] show ?thesis by auto
  qed
qed simp

lemma getSelectedNodeById_eq:
  "getSelectedNodeById s i = (if getNodeGroups s = [] then Some None else pick_node i None (getNodeGroups s))"
  by (simp add: getSelectedNodeById_def getNodeGroups_def pick_node_def split: option.splits list.splits)

lemma node_by_id_known: "set_option (node_of (getSelectedNodeById s i)) \<subseteq> known_nodes s"
proof (cases "getNodeGroups s = [] \<or> pick_node i None (getNodeGroups s) = None")
  case False
  then obtain g n where "g \<in> set (getNodeGroups s)" "(i, n) \<in> set (groupNodes g)"
    "pick_node i None (getNodeGroups s) = Some (Some n)"
    using pick_node_cases [of i None "getNodeGroups s"] by metis
  then have "n \<in> known_nodes s" "node_of (getSelectedNodeById s i) = Some n"
    using False unfolding known_nodes_def getSelectedNodeById_eq node_of_def by (metis (mono_tags, lifting) mem_Collect_eq, simp)
  then show ?thesis by simp
qed (auto simp: getSelectedNodeById_eq node_of_def)

section \<open>Preservation\<close>

lemma subscribed_fields:
  "subscribed (sel, nav) \<longleftrightarrow> handles_ok sel \<and> handles_ok nav \<and> listens ActiveCb sel \<and>
     listens NavHostCb nav \<and> listens NavSelectedCb nav \<and> listens NavActiveCb nav"
  by (simp add: subscribed_def)

text \<open>Updates of the fields of a component leave its subscriptions as they are.\<close>

lemma rt_update_selector [simp]:
  "handles_ok (s\<lparr>sel_base := b\<rparr>) = handles_ok s" "handles_ok (s\<lparr>nodeGroups := gs\<rparr>) = handles_ok s"
  "handles_ok (s\<lparr>sel_nodeId := i\<rparr>) = handles_ok s" "handles_ok (s\<lparr>hostNode := n\<rparr>) = handles_ok s"
  "handles_ok (s\<lparr>selectedNode := n\<rparr>) = handles_ok s" "handles_ok (s\<lparr>highlightedNode := n\<rparr>) = handles_ok s"
  "handles_ok (s\<lparr>sel_active := a\<rparr>) = handles_ok s"
  "handles_ok (s\<lparr>baseServiceGetDocumentSubscription := h\<rparr>) = handles_ok s"
  "handles_ok (s\<lparr>baseServiceGetDocumentsSubscription := h\<rparr>) = handles_ok s"
  "listens cb (s\<lparr>sel_base := b\<rparr>) = listens cb s" "listens cb (s\<lparr>nodeGroups := gs\<rparr>) = listens cb s"
  "listens cb (s\<lparr>sel_nodeId := i\<rparr>) = listens cb s" "listens cb (s\<lparr>hostNode := n\<rparr>) = listens cb s"
  "listens cb (s\<lparr>selectedNode := n\<rparr>) = listens cb s" "listens cb (s\<lparr>highlightedNode := n\<rparr>) = listens cb s"
  "listens cb (s\<lparr>sel_active := a\<rparr>) = listens cb s"
  "listens cb (s\<lparr>baseServiceGetDocumentSubscription := h\<rparr>) = listens cb s"
  "listens cb (s\<lparr>baseServiceGetDocumentsSubscription := h\<rparr>) = listens cb s"
  by (simp_all add: handles_ok_def listens_def)

lemma rt_update_navbar [simp]:
  "handles_ok (s\<lparr>nav_active := a\<rparr>) = handles_ok s" "handles_ok (s\<lparr>nav_hostNode := n\<rparr>) = handles_ok s"
  "handles_ok (s\<lparr>nav_selectedNode := n\<rparr>) = handles_ok s" "handles_ok (s\<lparr>nav_auth := x\<rparr>) = handles_ok s"
  "listens cb (s\<lparr>nav_active := a\<rparr>) = listens cb s" "listens cb (s\<lparr>nav_hostNode := n\<rparr>) = listens cb s"
  "listens cb (s\<lparr>nav_selectedNode := n\<rparr>) = listens cb s" "listens cb (s\<lparr>nav_auth := x\<rparr>) = listens cb s"
  by (simp_all add: handles_ok_def listens_def)

lemma perform_selector [simp]:
  "sel_base (perform e s) = sel_base s" "nodeGroups (perform e s) = nodeGroups s" "sel_nodeId (perform e s) = sel_nodeId s"
  "hostNode (perform e s) = hostNode s" "selectedNode (perform e s) = selectedNode s" "sel_active (perform e s) = sel_active s"
  "sel_base (subscribe_rt cb s) = sel_base s" "nodeGroups (subscribe_rt cb s) = nodeGroups s"
  "sel_nodeId (subscribe_rt cb s) = sel_nodeId s" "hostNode (subscribe_rt cb s) = hostNode s"
  "selectedNode (subscribe_rt cb s) = selectedNode s" "sel_active (subscribe_rt cb s) = sel_active s"
  by (simp_all add: perform_def subscribe_rt_def)

lemma perform_navbar [simp]:
  "nav_active (perform e s) = nav_active s" "nav_hostNode (perform e s) = nav_hostNode s"
  "nav_selectedNode (perform e s) = nav_selectedNode s"
  "nav_active (subscribe_rt cb s) = nav_active s" "nav_hostNode (subscribe_rt cb s) = nav_hostNode s"
  "nav_selectedNode (subscribe_rt cb s) = nav_selectedNode s"
  by (simp_all add: perform_def subscribe_rt_def)

text \<open>What an operation published, when it only adds to the effects.\<close>

lemma new_effects_append: "effects t = effects s @ es \<Longrightarrow> new_effects s t = es"
  by (simp add: new_effects_def)

lemma told_intros [simp]:
  "told r (selectedNodeId (base_on_selected L (node_of r) b))" "told r (hostNodeId (base_on_host (node_of r) b))"
  by (auto simp: told_def base_on_selected_def base_on_host_def)

lemma base_other [simp]:
  "hostNodeId (base_on_selected L n b) = hostNodeId b" "selectedNodeId (base_on_host n b) = selectedNodeId b"
  by (simp_all add: base_on_selected_def base_on_host_def)

lemmas publish_defs = setSelectedNode_def setHostNode_def setNodeSelectorActive_def sel_on_active_def

lemma ok_highlight: "shell_ok sh \<Longrightarrow> shell_ok (run_selector L (onNodeHighlighted n) sh)"
  by (cases sh) (simp add: shell_ok_def subscribed_def agreed_def nodes_known_def known_nodes_def getNodeGroups_def
      run_selector_def onNodeHighlighted_def new_effects_def)

lemma ok_confirm: "shell_ok sh \<Longrightarrow> shell_ok (run_selector L (onNodeSelectionConfirmed i) sh)"
proof (cases sh)
  case (Pair sel nav)
  let ?n = "getSelectedNodeById sel i"
  assume ok: "shell_ok sh"
  have "new_effects sel (onNodeSelectionConfirmed i sel) =
      [Publish (SetSelectedNode ?n), Publish (SetNodeSelectorActive False), Publish (NavigateNode i)]"
    by (rule new_effects_append) (simp add: onNodeSelectionConfirmed_def publish_defs Let_def)
  moreover have "set_option (node_of ?n) \<subseteq> known_nodes sel" by (rule node_by_id_known)
  ultimately show ?thesis
    using ok Pair
    by (simp add: shell_ok_def subscribed_def agreed_def nodes_known_def known_nodes_def getNodeGroups_def
        run_selector_def onNodeSelectionConfirmed_def publish_defs Let_def handles_ok_perform)
qed

lemmas shell_defs = shell_ok_def subscribed_def agreed_def nodes_known_def known_nodes_def getNodeGroups_def
  run_selector_def run_navbar_def

lemma ok_close: "shell_ok sh \<Longrightarrow> shell_ok (run_selector L onViewClosed sh)"
  by (cases sh) (simp add: shell_defs onViewClosed_def publish_defs Let_def new_effects_def handles_ok_perform)

lemma ok_toggle: "shell_ok sh \<Longrightarrow> shell_ok (run_navbar L onNodeSelectorClicked sh)"
  by (cases sh) (simp add: shell_defs onNodeSelectorClicked_def publish_defs Let_def new_effects_def handles_ok_perform)

lemma ok_log_out: "shell_ok sh \<Longrightarrow> shell_ok (run_navbar L (onLogout L) sh)"
  by (cases sh) (simp add: shell_defs onLogout_def Let_def new_effects_def handles_ok_perform handles_ok_subscribe)

lemma ok_nav_end:
  "shell_ok sh \<Longrightarrow> (h, NavLogoutCb) \<in> set (live (snd sh)) \<Longrightarrow> shell_ok (run_navbar L (nav_on_logout h) sh)"
  "shell_ok sh \<Longrightarrow> (h, NavLogoutCb) \<in> set (live (snd sh)) \<Longrightarrow>
   shell_ok (run_navbar L (nav_on_logout_error h err) sh)"
  by (cases sh; simp add: shell_defs nav_on_logout_def nav_on_logout_error_def Let_def new_effects_def
      handles_ok_perform handles_ok_end listens_end)+

lemma ok_sel_end:
  "shell_ok sh \<Longrightarrow> (h, NodeGroupCb) \<in> set (live (fst sh)) \<Longrightarrow>
   shell_ok (run_selector L (sel_on_group_error h err) sh)"
  "shell_ok sh \<Longrightarrow> (h, NodeGroupDetailsCb owner) \<in> set (live (fst sh)) \<Longrightarrow>
   shell_ok (run_selector L (sel_on_details_error h err) sh)"
  by (cases sh; simp add: shell_defs sel_on_group_error_def sel_on_details_error_def Let_def new_effects_def
      handles_ok_perform handles_ok_end listens_end)+

lemma ok_group:
  assumes "shell_ok sh" "(h, NodeGroupCb) \<in> set (live (fst sh))"
  shows "shell_ok (run_selector L (sel_on_group L h doc) sh)"
  using assms
  by (cases sh; cases "getDocuments L (sel_base (fst sh)) (documentLinks doc) [] False")
    (simp_all add: shell_defs sel_on_group_def Let_def new_effects_def
      handles_ok_perform handles_ok_subscribe handles_ok_end listens_end)

lemma getDocument_plain: "getDocument L b link [] False = Inr (HttpGet (API_PREFIX L @ link))"
  by (simp add: getDocument_def getDocumentInternal_def get_link_def append_option_def map_result_def)

lemma ok_getData: "shell_ok sh \<Longrightarrow> shell_ok (run_selector L (sel_getData L) sh)"
  by (cases sh) (simp add: shell_defs sel_getData_def getDocument_plain new_effects_def
      handles_ok_perform handles_ok_subscribe)

lemma known_nodes_update [simp]:
  "known_nodes (s\<lparr>sel_nodeId := i\<rparr>) = known_nodes s" "known_nodes (s\<lparr>selectedNode := n\<rparr>) = known_nodes s"
  "known_nodes (s\<lparr>hostNode := n\<rparr>) = known_nodes s" "known_nodes (s\<lparr>highlightedNode := n\<rparr>) = known_nodes s"
  "known_nodes (s\<lparr>sel_base := b\<rparr>) = known_nodes s" "known_nodes (perform e s) = known_nodes s"
  by (simp_all add: known_nodes_def getNodeGroups_def)

lemma node_by_id_update [simp]:
  "getSelectedNodeById (s\<lparr>sel_nodeId := i\<rparr>) = getSelectedNodeById s"
  "getSelectedNodeById (s\<lparr>hostNode := n\<rparr>) = getSelectedNodeById s"
  by (rule ext, simp add: getSelectedNodeById_def)+

text \<open>The selector shows another node and tells so.\<close>

lemma ok_select:
  assumes "shell_ok (sel, nav)" "set_option (node_of n) \<subseteq> known_nodes sel"
    and "f sel = setSelectedNode n (sel\<lparr>sel_nodeId := i, selectedNode := n\<rparr>)"
  shows "shell_ok (run_selector L f (sel, nav))"
proof -
  have "new_effects sel (f sel) = [Publish (SetSelectedNode n)]"
    by (rule new_effects_append) (simp add: assms(3) setSelectedNode_def)
  then show ?thesis
    using assms(1,2)
    by (simp add: shell_ok_def subscribed_def agreed_def nodes_known_def run_selector_def assms(3)
        setSelectedNode_def handles_ok_perform)
qed

lemma ok_params: "shell_ok sh \<Longrightarrow> shell_ok (run_selector L (sel_on_params L node) sh)"
proof (cases sh)
  case (Pair sel nav)
  assume ok: "shell_ok sh"
  show ?thesis
  proof (cases "nodeGroups sel \<noteq> None \<and> nodeGroups sel \<noteq> Some []")
    case True
    let ?n = "if names_node node then getSelectedNodeById sel (the node) else hostNode sel"
    have "set_option (node_of ?n) \<subseteq> known_nodes sel"
      using ok Pair by (simp add: node_by_id_known shell_ok_def nodes_known_def)
    moreover have "sel_on_params L node sel = setSelectedNode ?n (sel\<lparr>sel_nodeId := node, selectedNode := ?n\<rparr>)"
      using True by (simp add: sel_on_params_def Let_def)
    ultimately show ?thesis using ok Pair by (simp only: ok_select)
  next
    case False
    then have "sel_on_params L node sel = sel_getData L (sel\<lparr>sel_nodeId := node\<rparr>)"
      by (auto simp: sel_on_params_def Let_def)
    moreover have "shell_ok (sel\<lparr>sel_nodeId := node\<rparr>, nav)"
      using ok Pair by (simp add: shell_ok_def subscribed_def agreed_def nodes_known_def)
    ultimately show ?thesis
      using ok_getData [of "(sel\<lparr>sel_nodeId := node\<rparr>, nav)" L] Pair by (simp add: run_selector_def new_effects_def)
  qed
qed

lemma ok_details:
  assumes "shell_ok sh" "(h, NodeGroupDetailsCb owner) \<in> set (live (fst sh))"
  shows "shell_ok (run_selector L (sel_on_details h owner gs) sh)"
proof (cases sh)
  case (Pair sel nav)
  let ?s = "(end_rt h sel)\<lparr>nodeGroups := Some gs\<rparr>"
  let ?h = "getSelectedNodeById ?s (show_opt (\<lambda>x. x) owner)"
  let ?n = "getSelectedNodeById ?s (show_opt (\<lambda>x. x) (sel_nodeId sel))"
  have f: "sel_on_details h owner gs sel = setSelectedNode ?n (setHostNode ?h
      (?s\<lparr>hostNode := ?h, selectedNode := ?n, highlightedNode := ?n\<rparr>))"
    by (simp add: sel_on_details_def Let_def)
  have "new_effects sel (sel_on_details h owner gs sel) = [Publish (SetHostNode ?h), Publish (SetSelectedNode ?n)]"
    by (rule new_effects_append) (simp add: f publish_defs)
  moreover have "set_option (node_of ?h) \<subseteq> known_nodes ?s" "set_option (node_of ?n) \<subseteq> known_nodes ?s"
    by (rule node_by_id_known)+
  ultimately show ?thesis
    using assms Pair
    by (simp add: shell_ok_def subscribed_def agreed_def nodes_known_def run_selector_def f publish_defs
        handles_ok_perform handles_ok_end listens_end)
qed

lemma ok_step: "shell_step L sh sh' \<Longrightarrow> shell_ok sh \<Longrightarrow> shell_ok sh'"
  by (erule shell_stepE)
    (simp_all add: ok_params ok_group ok_sel_end ok_details ok_highlight ok_confirm ok_close ok_toggle ok_log_out ok_nav_end)

lemma ok_start: "shell_ok (new_shell a)"
  by (simp add: new_shell_def shell_ok_def subscribed_def agreed_def nodes_known_def sel_ngOnInit_def nav_ngOnInit_def
      new_selector_def new_navbar_def new_base_def told_def node_of_def handles_ok_def listens_def subscribe_rt_def Let_def)

lemma reach_ok: "shell_reach L a sh \<Longrightarrow> shell_ok sh"
  by (induction rule: shell_reach.induct) (auto intro: ok_start ok_step)

section \<open>Properties\<close>

definition group_node :: "string \<Rightarrow> string \<Rightarrow> Node" where
  "group_node g i = ServiceDocument.extend emptyDocument
     \<lparr>groupReference = g, nodeStatus = ''AVAILABLE'', nodeOptions = [], nodeId = i, membershipQuorum = 1,
      nodeX = None, nodeY = None\<rparr>"

definition sample_group :: "(string \<times> Node) list \<Rightarrow> NodeGroup" where
  "sample_group ns = ServiceDocument.extend emptyDocument
     \<lparr>groupConfig = [], groupNodes = ns, membershipUpdateTimeMicros = 0\<rparr>"

definition sample_groups_document :: ServiceDocumentQueryResult where
  "sample_groups_document = (ServiceDocument.extend emptyDocument
     \<lparr>documentLinks = [''/g''], documents = None, selectedLinks = None, selectedLinksPerDocument = None,
      selectedDocuments = None, documentCount = None, prevPageLink = None, nextPageLink = None,
      nextPageLinksPerGroup = None, queryTimeMicros = 0\<rparr>)\<lparr>documentOwner := Some ''a''\<rparr>"

lemma group_nodes [simp]:
  "nodeId (group_node g i) = i" "groupReference (group_node g i) = g" "groupNodes (sample_group ns) = ns"
  "documentLinks sample_groups_document = [''/g'']" "documentOwner sample_groups_document = Some ''a''"
  by (simp_all add: group_node_def sample_group_def sample_groups_document_def emptyDocument_def ServiceDocument.extend_def)

text \<open>The page after the host's group of two nodes was read and the address named no node.\<close>

definition sample_shell :: shell where
  "sample_shell =
     run_selector doc_libs (sel_on_details 3 (Some ''a'')
         [sample_group [(''a'', group_node ''/x/y/default'' ''a''), (''b'', group_node ''/x/y/default'' ''b'')]])
       (run_selector doc_libs (sel_on_group doc_libs 2 sample_groups_document)
         (run_selector doc_libs (sel_on_params doc_libs None) (new_shell (new_auth []))))"

lemma sample_fields:
  "selectedNode (fst sample_shell) = Some (Some (group_node ''/x/y/default'' ''a''))"
  "hostNode (fst sample_shell) = Some (Some (group_node ''/x/y/default'' ''a''))"
  "nodeGroups (fst sample_shell) =
     Some [sample_group [(''a'', group_node ''/x/y/default'' ''a''), (''b'', group_node ''/x/y/default'' ''b'')]]"
  by (simp_all add: sample_shell_def new_shell_def run_selector_def sel_on_details_def sel_on_group_def sel_on_params_def
      sel_getData_def getDocument_plain new_effects_def sel_ngOnInit_def nav_ngOnInit_def new_selector_def new_navbar_def
      publish_defs subscribe_rt_def perform_def end_rt_def unsubscribe_rt_def get_link_def append_option_def map_result_def
      names_node_def truthy_def getSelectedNodeById_def show_opt_def listens_def Let_def)

lemma sample_reach: "shell_reach doc_libs (new_auth []) sample_shell"
proof -
  let ?s0 = "new_shell (new_auth [])"
  let ?s1 = "run_selector doc_libs (sel_on_params doc_libs None) ?s0"
  let ?s2 = "run_selector doc_libs (sel_on_group doc_libs 2 sample_groups_document) ?s1"
  note evals = new_shell_def run_selector_def sel_on_params_def sel_on_group_def sel_getData_def getDocument_plain
    new_effects_def sel_ngOnInit_def nav_ngOnInit_def new_selector_def new_navbar_def subscribe_rt_def perform_def
    end_rt_def unsubscribe_rt_def get_link_def append_option_def map_result_def names_node_def truthy_def listens_def Let_def
  have "listens NodeParamCb (fst ?s0)" by (simp add: evals)
  with shell_reach.start have 1: "shell_reach doc_libs (new_auth []) ?s1"
    by (rule shell_reach.step [OF _ shell_step.address])
  have "(2, NodeGroupCb) \<in> set (live (fst ?s1))" by (simp add: evals)
  with 1 have 2: "shell_reach doc_libs (new_auth []) ?s2"
    by (rule shell_reach.step [OF _ shell_step.answer])
  have "(3, NodeGroupDetailsCb (Some ''a'')) \<in> set (live (fst ?s2))" by (simp add: evals)
  with 2 show ?thesis
    unfolding sample_shell_def by (rule shell_reach.step [OF _ shell_step.details]) simp
qed

text \<open>
  C9. The parts of the page agree on the node that is shown: in every state the page can reach, the
  navigation bar and the selector have the same host, the same selected node and the same state of
  the panel; a node that is selected is one of the node groups of the host, and requests take it as
  the selected one.
\<close>

theorem selection_agrees:
  assumes "shell_reach L a (sel, nav)"
  shows "nav_selectedNode nav = selectedNode sel \<and> nav_hostNode nav = hostNode sel \<and> nav_active nav = sel_active sel \<and>
    (node_of (nav_selectedNode nav) = Some n \<longrightarrow>
       n \<in> known_nodes sel \<and> selectedNodeId (sel_base sel) = Some (nodeId n))"
  using reach_ok [OF assms]
  by (auto simp: shell_ok_def agreed_def nodes_known_def told_def node_of_def)

theorem selection_agrees_witness:
  "nav_selectedNode (snd sample_shell) = Some (Some (group_node ''/x/y/default'' ''a'')) \<and>
   selectedNodeId (sel_base (fst sample_shell)) = Some ''a''"
  using selection_agrees [of doc_libs "new_auth []" "fst sample_shell" "snd sample_shell" "group_node ''/x/y/default'' ''a''"]
  by (simp add: sample_reach sample_fields node_of_def)

text \<open>
  What the navigation bar says of the selected node is what the requests do: while it shows the
  selected node as the host, documents are read from the host itself; while it shows another node,
  they are read through the forwarding link of that node.
\<close>

lemma bar_tells_target:
  assumes "shell_reach L a (sel, nav)"
    and "node_of (nav_selectedNode nav) \<noteq> None" "node_of (nav_hostNode nav) \<noteq> None"
  shows "\<exists>b. nav_isHostNode nav = Inr b \<and>
    getDocument L (sel_base sel) link opt True =
      (if b then Inr (HttpGet (API_PREFIX L @ append_option link opt))
       else map_result (\<lambda>u. HttpGet (API_PREFIX L @ u)) (getForwardingLink (sel_base sel) link opt))"
proof -
  obtain h n where hn: "nav_hostNode nav = Some (Some h)" "nav_selectedNode nav = Some (Some n)"
    using assms(2,3) by (auto simp: node_of_def split: option.splits)
  have "hostNode sel = Some (Some h)" "selectedNode sel = Some (Some n)"
    using hn reach_ok [OF assms(1)] by (simp_all add: shell_ok_def agreed_def)
  then have "hostNodeId (sel_base sel) = Some (nodeId h)" "selectedNodeId (sel_base sel) = Some (nodeId n)"
    using reach_ok [OF assms(1)] by (simp_all add: shell_ok_def agreed_def told_def node_of_def)
  then show ?thesis
    using hn by (simp add: nav_isHostNode_def same_node_def getDocument_def getDocumentInternal_def get_link_def map_result_def)
qed

lemma bar_tells_target_witness:
  "\<exists>b. nav_isHostNode (snd sample_shell) = Inr b \<and>
    getDocument doc_libs (sel_base (fst sample_shell)) ''/d'' [] True =
      (if b then Inr (HttpGet (API_PREFIX doc_libs @ append_option ''/d'' []))
       else map_result (\<lambda>u. HttpGet (API_PREFIX doc_libs @ u)) (getForwardingLink (sel_base (fst sample_shell)) ''/d'' []))"
proof -
  have ok: "shell_ok sample_shell" using sample_reach by (rule reach_ok)
  show ?thesis
    by (rule bar_tells_target [of doc_libs "new_auth []"])
      (use ok sample_reach in \<open>simp_all add: shell_ok_def agreed_def sample_fields node_of_def\<close>)
qed

lemma pick_node_none: "\<forall>g \<in> set gs. map_of (groupNodes g) i = None \<Longrightarrow> pick_node i r gs = r"
  by (induction gs) auto

text \<open>
  An address that names a node that is in no group makes the requests go nowhere: the selected
  node is then \<open>undefined\<close>, the request layer takes the empty id for the selected one, and a document
  is read through a forwarding link with an empty peer.
\<close>

lemma unknown_node_has_no_peer:
  assumes "nodeGroups sel = Some gs" "gs \<noteq> []" "\<forall>g \<in> set gs. map_of (groupNodes g) i = None" "names_node (Some i)"
    and "hostNodeId (sel_base sel) \<noteq> Some []" "CHR ''?'' \<notin> set link" "CHR ''&'' \<notin> set link"
  shows "getDocument L (sel_base (fst (run_selector L (sel_on_params L (Some i)) (sel, nav)))) link [] True =
    Inr (HttpGet (API_PREFIX L @ ''/core/node-selectors/default/forwarding?peer=&path='' @ encodeURIComponent link @
      ''&query=&target=PEER_ID''))"
proof -
  have "getSelectedNodeById sel i = None"
    using assms(1-3) by (simp add: getSelectedNodeById_eq getNodeGroups_def pick_node_none)
  then have "sel_base (fst (run_selector L (sel_on_params L (Some i)) (sel, nav))) =
      base_on_selected L None (sel_base sel)"
    using assms(1,2,4) by (simp add: sel_on_params_def run_selector_def new_effects_def setSelectedNode_def node_of_def Let_def)
  then show ?thesis
    using assms(5-7)
    by (simp add: getDocument_def getDocumentInternal_def get_link_def map_result_def base_on_selected_def getForwardingLink_def
        no_question_params truthy_def show_opt_def URL_NODE_SELECTOR_def encodeURIComponent_def)
qed

lemma unknown_node_has_no_peer_witness:
  "getDocument doc_libs (sel_base (fst (run_selector doc_libs (sel_on_params doc_libs (Some ''z''))
      ((new_selector new_base)\<lparr>nodeGroups := Some [sample_group [(''a'', group_node ''/x/y/default'' ''a'')]]\<rparr>,
       new_navbar (new_auth []))))) ''/d'' [] True =
   Inr (HttpGet (API_PREFIX doc_libs @ ''/core/node-selectors/default/forwarding?peer=&path='' @ encodeURIComponent ''/d'' @
      ''&query=&target=PEER_ID''))"
  by (rule unknown_node_has_no_peer [where gs = "[sample_group [(''a'', group_node ''/x/y/default'' ''a'')]]"])
    (simp_all add: names_node_def truthy_def new_selector_def new_base_def)

text \<open>
  The address a confirmed selection navigates to selects the same node again, so the two ways to
  choose a node agree.
\<close>

lemma confirmed_node_stays:
  assumes "names_node (Some i)" "getNodeGroups sel \<noteq> []"
  shows "selectedNode (sel_on_params L (Some i) (onNodeSelectionConfirmed i sel)) = selectedNode (onNodeSelectionConfirmed i sel)"
  using assms
  by (auto simp: sel_on_params_def onNodeSelectionConfirmed_def publish_defs getNodeGroups_def getSelectedNodeById_def Let_def
      split: option.splits)

end
