(* ===== verification/NodeInfoPanel.thy ===== *)
theory NodeInfoPanel
  imports NodeSelection UrlParsing
begin

text \<open>
  \<open>node-info-panel.component.ts\<close>: the details of the node that is highlighted in the node selector.
  The charts are the two series of data handed to chart.js; their configurations and the two
  percentages printed by \<open>toPrecision\<close> are in \<open>ChartViews\<close>.
\<close>

section \<open>State\<close>

datatype panel_cb = NodeDetailsCb

datatype panel_event = SelectNode "string option"

record panel = "(panel_cb, panel_event) rt" +
  panel_base :: base
  panel_hostNodeId :: "string option"
  panel_selectedNodeId :: "string option"
  highlightedNodeGroupReference :: "string option"
  highlightedNodeId :: "string option"
  canSwitchToNode :: bool
  highlightedNodeDetails :: "ServiceHostState option"
  memoryChart :: "real list option"
  diskChart :: "real list option"
  baseServiceSubscription :: "nat option"

definition new_panel :: "base \<Rightarrow> panel" where
  "new_panel b = \<lparr>nextHandle = 0, live = [], effects = [], panel_base = b, panel_hostNodeId = None,
     panel_selectedNodeId = None, highlightedNodeGroupReference = None, highlightedNodeId = None,
     canSwitchToNode = False, highlightedNodeDetails = None, memoryChart = None, diskChart = None,
     baseServiceSubscription = None\<rparr>"

section \<open>Operations\<close>

text \<open>\<open>parseDocumentLink(reference).id\<close>; the node and the path are written without encoding.\<close>

definition panel_getForwardingLink :: "libs \<Rightarrow> panel \<Rightarrow> string" where
  "panel_getForwardingLink L s =
     (let nodeGroupReference = (if truthy (highlightedNodeGroupReference s)
            then linkId (parseDocumentLink L (the (highlightedNodeGroupReference s)) []) else ''default'')
      in URL_NODE_SELECTOR @ ''/'' @ nodeGroupReference @ ''/forwarding?peer='' @
         show_opt (\<lambda>x. x) (highlightedNodeId s) @ ''&path='' @ URL_CoreManagement @ ''&target=PEER_ID'')"

definition panel_isHostNode :: "panel \<Rightarrow> bool" where
  "panel_isHostNode s = (highlightedNodeId s = panel_hostNodeId s)"

definition panel_isSelectedNode :: "panel \<Rightarrow> bool" where
  "panel_isSelectedNode s = (highlightedNodeId s = panel_selectedNodeId s)"

definition retrieveHighlightedNodeDetails :: "libs \<Rightarrow> panel \<Rightarrow> panel" where
  "retrieveHighlightedNodeDetails L s =
     (let url = (if panel_isHostNode s then URL_CoreManagement else panel_getForwardingLink L s) in
      case getDocument L (panel_base s) url [] False of
        Inl e \<Rightarrow> s
      | Inr r \<Rightarrow> (subscribe_rt NodeDetailsCb (perform (Request r) s))
          \<lparr>baseServiceSubscription := Some (nextHandle s)\<rparr>)"

text \<open>
  The change of the input \<open>highlightedNodeId\<close>, if there is one, with the previous and the current
  value.
\<close>

definition panel_ngOnChanges :: "libs \<Rightarrow> (string option \<times> string option) option \<Rightarrow> panel \<Rightarrow> panel" where
  "panel_ngOnChanges L change s =
     (case change of
        None \<Rightarrow> s
      | Some (previous, current) \<Rightarrow>
          if current = previous \<or> \<not> truthy current then s
          else retrieveHighlightedNodeDetails L (s\<lparr>highlightedNodeId := current\<rparr>))"

definition panel_ngOnDestroy :: "panel \<Rightarrow> panel" where
  "panel_ngOnDestroy s =
     (unsubscribe_rt (baseServiceSubscription s) s)\<lparr>memoryChart := None, diskChart := None\<rparr>"

definition getStateSuffix :: "panel \<Rightarrow> string" where
  "getStateSuffix s =
     (let states =
        (if truthy (panel_hostNodeId s) \<and> panel_hostNodeId s = highlightedNodeId s then [''Host''] else []) @
        (if truthy (panel_selectedNodeId s) \<and> panel_selectedNodeId s = highlightedNodeId s then [''Current''] else [])
      in if states \<noteq> [] then '' ('' @ js_join '', '' states @ '')'' else [])"

text \<open>A family that the table does not have raises a \<open>TypeError\<close>.\<close>

definition os_family_of :: "string \<Rightarrow> OsFamily option" where
  "os_family_of n = map_of [(''OTHER'', OTHER), (''WINDOWS'', WINDOWS), (''LINUX'', LINUX), (''MACOS'', MACOS)] n"

definition getOsIconClass :: "string option \<Rightarrow> string result" where
  "getOsIconClass family =
     (if \<not> truthy family then Inr []
      else (case os_family_of (toUpperCase (the family)) of
              None \<Rightarrow> Inl TypeError
            | Some f \<Rightarrow> Inr (iconClassName (OsUtil f))))"

definition panel_formatDurationInSeconds :: "libs \<Rightarrow> real \<Rightarrow> string" where
  "panel_formatDurationInSeconds L milliseconds = formatDurationToSeconds L milliseconds @ '' Seconds''"

definition panel_formatDataSize :: "libs \<Rightarrow> real \<Rightarrow> string" where
  "panel_formatDataSize L bytes = (if bytes \<noteq> 0 then formatDataSize L bytes else ''N/A'')"

definition onSelectNodeBtnClicked :: "panel \<Rightarrow> panel" where
  "onSelectNodeBtnClicked s = perform (Publish (SelectNode (highlightedNodeId s))) s"

definition panel_renderChart :: "panel \<Rightarrow> panel" where
  "panel_renderChart s =
     (case highlightedNodeDetails s of
        None \<Rightarrow> s
      | Some d \<Rightarrow>
          (let i = systemInfo d in
           s\<lparr>memoryChart := Some [totalMemoryByteCount i - freeMemoryByteCount i, freeMemoryByteCount i],
             diskChart := Some [totalDiskByteCount i - freeDiskByteCount i, freeDiskByteCount i]\<rparr>))"

definition panel_on_details :: "nat \<Rightarrow> ServiceHostState \<Rightarrow> panel \<Rightarrow> panel" where
  "panel_on_details h d s =
     panel_renderChart ((end_rt h s)\<lparr>highlightedNodeDetails := Some d, canSwitchToNode := True\<rparr>)"

text \<open>
  The error of a node that is not in the default group names the user interface of that node. The
  reference of the group is read by \<open>parseUrl\<close>, without a check of its result.
\<close>

definition node_ui_url :: "UrlFragment \<Rightarrow> string" where
  "node_ui_url f = protocol f @ ''//'' @ host f @ ''/core/ui/default/#/''"

definition panel_error_text :: "string \<Rightarrow> server_error \<Rightarrow> string" where
  "panel_error_text url err =
     error_text ''Failed to retrieve node details'' err @ ''.<br>'' @ [CHR 0x0A] @ replicate 24 CHR '' '' @
     ''If this node is not in the default node group, try accessing its own'' @ [CHR 0x0A] @ replicate 24 CHR '' '' @
     ''<a href='' @ [CHR 0x22] @ url @ [CHR 0x22] @ '' target='' @ [CHR 0x22] @ ''_blank'' @ [CHR 0x22] @ ''>Xenon UI</a>''"

definition panel_on_error :: "nat \<Rightarrow> server_error \<Rightarrow> panel \<Rightarrow> panel \<times> jserror option" where
  "panel_on_error h err s =
     (let s = (end_rt h s)\<lparr>canSwitchToNode := False\<rparr> in
      case Option.bind (highlightedNodeGroupReference s) parseUrl of
        None \<Rightarrow> (s, Some TypeError)
      | Some f \<Rightarrow>
          (perform (Notify [\<lparr>notificationType = ''ERROR'', messages = [panel_error_text (node_ui_url f) err]\<rparr>]) s, None))"

section \<open>Properties\<close>

lemma panel_error_iff:
  "Option.bind r parseUrl = Some f \<longleftrightarrow> r = Some (print_url f) \<and> url_wf f"
  by (cases r) (auto simp: parse_print_url)

text \<open>
  A node whose details cannot be read cannot be switched to, and the message points to the user
  interface of the node: when the reference of its group is a url, exactly one message is shown,
  with the protocol and the host of that url. When it is not, for example when it is a path, the
  handler raises a \<open>TypeError\<close> and no message is shown.
\<close>

lemma panel_error_names_node:
  "\<not> canSwitchToNode (fst (panel_on_error h err s)) \<and>
   (if \<exists>f. url_wf f \<and> highlightedNodeGroupReference s = Some (print_url f)
    then \<exists>f. url_wf f \<and> highlightedNodeGroupReference s = Some (print_url f) \<and>
      snd (panel_on_error h err s) = None \<and>
      effects (fst (panel_on_error h err s)) = effects s @ [Notify [\<lparr>notificationType = ''ERROR'',
        messages = [panel_error_text (protocol f @ ''//'' @ host f @ ''/core/ui/default/#/'') err]\<rparr>]]
    else snd (panel_on_error h err s) = Some TypeError \<and> effects (fst (panel_on_error h err s)) = effects s)"
proof (cases "Option.bind (highlightedNodeGroupReference s) parseUrl")
  case None
  then have "\<not> (\<exists>f. url_wf f \<and> highlightedNodeGroupReference s = Some (print_url f))"
    using panel_error_iff [of "highlightedNodeGroupReference s"] by (metis option.distinct(1))
  moreover have "panel_on_error h err s = ((end_rt h s)\<lparr>canSwitchToNode := False\<rparr>, Some TypeError)"
    using None by (simp add: panel_on_error_def Let_def end_rt_def unsubscribe_rt_def)
  ultimately show ?thesis by (simp add: end_rt_def unsubscribe_rt_def)
next
  case (Some f)
  then have "url_wf f \<and> highlightedNodeGroupReference s = Some (print_url f)" by (simp add: panel_error_iff)
  moreover have "panel_on_error h err s = (perform (Notify [\<lparr>notificationType = ''ERROR'',
      messages = [panel_error_text (node_ui_url f) err]\<rparr>]) ((end_rt h s)\<lparr>canSwitchToNode := False\<rparr>), None)"
    using Some by (simp add: panel_on_error_def Let_def end_rt_def unsubscribe_rt_def)
  ultimately show ?thesis
    by (auto simp: perform_def end_rt_def unsubscribe_rt_def node_ui_url_def)
qed

text \<open>
  The details shown may be those of another node: the request for the node highlighted before is
  not ended when the highlight moves on, and its answer is then shown for the later node.
\<close>

lemma panel_details_race:
  assumes "current \<noteq> previous" "truthy current"
  shows "set (live s) \<subseteq> set (live (panel_ngOnChanges L (Some (previous, current)) s))"
    "highlightedNodeId (panel_on_details h d (panel_ngOnChanges L (Some (previous, current)) s)) = current"
    "highlightedNodeDetails (panel_on_details h d (panel_ngOnChanges L (Some (previous, current)) s)) = Some d"
  using assms
  by (auto simp: panel_ngOnChanges_def retrieveHighlightedNodeDetails_def getDocument_plain Let_def subscribe_rt_def perform_def
      panel_on_details_def panel_renderChart_def end_rt_def unsubscribe_rt_def)

end
