(* ===== verification/NodeCanvas.thy ===== *)
theory NodeCanvas
  imports NodeSelection "HOL-Library.Multiset"
begin

text \<open>
  \<open>node-group.util.ts\<close> and the calculations of \<open>node-canvas.component.ts\<close>: the nodes, links and
  groups that the canvas of the node selector shows, and the circles drawn around the groups. The
  drawing by d3 is not modelled. A node enters the circles by its coordinates, which the layout of d3
  sets when it starts; coordinates are real numbers, without the rounding of doubles. The function
  \<open>shuffle\<close> of lodash is a parameter.
\<close>

section \<open>Circles\<close>

type_synonym point = "real \<times> real"

definition EPSILON :: real where "EPSILON = 1 / 10 ^ 12"

definition distance :: "point \<Rightarrow> point \<Rightarrow> real" where
  "distance p q = sqrt ((fst p - fst q) * (fst p - fst q) + (snd p - snd q) * (snd p - snd q))"

definition circle :: "real \<Rightarrow> real \<Rightarrow> real \<Rightarrow> NodeGroupCircle" where
  "circle x y r = \<lparr>circleGroup = None, circleX = x, circleY = y, circleR = r\<rparr>"

definition center :: "NodeGroupCircle \<Rightarrow> point" where
  "center c = (circleX c, circleY c)"

text \<open>Twice the signed area of the triangle.\<close>

definition crossProduct :: "point \<Rightarrow> point \<Rightarrow> point \<Rightarrow> real" where
  "crossProduct p0 p1 p2 =
     (fst p1 - fst p0) * (snd p2 - snd p0) - (snd p1 - snd p0) * (fst p2 - fst p0)"

text \<open>\<^term>\<open>None\<close> is \<open>null\<close>.\<close>

definition isInCircle :: "NodeGroupCircle option \<Rightarrow> point \<Rightarrow> bool" where
  "isInCircle c p = (case c of None \<Rightarrow> False | Some c \<Rightarrow> distance p (center c) < circleR c + EPSILON)"

definition makeDiameter :: "point \<Rightarrow> point \<Rightarrow> NodeGroupCircle" where
  "makeDiameter p0 p1 =
     circle ((fst p0 + fst p1) / 2) ((snd p0 + snd p1) / 2) (distance p0 p1 / 2)"

definition makeCircumCircle :: "point \<Rightarrow> point \<Rightarrow> point \<Rightarrow> NodeGroupCircle option" where
  "makeCircumCircle p0 p1 p2 =
     (let (x0, y0) = p0; (x1, y1) = p1; (x2, y2) = p2;
          diameter = (x0 * (y1 - y2) + x1 * (y2 - y0) + x2 * (y0 - y1)) * 2
      in if diameter = 0 then None
         else
           (let x = ((x0 * x0 + y0 * y0) * (y1 - y2) + (x1 * x1 + y1 * y1) * (y2 - y0) +
                     (x2 * x2 + y2 * y2) * (y0 - y1)) / diameter;
                y = ((x0 * x0 + y0 * y0) * (x2 - x1) + (x1 * x1 + y1 * y1) * (x0 - x2) +
                     (x2 * x2 + y2 * y2) * (x1 - x0)) / diameter
            in Some (circle x y (distance (x, y) p0))))"

text \<open>One round of the loop of \<open>makeCircleTwoNodes\<close> over the pair of the best circles so far.\<close>

definition side_step :: "point \<Rightarrow> point \<Rightarrow> NodeGroupCircle option \<times> NodeGroupCircle option \<Rightarrow> point \<Rightarrow>
    NodeGroupCircle option \<times> NodeGroupCircle option" where
  "side_step p0 p1 sides p2 =
     (case sides of (left, right) \<Rightarrow>
      let cross = crossProduct p0 p1 p2 in
      case makeCircumCircle p0 p1 p2 of
        None \<Rightarrow> (left, right)
      | Some c \<Rightarrow>
          if cross > 0 \<and> (left = None \<or> crossProduct p0 p1 (center c) > crossProduct p0 p1 (center (the left)))
          then (Some c, right)
          else if cross < 0 \<and> (right = None \<or> crossProduct p0 p1 (center c) < crossProduct p0 p1 (center (the right)))
          then (left, Some c)
          else (left, right))"

definition makeCircleTwoNodes :: "point list \<Rightarrow> point \<Rightarrow> point \<Rightarrow> NodeGroupCircle option" where
  "makeCircleTwoNodes nodes p0 p1 =
     (let temp = Some (makeDiameter p0 p1) in
      if list_all (isInCircle temp) nodes then temp
      else
        (case foldl (side_step p0 p1) (None, None) nodes of
           (left, right) \<Rightarrow>
             if right = None \<or> (left \<noteq> None \<and> circleR (the left) \<le> circleR (the right)) then left else right))"

text \<open>
  The loop of \<open>makeCircleOneNode\<close>: the nodes before the current one, the nodes from it on and the
  circle so far. Reading the radius of \<open>null\<close> raises a \<open>TypeError\<close>.
\<close>

fun one_node_loop :: "point \<Rightarrow> point list \<Rightarrow> point list \<Rightarrow> NodeGroupCircle option \<Rightarrow> NodeGroupCircle option result" where
  "one_node_loop p0 before [] c = Inr c"
| "one_node_loop p0 before (p1 # rest) c =
     (if isInCircle c p1 then one_node_loop p0 (before @ [p1]) rest c
      else
        (case c of
           None \<Rightarrow> Inl TypeError
         | Some k \<Rightarrow>
             one_node_loop p0 (before @ [p1]) rest
               (if circleR k = 0 then Some (makeDiameter p0 p1)
                else makeCircleTwoNodes (before @ [p1]) p0 p1)))"

definition makeCircleOneNode :: "point list \<Rightarrow> point \<Rightarrow> NodeGroupCircle option result" where
  "makeCircleOneNode nodes p0 = one_node_loop p0 [] nodes (Some (circle (fst p0) (snd p0) 0))"

text \<open>The loop of \<open>getGroupCircles\<close> over the nodes of one group.\<close>

fun group_loop :: "point list \<Rightarrow> point list \<Rightarrow> NodeGroupCircle option \<Rightarrow> NodeGroupCircle option result" where
  "group_loop before [] c = Inr c"
| "group_loop before (p # rest) c =
     (if c = None \<or> \<not> isInCircle c p then
        (case makeCircleOneNode (before @ [p]) p of
           Inl e \<Rightarrow> Inl e
         | Inr c' \<Rightarrow> group_loop (before @ [p]) rest c')
      else group_loop (before @ [p]) rest c)"

fun getGroupCircles :: "(point list \<Rightarrow> point list) \<Rightarrow> (string \<times> point list) list \<Rightarrow> NodeGroupCircle list result" where
  "getGroupCircles shuffle [] = Inr []"
| "getGroupCircles shuffle ((groupName, nodes) # gs) =
     (case group_loop [] (shuffle nodes) None of
        Inl e \<Rightarrow> Inl e
      | Inr c \<Rightarrow>
          map_result (\<lambda>cs. (case c of None \<Rightarrow> [] | Some k \<Rightarrow> [k\<lparr>circleGroup := Some groupName\<rparr>]) @ cs)
            (getGroupCircles shuffle gs))"

definition belongsToDefaultGroup :: "string \<Rightarrow> bool" where
  "belongsToDefaultGroup reference = (rx_exec (rx_lit ''/core/node-groups/default'') reference \<noteq> None)"

section \<open>The data of the canvas\<close>

text \<open>
  The methods read \<open>nodeGroups\<close>, which is \<^term>\<open>None\<close> until it is bound. A dictionary is an
  association list in the order of insertion, and the nodes of a group are visited in the order of
  theirs.
\<close>

definition group_members :: "NodeGroup \<Rightarrow> Node list" where
  "group_members g = map snd (groupNodes g)"

definition add_node :: "(string \<times> Node) list \<Rightarrow> Node \<Rightarrow> (string \<times> Node) list" where
  "add_node nodesByName node =
     (case map_of nodesByName (nodeId node) of
        Some n \<Rightarrow> if belongsToDefaultGroup (groupReference n) then nodesByName
                  else obj_set (nodeId node) node nodesByName
      | None \<Rightarrow> obj_set (nodeId node) node nodesByName)"

definition getNodesByName :: "NodeGroup list option \<Rightarrow> (string \<times> Node) list" where
  "getNodesByName groups =
     (case groups of
        None \<Rightarrow> []
      | Some gs \<Rightarrow> foldl (\<lambda>byName g. foldl add_node byName (group_members g)) [] gs)"

text \<open>An end of a link that has no node is \<open>undefined\<close>.\<close>

definition getLinks :: "NodeGroup list option \<Rightarrow> (string \<times> Node) list \<Rightarrow> (Node option \<times> Node option) list" where
  "getLinks groups nodesByName =
     (case groups of
        None \<Rightarrow> []
      | Some gs \<Rightarrow>
          concat (map (\<lambda>g. concat (map (\<lambda>sourceNode. concat (map (\<lambda>targetNode.
            if nodeId sourceNode = nodeId targetNode then []
            else [(map_of nodesByName (nodeId sourceNode), map_of nodesByName (nodeId targetNode))])
              (group_members g))) (group_members g))) gs))"

definition getNodesByGroup :: "NodeGroup list option \<Rightarrow> (string \<times> Node) list \<Rightarrow> (string \<times> Node option list) list" where
  "getNodesByGroup groups nodesByName =
     (case groups of
        None \<Rightarrow> []
      | Some gs \<Rightarrow>
          foldl (\<lambda>byGroup g. obj_set (show_opt (\<lambda>x. x) (documentSelfLink g))
              (map (\<lambda>n. map_of nodesByName (nodeId n)) (group_members g)) byGroup) [] gs)"

text \<open>\<open>_.findIndex\<close>, and the remainder of JavaScript, which is \<open>-1\<close> for \<open>-1\<close>.\<close>

fun findIndex :: "('a \<Rightarrow> bool) \<Rightarrow> 'a list \<Rightarrow> int" where
  "findIndex P [] = - 1"
| "findIndex P (x # xs) = (if P x then 0 else (let i = findIndex P xs in if i < 0 then - 1 else i + 1))"

definition js_rem :: "int \<Rightarrow> int \<Rightarrow> int" where
  "js_rem a b = sgn a * (\<bar>a\<bar> mod \<bar>b\<bar>)"

definition getNodeGroupClass :: "NodeGroup list option \<Rightarrow> string \<Rightarrow> string" where
  "getNodeGroupClass groups group_name =
     (let index = (case groups of None \<Rightarrow> 0
                   | Some gs \<Rightarrow> js_rem (findIndex (\<lambda>g. documentSelfLink g = Some group_name) gs) 7)
      in ''group group-'' @ show_int index)"

text \<open>
  The class of an unknown status is assigned and then overwritten by the class of the status, which
  is not there.
\<close>

definition getNodeClassByStatus :: "string option \<Rightarrow> string result" where
  "getNodeClassByStatus status =
     (case status of
        None \<Rightarrow> Inl TypeError
      | Some s \<Rightarrow>
          (case map_of ProcessingStageUtil (toUpperCase s) of
             None \<Rightarrow> Inl TypeError
           | Some d \<Rightarrow> Inr (''node '' @ className d)))"

text \<open>
  The tooltips of a node and of a group, the classes of a node and a click on it. What the canvas
  emits is the node to highlight; whether the clicked circle has the class \<open>highlight\<close> is read from
  the page.
\<close>

record force_layout =
  fl_charge :: int
  fl_chargeDistance :: int
  fl_linkDistance :: int
  fl_size :: "real \<times> real"

record canvas = "(unit, Node) rt" +
  cv_forceLayout :: "force_layout option"
  cv_tick :: "(string \<times> Node option list) list option"
  cv_nodeGroups :: "NodeGroup list option"
  cv_hostNodeId :: "string option"
  cv_selectedNodeId :: "string option"
  cv_highlightedNodeId :: "string option"
  cv_groups :: "(NodeGroupCircle \<times> string) list"
  cv_links :: "(Node option \<times> Node option) list"
  cv_nodes :: "(Node \<times> string list) list"

definition same_id :: "string option \<Rightarrow> Node \<Rightarrow> bool" where
  "same_id i node = (truthy i \<and> i = Some (nodeId node))"

definition node_tooltip :: "canvas \<Rightarrow> Node \<Rightarrow> string" where
  "node_tooltip s node =
     (let states = (if same_id (cv_hostNodeId s) node then [''Host''] else []) @
                   (if same_id (cv_selectedNodeId s) node then [''Current''] else []);
          stateSuffix = (if states \<noteq> [] then '' ('' @ js_join '', '' states @ '')'' else []);
          newline = CHR 0x0A # replicate 24 CHR '' ''
      in ''Node: <strong>'' @ nodeId node @ ''</strong><small>'' @ stateSuffix @ ''</small><br>'' @ newline @
         ''Status: <strong>'' @ nodeStatus node @ ''</strong><br>'' @ newline @
         ''Membership Quorum: <strong>'' @ show_int (membershipQuorum node) @ ''</strong><br>'' @ newline @
         ''Options: <strong>'' @ js_join '' '' (nodeOptions node) @ ''</strong><br>'')"

definition group_tooltip :: "NodeGroupCircle \<Rightarrow> string" where
  "group_tooltip c = ''Group: <strong>'' @ show_opt (\<lambda>x. x) (circleGroup c) @ ''</strong>''"

definition node_classes :: "canvas \<Rightarrow> Node \<Rightarrow> string list" where
  "node_classes s node =
     (if same_id (cv_highlightedNodeId s) node then [''highlight''] else []) @
     (if same_id (cv_selectedNodeId s) node then [''active''] else []) @
     (if same_id (cv_hostNodeId s) node then [''host''] else [])"

definition node_clicked :: "bool \<Rightarrow> Node \<Rightarrow> canvas \<Rightarrow> canvas" where
  "node_clicked isNodeHighlighted node s =
     (if isNodeHighlighted then s
      else (perform (Publish node) s)\<lparr>cv_highlightedNodeId := Some (nodeId node)\<rparr>)"

text \<open>
  The layout is made once the view is there, for the size of the parent of the drawing; without the
  drawing reading its parent raises a TypeError, and so does every use of the layout before.
\<close>

definition canvas_ngAfterViewInit :: "(real \<times> real) option \<Rightarrow> canvas \<Rightarrow> canvas \<times> jserror option" where
  "canvas_ngAfterViewInit parent_size s =
     (case parent_size of
        None \<Rightarrow> (s, Some TypeError)
      | Some sz \<Rightarrow>
          (s\<lparr>cv_forceLayout := Some \<lparr>fl_charge = - 2000, fl_chargeDistance = 2000, fl_linkDistance = 100, fl_size = sz\<rparr>\<rparr>, None))"

text \<open>
  What the canvas shows: the circles of the groups with their classes, the links, and the nodes with
  their classes. The layout of the canvas gives each node its place, \<open>pos\<close>; on each tick of the layout
  the circles of the groups that were rendered are computed again, and drawn larger by 32. An
  exception leaves out what would be drawn after it, and the former handler of the ticks stays.
\<close>

definition group_points :: "(Node \<Rightarrow> point) \<Rightarrow> (string \<times> Node option list) list \<Rightarrow> (string \<times> point list) list" where
  "group_points pos nodesByGroup = map (\<lambda>(g, ns). (g, map (\<lambda>n. pos (the n)) ns)) nodesByGroup"

definition node_circle :: "canvas \<Rightarrow> Node \<Rightarrow> (Node \<times> string list) result" where
  "node_circle s node =
     map_result (\<lambda>c. (node, c # node_classes s node)) (getNodeClassByStatus (Some (nodeStatus node)))"

definition canvas_render ::
    "(point list \<Rightarrow> point list) \<Rightarrow> (Node \<Rightarrow> point) \<Rightarrow> canvas \<Rightarrow> canvas \<times> jserror option" where
  "canvas_render shuffle pos s =
     (let nodesByName = getNodesByName (cv_nodeGroups s);
          nodesByGroup = getNodesByGroup (cv_nodeGroups s) nodesByName;
          links = getLinks (cv_nodeGroups s) nodesByName;
          nodes = map snd nodesByName;
          s = s\<lparr>cv_groups := [], cv_links := [], cv_nodes := []\<rparr> in
      if cv_forceLayout s = None then (s, Some TypeError) else
      case getGroupCircles shuffle (group_points pos nodesByGroup) of
        Inl e \<Rightarrow> (s, Some e)
      | Inr cs \<Rightarrow>
          (let s = s\<lparr>cv_groups := map (\<lambda>c. (c, getNodeGroupClass (cv_nodeGroups s) (the (circleGroup c)))) cs,
                     cv_links := links\<rparr> in
           case collect_results (map (node_circle s) nodes) of
             Inl e \<Rightarrow> (s, Some e)
           | Inr ns \<Rightarrow> (s\<lparr>cv_nodes := ns, cv_tick := Some nodesByGroup\<rparr>, None)))"

definition canvas_tick ::
    "(point list \<Rightarrow> point list) \<Rightarrow> (Node \<Rightarrow> point) \<Rightarrow> canvas \<Rightarrow> canvas \<times> jserror option" where
  "canvas_tick shuffle pos s =
     (case cv_tick s of
        None \<Rightarrow> (s, None)
      | Some nodesByGroup \<Rightarrow>
          (case getGroupCircles shuffle (group_points pos nodesByGroup) of
             Inl e \<Rightarrow> (s, Some e)
           | Inr cs \<Rightarrow>
               (s\<lparr>cv_groups := map2 (\<lambda>c g. (c\<lparr>circleR := circleR c + 32\<rparr>, snd g)) cs (cv_groups s)\<rparr>, None)))"

text \<open>The change of the input \<open>selectedNodeId\<close>, if there is one, with the current value.\<close>

definition canvas_ngOnChanges ::
    "(point list \<Rightarrow> point list) \<Rightarrow> (Node \<Rightarrow> point) \<Rightarrow> string option option \<Rightarrow> canvas \<Rightarrow> canvas \<times> jserror option" where
  "canvas_ngOnChanges shuffle pos change s =
     (case change of
        None \<Rightarrow> (s, None)
      | Some current \<Rightarrow>
          if \<not> truthy current then (s, None)
          else canvas_render shuffle pos (s\<lparr>cv_selectedNodeId := current\<rparr>))"

text \<open>The canvas that \<open>d3.select\<close> gave is made together with the layout.\<close>

definition canvas_ngOnDestroy :: "canvas \<Rightarrow> canvas \<times> jserror option" where
  "canvas_ngOnDestroy s =
     (if cv_forceLayout s = None then (s, Some TypeError)
      else (s\<lparr>cv_tick := None, cv_links := [], cv_nodes := []\<rparr>, None))"

section \<open>Lemmas on the circles\<close>

definition touches :: "NodeGroupCircle \<Rightarrow> point \<Rightarrow> bool" where
  "touches c p \<longleftrightarrow> 0 \<le> circleR c \<and> distance p (center c) = circleR c"

lemma circle_sel [simp]: "circleX (circle x y r) = x" "circleY (circle x y r) = y" "circleR (circle x y r) = r"
  by (simp_all add: circle_def)

lemma distance_commute: "distance p q = distance q p"
  by (simp add: distance_def) (simp add: algebra_simps)

lemma distance_nonneg [simp]: "0 \<le> distance p q"
  by (simp add: distance_def)

lemma distance_self [simp]: "distance p p = 0"
  by (simp add: distance_def)

lemma makeDiameter_touches: "touches (makeDiameter p q) p" "touches (makeDiameter p q) q"
proof -
  have half: "sqrt ((u / 2) * (u / 2) + (v / 2) * (v / 2)) = sqrt (u * u + v * v) / 2" for u v :: real
  proof -
    have "(u / 2) * (u / 2) + (v / 2) * (v / 2) = (u * u + v * v) / 4" by (simp add: field_simps)
    then show ?thesis by (simp only: real_sqrt_divide real_sqrt_four)
  qed
  have "distance p (center (makeDiameter p q)) = sqrt (((fst p - fst q) / 2) * ((fst p - fst q) / 2) +
      ((snd p - snd q) / 2) * ((snd p - snd q) / 2))"
    by (simp add: distance_def center_def makeDiameter_def field_simps)
  moreover have "distance q (center (makeDiameter p q)) = sqrt (((fst p - fst q) / 2) * ((fst p - fst q) / 2) +
      ((snd p - snd q) / 2) * ((snd p - snd q) / 2))"
    by (simp add: distance_def center_def makeDiameter_def field_simps)
  ultimately show "touches (makeDiameter p q) p" "touches (makeDiameter p q) q"
    by (simp_all only: half touches_def) (simp_all add: distance_def makeDiameter_def)
qed

lemma circum_center:
  fixes x0 y0 x1 y1 x2 y2 :: real
  defines "D \<equiv> (x0 * (y1 - y2) + x1 * (y2 - y0) + x2 * (y0 - y1)) * 2"
    and "A \<equiv> (x0 * x0 + y0 * y0) * (y1 - y2) + (x1 * x1 + y1 * y1) * (y2 - y0) + (x2 * x2 + y2 * y2) * (y0 - y1)"
    and "B \<equiv> (x0 * x0 + y0 * y0) * (x2 - x1) + (x1 * x1 + y1 * y1) * (x0 - x2) + (x2 * x2 + y2 * y2) * (x1 - x0)"
  assumes "D \<noteq> 0"
  shows "(A / D - x0) * (A / D - x0) + (B / D - y0) * (B / D - y0) = (A / D - x1) * (A / D - x1) + (B / D - y1) * (B / D - y1)"
    and "(A / D - x0) * (A / D - x0) + (B / D - y0) * (B / D - y0) = (A / D - x2) * (A / D - x2) + (B / D - y2) * (B / D - y2)"
proof -
  have eq: "(a - u) * (a - u) + (b - v) * (b - v) = (a - u') * (a - u') + (b - v') * (b - v')"
    if "2 * a * (u' - u) + 2 * b * (v' - v) = u' * u' + v' * v' - u * u - v * v" for a b u v u' v' :: real
    using that by algebra
  have quot: "2 * (A / D) * u + 2 * (B / D) * v = w" if "2 * A * u + 2 * B * v = D * w" for u v w
  proof -
    have "2 * (A / D) * u + 2 * (B / D) * v = (2 * A * u + 2 * B * v) / D" by (simp add: add_divide_distrib)
    then show ?thesis using that assms(4) by simp
  qed
  have "2 * A * (x1 - x0) + 2 * B * (y1 - y0) = D * (x1 * x1 + y1 * y1 - x0 * x0 - y0 * y0)"
    unfolding A_def B_def D_def by algebra
  then have "2 * (A / D) * (x1 - x0) + 2 * (B / D) * (y1 - y0) = x1 * x1 + y1 * y1 - x0 * x0 - y0 * y0"
    by (rule quot)
  then show "(A / D - x0) * (A / D - x0) + (B / D - y0) * (B / D - y0) = (A / D - x1) * (A / D - x1) + (B / D - y1) * (B / D - y1)"
    by (rule eq)
  have "2 * A * (x2 - x0) + 2 * B * (y2 - y0) = D * (x2 * x2 + y2 * y2 - x0 * x0 - y0 * y0)"
    unfolding A_def B_def D_def by algebra
  then have "2 * (A / D) * (x2 - x0) + 2 * (B / D) * (y2 - y0) = x2 * x2 + y2 * y2 - x0 * x0 - y0 * y0"
    by (rule quot)
  then show "(A / D - x0) * (A / D - x0) + (B / D - y0) * (B / D - y0) = (A / D - x2) * (A / D - x2) + (B / D - y2) * (B / D - y2)"
    by (rule eq)
qed

lemma makeCircumCircle_touches:
  assumes "makeCircumCircle p0 p1 p2 = Some c"
  shows "touches c p0 \<and> touches c p1 \<and> touches c p2"
proof -
  obtain x0 y0 x1 y1 x2 y2 where p: "p0 = (x0, y0)" "p1 = (x1, y1)" "p2 = (x2, y2)"
    by (cases p0, cases p1, cases p2)
  have D: "(x0 * (y1 - y2) + x1 * (y2 - y0) + x2 * (y0 - y1)) * 2 \<noteq> 0"
    using assms p by (auto simp: makeCircumCircle_def Let_def split: if_splits)
  have c: "circleR c = distance (center c) p0" "distance (center c) p1 = distance (center c) p0"
    "distance (center c) p2 = distance (center c) p0"
    using assms circum_center [OF D] D p by (auto simp: makeCircumCircle_def Let_def center_def distance_def)
  then show ?thesis
    by (simp add: touches_def distance_commute [of _ "center c"])
qed

lemma makeCircumCircle_None: "makeCircumCircle p0 p1 p2 = None \<longleftrightarrow> crossProduct p0 p1 p2 = 0"
proof -
  have "crossProduct p0 p1 p2 = fst p0 * (snd p1 - snd p2) + fst p1 * (snd p2 - snd p0) + fst p2 * (snd p0 - snd p1)"
    unfolding crossProduct_def by algebra
  then show ?thesis by (cases p0; cases p1; cases p2) (simp add: makeCircumCircle_def Let_def)
qed

text \<open>Every circle the search comes to has the nodes it was made for on its boundary.\<close>

definition side_ok :: "point \<Rightarrow> point \<Rightarrow> NodeGroupCircle option \<Rightarrow> bool" where
  "side_ok p q c \<longleftrightarrow> (\<forall>k. c = Some k \<longrightarrow> touches k p \<and> touches k q)"

lemma side_step_ok:
  "side_ok p0 p1 (fst sides) \<Longrightarrow> side_ok p0 p1 (snd sides) \<Longrightarrow>
   side_ok p0 p1 (fst (side_step p0 p1 sides p2)) \<and> side_ok p0 p1 (snd (side_step p0 p1 sides p2))"
  by (cases sides; cases "makeCircumCircle p0 p1 p2")
    (auto simp: side_step_def side_ok_def Let_def dest: makeCircumCircle_touches)

lemma side_steps_ok:
  "side_ok p0 p1 (fst sides) \<Longrightarrow> side_ok p0 p1 (snd sides) \<Longrightarrow>
   side_ok p0 p1 (fst (foldl (side_step p0 p1) sides nodes)) \<and> side_ok p0 p1 (snd (foldl (side_step p0 p1) sides nodes))"
  by (induction nodes arbitrary: sides) (simp_all add: side_step_ok)

lemma makeCircleTwoNodes_ok: "side_ok p0 p1 (makeCircleTwoNodes nodes p0 p1)"
  using side_steps_ok [of p0 p1 "(None, None)" nodes] makeDiameter_touches [of p0 p1]
  by (cases "foldl (side_step p0 p1) (None, None) nodes") (auto simp: makeCircleTwoNodes_def Let_def side_ok_def)

lemma one_node_loop_touches:
  "one_node_loop p0 before nodes c = Inr (Some k) \<Longrightarrow> \<forall>k. c = Some k \<longrightarrow> touches k p0 \<Longrightarrow> touches k p0"
proof (induction p0 before nodes c rule: one_node_loop.induct)
  case (2 p0 before p1 rest c)
  show ?case
  proof (cases "isInCircle c p1")
    case False
    then obtain k' where c: "c = Some k'"
      using 2(3) by (cases c) auto
    show ?thesis
      using 2(2) [OF False c] 2(3) False c makeDiameter_touches [of p0 p1] makeCircleTwoNodes_ok [of p0 p1 "before @ [p1]"]
      by (auto simp: side_ok_def split: if_splits)
  qed (use 2 in simp)
qed simp

lemma makeCircleOneNode_touches: "makeCircleOneNode nodes p = Inr (Some k) \<Longrightarrow> touches k p"
  unfolding makeCircleOneNode_def
  by (erule one_node_loop_touches) (simp add: touches_def center_def)

lemma group_loop_touches:
  "group_loop before nodes c = Inr (Some k) \<Longrightarrow> \<forall>k. c = Some k \<longrightarrow> (\<exists>p \<in> set before. touches k p) \<Longrightarrow>
   \<exists>p \<in> set (before @ nodes). touches k p"
proof (induction before nodes c rule: group_loop.induct)
  case (2 before p rest c)
  show ?case
  proof (cases "c = None \<or> \<not> isInCircle c p")
    case True
    then obtain c' where c': "makeCircleOneNode (before @ [p]) p = Inr c'"
      using 2(3) by (auto split: sum.splits)
    show ?thesis
      using 2(1) [OF True c'] 2(3) True c' makeCircleOneNode_touches [of "before @ [p]" p] by auto
  next
    case False
    then show ?thesis using 2(2) [OF False] 2(3,4) by auto
  qed
qed auto

text \<open>The circle of two nodes that are apart is the one over their diameter.\<close>

lemma EPSILON_pos [simp]: "0 < EPSILON"
  by (simp add: EPSILON_def)

lemma touches_in: "touches k p \<Longrightarrow> isInCircle (Some k) p"
  by (simp add: touches_def isInCircle_def)

lemma group_loop_two:
  assumes "EPSILON \<le> distance p q"
  shows "group_loop [] [p, q] None = Inr (Some (makeDiameter q p))"
proof -
  have "isInCircle (Some (circle (fst x) (snd x) 0)) x" for x
    by (simp add: isInCircle_def center_def)
  moreover have "\<not> isInCircle (Some (circle (fst p) (snd p) 0)) q" "\<not> isInCircle (Some (circle (fst q) (snd q) 0)) p"
    using assms by (simp_all add: isInCircle_def center_def distance_commute [of q p])
  moreover have "isInCircle (Some (makeDiameter q p)) q"
    by (rule touches_in) (rule makeDiameter_touches)
  ultimately show ?thesis by (simp add: makeCircleOneNode_def)
qed

lemma distance_triangle: "distance p q \<le> distance p c + distance c q"
proof -
  have d: "distance a b = norm (Complex (fst a - fst b) (snd a - snd b))" for a b
    by (simp add: distance_def complex_norm power2_eq_square)
  have "Complex (fst p - fst q) (snd p - snd q) =
      Complex (fst p - fst c) (snd p - snd c) + Complex (fst c - fst q) (snd c - snd q)"
    by (simp add: complex_eq_iff)
  then show ?thesis unfolding d by (metis norm_triangle_ineq)
qed

lemma distance_sample: "distance (0, 0) (2, 0) = 2"
  by (simp add: distance_def)

lemma circle_sample:
  "getGroupCircles (\<lambda>xs. xs) [(''g'', [(0, 0), (2, 0)])] =
   Inr [(makeDiameter (2, 0) (0, 0))\<lparr>circleGroup := Some ''g''\<rparr>]"
proof -
  have "EPSILON \<le> distance (0, 0) (2, 0)" by (simp add: distance_sample EPSILON_def)
  then show ?thesis by (simp add: group_loop_two map_result_def del: group_loop.simps)
qed

text \<open>
  The circle of a group is tight and named after its group: each circle has a radius that is not
  negative and one of the nodes of its group on its boundary, whatever order the nodes are shuffled
  into.
\<close>

lemma group_circles_touch:
  assumes "\<And>xs. mset (shuffle xs) = mset xs" "getGroupCircles shuffle groups = Inr cs" "c \<in> set cs"
  shows "\<exists>name nodes. (name, nodes) \<in> set groups \<and> circleGroup c = Some name \<and> 0 \<le> circleR c \<and>
    (\<exists>p \<in> set nodes. distance p (circleX c, circleY c) = circleR c)"
  using assms(2,3)
proof (induction groups arbitrary: cs)
  case (Cons g groups)
  obtain name nodes where g: "g = (name, nodes)" by (cases g)
  obtain k cs' where k: "group_loop [] (shuffle nodes) None = Inr k" "getGroupCircles shuffle groups = Inr cs'"
    and cs: "cs = (case k of None \<Rightarrow> [] | Some k \<Rightarrow> [k\<lparr>circleGroup := Some name\<rparr>]) @ cs'"
    using Cons.prems(1) by (auto simp: g map_result_def split: sum.splits)
  show ?case
  proof (cases "c \<in> set cs'")
    case True
    then show ?thesis using Cons.IH [OF k(2)] by auto
  next
    case False
    then obtain k' where k': "k = Some k'" "c = k'\<lparr>circleGroup := Some name\<rparr>"
      using Cons.prems(2) cs by (auto split: option.splits)
    then obtain p where "p \<in> set (shuffle nodes)" "touches k' p"
      using group_loop_touches [of "[]" "shuffle nodes" None k'] k(1) by auto
    then show ?thesis
      using k'(2) mset_eq_setD [OF assms(1) [of nodes]] by (auto simp: g touches_def center_def)
  qed
qed simp

lemma group_circles_touch_witness:
  "\<exists>name nodes. (name, nodes) \<in> set [(''g'', [(0, 0), (2, 0)])] \<and>
    circleGroup ((makeDiameter (2, 0) (0, 0))\<lparr>circleGroup := Some ''g''\<rparr>) = Some name \<and>
    0 \<le> circleR ((makeDiameter (2, 0) (0, 0))\<lparr>circleGroup := Some ''g''\<rparr>) \<and>
    (\<exists>p \<in> set nodes. distance p (circleX ((makeDiameter (2, 0) (0, 0))\<lparr>circleGroup := Some ''g''\<rparr>),
       circleY ((makeDiameter (2, 0) (0, 0))\<lparr>circleGroup := Some ''g''\<rparr>)) =
     circleR ((makeDiameter (2, 0) (0, 0))\<lparr>circleGroup := Some ''g''\<rparr>))"
  by (rule group_circles_touch [OF _ circle_sample]) simp_all

text \<open>
  A group of two nodes that are apart gets the smallest circle that holds both: both nodes are on
  its boundary, and no circle that holds both has a smaller radius.
\<close>

lemma two_nodes_smallest_circle:
  assumes "EPSILON \<le> distance p q" "set (shuffle [p, q]) = {p, q}" "length (shuffle [p, q]) = 2"
  shows "\<exists>c. getGroupCircles shuffle [(name, [p, q])] = Inr [c] \<and>
    distance p (circleX c, circleY c) = circleR c \<and> distance q (circleX c, circleY c) = circleR c \<and>
    (distance p z \<le> r \<and> distance q z \<le> r \<longrightarrow> circleR c \<le> r)"
proof -
  have "p \<noteq> q" using assms(1) EPSILON_pos by force
  then have sh: "shuffle [p, q] = [p, q] \<or> shuffle [p, q] = [q, p]"
    using assms(2,3) by (auto simp: numeral_2_eq_2 length_Suc_conv doubleton_eq_iff)
  have two: "\<exists>c. getGroupCircles shuffle [(name, [p, q])] = Inr [c] \<and> touches c p \<and> touches c q \<and> circleR c = distance p q / 2"
    using sh
  proof
    assume "shuffle [p, q] = [p, q]"
    then show ?thesis
      using group_loop_two [of p q] assms(1) makeDiameter_touches [of q p]
      by (auto simp: map_result_def touches_def center_def makeDiameter_def distance_commute [of q p])
  next
    assume "shuffle [p, q] = [q, p]"
    then show ?thesis
      using group_loop_two [of q p] assms(1) makeDiameter_touches [of p q]
      by (auto simp: map_result_def touches_def center_def makeDiameter_def distance_commute [of q p])
  qed
  have "distance p q / 2 \<le> r" if "distance p z \<le> r" "distance q z \<le> r"
    using that distance_triangle [of p q z] by (simp add: distance_commute [of z q])
  with two show ?thesis by (auto simp: touches_def center_def)
qed

lemma two_nodes_smallest_circle_witness:
  "\<exists>c. getGroupCircles rev [(''g'', [(0, 0), (2, 0)])] = Inr [c] \<and>
    distance (0, 0) (circleX c, circleY c) = circleR c \<and> distance (2, 0) (circleX c, circleY c) = circleR c"
  using two_nodes_smallest_circle [of "(0, 0)" "(2, 0)" rev "''g''" "(1, 0)" 1]
  by (fastforce simp: distance_sample EPSILON_def)

section \<open>Nodes and links\<close>

text \<open>
  The reference: of the nodes with an id, the first one of the default group, or the last one when
  none is of the default group.
\<close>

definition chosen_node :: "Node list \<Rightarrow> string \<Rightarrow> Node option" where
  "chosen_node nodes i =
     (let ns = filter (\<lambda>n. nodeId n = i) nodes in
      if ns = [] then None
      else (case find (\<lambda>n. belongsToDefaultGroup (groupReference n)) ns of Some n \<Rightarrow> Some n | None \<Rightarrow> Some (last ns)))"

definition all_members :: "NodeGroup list option \<Rightarrow> Node list" where
  "all_members groups = concat (map group_members (case_option [] (\<lambda>x. x) groups))"

lemma getNodesByName_eq: "getNodesByName groups = foldl add_node [] (all_members groups)"
proof -
  have "foldl (\<lambda>byName g. foldl add_node byName (group_members g)) acc gs =
      foldl add_node acc (concat (map group_members gs))" for acc and gs :: "NodeGroup list"
    by (induction gs arbitrary: acc) simp_all
  then show ?thesis by (cases groups) (simp_all add: getNodesByName_def all_members_def)
qed

lemma find_SomeD: "find P xs = Some x \<Longrightarrow> P x \<and> x \<in> set xs"
  by (induction xs) (auto split: if_splits)

lemma find_append: "find P (xs @ ys) = (case find P xs of Some x \<Rightarrow> Some x | None \<Rightarrow> find P ys)"
  by (induction xs) simp_all

lemma chosen_node_snoc:
  "chosen_node (ns @ [n]) i =
     (if nodeId n \<noteq> i then chosen_node ns i
      else (case chosen_node ns i of
              Some m \<Rightarrow> if belongsToDefaultGroup (groupReference m) then Some m else Some n
            | None \<Rightarrow> Some n))"
proof (cases "nodeId n = i \<and> filter (\<lambda>n. nodeId n = i) ns \<noteq> []")
  case True
  let ?ns = "filter (\<lambda>n. nodeId n = i) ns" and ?d = "\<lambda>n. belongsToDefaultGroup (groupReference n)"
  show ?thesis
  proof (cases "find ?d ?ns")
    case None
    then have "\<not> ?d (last ?ns)" using True find_None_iff [of ?d ?ns] last_in_set [of ?ns] by blast
    with None True show ?thesis by (simp add: chosen_node_def Let_def find_append)
  next
    case (Some m)
    with True find_SomeD [OF Some] show ?thesis by (simp add: chosen_node_def Let_def find_append)
  qed
qed (auto simp: chosen_node_def Let_def split: option.splits)

lemma add_nodes_lookup: "map_of (foldl add_node [] ns) i = chosen_node ns i"
proof (induction ns arbitrary: i rule: rev_induct)
  case (snoc n ns)
  have *: "map_of (add_node m n) i =
      (if nodeId n \<noteq> i then map_of m i
       else (case map_of m i of Some x \<Rightarrow> if belongsToDefaultGroup (groupReference x) then Some x else Some n | None \<Rightarrow> Some n))" for m
    by (auto simp: add_node_def map_of_obj_set split: option.splits)
  show ?case by (simp add: * chosen_node_snoc snoc)
qed (simp add: chosen_node_def)

text \<open>
  A node that is in several groups is shown once, as the member of the default group when it is
  one: the dictionary of the nodes by name gives for an id the first node of the default group with
  that id, or the last node with that id when none is of the default group.
\<close>

lemma nodes_by_name: "map_of (getNodesByName groups) i = chosen_node (all_members groups) i"
  by (simp add: getNodesByName_eq add_nodes_lookup)

lemma chosen_node_id: "n \<in> set ns \<Longrightarrow> \<exists>m. chosen_node ns (nodeId n) = Some m \<and> nodeId m = nodeId n \<and> m \<in> set ns"
proof -
  assume n: "n \<in> set ns"
  let ?ns = "filter (\<lambda>m. nodeId m = nodeId n) ns"
  have ne: "?ns \<noteq> []" using n by (auto simp: filter_empty_conv)
  show ?thesis
  proof (cases "find (\<lambda>n. belongsToDefaultGroup (groupReference n)) ?ns")
    case None
    with ne last_in_set [OF ne] show ?thesis by (simp add: chosen_node_def Let_def)
  next
    case (Some m)
    with ne find_SomeD [OF Some] show ?thesis by (simp add: chosen_node_def Let_def)
  qed
qed

text \<open>
  The links of the canvas are a symmetric relation between different nodes: each end of a link is
  a node, the two ends have different ids, and with a link its reverse is there.
\<close>

lemma links_symmetric:
  assumes "(a, b) \<in> set (getLinks groups (getNodesByName groups))"
  shows "(b, a) \<in> set (getLinks groups (getNodesByName groups)) \<and>
    (\<exists>m n. a = Some m \<and> b = Some n \<and> nodeId m \<noteq> nodeId n \<and>
       m \<in> set (all_members groups) \<and> n \<in> set (all_members groups))"
proof -
  from assms obtain gs g s t where g: "groups = Some gs" "g \<in> set gs" "s \<in> set (group_members g)" "t \<in> set (group_members g)"
    "nodeId s \<noteq> nodeId t" "a = map_of (getNodesByName groups) (nodeId s)" "b = map_of (getNodesByName groups) (nodeId t)"
    by (auto simp: getLinks_def split: option.splits if_splits)
  then have "s \<in> set (all_members groups)" "t \<in> set (all_members groups)" by (auto simp: all_members_def)
  moreover have "(b, a) \<in> set (getLinks groups (getNodesByName groups))"
    using g by (force simp: getLinks_def)
  ultimately show ?thesis
    using g(5-7) chosen_node_id [of s] chosen_node_id [of t]
    by (simp add: getNodesByName_eq add_nodes_lookup) metis
qed

lemma links_symmetric_witness:
  "(Some (group_node ''/x'' ''b''), Some (group_node ''/x'' ''a'')) \<in>
   set (getLinks (Some [sample_group [(''a'', group_node ''/x'' ''a''), (''b'', group_node ''/x'' ''b'')]])
     (getNodesByName (Some [sample_group [(''a'', group_node ''/x'' ''a''), (''b'', group_node ''/x'' ''b'')]])))"
proof -
  let ?gs = "Some [sample_group [(''a'', group_node ''/x'' ''a''), (''b'', group_node ''/x'' ''b'')]]"
  have "(Some (group_node ''/x'' ''a''), Some (group_node ''/x'' ''b'')) \<in> set (getLinks ?gs (getNodesByName ?gs))"
    by (simp add: getLinks_def getNodesByName_def group_members_def add_node_def)
  then show ?thesis by (rule links_symmetric [THEN conjunct1])
qed

text \<open>A status that the table does not have is not shown as unknown: the class raises a \<open>TypeError\<close>.\<close>

lemma unknown_status_raises:
  "map_of ProcessingStageUtil (toUpperCase s) = None \<Longrightarrow> getNodeClassByStatus (Some s) = Inl TypeError"
  by (simp add: getNodeClassByStatus_def)

text \<open>
  When rendering raises nothing, the canvas shows each node of the dictionary once, and both ends of
  every link are nodes it shows.
\<close>

lemma node_circles_nodes: "map (node_circle t) xs = map Inr ns \<Longrightarrow> map fst ns = xs"
proof (induction xs arbitrary: ns)
  case (Cons x xs)
  then obtain n ns' where "ns = n # ns'" "node_circle t x = Inr n" "map (node_circle t) xs = map Inr ns'"
    by (auto simp: Cons_eq_map_conv)
  moreover from this(2) have "fst n = x" by (auto simp: node_circle_def map_result_def split: sum.splits)
  ultimately show ?case using Cons.IH by simp
qed simp

lemma rendered_links:
  assumes "canvas_render shuffle pos s = (s', None)" "(a, b) \<in> set (cv_links s')"
  shows "map fst (cv_nodes s') = map snd (getNodesByName (cv_nodeGroups s))"
    "\<exists>m n. a = Some m \<and> b = Some n \<and> {m, n} \<subseteq> fst ` set (cv_nodes s')"
proof -
  let ?by = "getNodesByName (cv_nodeGroups s)"
  obtain t cs ns where ns: "collect_results (map (node_circle t) (map snd ?by)) = Inr ns" "cv_nodes s' = ns"
    and links: "cv_links s' = getLinks (cv_nodeGroups s) ?by"
    using assms(1) by (auto simp: canvas_render_def Let_def split: sum.splits if_splits)
  show nodes: "map fst (cv_nodes s') = map snd ?by"
    using node_circles_nodes [OF collect_results_Inr [OF ns(1)]] ns(2) by simp
  have l: "(a, b) \<in> set (getLinks (cv_nodeGroups s) ?by)" using assms(2) links by simp
  then obtain i j where ij: "a = map_of ?by i" "b = map_of ?by j"
    by (auto simp: getLinks_def split: option.splits if_splits)
  obtain m n where mn: "a = Some m" "b = Some n" using links_symmetric [OF l] by blast
  then have "(i, m) \<in> set ?by" "(j, n) \<in> set ?by" using ij by (simp_all add: map_of_SomeD)
  then have sub: "m \<in> snd ` set ?by" "n \<in> snd ` set ?by" by (metis image_eqI snd_conv)+
  have drawn: "fst ` set (cv_nodes s') = snd ` set ?by" using nodes by (metis set_map)
  show "\<exists>m n. a = Some m \<and> b = Some n \<and> {m, n} \<subseteq> fst ` set (cv_nodes s')"
    unfolding drawn by (intro exI conjI, rule mn(1), rule mn(2)) (rule insert_subsetI [OF sub(1)], rule insert_subsetI [OF sub(2)], rule empty_subsetI)
qed

text \<open>
  After the canvas was destroyed a tick draws nothing; and a tick after the groups were changed, before
  the next rendering, still draws the circles of the groups that were rendered.
\<close>

lemma destroyed_canvas_quiet:
  "canvas_ngOnDestroy s = (s', None) \<Longrightarrow> canvas_tick shuffle pos s' = (s', None)"
  by (auto simp: canvas_ngOnDestroy_def canvas_tick_def split: if_splits)

lemma tick_ignores_new_groups:
  "canvas_tick shuffle pos (s\<lparr>cv_nodeGroups := gs\<rparr>) =
     (let (s', e) = canvas_tick shuffle pos s in (s'\<lparr>cv_nodeGroups := gs\<rparr>, e))"
  by (simp add: canvas_tick_def split: option.splits sum.splits)

end
