(* ===== verification/EnclosingCircle.thy ===== *)
theory EnclosingCircle
  imports NodeCanvas
begin

text \<open>
  The circles that \<open>node-group.util.ts\<close> computes are the smallest ones: the incremental algorithm with
  its three nested loops returns for each group the smallest circle that holds its nodes. The proof
  does not need that a smallest circle exists: each loop is shown to return a circle that is at most
  as large as any other that meets the same conditions. A node that is outside of a circle by less
  than the tolerance of the code counts as inside; the theorem is about nodes for which the tolerance
  does not matter.
\<close>

section \<open>Circles and points\<close>

definition excess :: "NodeGroupCircle \<Rightarrow> point \<Rightarrow> real" where
  "excess c p = (fst p - circleX c)\<^sup>2 + (snd p - circleY c)\<^sup>2 - (circleR c)\<^sup>2"

lemma distance_le_iff: "0 \<le> r \<Longrightarrow> distance p (x, y) \<le> r \<longleftrightarrow> (fst p - x)\<^sup>2 + (snd p - y)\<^sup>2 \<le> r\<^sup>2"
  by (metis (mono_tags, opaque_lifting) distance_def fst_conv power2_eq_square real_sqrt_le_iff real_sqrt_unique snd_conv)

lemma excess_le: "0 \<le> circleR c \<Longrightarrow> distance p (center c) \<le> circleR c \<longleftrightarrow> excess c p \<le> 0"
  by (simp add: center_def distance_le_iff excess_def)

definition encloses :: "NodeGroupCircle \<Rightarrow> point set \<Rightarrow> bool" where
  "encloses c S \<longleftrightarrow> 0 \<le> circleR c \<and> (\<forall>p \<in> S. excess c p \<le> 0)"

lemma encloses_insert: "encloses c (insert p S) \<longleftrightarrow> encloses c S \<and> excess c p \<le> 0"
  by (auto simp: encloses_def)

lemma encloses_mono: "encloses c S \<Longrightarrow> T \<subseteq> S \<Longrightarrow> encloses c T"
  by (auto simp: encloses_def)

text \<open>The circles the algorithm looks at for nodes of a set, and nodes for which the tolerance does not matter.\<close>

definition candidate :: "point set \<Rightarrow> NodeGroupCircle \<Rightarrow> bool" where
  "candidate S c \<longleftrightarrow>
     (\<exists>p \<in> S. c = circle (fst p) (snd p) 0) \<or> (\<exists>p \<in> S. \<exists>q \<in> S. c = makeDiameter p q) \<or>
     (\<exists>p \<in> S. \<exists>q \<in> S. \<exists>t \<in> S. makeCircumCircle p q t = Some c)"

definition crisp :: "point set \<Rightarrow> bool" where
  "crisp S \<longleftrightarrow> (\<forall>c p. candidate S c \<longrightarrow> p \<in> S \<longrightarrow> isInCircle (Some c) p \<longrightarrow> distance p (center c) \<le> circleR c)"

lemma touches_excess: "touches c p \<longleftrightarrow> 0 \<le> circleR c \<and> excess c p = 0"
proof -
  have "(distance p (center c))\<^sup>2 = (fst p - circleX c)\<^sup>2 + (snd p - circleY c)\<^sup>2"
    by (simp add: distance_def center_def power2_eq_square)
  then have "excess c p = (distance p (center c))\<^sup>2 - (circleR c)\<^sup>2" by (simp only: excess_def)
  then show ?thesis
    using power2_eq_iff_nonneg [OF distance_nonneg, of "circleR c" p "center c"] by (auto simp: touches_def)
qed

lemma candidate_nonneg: "candidate S c \<Longrightarrow> 0 \<le> circleR c"
  unfolding candidate_def
  by (elim disjE bexE) (auto simp: circle_def makeDiameter_def distance_nonneg touches_def dest!: makeCircumCircle_touches)

lemma crisp_in:
  assumes "crisp S" "candidate S c" "p \<in> S"
  shows "isInCircle (Some c) p \<longleftrightarrow> excess c p \<le> 0"
proof -
  have "isInCircle (Some c) p \<longleftrightarrow> distance p (center c) \<le> circleR c"
    using assms EPSILON_pos unfolding crisp_def isInCircle_def option.case by (smt (verit))
  then show ?thesis using excess_le candidate_nonneg [OF assms(2)] by simp
qed

section \<open>Between two circles\<close>

text \<open>
  A circle between two others: it holds what both hold, passes through a point that is outside of
  the first and inside of the second, and is not larger than the larger of them.
\<close>

lemma between:
  assumes "encloses c S" "encloses d S" "0 < excess c p" "excess d p \<le> 0"
  obtains e where "encloses e S" "excess e p = 0" "circleR e \<le> max (circleR c) (circleR d)"
    "\<And>q. excess c q = 0 \<Longrightarrow> excess d q = 0 \<Longrightarrow> excess e q = 0"
proof -
  define l where "l = excess c p / (excess c p - excess d p)"
  have l: "0 \<le> l" "l \<le> 1" "(1 - l) * excess c p + l * excess d p = 0"
    using assms(3,4) by (auto simp: l_def field_simps)
  define x where "x = (1 - l) * circleX c + l * circleX d"
  define y where "y = (1 - l) * circleY c + l * circleY d"
  define r where "r = sqrt ((fst p - x)\<^sup>2 + (snd p - y)\<^sup>2)"
  let ?e = "circle x y r"
  have r2: "(circleR ?e)\<^sup>2 = (fst p - x)\<^sup>2 + (snd p - y)\<^sup>2" by (simp add: circle_def r_def)
  have conv: "(fst q - x)\<^sup>2 + (snd q - y)\<^sup>2 =
      (1 - l) * ((fst q - circleX c)\<^sup>2 + (snd q - circleY c)\<^sup>2) + l * ((fst q - circleX d)\<^sup>2 + (snd q - circleY d)\<^sup>2) -
      l * (1 - l) * ((circleX c - circleX d)\<^sup>2 + (circleY c - circleY d)\<^sup>2)" for q
    unfolding x_def y_def by algebra
  have rr: "(circleR ?e)\<^sup>2 = (1 - l) * (circleR c)\<^sup>2 + l * (circleR d)\<^sup>2 -
      l * (1 - l) * ((circleX c - circleX d)\<^sup>2 + (circleY c - circleY d)\<^sup>2)"
    using l(3) unfolding r2 conv excess_def by algebra
  have ex: "excess ?e q = (1 - l) * excess c q + l * excess d q" for q
  proof -
    have "excess ?e q = (fst q - x)\<^sup>2 + (snd q - y)\<^sup>2 - (circleR ?e)\<^sup>2" by (simp add: excess_def circle_def)
    then show ?thesis unfolding conv rr excess_def by algebra
  qed
  have pos: "0 \<le> circleR ?e" by (simp add: circle_def r_def)
  show thesis
  proof (rule that)
    show "excess ?e p = 0" using l(3) ex by simp
    show "excess ?e q = 0" if "excess c q = 0" "excess d q = 0" for q using that ex by simp
    show "encloses ?e S"
      unfolding encloses_def
    proof (intro conjI ballI)
      fix q assume "q \<in> S"
      then have "(1 - l) * excess c q \<le> 0" "l * excess d q \<le> 0"
        using assms(1,2) l(1,2) by (auto simp: encloses_def mult_nonneg_nonpos)
      then show "excess ?e q \<le> 0" unfolding ex by linarith
    qed (rule pos)
    let ?m = "max (circleR c) (circleR d)"
    have m: "(circleR c)\<^sup>2 \<le> ?m\<^sup>2" "(circleR d)\<^sup>2 \<le> ?m\<^sup>2"
      using assms(1,2) by (auto simp: encloses_def intro: power_mono)
    have "(circleR ?e)\<^sup>2 \<le> (1 - l) * (circleR c)\<^sup>2 + l * (circleR d)\<^sup>2"
      unfolding rr using l(1,2) by simp
    also have "\<dots> \<le> (1 - l) * ?m\<^sup>2 + l * ?m\<^sup>2"
      using m l(1,2) by (intro add_mono mult_left_mono) auto
    also have "\<dots> = ?m\<^sup>2" by algebra
    finally have sq: "(circleR ?e)\<^sup>2 \<le> ?m\<^sup>2" .
    have "0 \<le> ?m" using assms(1) unfolding encloses_def by linarith
    then show "circleR ?e \<le> ?m" by (rule power2_le_imp_le [OF sq])
  qed
qed

section \<open>The circles through two points\<close>

text \<open>
  The circles through two points are told apart by \<open>lean\<close>, how far the centre lies to the left of the
  line. A point on the left is held from some value of \<open>lean\<close> on, one on the right up to some value.
\<close>

definition through :: "point \<Rightarrow> point \<Rightarrow> NodeGroupCircle \<Rightarrow> bool" where
  "through p q c \<longleftrightarrow> 0 \<le> circleR c \<and> excess c p = 0 \<and> excess c q = 0"

definition chord :: "point \<Rightarrow> point \<Rightarrow> real" where
  "chord p q = (fst q - fst p)\<^sup>2 + (snd q - snd p)\<^sup>2"

definition lean :: "point \<Rightarrow> point \<Rightarrow> NodeGroupCircle \<Rightarrow> real" where
  "lean p q c = crossProduct p q (center c)"

lemma chord_pos: "p \<noteq> q \<Longrightarrow> 0 < chord p q"
  by (cases p; cases q) (auto simp: chord_def sum_power2_gt_zero_iff)

lemma through_diameter: "through p q (makeDiameter p q)"
  using makeDiameter_touches [of p q] by (simp add: touches_excess through_def)

lemma through_circum: "makeCircumCircle p q t = Some c \<Longrightarrow> through p q c \<and> excess c t = 0"
  by (drule makeCircumCircle_touches) (simp add: touches_excess through_def)

lemma diameter_radius: "4 * (circleR (makeDiameter p q))\<^sup>2 = chord p q"
  by (simp add: makeDiameter_def circle_def distance_def chord_def power_divide power2_eq_square [symmetric]) (simp add: power2_commute)

lemma pencil:
  assumes "through p q c"
  shows "chord p q * excess c x = chord p q * excess (makeDiameter p q) x - 2 * lean p q c * crossProduct p q x"
proof -
  have "excess c p = 0" "excess c q = 0" using assms by (simp_all add: through_def)
  moreover have "4 * (circleR (makeDiameter p q))\<^sup>2 = chord p q" by (rule diameter_radius)
  moreover have "circleX (makeDiameter p q) = (fst p + fst q) / 2" "circleY (makeDiameter p q) = (snd p + snd q) / 2"
    by (simp_all add: makeDiameter_def)
  ultimately show ?thesis
    unfolding excess_def lean_def crossProduct_def center_def fst_conv snd_conv chord_def by algebra
qed

lemma pencil_radius:
  assumes "through p q c"
  shows "4 * chord p q * (circleR c)\<^sup>2 = (chord p q)\<^sup>2 + 4 * (lean p q c)\<^sup>2"
proof -
  have "excess c p = 0" "excess c q = 0" using assms by (simp_all add: through_def)
  then show ?thesis
    unfolding excess_def lean_def crossProduct_def center_def fst_conv snd_conv chord_def by algebra
qed

lemma radius_le:
  assumes "through p q c" "through p q d" "p \<noteq> q"
  shows "circleR c \<le> circleR d \<longleftrightarrow> \<bar>lean p q c\<bar> \<le> \<bar>lean p q d\<bar>"
proof -
  have "circleR c \<le> circleR d \<longleftrightarrow> (circleR c)\<^sup>2 \<le> (circleR d)\<^sup>2"
    using assms(1,2) by (simp add: through_def abs_le_square_iff [symmetric])
  also have "\<dots> \<longleftrightarrow> 4 * chord p q * (circleR c)\<^sup>2 \<le> 4 * chord p q * (circleR d)\<^sup>2"
    using chord_pos [OF assms(3)] by simp
  also have "\<dots> \<longleftrightarrow> (lean p q c)\<^sup>2 \<le> (lean p q d)\<^sup>2"
    unfolding pencil_radius [OF assms(1)] pencil_radius [OF assms(2)] by simp
  finally show ?thesis by (simp add: abs_le_square_iff)
qed

lemma held_iff:
  assumes "through p q c" "p \<noteq> q"
  shows "excess c x \<le> 0 \<longleftrightarrow> chord p q * excess (makeDiameter p q) x \<le> 2 * lean p q c * crossProduct p q x"
proof -
  have "excess c x \<le> 0 \<longleftrightarrow> chord p q * excess c x \<le> 0"
    using chord_pos [OF assms(2)] by (simp add: mult_le_0_iff)
  then show ?thesis unfolding pencil [OF assms(1), of x] by simp
qed

text \<open>
  The order of two circles of the pencil, by a point on one side that the first passes through.
\<close>

lemma lean_left:
  assumes "through p q c" "through p q d" "p \<noteq> q" "excess c x = 0" "0 < crossProduct p q x"
  shows "excess d x \<le> 0 \<longleftrightarrow> lean p q c \<le> lean p q d"
proof -
  have "chord p q * excess (makeDiameter p q) x = 2 * lean p q c * crossProduct p q x"
    using pencil [OF assms(1), of x] assms(4) by simp
  then show ?thesis using held_iff [OF assms(2,3), of x] assms(5) by simp
qed

lemma lean_right:
  assumes "through p q c" "through p q d" "p \<noteq> q" "excess c x = 0" "crossProduct p q x < 0"
  shows "excess d x \<le> 0 \<longleftrightarrow> lean p q d \<le> lean p q c"
proof -
  have "chord p q * excess (makeDiameter p q) x = 2 * lean p q c * crossProduct p q x"
    using pencil [OF assms(1), of x] assms(4) by simp
  then show ?thesis using held_iff [OF assms(2,3), of x] assms(5) by simp
qed

lemma lean_mono:
  assumes "through p q c" "through p q d" "p \<noteq> q" "excess c x \<le> 0"
  shows "0 < crossProduct p q x \<Longrightarrow> lean p q c \<le> lean p q d \<Longrightarrow> excess d x \<le> 0"
    and "crossProduct p q x < 0 \<Longrightarrow> lean p q d \<le> lean p q c \<Longrightarrow> excess d x \<le> 0"
  using assms(4) unfolding held_iff [OF assms(1,3)] held_iff [OF assms(2,3)]
  by (auto elim!: order_trans intro: mult_right_mono mult_right_mono_neg)

text \<open>
  The best circle of one side so far: there is none when no node is on that side, else it passes through
  a node of the side and holds all the others of the side.
\<close>

definition side_best :: "point \<Rightarrow> point \<Rightarrow> (real \<Rightarrow> bool) \<Rightarrow> point set \<Rightarrow> point list \<Rightarrow> NodeGroupCircle option \<Rightarrow> bool" where
  "side_best p q P S xs best \<longleftrightarrow>
     (case best of
        None \<Rightarrow> \<forall>x \<in> set xs. \<not> P (crossProduct p q x)
      | Some c \<Rightarrow> through p q c \<and> candidate S c \<and>
          (\<exists>x \<in> set xs. P (crossProduct p q x) \<and> excess c x = 0) \<and>
          (\<forall>x \<in> set xs. P (crossProduct p q x) \<longrightarrow> excess c x \<le> 0))"

lemma side_best_skip: "side_best p q P S xs best \<Longrightarrow> \<not> P (crossProduct p q x) \<Longrightarrow> side_best p q P S (xs @ [x]) best"
  by (auto simp: side_best_def split: option.splits)

lemma side_best_left:
  assumes "side_best p q (\<lambda>v. 0 < v) S xs best" "makeCircumCircle p q x = Some c" "0 < crossProduct p q x"
    and "p \<noteq> q" "p \<in> S" "q \<in> S" "x \<in> S"
  shows "side_best p q (\<lambda>v. 0 < v) S (xs @ [x])
    (if best = None \<or> lean p q c > lean p q (the best) then Some c else best)"
proof -
  have c: "through p q c" "excess c x = 0" "candidate S c"
    using through_circum [OF assms(2)] assms(2,5-7) by (auto simp: candidate_def)
  show ?thesis
  proof (cases best)
    case None
    then show ?thesis using assms(1,3) c by (auto simp: side_best_def)
  next
    case (Some b)
    then have b: "through p q b" and held: "0 < crossProduct p q y \<Longrightarrow> excess b y \<le> 0" if "y \<in> set xs" for y
      using assms(1) that by (auto simp: side_best_def)
    then have b: "through p q b" using assms(1) Some by (auto simp: side_best_def)
    show ?thesis
    proof (cases "lean p q c > lean p q b")
      case True
      have "excess c y \<le> 0" if "y \<in> set xs" "0 < crossProduct p q y" for y
        using lean_mono(1) [OF b c(1) assms(4) held [OF that] that(2)] True by simp
      then show ?thesis using True Some assms(3) c by (auto simp: side_best_def)
    next
      case False
      then have "excess b x \<le> 0" using lean_left [OF c(1) b assms(4) c(2) assms(3)] by simp
      then show ?thesis using False Some assms(1) by (auto simp: side_best_def)
    qed
  qed
qed

lemma side_best_right:
  assumes "side_best p q (\<lambda>v. v < 0) S xs best" "makeCircumCircle p q x = Some c" "crossProduct p q x < 0"
    and "p \<noteq> q" "p \<in> S" "q \<in> S" "x \<in> S"
  shows "side_best p q (\<lambda>v. v < 0) S (xs @ [x])
    (if best = None \<or> lean p q c < lean p q (the best) then Some c else best)"
proof -
  have c: "through p q c" "excess c x = 0" "candidate S c"
    using through_circum [OF assms(2)] assms(2,5-7) by (auto simp: candidate_def)
  show ?thesis
  proof (cases best)
    case None
    then show ?thesis using assms(1,3) c by (auto simp: side_best_def)
  next
    case (Some b)
    then have b: "through p q b" and held: "crossProduct p q y < 0 \<Longrightarrow> excess b y \<le> 0" if "y \<in> set xs" for y
      using assms(1) that by (auto simp: side_best_def)
    then have b: "through p q b" using assms(1) Some by (auto simp: side_best_def)
    show ?thesis
    proof (cases "lean p q c < lean p q b")
      case True
      have "excess c y \<le> 0" if "y \<in> set xs" "crossProduct p q y < 0" for y
        using lean_mono(2) [OF b c(1) assms(4) held [OF that] that(2)] True by simp
      then show ?thesis using True Some assms(3) c by (auto simp: side_best_def)
    next
      case False
      then have "excess b x \<le> 0" using lean_right [OF c(1) b assms(4) c(2) assms(3)] by simp
      then show ?thesis using False Some assms(1) by (auto simp: side_best_def)
    qed
  qed
qed

lemma side_steps:
  assumes "p \<noteq> q" "p \<in> S" "q \<in> S" "set xs \<subseteq> S" "foldl (side_step p q) (None, None) xs = (l, r)"
  shows "side_best p q (\<lambda>v. 0 < v) S xs l \<and> side_best p q (\<lambda>v. v < 0) S xs r"
  using assms(4,5)
proof (induction xs arbitrary: l r rule: rev_induct)
  case Nil
  then show ?case by (simp add: side_best_def)
next
  case (snoc x xs)
  obtain l0 r0 where lr: "foldl (side_step p q) (None, None) xs = (l0, r0)" by fastforce
  then have ih: "side_best p q (\<lambda>v. 0 < v) S xs l0" "side_best p q (\<lambda>v. v < 0) S xs r0" using snoc by auto
  have step: "side_step p q (l0, r0) x = (l, r)" using snoc.prems(2) lr by simp
  have x: "x \<in> S" using snoc.prems(1) by simp
  show ?case
  proof (cases "makeCircumCircle p q x")
    case None
    then have "crossProduct p q x = 0" by (simp add: makeCircumCircle_None)
    then show ?thesis using step ih None by (auto simp: side_step_def intro: side_best_skip)
  next
    case (Some c)
    then have "crossProduct p q x \<noteq> 0" by (metis makeCircumCircle_None option.distinct(1))
    then consider "0 < crossProduct p q x" | "crossProduct p q x < 0" by linarith
    then show ?thesis
    proof cases
      case 1
      then have "l = (if l0 = None \<or> lean p q c > lean p q (the l0) then Some c else l0) \<and> r = r0"
        using step Some by (auto simp: side_step_def lean_def split: if_splits)
      then show ?thesis using side_best_left [OF ih(1) Some 1 assms(1-3) x] side_best_skip [OF ih(2)] 1 by simp
    next
      case 2
      then have "r = (if r0 = None \<or> lean p q c < lean p q (the r0) then Some c else r0) \<and> l = l0"
        using step Some by (auto simp: side_step_def lean_def split: if_splits)
      then show ?thesis using side_best_right [OF ih(2) Some 2 assms(1-3) x] side_best_skip [OF ih(1)] 2 by simp
    qed
  qed
qed

section \<open>The three loops\<close>

lemma diameter_least: "through p q d \<Longrightarrow> p \<noteq> q \<Longrightarrow> circleR (makeDiameter p q) \<le> circleR d"
proof -
  assume d: "through p q d" "p \<noteq> q"
  have "4 * chord p q * (circleR (makeDiameter p q))\<^sup>2 = (chord p q)\<^sup>2"
    unfolding mult.assoc mult.left_commute [of 4] diameter_radius by (simp add: power2_eq_square)
  then have "lean p q (makeDiameter p q) = 0" using pencil_radius [OF through_diameter, of p q] by simp
  then show ?thesis by (simp add: radius_le [OF through_diameter d])
qed

text \<open>
  The two circles of the sides, when some circle through the two points holds all nodes: every such
  circle lies between them, so both hold all nodes.
\<close>

lemma side_bounds:
  assumes "through p q d" "encloses d (set xs)" "p \<noteq> q"
  shows "side_best p q (\<lambda>v. 0 < v) S xs (Some c) \<Longrightarrow> lean p q c \<le> lean p q d"
    and "side_best p q (\<lambda>v. v < 0) S xs (Some c) \<Longrightarrow> lean p q d \<le> lean p q c"
  using assms(2) lean_left [OF _ assms(1,3)] lean_right [OF _ assms(1,3)]
  by (fastforce simp: side_best_def encloses_def)+

lemma straight_held:
  assumes "through p q d" "through p q c" "p \<noteq> q" "crossProduct p q x = 0" "excess d x \<le> 0"
  shows "excess c x \<le> 0"
  using assms(4,5) unfolding held_iff [OF assms(1,3)] held_iff [OF assms(2,3)] by simp

lemma sides_hold:
  assumes l: "side_best p q (\<lambda>v. 0 < v) S xs l" and r: "side_best p q (\<lambda>v. v < 0) S xs r"
    and d: "through p q d" "encloses d (set xs)" and pq: "p \<noteq> q" and c: "l = Some c \<or> r = Some c"
  shows "through p q c \<and> candidate S c \<and> encloses c (set xs)"
proof -
  have t: "through p q c" "candidate S c" using l r c by (auto simp: side_best_def)
  have "excess c x \<le> 0" if x: "x \<in> set xs" for x
  proof -
    have dx: "excess d x \<le> 0" using d(2) x by (simp add: encloses_def)
    consider "crossProduct p q x = 0" | "0 < crossProduct p q x" | "crossProduct p q x < 0" by linarith
    then show ?thesis
    proof cases
      case 1
      then show ?thesis using straight_held [OF d(1) t(1) pq] dx by simp
    next
      case 2
      then show ?thesis
        using c l r x side_bounds(2) [OF d pq, of S c] lean_mono(1) [OF d(1) t(1) pq dx 2] by (auto simp: side_best_def)
    next
      case 3
      then show ?thesis
        using c l r x side_bounds(1) [OF d pq, of S c] lean_mono(2) [OF d(1) t(1) pq dx 3] by (auto simp: side_best_def)
    qed
  qed
  then show ?thesis using t by (simp add: encloses_def through_def)
qed

lemma sides_least:
  assumes l: "side_best p q (\<lambda>v. 0 < v) S xs l" and r: "side_best p q (\<lambda>v. v < 0) S xs r"
    and d: "through p q d" "encloses d (set xs)" and pq: "p \<noteq> q"
    and x: "x \<in> set xs" "0 < excess (makeDiameter p q) x"
  shows "\<exists>c. (l = Some c \<or> r = Some c) \<and> (\<forall>e. through p q e \<longrightarrow> encloses e (set xs) \<longrightarrow> circleR c \<le> circleR e)"
proof -
  have out: "0 < lean p q e * crossProduct p q x" if "through p q e" "excess e x \<le> 0" for e
  proof -
    have "0 < chord p q * excess (makeDiameter p q) x" using x(2) chord_pos [OF pq] by simp
    then show ?thesis using that(2) unfolding held_iff [OF that(1) pq] by linarith
  qed
  have "0 < lean p q d * crossProduct p q x" using out d x(1) by (simp add: encloses_def)
  then consider "0 < crossProduct p q x" | "crossProduct p q x < 0" by (metis linorder_cases mult_zero_right order_less_irrefl)
  then show ?thesis
  proof cases
    case 1
    then obtain c where c: "l = Some c" "through p q c" "excess c x \<le> 0" using l x(1) by (auto simp: side_best_def split: option.splits)
    then have "0 < lean p q c" using out [OF c(2,3)] 1 by (simp add: zero_less_mult_iff)
    then have "circleR c \<le> circleR e" if "through p q e" "encloses e (set xs)" for e
      using side_bounds(1) [OF that pq, of S c] l c(1) by (simp add: radius_le [OF c(2) that(1) pq])
    then show ?thesis using c(1) by blast
  next
    case 2
    then obtain c where c: "r = Some c" "through p q c" "excess c x \<le> 0" using r x(1) by (auto simp: side_best_def split: option.splits)
    then have "lean p q c < 0" using out [OF c(2,3)] 2 by (simp add: zero_less_mult_iff)
    then have "circleR c \<le> circleR e" if "through p q e" "encloses e (set xs)" for e
      using side_bounds(2) [OF that pq, of S c] r c(1) by (simp add: radius_le [OF c(2) that(1) pq])
    then show ?thesis using c(1) by blast
  qed
qed

lemma two_nodes_least:
  assumes pq: "p \<noteq> q" "p \<in> S" "q \<in> S" and xs: "set xs \<subseteq> S" "crisp S"
    and d: "through p q d" "encloses d (set xs)"
  shows "\<exists>c. makeCircleTwoNodes xs p q = Some c \<and> through p q c \<and> candidate S c \<and> encloses c (set xs) \<and>
    (\<forall>e. through p q e \<longrightarrow> encloses e (set xs) \<longrightarrow> circleR c \<le> circleR e)"
proof (cases "list_all (isInCircle (Some (makeDiameter p q))) xs")
  case True
  have cand: "candidate S (makeDiameter p q)" using pq by (auto simp: candidate_def)
  have "encloses (makeDiameter p q) (set xs)"
    using True xs crisp_in [OF xs(2) cand] candidate_nonneg [OF cand] by (auto simp: encloses_def list_all_iff)
  then show ?thesis
    using True cand through_diameter diameter_least pq(1) by (auto simp: makeCircleTwoNodes_def Let_def)
next
  case False
  then obtain x where x: "x \<in> set xs" "\<not> isInCircle (Some (makeDiameter p q)) x" by (auto simp: list_all_iff)
  have "candidate S (makeDiameter p q)" using pq by (auto simp: candidate_def)
  then have out: "0 < excess (makeDiameter p q) x" using x xs crisp_in [OF xs(2)] by fastforce
  obtain l r where lr: "foldl (side_step p q) (None, None) xs = (l, r)" by fastforce
  note sides = side_steps [OF pq xs(1) lr, THEN conjunct1] side_steps [OF pq xs(1) lr, THEN conjunct2]
  obtain c where c: "l = Some c \<or> r = Some c"
    and least: "\<forall>e. through p q e \<longrightarrow> encloses e (set xs) \<longrightarrow> circleR c \<le> circleR e"
    using sides_least [OF sides d pq(1) x(1) out] by blast
  obtain k where k: "makeCircleTwoNodes xs p q = Some k" "l = Some k \<or> r = Some k" "circleR k \<le> circleR c"
    using False lr c by (cases l; cases r) (fastforce simp: makeCircleTwoNodes_def Let_def split: if_splits)+
  show ?thesis using k sides_hold [OF sides d pq(1) k(2)] least by (meson order_trans)
qed

text \<open>A circle through a given node that is not larger than any other through the node that holds the same nodes.\<close>

definition least_through :: "point set \<Rightarrow> point \<Rightarrow> point set \<Rightarrow> NodeGroupCircle \<Rightarrow> bool" where
  "least_through S p B c \<longleftrightarrow> candidate S c \<and> excess c p = 0 \<and> encloses c B \<and>
     (\<forall>d. excess d p = 0 \<longrightarrow> encloses d B \<longrightarrow> circleR c \<le> circleR d)"

lemma point_circle: "encloses c B \<Longrightarrow> excess c p = 0 \<Longrightarrow> circleR c = 0 \<Longrightarrow> x \<in> B \<Longrightarrow> x = p"
  by (auto simp: encloses_def excess_def sum_power2_le_zero_iff sum_power2_eq_zero_iff prod_eq_iff)

lemma one_node_step:
  assumes S: "p \<in> S" "q \<in> S" "set before \<subseteq> S" "crisp S" and c: "least_through S p (set before) c"
    and out: "\<not> isInCircle (Some c) q" and d: "excess d p = 0" "encloses d (set (before @ [q]))"
  shows "\<exists>k. (if circleR c = 0 then Some (makeDiameter p q) else makeCircleTwoNodes (before @ [q]) p q) = Some k \<and>
    least_through S p (set (before @ [q])) k"
proof -
  have cs: "candidate S c" "excess c p = 0" "encloses c (set before)"
    and cl: "\<And>e. excess e p = 0 \<Longrightarrow> encloses e (set before) \<Longrightarrow> circleR c \<le> circleR e"
    using c by (auto simp: least_through_def)
  have q: "0 < excess c q" using out crisp_in [OF S(4) cs(1) S(2)] by simp
  then have pq: "p \<noteq> q" using cs(2) by auto
  have pull: "\<exists>e. through p q e \<and> encloses e (set (before @ [q])) \<and> circleR e \<le> circleR d'"
    if d': "excess d' p = 0" "encloses d' (set (before @ [q]))" for d'
  proof -
    have b: "encloses d' (set before)" "excess d' q \<le> 0" using d'(2) by (auto simp: encloses_def)
    obtain e where "encloses e (set before)" "excess e q = 0" "circleR e \<le> max (circleR c) (circleR d')" "excess e p = 0"
      using between [OF cs(3) b(1) q b(2)] cs(2) d'(1) by metis
    then show ?thesis using cl [OF d'(1) b(1)] by (auto simp: through_def encloses_def)
  qed
  have "\<exists>k. (if circleR c = 0 then Some (makeDiameter p q) else makeCircleTwoNodes (before @ [q]) p q) = Some k \<and>
    through p q k \<and> candidate S k \<and> encloses k (set (before @ [q])) \<and>
    (\<forall>e. through p q e \<longrightarrow> encloses e (set (before @ [q])) \<longrightarrow> circleR k \<le> circleR e)"
  proof (cases "circleR c = 0")
    case True
    have "excess (makeDiameter p q) x \<le> 0" if "x \<in> set (before @ [q])" for x
      using that point_circle [OF cs(3,2) True, of x] through_diameter [of p q] by (auto simp: through_def)
    then show ?thesis
      using True S diameter_least [OF _ pq] through_diameter [of p q] by (auto simp: candidate_def encloses_def through_def)
  next
    case False
    obtain e where "through p q e" "encloses e (set (before @ [q]))" using pull [OF d] by blast
    then show ?thesis using two_nodes_least [OF pq S(1,2) _ S(4), of "before @ [q]" e] S False by auto
  qed
  then show ?thesis using pull unfolding least_through_def through_def by (meson order_trans)
qed

lemma one_node_loop_least:
  assumes "p \<in> S" "crisp S" "excess d p = 0"
  shows "set (before @ rest) \<subseteq> S \<Longrightarrow> encloses d (set (before @ rest)) \<Longrightarrow> least_through S p (set before) c \<Longrightarrow>
    \<exists>k. one_node_loop p before rest (Some c) = Inr (Some k) \<and> least_through S p (set (before @ rest)) k"
proof (induction rest arbitrary: before c)
  case (Cons q rest)
  have S: "q \<in> S" "set before \<subseteq> S" using Cons.prems(1) by auto
  have ih: "\<exists>k. one_node_loop p (before @ [q]) rest (Some c') = Inr (Some k) \<and> least_through S p (set (before @ q # rest)) k"
    if "least_through S p (set (before @ [q])) c'" for c'
    using Cons.IH [of "before @ [q]" c'] that Cons.prems by simp
  show ?case
  proof (cases "isInCircle (Some c) q")
    case True
    then have "excess c q \<le> 0" using crisp_in [OF assms(2) _ S(1)] Cons.prems(3) by (auto simp: least_through_def)
    then have "least_through S p (set (before @ [q])) c" using Cons.prems(3) by (auto simp: least_through_def encloses_def)
    then show ?thesis using ih True by simp
  next
    case False
    have "encloses d (set (before @ [q]))" using Cons.prems(2) by (auto simp: encloses_def)
    then obtain k where "(if circleR c = 0 then Some (makeDiameter p q) else makeCircleTwoNodes (before @ [q]) p q) = Some k"
      "least_through S p (set (before @ [q])) k"
      using one_node_step [OF assms(1) S assms(2) Cons.prems(3) False assms(3)] by blast
    then show ?thesis using ih False by simp
  qed
qed simp

lemma point_least: "p \<in> S \<Longrightarrow> least_through S p {} (circle (fst p) (snd p) 0)"
  by (auto simp: least_through_def candidate_def encloses_def excess_def)

lemma makeCircleOneNode_least:
  assumes "p \<in> S" "crisp S" "set xs \<subseteq> S" "excess d p = 0" "encloses d (set xs)"
  shows "\<exists>k. makeCircleOneNode xs p = Inr (Some k) \<and> least_through S p (set xs) k"
  using one_node_loop_least [OF assms(1,2,4), of "[]" xs] assms(3,5) point_least [OF assms(1)]
  by (simp add: makeCircleOneNode_def)

lemma enclosing_exists: "finite B \<Longrightarrow> \<exists>d. encloses d B"
proof -
  assume "finite B"
  let ?d = "circle 0 0 (\<Sum>p \<in> B. distance p (0, 0))"
  have "0 \<le> circleR ?d" by (simp add: sum_nonneg)
  moreover have "distance p (center ?d) \<le> circleR ?d" if "p \<in> B" for p
    using member_le_sum [of p B "\<lambda>p. distance p (0, 0)"] that \<open>finite B\<close> by (simp add: center_def)
  ultimately show ?thesis using excess_le by (meson encloses_def)
qed

text \<open>The circle so far of a group: none before the first node, else one that is not larger than any other.\<close>

definition least_circle :: "point set \<Rightarrow> point set \<Rightarrow> NodeGroupCircle option \<Rightarrow> bool" where
  "least_circle S B best \<longleftrightarrow>
     (case best of
        None \<Rightarrow> B = {}
      | Some c \<Rightarrow> candidate S c \<and> encloses c B \<and> (\<forall>d. encloses d B \<longrightarrow> circleR c \<le> circleR d))"

lemma group_step:
  assumes S: "p \<in> S" "set before \<subseteq> S" "crisp S" and c: "least_circle S (set before) c"
    and out: "\<not> isInCircle c p"
  shows "\<exists>k. makeCircleOneNode (before @ [p]) p = Inr (Some k) \<and> least_circle S (set (before @ [p])) (Some k)"
proof -
  have pull: "\<exists>e. excess e p = 0 \<and> encloses e (set (before @ [p])) \<and> circleR e \<le> circleR d"
    if d: "encloses d (set (before @ [p]))" for d
  proof (cases c)
    case None
    then show ?thesis
      using c d by (intro exI [of _ "circle (fst p) (snd p) 0"]) (auto simp: least_circle_def encloses_def excess_def)
  next
    case (Some k)
    then have k: "candidate S k" "encloses k (set before)" "circleR k \<le> circleR d"
      using c d by (auto simp: least_circle_def encloses_def)
    have b: "encloses d (set before)" "excess d p \<le> 0" using d by (auto simp: encloses_def)
    have "0 < excess k p" using out Some crisp_in [OF S(3) k(1) S(1)] by simp
    then obtain e where "encloses e (set before)" "excess e p = 0" "circleR e \<le> max (circleR k) (circleR d)"
      using between [OF k(2) b(1) _ b(2)] by metis
    then show ?thesis using k(3) by (auto simp: encloses_def)
  qed
  obtain d where "encloses d (set (before @ [p]))" using enclosing_exists by blast
  then obtain e where "excess e p = 0" "encloses e (set (before @ [p]))" using pull by blast
  then obtain k where k: "makeCircleOneNode (before @ [p]) p = Inr (Some k)" "least_through S p (set (before @ [p])) k"
    using makeCircleOneNode_least [OF S(1,3), of "before @ [p]" e] S by auto
  then have "circleR k \<le> circleR d" if "encloses d (set (before @ [p]))" for d
    using pull [OF that] unfolding least_through_def by (meson order_trans)
  then show ?thesis using k by (auto simp: least_circle_def least_through_def)
qed

lemma group_loop_least:
  assumes "crisp S"
  shows "set (before @ rest) \<subseteq> S \<Longrightarrow> least_circle S (set before) c \<Longrightarrow>
    \<exists>k. group_loop before rest c = Inr k \<and> least_circle S (set (before @ rest)) k"
proof (induction rest arbitrary: before c)
  case (Cons p rest)
  have S: "p \<in> S" "set before \<subseteq> S" using Cons.prems(1) by auto
  have ih: "\<exists>k. group_loop (before @ [p]) rest c' = Inr k \<and> least_circle S (set (before @ p # rest)) k"
    if "least_circle S (set (before @ [p])) c'" for c'
    using Cons.IH [of "before @ [p]" c'] that Cons.prems(1) by simp
  show ?case
  proof (cases "isInCircle c p")
    case True
    then obtain k where k: "c = Some k" by (cases c) (auto simp: isInCircle_def)
    then have "excess k p \<le> 0" using True crisp_in [OF assms _ S(1)] Cons.prems(2) by (auto simp: least_circle_def)
    then have "least_circle S (set (before @ [p])) c"
      using Cons.prems(2) k by (auto simp: least_circle_def encloses_def)
    then show ?thesis using ih True k by simp
  next
    case False
    then show ?thesis using group_step [OF S assms Cons.prems(2) False] ih by auto
  qed
qed simp

section \<open>The circles of the groups\<close>

text \<open>The smallest circle around a set of nodes, by distances only.\<close>

definition smallest_around :: "point set \<Rightarrow> NodeGroupCircle \<Rightarrow> bool" where
  "smallest_around S c \<longleftrightarrow> (\<forall>p \<in> S. distance p (center c) \<le> circleR c) \<and>
     (\<forall>x y r. (\<forall>p \<in> S. distance p (x, y) \<le> r) \<longrightarrow> circleR c \<le> r)"

lemma least_smallest:
  assumes "least_circle S B (Some c)" "B \<noteq> {}"
  shows "smallest_around B c"
  unfolding smallest_around_def
proof (intro conjI allI impI)
  have c: "encloses c B" "\<And>d. encloses d B \<Longrightarrow> circleR c \<le> circleR d" using assms(1) by (auto simp: least_circle_def)
  show "\<forall>p \<in> B. distance p (center c) \<le> circleR c" using c(1) excess_le by (auto simp: encloses_def)
  fix x y r assume all: "\<forall>p \<in> B. distance p (x, y) \<le> r"
  obtain p where "p \<in> B" using assms(2) by blast
  then have r: "0 \<le> r" using all distance_nonneg order_trans by blast
  have "encloses (circle x y r) B"
    unfolding encloses_def using r all excess_le [of "circle x y r"] by (simp add: center_def)
  then show "circleR c \<le> r" using c(2) by fastforce
qed

lemma group_circle:
  assumes "crisp (set xs)"
  shows "\<exists>k. group_loop [] xs None = Inr k \<and> (case k of None \<Rightarrow> xs = [] | Some c \<Rightarrow> xs \<noteq> [] \<and> smallest_around (set xs) c)"
proof (cases "xs = []")
  case False
  obtain k where "group_loop [] xs None = Inr k" "least_circle (set xs) (set xs) k"
    using group_loop_least [OF assms, of "[]" xs None] by (auto simp: least_circle_def)
  then show ?thesis using False least_smallest [of "set xs" "set xs"] by (cases k) (auto simp: least_circle_def)
qed simp

definition group_circle_ok :: "string \<times> point list \<Rightarrow> NodeGroupCircle \<Rightarrow> bool" where
  "group_circle_ok g c \<longleftrightarrow> circleGroup c = Some (fst g) \<and> smallest_around (set (snd g)) c"

lemma smallest_named [simp]: "smallest_around S (c\<lparr>circleGroup := g\<rparr>) = smallest_around S c"
  by (simp add: smallest_around_def center_def)

lemma group_circle_named: "group_circle_ok (n, xs) (c\<lparr>circleGroup := Some n\<rparr>) \<longleftrightarrow> smallest_around (set xs) c"
  by (simp add: group_circle_ok_def)

text \<open>
  C10. With a shuffle that only reorders the nodes, and nodes for which the tolerance does not matter, the
  circles come out without an error, one for each group that has a node, in the order of the groups; each
  carries the name of its group, holds all nodes of the group and has the smallest radius that any
  circle around these nodes can have.
\<close>

theorem group_circles_smallest:
  assumes "\<And>xs. mset (shuffle xs) = mset xs" and "\<forall>g \<in> set groups. crisp (set (snd g))"
  shows "\<exists>cs. getGroupCircles shuffle groups = Inr cs \<and>
    list_all2 group_circle_ok (filter (\<lambda>g. snd g \<noteq> []) groups) cs"
  using assms(2)
proof (induction groups)
  case (Cons g gs)
  obtain name xs where g: "g = (name, xs)" by fastforce
  have same: "set (shuffle xs) = set xs" using assms(1) by (metis set_mset_mset)
  then have empty: "shuffle xs = [] \<longleftrightarrow> xs = []" by (metis set_empty2)
  obtain cs where cs: "getGroupCircles shuffle gs = Inr cs" "list_all2 group_circle_ok (filter (\<lambda>g. snd g \<noteq> []) gs) cs"
    using Cons by auto
  obtain k where k: "group_loop [] (shuffle xs) None = Inr k"
    "case k of None \<Rightarrow> xs = [] | Some c \<Rightarrow> xs \<noteq> [] \<and> smallest_around (set xs) c"
    using group_circle [of "shuffle xs"] Cons.prems unfolding g same empty by auto
  then show ?case using cs g by (cases k) (auto simp: group_circle_named map_result_def)
qed simp

lemma triangle_crisp: "crisp {(0, 0), (8, 0), (4, 8)}"
proof -
  let ?S = "{(0, 0), (8, 0), (4, 8)} :: point set"
  have root: "sqrt 80 \<le> 9" "8 \<le> sqrt 80" "7 \<le> sqrt 52"
    by (rule real_le_lsqrt; simp) (rule real_le_rsqrt; simp)+
  have half: "sqrt 20 * 2 = sqrt 80" using real_sqrt_mult [of 20 4] by simp
  have "distance p (center c) \<le> circleR c \<or> circleR c + EPSILON \<le> distance p (center c)"
    if "candidate ?S c" "p \<in> ?S" for c p
    using that(1) unfolding candidate_def
  proof (elim disjE bexE)
    fix q assume "q \<in> ?S" "c = circle (fst q) (snd q) 0"
    then show ?thesis using that(2) root by (auto simp: center_def distance_def EPSILON_def)
  next
    fix q t assume "q \<in> ?S" "t \<in> ?S" "c = makeDiameter q t"
    then show ?thesis
      using that(2) root half by (auto simp: center_def distance_def makeDiameter_def EPSILON_def)
  next
    fix q t u assume c: "q \<in> ?S" "t \<in> ?S" "u \<in> ?S" "makeCircumCircle q t u = Some c"
    then have "crossProduct q t u \<noteq> 0" by (metis makeCircumCircle_None option.distinct(1))
    then have "p \<in> {q, t, u}" using c(1-3) that(2) by (auto simp: crossProduct_def)
    then show ?thesis using makeCircumCircle_touches [OF c(4)] by (auto simp: touches_def)
  qed
  then show ?thesis unfolding crisp_def isInCircle_def option.case by (meson leD)
qed

theorem group_circles_smallest_witness:
  "\<exists>cs. getGroupCircles rev [(''empty'', []), (''g'', [(0, 0), (8, 0), (4, 8)])] = Inr cs \<and>
    list_all2 group_circle_ok [(''g'', [(0, 0), (8, 0), (4, 8)])] cs"
  using group_circles_smallest [of rev "[(''empty'', []), (''g'', [(0, 0), (8, 0), (4, 8)])]"] triangle_crisp
  by (simp add: crisp_def candidate_def)

end
