(* ===== verification/ServiceGrid.thy ===== *)
theory ServiceGrid
  imports BaseServ IdEncoding "HOL-Library.Char_ord" "HOL-Library.List_Lexorder" "HOL-Library.Multiset"
begin

text \<open>
  \<open>service-grid.component.ts\<close> and \<open>service-card.component.ts\<close>: the factory services of a node, in two
  lists, and the card of one service. \<open>sortBy\<close> stands for \<open>_.sortBy(services, 'documentSelfLink')\<close>
  of lodash.
\<close>

section \<open>The grid\<close>

text \<open>The callback for the documents keeps the links that were asked for.\<close>

datatype grid_cb = GridSelectedNodeCb | GridLinksCb | GridDocumentsCb "string list" | GridCreateCb

record grid = "(grid_cb, unit) rt" +
  grid_base :: base
  grid_modal_name :: "string option"
  grid_modal_documentSelfLink :: "string option"
  grid_modal_body :: "string option"
  coreServices :: "ServiceDocument list"
  customServices :: "ServiceDocument list"
  grid_getLinksSubscription :: "nat option"
  grid_getDocumentSubscription :: "nat option"
  grid_getSelectedSubscription :: "nat option"

definition new_grid :: "base \<Rightarrow> grid" where
  "new_grid b = \<lparr>nextHandle = 0, live = [], effects = [], grid_base = b, grid_modal_name = Some [],
     grid_modal_documentSelfLink = Some [], grid_modal_body = Some [], coreServices = [], customServices = [],
     grid_getLinksSubscription = None, grid_getDocumentSubscription = None, grid_getSelectedSubscription = None\<rparr>"

text \<open>
  The pattern of a core service, \<open>/core/\<close> in any case and what follows up to a blank, which is searched
  for anywhere in the link.
\<close>

definition coreServiceRegExp :: regex where
  "coreServiceRegExp = rx_seq [rx_lit ''/'', rx_nocase ''C'', rx_nocase ''O'', rx_nocase ''R'', rx_nocase ''E'',
     rx_lit ''/'', RxStar (RxClass (\<lambda>c. \<not> is_space c))]"

definition is_core_service :: "ServiceDocument \<Rightarrow> bool" where
  "is_core_service d = (rx_exec coreServiceRegExp (show_opt (\<lambda>x. x) (documentSelfLink d)) \<noteq> None)"

definition grid_getData :: "libs \<Rightarrow> grid \<Rightarrow> grid" where
  "grid_getData L s =
     (case post L (grid_base s) URL_Root URL_RootPostBody True of
        Inl e \<Rightarrow> s
      | Inr r \<Rightarrow> (subscribe_rt GridLinksCb (perform (Request r) s))\<lparr>grid_getLinksSubscription := Some (nextHandle s)\<rparr>)"

definition grid_ngOnInit :: "libs \<Rightarrow> grid \<Rightarrow> grid" where
  "grid_ngOnInit L s =
     (let s = grid_getData L s
      in (subscribe_rt GridSelectedNodeCb s)\<lparr>grid_getSelectedSubscription := Some (nextHandle s)\<rparr>)"

definition grid_on_selected_node :: "libs \<Rightarrow> grid \<Rightarrow> grid" where
  "grid_on_selected_node L s = grid_getData L s"

definition grid_ngOnDestroy :: "grid \<Rightarrow> grid" where
  "grid_ngOnDestroy s =
     unsubscribe_rt (grid_getSelectedSubscription s)
       (unsubscribe_rt (grid_getDocumentSubscription s)
         (unsubscribe_rt (grid_getLinksSubscription s) s))"

definition grid_on_links :: "libs \<Rightarrow> nat \<Rightarrow> ServiceDocumentQueryResult \<Rightarrow> grid \<Rightarrow> grid" where
  "grid_on_links L h doc s =
     (let s = end_rt h s in
      case getDocuments L (grid_base s) (documentLinks doc) odata_count True of
        Inl e \<Rightarrow> s
      | Inr rs \<Rightarrow> (subscribe_rt (GridDocumentsCb (documentLinks doc)) (perform (RequestAll rs) s))
          \<lparr>grid_getDocumentSubscription := Some (nextHandle s)\<rparr>)"

definition grid_on_documents ::
  "(ServiceDocument list \<Rightarrow> ServiceDocument list) \<Rightarrow> nat \<Rightarrow> string list \<Rightarrow> ServiceDocument list \<Rightarrow> grid \<Rightarrow> grid" where
  "grid_on_documents sortBy h links docs s =
     (let services = received_documents links docs in
      (end_rt h s)\<lparr>coreServices := sortBy (filter is_core_service services),
        customServices := sortBy (filter (\<lambda>d. \<not> is_core_service d) services)\<rparr>)"

definition grid_on_links_error :: "nat \<Rightarrow> server_error \<Rightarrow> grid \<Rightarrow> grid" where
  "grid_on_links_error h err s =
     perform (Notify (error_notification ''Failed to retrieve factory services'' err)) (end_rt h s)"

definition grid_on_documents_error :: "nat \<Rightarrow> server_error \<Rightarrow> grid \<Rightarrow> grid" where
  "grid_on_documents_error h err s =
     perform (Notify (error_notification ''Failed to retrieve factory service details'' err)) (end_rt h s)"

definition getServiceId :: "string option \<Rightarrow> string option" where
  "getServiceId selfLink = (if truthy selfLink then encodeToId selfLink None None None None else Some [])"

definition grid_onCreateChildServiceClicked :: "string option \<Rightarrow> grid \<Rightarrow> grid" where
  "grid_onCreateChildServiceClicked selfLink s =
     s\<lparr>grid_modal_name := selfLink, grid_modal_documentSelfLink := selfLink, grid_modal_body := Some []\<rparr>"

definition grid_onCreateChildService :: "libs \<Rightarrow> grid \<Rightarrow> grid" where
  "grid_onCreateChildService L s =
     (if \<not> truthy (grid_modal_documentSelfLink s) \<or> \<not> truthy (grid_modal_body s) then s
      else
        (case post L (grid_base s) (the (grid_modal_documentSelfLink s)) (JStr (the (grid_modal_body s))) True of
           Inl e \<Rightarrow> s
         | Inr r \<Rightarrow> subscribe_rt GridCreateCb (perform (Request r) s)))"

definition grid_on_created :: "nat \<Rightarrow> string option \<Rightarrow> grid \<Rightarrow> grid" where
  "grid_on_created h selfLink s =
     perform (Notify [\<lparr>notificationType = ''SUCCESS'',
        messages = [''Child Service '' @ show_opt (\<lambda>x. x) selfLink @ '' Created'']\<rparr>]) (end_rt h s)"

definition plain_error :: "server_error \<Rightarrow> Notification list" where
  "plain_error err = [\<lparr>notificationType = ''ERROR'', messages =
     [''['' @ show_opt show_int (err_statusCode err) @ ''] '' @ show_opt (\<lambda>x. x) (err_message err)]\<rparr>]"

definition grid_on_create_error :: "nat \<Rightarrow> server_error \<Rightarrow> grid \<Rightarrow> grid" where
  "grid_on_create_error h err s = perform (Notify (plain_error err)) (end_rt h s)"

section \<open>The card of a service\<close>

datatype card_cb = CardStatsCb | CardConfigCb

record card = "(card_cb, EventContext) rt" +
  card_base :: base
  card_service :: "ServiceDocumentQueryResult option"
  isServiceAvailable :: bool
  serviceStats :: "ServiceStats option"
  serviceConfig :: "ServiceConfiguration option"
  baseServiceStatsSubscription :: "nat option"
  baseServiceConfigSubscription :: "nat option"

definition new_card :: "base \<Rightarrow> card" where
  "new_card b = \<lparr>nextHandle = 0, live = [], effects = [], card_base = b, card_service = None,
     isServiceAvailable = False, serviceStats = None, serviceConfig = None,
     baseServiceStatsSubscription = None, baseServiceConfigSubscription = None\<rparr>"

definition card_getData :: "libs \<Rightarrow> card \<Rightarrow> card" where
  "card_getData L s =
     (let link = show_opt (\<lambda>x. x) (Option.bind (card_service s) documentSelfLink);
          s = (case getDocumentStats L (card_base s) link True of
                 Inl e \<Rightarrow> s
               | Inr r \<Rightarrow> (subscribe_rt CardStatsCb (perform (Request r) s))
                   \<lparr>baseServiceStatsSubscription := Some (nextHandle s)\<rparr>)
      in case getDocumentConfig L (card_base s) link True of
           Inl e \<Rightarrow> s
         | Inr r \<Rightarrow> (subscribe_rt CardConfigCb (perform (Request r) s))
             \<lparr>baseServiceConfigSubscription := Some (nextHandle s)\<rparr>)"

text \<open>The change of the input \<open>service\<close>, if there is one, with the previous and the current value.\<close>

definition card_ngOnChanges ::
  "libs \<Rightarrow> (ServiceDocumentQueryResult option \<times> ServiceDocumentQueryResult option) option \<Rightarrow> card \<Rightarrow> card" where
  "card_ngOnChanges L change s =
     (case change of
        None \<Rightarrow> s
      | Some (previous, current) \<Rightarrow>
          if current = previous \<or> current = None then s
          else card_getData L (s\<lparr>card_service := current\<rparr>))"

definition card_ngOnDestroy :: "card \<Rightarrow> card" where
  "card_ngOnDestroy s =
     unsubscribe_rt (baseServiceConfigSubscription s) (unsubscribe_rt (baseServiceStatsSubscription s) s)"

definition getService :: "card \<Rightarrow> string option" where
  "getService s = (case card_service s of None \<Rightarrow> Some [] | Some d \<Rightarrow> documentSelfLink d)"

definition getServiceAvailabilityTitle :: "card \<Rightarrow> string" where
  "getServiceAvailabilityTitle s =
     ''Status: '' @ (if isServiceAvailable s then ''AVAILABLE'' else ''UNAVAILABLE'')"

definition getServiceAvailabilityClass :: "string \<Rightarrow> card \<Rightarrow> string" where
  "getServiceAvailabilityClass baseClasses s =
     (if card_service s = None then baseClasses
      else baseClasses @ '' '' @ (if isServiceAvailable s then ''available-status'' else ''error-status''))"

definition getChildServiceCount :: "libs \<Rightarrow> card \<Rightarrow> string" where
  "getChildServiceCount L s =
     (case card_service s of
        None \<Rightarrow> ''0''
      | Some d \<Rightarrow>
          (case documentCount d of
             None \<Rightarrow> show_nat (length (documentLinks d))
           | Some n \<Rightarrow> formatNumber L (real_of_int n) True))"

definition getRouterId :: "string option \<Rightarrow> string option" where
  "getRouterId i = encodeToId i None None None None"

definition card_onCreateChildServiceClicked :: "string \<Rightarrow> card \<Rightarrow> card" where
  "card_onCreateChildServiceClicked event_type s =
     perform (Publish \<lparr>eventType = event_type,
       eventData = (case getService s of None \<Rightarrow> [] | Some l \<Rightarrow> [(''documentSelfLink'', JStr l)])\<rparr>) s"

definition card_on_stats :: "nat \<Rightarrow> ServiceStats \<Rightarrow> card \<Rightarrow> card" where
  "card_on_stats h stats s =
     (end_rt h s)\<lparr>serviceStats := Some stats, isServiceAvailable :=
       (case map_of (statsEntries stats) ''isAvailable'' of None \<Rightarrow> False | Some e \<Rightarrow> latestValue e = 1)\<rparr>"

definition card_on_config :: "nat \<Rightarrow> ServiceConfiguration \<Rightarrow> card \<Rightarrow> card" where
  "card_on_config h config s = (end_rt h s)\<lparr>serviceConfig := Some config\<rparr>"

definition card_on_error :: "nat \<Rightarrow> server_error \<Rightarrow> card \<Rightarrow> card" where
  "card_on_error h err s =
     perform (Notify (error_notification ''Failed to retrieve factory services'' err)) (end_rt h s)"

section \<open>Properties\<close>

lemma core_eats:
  "rx_eats coreServiceRegExp m t i g g' \<longleftrightarrow>
     (\<exists>w v. m = ''/'' @ w @ ''/'' @ v \<and> toUpperCase w = ''CORE'' \<and> (\<forall>x \<in> set v. \<not> is_space x) \<and> g' = g)"
proof -
  have "rx_eats coreServiceRegExp m t i g g' \<longleftrightarrow>
      (\<exists>a b c d v. m = ''/'' @ [a, b, c, d] @ ''/'' @ v \<and> toUpperCase [a, b, c, d] = ''CORE'' \<and>
         (\<forall>x \<in> set v. \<not> is_space x) \<and> g' = g)"
    unfolding coreServiceRegExp_def rx_seq.simps rx_nocase_def eats_seq_simps eats_star_class by (auto simp: toUpperCase_def)
  moreover have "(\<exists>a b c d. w = [a, b, c, d])" if "toUpperCase w = ''CORE''" for w
    using that by (auto simp: toUpperCase_def map_eq_Cons_conv)
  ultimately show ?thesis by blast
qed

text \<open>A core service has \<open>/core/\<close> somewhere in its link, in any case.\<close>

lemma core_service_iff:
  "is_core_service d \<longleftrightarrow>
     (\<exists>u w v. show_opt (\<lambda>x. x) (documentSelfLink d) = u @ ''/'' @ w @ ''/'' @ v \<and> toUpperCase w = ''CORE'')"
  (is "_ \<longleftrightarrow> ?r")
proof
  assume "is_core_service d"
  then obtain u m t w v where "show_opt (\<lambda>x. x) (documentSelfLink d) = u @ m @ t" "m = ''/'' @ w @ ''/'' @ v"
    "toUpperCase w = ''CORE''"
    unfolding is_core_service_def rx_exec_None_eats core_eats by blast
  then have "show_opt (\<lambda>x. x) (documentSelfLink d) = u @ ''/'' @ w @ ''/'' @ (v @ t)" by simp
  with \<open>toUpperCase w = ''CORE''\<close> show ?r by blast
next
  assume ?r
  then obtain u w v where uwv: "show_opt (\<lambda>x. x) (documentSelfLink d) = u @ (''/'' @ w @ ''/'') @ v" "toUpperCase w = ''CORE''"
    by auto
  have "rx_eats coreServiceRegExp (''/'' @ w @ ''/'') v (length u) [] []"
    unfolding core_eats using uwv(2) by (intro exI [of _ w] exI [of _ "[]"]) simp
  with uwv(1) show "is_core_service d" unfolding is_core_service_def rx_exec_None_eats by blast
qed

text \<open>What lodash documents of \<open>sortBy\<close>: the same elements, in ascending order of the property.\<close>

definition self_link_text :: "ServiceDocument \<Rightarrow> string" where
  "self_link_text d = show_opt (\<lambda>x. x) (documentSelfLink d)"

definition lodash_sortBy_doc :: "(ServiceDocument list \<Rightarrow> ServiceDocument list) \<Rightarrow> bool" where
  "lodash_sortBy_doc f \<longleftrightarrow> (\<forall>xs. mset (f xs) = mset xs \<and> sorted (map self_link_text (f xs)))"

text \<open>
  C21. The grid shows every service once: when the documents arrive, the two lists together are the
  services that were read, each list is in the order of the links, and a service is in the core
  list exactly when its link has \<open>/core/\<close> in it, in any case.
\<close>

theorem grid_shows_services:
  assumes "lodash_sortBy_doc sortBy" "s' = grid_on_documents sortBy h links docs s"
  shows "mset (coreServices s') + mset (customServices s') = mset (received_documents links docs) \<and>
    sorted (map self_link_text (coreServices s')) \<and> sorted (map self_link_text (customServices s')) \<and>
    (d \<in> set (received_documents links docs) \<longrightarrow>
      (d \<in> set (coreServices s') \<longleftrightarrow>
        (\<exists>u w v. self_link_text d = u @ ''/'' @ w @ ''/'' @ v \<and> toUpperCase w = ''CORE'')))"
proof -
  have sort: "mset (sortBy xs) = mset xs" "sorted (map self_link_text (sortBy xs))" for xs
    using assms(1) by (auto simp: lodash_sortBy_doc_def)
  have set: "set (sortBy xs) = set xs" for xs using sort(1) by (rule mset_eq_setD)
  show ?thesis
    unfolding self_link_text_def [of d] core_service_iff [symmetric]
    by (simp add: assms(2) grid_on_documents_def Let_def sort set add.commute)
qed

lemma sort_key_doc: "lodash_sortBy_doc (sort_key self_link_text)"
  by (simp add: lodash_sortBy_doc_def)

theorem grid_shows_services_witness:
  "mset (coreServices (grid_on_documents (sort_key self_link_text) 0 [''/b'', ''/Core/a''] [emptyDocument, emptyDocument] (new_grid new_base))) +
   mset (customServices (grid_on_documents (sort_key self_link_text) 0 [''/b'', ''/Core/a''] [emptyDocument, emptyDocument] (new_grid new_base))) =
   mset (received_documents [''/b'', ''/Core/a''] [emptyDocument, emptyDocument])"
  by (rule grid_shows_services [OF sort_key_doc refl, THEN conjunct1])

end
