(* ===== verification/ChildService.thy ===== *)
theory ChildService
  imports ServiceGrid
begin

text \<open>
  \<open>child-service-detail.component.ts\<close>: the document and the statistics of one child service, and the
  dialogs that change and delete it. The document is a JSON value, since it has the fields of the
  service. The charts are the series of values handed to chart.js; the drawing is not modelled.
  \<open>orderBy\<close> stands for \<open>_.orderBy(timeline, ['timestamp'], ['desc'])\<close> of lodash.
\<close>

section \<open>State\<close>

text \<open>The callback for the document keeps the link that was asked for.\<close>

datatype child_cb = ChildDocumentCb string | ChildStatsCb | ChildEditCb | ChildDeleteCb

text \<open>An element of the page before it was looked up, when it was not found, and when it was.\<close>

datatype element_ref = ElementUndefined | ElementNull | Element

definition OPERATIONS :: "string list" where
  "OPERATIONS = [''GET'', ''POST'', ''PATCH'', ''PUT'', ''OPTIONS'']"

record child = "(child_cb, unit) rt" +
  ch_base :: base
  ch_selectedServiceId :: "string option"
  ch_selectedChildServiceId :: "string option"
  edit_name :: string
  edit_documentSelfLink :: string
  edit_method :: string
  edit_body :: "string option"
  delete_name :: string
  delete_documentSelfLink :: string
  statsState :: string
  selectedChildService :: "json option"
  selectedChildServiceStats :: "ServiceStats option"
  operationCountChartCanvas :: element_ref
  operationCountChart :: "real list option"
  operationDurationChartCanvas :: element_ref
  operationDurationChart :: "real list option"
  ch_isViewInitialized :: bool
  baseServiceGetChildServiceSubscription :: "nat option"
  baseServiceGetChildServiceStatsSubscription :: "nat option"

definition new_child :: "base \<Rightarrow> child" where
  "new_child b = \<lparr>nextHandle = 0, live = [], effects = [], ch_base = b, ch_selectedServiceId = None,
     ch_selectedChildServiceId = None, edit_name = [], edit_documentSelfLink = [], edit_method = [],
     edit_body = Some [], delete_name = [], delete_documentSelfLink = [], statsState = ''expand'',
     selectedChildService = None, selectedChildServiceStats = None, operationCountChartCanvas = ElementUndefined,
     operationCountChart = None, operationDurationChartCanvas = ElementUndefined, operationDurationChart = None,
     ch_isViewInitialized = False, baseServiceGetChildServiceSubscription = None,
     baseServiceGetChildServiceStatsSubscription = None\<rparr>"

section \<open>Operations\<close>

definition child_link :: "child \<Rightarrow> string" where
  "child_link s = show_opt (\<lambda>x. x) (ch_selectedServiceId s) @ ''/'' @ show_opt (\<lambda>x. x) (ch_selectedChildServiceId s)"

definition child_getData :: "libs \<Rightarrow> child \<Rightarrow> child" where
  "child_getData L s =
     (let link = child_link s;
          s = (case getDocument L (ch_base s) link [] True of
                 Inl e \<Rightarrow> s
               | Inr r \<Rightarrow> (subscribe_rt (ChildDocumentCb link) (perform (Request r) s))
                   \<lparr>baseServiceGetChildServiceSubscription := Some (nextHandle s)\<rparr>)
      in case getDocumentStats L (ch_base s) link True of
           Inl e \<Rightarrow> s
         | Inr r \<Rightarrow> (subscribe_rt ChildStatsCb (perform (Request r) s))
             \<lparr>baseServiceGetChildServiceStatsSubscription := Some (nextHandle s)\<rparr>)"

text \<open>The change of the input \<open>selectedChildServiceId\<close>, if there is one.\<close>

definition child_ngOnChanges :: "libs \<Rightarrow> (string option \<times> string option) option \<Rightarrow> child \<Rightarrow> child" where
  "child_ngOnChanges L change s =
     (case change of
        None \<Rightarrow> s
      | Some (previous, current) \<Rightarrow>
          if current = previous \<or> \<not> truthy current then s
          else child_getData L (s\<lparr>ch_selectedChildServiceId := current\<rparr>))"

definition operation_values :: "string \<Rightarrow> (string \<times> ServiceStatsEntry) list \<Rightarrow> real list" where
  "operation_values suffix entries =
     map (\<lambda>operation. case map_of entries (operation @ suffix) of Some e \<Rightarrow> latestValue e | None \<Rightarrow> 0) OPERATIONS"

definition child_renderChart :: "child \<Rightarrow> child" where
  "child_renderChart s =
     (case selectedChildServiceStats s of
        None \<Rightarrow> s
      | Some stats \<Rightarrow>
          if operationCountChartCanvas s = ElementNull \<or> operationDurationChartCanvas s = ElementNull then s
          else s\<lparr>operationCountChart := Some (operation_values ''requestCount'' (statsEntries stats)),
                 operationDurationChart := Some (operation_values ''operationDuration'' (statsEntries stats))\<rparr>)"

text \<open>What \<open>document.getElementById\<close> finds for the two canvases is an argument.\<close>

definition child_ngAfterViewChecked :: "element_ref \<Rightarrow> element_ref \<Rightarrow> child \<Rightarrow> child" where
  "child_ngAfterViewChecked found_count found_duration s =
     (if ch_isViewInitialized s then s
      else
        (let s = s\<lparr>operationCountChartCanvas := found_count, operationDurationChartCanvas := found_duration\<rparr> in
         if operationCountChartCanvas s = ElementNull \<or> operationDurationChartCanvas s = ElementNull then s
         else child_renderChart (s\<lparr>ch_isViewInitialized := True\<rparr>)))"

definition child_ngOnDestroy :: "child \<Rightarrow> child" where
  "child_ngOnDestroy s =
     unsubscribe_rt (baseServiceGetChildServiceStatsSubscription s)
       (unsubscribe_rt (baseServiceGetChildServiceSubscription s)
         (s\<lparr>operationCountChart := None, operationDurationChart := None\<rparr>))"

text \<open>The operations that were counted: name, count and time of the last update.\<close>

definition timeline_entries :: "child \<Rightarrow> (string \<times> real \<times> real) list" where
  "timeline_entries s =
     (case selectedChildServiceStats s of
        None \<Rightarrow> []
      | Some stats \<Rightarrow>
          concat (map (\<lambda>operation. case map_of (statsEntries stats) (operation @ ''requestCount'') of
            None \<Rightarrow> [] | Some e \<Rightarrow> [(operation, latestValue e, lastUpdateMicrosUtc e)]) OPERATIONS))"

definition getTimeline ::
  "((string \<times> real \<times> real) list \<Rightarrow> (string \<times> real \<times> real) list) \<Rightarrow> child \<Rightarrow> (string \<times> real \<times> real) list" where
  "getTimeline orderBy s = (if selectedChildServiceStats s = None then [] else orderBy (timeline_entries s))"

text \<open>
  The fields of the framework, which a patch leaves out, by their names: \<open>document\<close>, at most one
  character other than \<open>s\<close>, and a capital.
\<close>

definition word_char :: "char \<Rightarrow> bool" where
  "word_char c \<longleftrightarrow> is_alnum c \<or> c = CHR ''_''"

definition document_key_rx :: regex where
  "document_key_rx = rx_seq [RxBegin, rx_lit ''document'', rx_opt (RxClass (\<lambda>c. c \<noteq> CHR ''s'')), RxClass is_upper,
     RxStar (RxClass word_char)]"

definition document_key :: "string \<Rightarrow> bool" where
  "document_key k = (rx_exec document_key_rx k \<noteq> None)"

definition omit_document_keys :: "json \<Rightarrow> json" where
  "omit_document_keys v =
     (case v of JObj kvs \<Rightarrow> JObj (filter (\<lambda>(k, _). \<not> document_key k) kvs) | _ \<Rightarrow> JObj [])"

definition getPatchMethodDefaultBody :: "child \<Rightarrow> string" where
  "getPatchMethodDefaultBody s =
     (case selectedChildService s of None \<Rightarrow> [] | Some d \<Rightarrow> JSON_stringify_gap 4 (omit_document_keys d))"

definition onEditChildServiceMethodChanged :: "string \<Rightarrow> child \<Rightarrow> child" where
  "onEditChildServiceMethodChanged m s =
     (let s = s\<lparr>edit_method := m\<rparr> in
      s\<lparr>edit_body := Some (if m = ''PATCH'' \<and> selectedChildService s \<noteq> None then getPatchMethodDefaultBody s else [])\<rparr>)"

definition onEditChildService :: "libs \<Rightarrow> child \<Rightarrow> child" where
  "onEditChildService L s =
     (if edit_documentSelfLink s = [] \<or> edit_method s = [] \<or> \<not> truthy (edit_body s) then s
      else if edit_method s = ''PATCH'' then
        (case patch L (ch_base s) (edit_documentSelfLink s) (JStr (the (edit_body s))) True of
           Inl e \<Rightarrow> s
         | Inr r \<Rightarrow> subscribe_rt ChildEditCb (perform (Request r) s))
      else if edit_method s = ''PUT'' then
        (case put L (ch_base s) (edit_documentSelfLink s) (JStr (the (edit_body s))) True of
           Inl e \<Rightarrow> s
         | Inr r \<Rightarrow> subscribe_rt ChildEditCb (perform (Request r) s))
      else perform (Notify [\<lparr>notificationType = ''ERROR'',
        messages = [''Unknown method '' @ edit_method s @ '' used to modify the child service'']\<rparr>]) s)"

definition child_on_edited :: "nat \<Rightarrow> string option \<Rightarrow> child \<Rightarrow> child" where
  "child_on_edited h selfLink s =
     (perform (Notify [\<lparr>notificationType = ''SUCCESS'',
        messages = [''Child Service '' @ show_opt (\<lambda>x. x) selfLink @ '' Updated'']\<rparr>]) (end_rt h s))\<lparr>edit_body := None\<rparr>"

definition child_on_request_error :: "nat \<Rightarrow> server_error \<Rightarrow> child \<Rightarrow> child" where
  "child_on_request_error h err s = perform (Notify (plain_error err)) (end_rt h s)"

definition onDeleteChildService :: "libs \<Rightarrow> child \<Rightarrow> child" where
  "onDeleteChildService L s =
     (if delete_documentSelfLink s = [] then s
      else
        (case delete L (ch_base s) (delete_documentSelfLink s) True of
           Inl e \<Rightarrow> s
         | Inr r \<Rightarrow> subscribe_rt ChildDeleteCb (perform (Request r) s)))"

definition child_on_deleted :: "nat \<Rightarrow> string option \<Rightarrow> child \<Rightarrow> child" where
  "child_on_deleted h selfLink s =
     perform (Notify [\<lparr>notificationType = ''SUCCESS'',
        messages = [''Child Service '' @ show_opt (\<lambda>x. x) selfLink @ '' Deleted'']\<rparr>]) (end_rt h s)"

definition onToggleStats :: "child \<Rightarrow> child" where
  "onToggleStats s = s\<lparr>statsState := (if statsState s = ''expand'' then ''collapse'' else ''expand'')\<rparr>"

definition child_on_document :: "nat \<Rightarrow> string \<Rightarrow> json \<Rightarrow> child \<Rightarrow> child" where
  "child_on_document h link doc s =
     (let s = (end_rt h s)\<lparr>selectedChildService := Some doc, edit_name := link, edit_documentSelfLink := link,
                edit_method := ''PATCH''\<rparr>;
          s = s\<lparr>edit_body := Some (getPatchMethodDefaultBody s)\<rparr>
      in s\<lparr>delete_name := link, delete_documentSelfLink := link\<rparr>)"

definition child_on_stats :: "nat \<Rightarrow> ServiceStats \<Rightarrow> child \<Rightarrow> child" where
  "child_on_stats h stats s = child_renderChart ((end_rt h s)\<lparr>selectedChildServiceStats := Some stats\<rparr>)"

definition child_on_error :: "nat \<Rightarrow> server_error \<Rightarrow> child \<Rightarrow> child" where
  "child_on_error h err s =
     perform (Notify (error_notification ''Failed to retrieve factory child service details'' err)) (end_rt h s)"

section \<open>Properties\<close>

lemma key_pattern_eats:
  "rx_eats (rx_seq [RxBegin, rx_lit p, rx_opt (RxClass P), RxClass Q, RxStar (RxClass R)]) m t i g g' \<longleftrightarrow>
     i = 0 \<and> g' = g \<and> (\<exists>w c v. m = p @ w @ c # v \<and> (w = [] \<or> (\<exists>b. w = [b] \<and> P b)) \<and> Q c \<and> (\<forall>x \<in> set v. R x))"
  (is "?l \<longleftrightarrow> ?r")
proof
  assume ?l
  then have "i = 0" "g' = g" and u: "\<exists>u. m = p @ u \<and>
      ((\<exists>b c v. u = b # c # v \<and> P b \<and> Q c \<and> (\<forall>x \<in> set v. R x)) \<or> (\<exists>c v. u = c # v \<and> Q c \<and> (\<forall>x \<in> set v. R x)))"
    unfolding rx_seq.simps eats_seq_simps eats_star_class by auto
  from u have "\<exists>w c v. m = p @ w @ c # v \<and> (w = [] \<or> (\<exists>b. w = [b] \<and> P b)) \<and> Q c \<and> (\<forall>x \<in> set v. R x)"
    by (metis append_Cons append_Nil)
  with \<open>i = 0\<close> \<open>g' = g\<close> show ?r by blast
qed (auto simp: rx_seq.simps eats_seq_simps eats_star_class simp del: rx_lit.simps)

lemmas document_key_eats = key_pattern_eats [where p = "''document''" and P = "\<lambda>c. c \<noteq> CHR ''s''" and Q = is_upper
    and R = word_char, folded document_key_rx_def]

lemma document_key_iff:
  "document_key k \<longleftrightarrow>
     (\<exists>w c r. k = ''document'' @ w @ c # r \<and> (w = [] \<or> (\<exists>b. w = [b] \<and> b \<noteq> CHR ''s'')) \<and> is_upper c)" (is "_ \<longleftrightarrow> ?r")
proof
  assume "document_key k"
  then obtain u m t g where m: "k = u @ m @ t" "rx_eats document_key_rx m t (length u) [] g"
    unfolding document_key_def rx_exec_None_eats by blast
  then obtain w c v where "u = []" "m = ''document'' @ w @ c # v" "w = [] \<or> (\<exists>b. w = [b] \<and> b \<noteq> CHR ''s'')" "is_upper c"
    unfolding document_key_eats by auto
  moreover have "k = ''document'' @ w @ c # (v @ t)" using m(1) \<open>u = []\<close> \<open>m = _\<close> by simp
  ultimately show ?r by blast
next
  assume ?r
  then obtain w c r where w: "k = [] @ (''document'' @ w @ c # []) @ r" "w = [] \<or> (\<exists>b. w = [b] \<and> b \<noteq> CHR ''s'')" "is_upper c"
    by force
  then have "rx_eats document_key_rx (''document'' @ w @ c # []) r (length ([] :: string)) [] []"
    unfolding document_key_eats by (intro conjI exI [of _ w] exI [of _ c] exI [of _ "[]"]) simp_all
  then show "document_key k"
    using w(1) unfolding document_key_def rx_exec_None_eats by blast
qed

text \<open>
  C22. The dialog offers the fields of the service for a patch, and a patch sends what the dialog shows:
  when a document arrives from a link, the text in the dialog parses as JSON to the document without
  the fields of the framework, those whose name is \<open>document\<close>, at most one character other than
  \<open>s\<close>, and a capital, and confirming the dialog makes one request, a patch with this text. It goes to
  the link of the document when the selected node is the host, and otherwise to the forwarding
  link of the selected node for it; when making the forwarding link raises, no request is made. The
  document has no key twice and its link is not empty.
\<close>

theorem patch_dialog:
  assumes "json_ok (JObj kvs)" "link \<noteq> []" "s' = child_on_document h link (JObj kvs) s"
  shows "\<exists>body. edit_body s' = Some body \<and>
    JSON_parse body = Inr (JObj (filter (\<lambda>(k, _). \<not> (\<exists>w c r. k = ''document'' @ w @ c # r \<and>
      (w = [] \<or> (\<exists>b. w = [b] \<and> b \<noteq> CHR ''s'')) \<and> is_upper c)) kvs)) \<and>
    effects (onEditChildService L s') = effects s @
      (case (if selectedNodeId (ch_base s) = hostNodeId (ch_base s) then Inr link
             else getForwardingLink (ch_base s) link []) of
         Inl e \<Rightarrow> []
       | Inr target \<Rightarrow> [Request (HttpPatch (API_PREFIX L @ target) body)])"
proof -
  let ?kvs = "filter (\<lambda>(k, _). \<not> document_key k) kvs"
  let ?body = "JSON_stringify_gap 4 (JObj ?kvs)"
  have "json_ok (JObj ?kvs)"
    using assms(1) by (auto simp: list_all_iff distinct_map_filter case_prod_unfold)
  then have parse: "JSON_parse ?body = Inr (JObj ?kvs)" by (rule parse_stringify_gap)
  have ne: "?body \<noteq> []" using print_length [of "replicate 4 CHR '' ''" "[]" "JObj ?kvs"] by (simp add: JSON_stringify_gap_def)
  have s': "edit_body s' = Some ?body" "edit_method s' = ''PATCH''" "edit_documentSelfLink s' = link" "ch_base s' = ch_base s"
    "effects s' = effects s"
    by (simp_all add: assms(3) child_on_document_def getPatchMethodDefaultBody_def omit_document_keys_def Let_def
        end_rt_def unsubscribe_rt_def)
  have "effects (onEditChildService L s') = effects s @
      (case (if selectedNodeId (ch_base s) = hostNodeId (ch_base s) then Inr link
             else getForwardingLink (ch_base s) link []) of
         Inl e \<Rightarrow> []
       | Inr target \<Rightarrow> [Request (HttpPatch (API_PREFIX L @ target) ?body)])"
    using assms(2) ne
    by (simp add: onEditChildService_def s' truthy_def patch_def send_link_def map_result_def body_text_def split: sum.splits)
  with parse s'(1) show ?thesis unfolding document_key_iff by blast
qed

theorem patch_dialog_witness:
  "\<exists>body. edit_body (child_on_document 0 ''/core/examples/a''
      (JObj [(''documentSelfLink'', JStr ''/core/examples/a''), (''name'', JStr ''n'')]) (new_child new_base)) = Some body \<and>
    JSON_parse body = Inr (JObj [(''name'', JStr ''n'')]) \<and>
    effects (onEditChildService doc_libs (child_on_document 0 ''/core/examples/a''
      (JObj [(''documentSelfLink'', JStr ''/core/examples/a''), (''name'', JStr ''n'')]) (new_child new_base))) =
      [Request (HttpPatch (API_PREFIX doc_libs @ ''/core/examples/a'') body)]"
proof -
  let ?kvs = "[(''documentSelfLink'', JStr ''/core/examples/a''), (''name'', JStr ''n'')]"
  have key: "document_key ''documentSelfLink''" "\<not> document_key ''name''" by code_simp+
  have "json_ok (JObj ?kvs)" by simp
  from patch_dialog [OF this _ refl, of "''/core/examples/a''" 0 "new_child new_base" doc_libs, folded document_key_iff] key
  show ?thesis by (simp add: new_child_def new_base_def)
qed

end
