(* ===== verification/Dashboard.thy ===== *)
theory Dashboard
  imports ProcessLogView "HOL-Library.Multiset"
begin

text \<open>
  \<open>dashboard-grid.component.ts\<close> and \<open>dashboard-card.component.ts\<close>: the charts of the statistics and
  of the log of a node. A chart is the data, the labels, the colours and the bounds of the axis that
  are handed to chart.js; the constants of the style are in \<open>ChartViews\<close>. \<open>sortNumeric\<close>
  stands for \<open>_.sortBy(keys, timestamp => +timestamp)\<close> of lodash, and \<open>undefined_text\<close> for what
  numeral prints for \<open>undefined\<close> in a format.
\<close>

section \<open>The grid\<close>

definition FILTER_PER_HOUR :: string where "FILTER_PER_HOUR = ''PerHour''"
definition FILTER_PER_DAY :: string where "FILTER_PER_DAY = ''PerDay''"
definition FILTER_LOG_ALL :: string where "FILTER_LOG_ALL = ''All''"

record card_filter =
  filter_name :: string
  filter_value :: string
  filter_current :: bool

datatype chart_color = OneColor string | ManyColors "string list"

record chart_options =
  chart_type :: string
  chart_color_of :: chart_color
  chart_unit :: string
  chart_filters :: "card_filter list option"

definition system_filters :: "card_filter list" where
  "system_filters = [\<lparr>filter_name = ''Last Hour'', filter_value = FILTER_PER_HOUR, filter_current = True\<rparr>,
     \<lparr>filter_name = ''Last Day'', filter_value = FILTER_PER_DAY, filter_current = False\<rparr>]"

definition cardData :: "(string \<times> chart_options) list" where
  "cardData = [
     (''cpuUsagePercent'', \<lparr>chart_type = ''line'', chart_color_of = OneColor ''#FFCA28'', chart_unit = ''percentage'',
        chart_filters = Some system_filters\<rparr>),
     (''availableMemoryBytes'', \<lparr>chart_type = ''line'', chart_color_of = OneColor ''#29B6F6'', chart_unit = ''datasize'',
        chart_filters = Some system_filters\<rparr>),
     (''availableDiskByte'', \<lparr>chart_type = ''line'', chart_color_of = OneColor ''#9CCC65'', chart_unit = ''datasize'',
        chart_filters = Some system_filters\<rparr>),
     (''log'', \<lparr>chart_type = ''bar'', chart_color_of = ManyColors [''#039BE5'', ''#FFB300'', ''#E53935''], chart_unit = ''number'',
        chart_filters = Some [\<lparr>filter_name = ''All'', filter_value = FILTER_LOG_ALL, filter_current = True\<rparr>]\<rparr>)]"

datatype dash_cb = DashStatsCb | DashLogCb | DashSelectedNodeCb

record dash = "(dash_cb, unit) rt" +
  dash_base :: base
  dash_stats :: "ServiceStats option"
  dash_log :: "ProcessLog option"
  dash_getStatsSubscription :: "nat option"
  dash_getLogSubscription :: "nat option"
  dash_getSelectedSubscription :: "nat option"

definition new_dash :: "base \<Rightarrow> dash" where
  "new_dash b = \<lparr>nextHandle = 0, live = [], effects = [], dash_base = b, dash_stats = None, dash_log = None,
     dash_getStatsSubscription = None, dash_getLogSubscription = None, dash_getSelectedSubscription = None\<rparr>"

definition dash_getData :: "libs \<Rightarrow> dash \<Rightarrow> dash" where
  "dash_getData L s =
     (let s = (case getDocumentStats L (dash_base s) URL_CoreManagement True of
                 Inl e \<Rightarrow> s
               | Inr r \<Rightarrow> (subscribe_rt DashStatsCb (perform (Request r) s))\<lparr>dash_getStatsSubscription := Some (nextHandle s)\<rparr>)
      in case getDocument L (dash_base s) URL_Log [] True of
           Inl e \<Rightarrow> s
         | Inr r \<Rightarrow> (subscribe_rt DashLogCb (perform (Request r) s))\<lparr>dash_getLogSubscription := Some (nextHandle s)\<rparr>)"

definition dash_ngOnInit :: "libs \<Rightarrow> dash \<Rightarrow> dash" where
  "dash_ngOnInit L s =
     (let s = dash_getData L s
      in (subscribe_rt DashSelectedNodeCb s)\<lparr>dash_getSelectedSubscription := Some (nextHandle s)\<rparr>)"

definition dash_on_selected_node :: "libs \<Rightarrow> dash \<Rightarrow> dash" where
  "dash_on_selected_node L s = dash_getData L s"

definition dash_ngOnDestroy :: "dash \<Rightarrow> dash" where
  "dash_ngOnDestroy s =
     unsubscribe_rt (dash_getSelectedSubscription s)
       (unsubscribe_rt (dash_getLogSubscription s)
         (unsubscribe_rt (dash_getStatsSubscription s) s))"

definition dash_on_stats :: "nat \<Rightarrow> ServiceStats \<Rightarrow> dash \<Rightarrow> dash" where
  "dash_on_stats h stats s = (end_rt h s)\<lparr>dash_stats := Some stats\<rparr>"

definition dash_on_log :: "nat \<Rightarrow> ProcessLog \<Rightarrow> dash \<Rightarrow> dash" where
  "dash_on_log h l s = (end_rt h s)\<lparr>dash_log := Some l\<rparr>"

definition dash_on_error :: "nat \<Rightarrow> server_error \<Rightarrow> dash \<Rightarrow> dash" where
  "dash_on_error h err s = perform (Notify (error_notification ''Failed to retrieve logs'' err)) (end_rt h s)"

text \<open>
  The series of the bins. The keys are times, written as decimal numerals. Reading the average of a
  bin that is \<open>null\<close> raises a \<open>TypeError\<close>; an average that is not there is \<open>undefined\<close>.
\<close>

definition bin_avg :: "json \<Rightarrow> json option result" where
  "bin_avg bin = (if bin = JNull then Inl TypeError else Inr (jget ''avg'' bin))"

definition getChartData :: "(string list \<Rightarrow> string list) \<Rightarrow> ServiceStatsTimeSeries option \<Rightarrow> json option list result" where
  "getChartData sortNumeric series =
     (case series of
        None \<Rightarrow> Inr []
      | Some t \<Rightarrow>
          collect_results (map (\<lambda>key. bin_avg (the (map_of (seriesBins t) key))) (sortNumeric (map fst (seriesBins t)))))"

definition getChartLabels :: "libs \<Rightarrow> (string list \<Rightarrow> string list) \<Rightarrow> ServiceStatsTimeSeries option \<Rightarrow> string \<Rightarrow> string list" where
  "getChartLabels L sortNumeric series filter_by =
     (case series of
        None \<Rightarrow> []
      | Some t \<Rightarrow>
          map (\<lambda>timestamp. getTimeStamp L (real (read_nat timestamp) * 1000) (filter_by = FILTER_PER_HOUR))
            (sortNumeric (map fst (seriesBins t))))"

text \<open>A statistic that the server does not have raises a \<open>TypeError\<close>.\<close>

definition system_series ::
  "libs \<Rightarrow> (string list \<Rightarrow> string list) \<Rightarrow> string \<Rightarrow> string \<Rightarrow> ServiceStats \<Rightarrow> (json option list \<times> string list) result" where
  "system_series L sortNumeric i filter_by stats =
     (case map_of (statsEntries stats) (i @ filter_by) of
        None \<Rightarrow> Inl TypeError
      | Some e \<Rightarrow>
          map_result (\<lambda>d. (d, getChartLabels L sortNumeric (timeSeriesStats e) filter_by))
            (getChartData sortNumeric (timeSeriesStats e)))"

definition getSystemChartData ::
  "libs \<Rightarrow> (string list \<Rightarrow> string list) \<Rightarrow> string \<Rightarrow> dash \<Rightarrow> (string \<times> json option list \<times> string list) list result" where
  "getSystemChartData L sortNumeric i s =
     (case dash_stats s of
        None \<Rightarrow> Inr []
      | Some stats \<Rightarrow>
          (case system_series L sortNumeric i FILTER_PER_HOUR stats of
             Inl e \<Rightarrow> Inl e
           | Inr hour \<Rightarrow>
               map_result (\<lambda>day. [(FILTER_PER_HOUR, hour), (FILTER_PER_DAY, day)])
                 (system_series L sortNumeric i FILTER_PER_DAY stats)))"

text \<open>The counts of the items of the log by type: information, warnings and errors.\<close>

definition log_count_step :: "nat \<times> nat \<times> nat \<Rightarrow> string \<Rightarrow> (nat \<times> nat \<times> nat) result" where
  "log_count_step counts logItem =
     (case counts of (infoLogCount, warningLogCount, errorLogCount) \<Rightarrow>
      case rx_exec LOG_ITEM_TYPE_REGEX logItem of
        None \<Rightarrow> Inr counts
      | Some m \<Rightarrow>
          (case rx_exec (RxClass code_char) (fst (snd m)) of
             None \<Rightarrow> Inl TypeError
           | Some c \<Rightarrow>
               (let logItemTypeCode = toUpperCase (fst (snd c)) in
                Inr (if logItemTypeCode = ''I'' then (infoLogCount + 1, warningLogCount, errorLogCount)
                     else if logItemTypeCode = ''W'' then (infoLogCount, warningLogCount + 1, errorLogCount)
                     else if logItemTypeCode = ''S'' then (infoLogCount, warningLogCount, errorLogCount + 1)
                     else counts))))"

fun log_counts :: "nat \<times> nat \<times> nat \<Rightarrow> string list \<Rightarrow> (nat \<times> nat \<times> nat) result" where
  "log_counts counts [] = Inr counts"
| "log_counts counts (i # is) = (case log_count_step counts i of Inl e \<Rightarrow> Inl e | Inr counts' \<Rightarrow> log_counts counts' is)"

definition getLogChartData :: "dash \<Rightarrow> (string \<times> nat list \<times> string list) list result" where
  "getLogChartData s =
     (case dash_log s of
        None \<Rightarrow> Inr []
      | Some l \<Rightarrow>
          map_result (\<lambda>(i, w, e). [(FILTER_LOG_ALL, [i, w, e], [''Info'', ''Warning'', ''Error''])])
            (log_counts (0, 0, 0) (logItems l)))"

definition dash_getChartOptions :: "string \<Rightarrow> chart_options result" where
  "dash_getChartOptions i = (case map_of cardData i of None \<Rightarrow> Inl TypeError | Some o' \<Rightarrow> Inr o')"

section \<open>Colours\<close>

definition hex_class :: regex where
  "hex_class = RxClass (\<lambda>c. hex_val c \<noteq> None)"

definition shorthand_rx :: regex where
  "shorthand_rx = rx_seq [RxBegin, rx_opt (rx_lit ''#''), RxGroup 1 hex_class, RxGroup 2 hex_class, RxGroup 3 hex_class, RxEnd]"

definition rgb_rx :: regex where
  "rgb_rx = rx_seq [RxBegin, rx_opt (rx_lit ''#''), RxGroup 1 (RxSeq hex_class hex_class), RxGroup 2 (RxSeq hex_class hex_class),
     RxGroup 3 (RxSeq hex_class hex_class), RxEnd]"

text \<open>\<open>parseInt(s, 16)\<close> of a text of hexadecimal digits.\<close>

definition parse_hex :: "string \<Rightarrow> nat" where
  "parse_hex s = foldl (\<lambda>n c. 16 * n + the (hex_val c)) 0 s"

text \<open>The shorthand pattern matches the whole text, so the replacement replaces the whole text.\<close>

definition convertHexToRgb :: "string \<Rightarrow> string" where
  "convertHexToRgb colorInHex =
     (let hex = (case rx_exec shorthand_rx colorInHex of
            None \<Rightarrow> colorInHex
          | Some m \<Rightarrow>
              (let r = group_text m 1; g = group_text m 2; b = group_text m 3 in r @ r @ g @ g @ b @ b))
      in case rx_exec rgb_rx hex of
           None \<Rightarrow> []
         | Some m \<Rightarrow> show_nat (parse_hex (group_text m 1)) @ '', '' @ show_nat (parse_hex (group_text m 2)) @ '', '' @
             show_nat (parse_hex (group_text m 3)))"

section \<open>The card\<close>

text \<open>The data of a filter: the values, the labels and, when given, another type and other options.\<close>

record chart_entry =
  entry_data :: "real list"
  entry_labels :: "string list"
  entry_type :: "string option"
  entry_options :: "chart_options option"

datatype chart =
    NoOptions
  | LineChart "string list" "real list" string string "(real \<times> real) option"
  | BarChart "string list" "real list" "string list" "string list"

record dash_card =
  cardId :: string
  chartData :: "(string \<times> chart_entry) list option"
  chartOptions :: "chart_options option"
  currentFilter :: "card_filter option"
  card_canvas :: "bool option"
  card_chart :: "chart option"
  card_isViewInitialized :: bool

definition formatData :: "libs \<Rightarrow> real \<Rightarrow> string \<Rightarrow> string" where
  "formatData L d unit_name =
     (if unit_name = ''percentage'' then formatPercentage L d
      else if unit_name = ''datasize'' then formatDataSize L d
      else formatNumber L d False)"

text \<open>
  The lookup of the data of the current filter, which raises a \<open>TypeError\<close> when there is no filter
  or the data has no such key.
\<close>

definition current_entry :: "dash_card \<Rightarrow> chart_entry result" where
  "current_entry s =
     (case (currentFilter s, chartData s) of
        (Some f, Some cd) \<Rightarrow> (case map_of cd (filter_value f) of None \<Rightarrow> Inl TypeError | Some e \<Rightarrow> Inr e)
      | _ \<Rightarrow> Inl TypeError)"

definition no_chart :: "dash_card \<Rightarrow> bool" where
  "no_chart s = (chartData s = None \<or> chartData s = Some [] \<or> chartOptions s = None)"

definition effective_options :: "dash_card \<Rightarrow> chart_entry \<Rightarrow> chart_options" where
  "effective_options s e = (case entry_options e of Some p \<Rightarrow> p | None \<Rightarrow> the (chartOptions s))"

definition effective_type :: "dash_card \<Rightarrow> chart_entry \<Rightarrow> string" where
  "effective_type s e = (if truthy (entry_type e) then the (entry_type e) else chart_type (effective_options s e))"

definition getRollUpStat :: "libs \<Rightarrow> (string \<Rightarrow> string) \<Rightarrow> dash_card \<Rightarrow> string result" where
  "getRollUpStat L undefined_text s =
     (if no_chart s then Inr []
      else
        map_result (\<lambda>e.
          let u = chart_unit (effective_options s e) in
          if effective_type s e = ''line'' then
            (if entry_data e = [] then undefined_text u else formatData L (last (entry_data e)) u)
          else if effective_type s e = ''bar'' then formatData L (sum_list (entry_data e)) u
          else []) (current_entry s))"

definition rgba :: "string \<Rightarrow> string \<Rightarrow> string" where
  "rgba rgbColor alpha = ''rgba('' @ rgbColor @ '', '' @ alpha @ '')''"

text \<open>An array of colours has no method \<open>replace\<close>, so a line chart of it raises a \<open>TypeError\<close>.\<close>

definition color_text :: "chart_color \<Rightarrow> string result" where
  "color_text c = (case c of OneColor t \<Rightarrow> Inr t | ManyColors _ \<Rightarrow> Inl TypeError)"

definition getLineChartOptions :: "real list \<Rightarrow> string list \<Rightarrow> chart_options \<Rightarrow> chart result" where
  "getLineChartOptions d ls opts =
     map_result (\<lambda>t.
       let rgbColor = convertHexToRgb t in
       LineChart ls d (rgba rgbColor ''.25'') (rgba rgbColor ''1'')
         (if d = [] then None else Some (Min (set d) * (1 / 2), Max (set d) * (3 / 2)))) (color_text (chart_color_of opts))"

definition getBarChartOptions :: "real list \<Rightarrow> string list \<Rightarrow> chart_options \<Rightarrow> chart" where
  "getBarChartOptions d ls opts =
     (let colors = (case chart_color_of opts of OneColor t \<Rightarrow> [t] | ManyColors ts \<Rightarrow> ts) in
      BarChart ls d (map (\<lambda>t. rgba (convertHexToRgb t) ''.25'') colors) (map (\<lambda>t. rgba (convertHexToRgb t) ''1'') colors))"

definition getChartOptions :: "dash_card \<Rightarrow> chart result" where
  "getChartOptions s =
     (if no_chart s then Inr NoOptions
      else
        (case current_entry s of
           Inl e \<Rightarrow> Inl e
         | Inr e \<Rightarrow>
             if effective_type s e = ''line'' then
               getLineChartOptions (entry_data e) (entry_labels e) (effective_options s e)
             else if effective_type s e = ''bar'' then
               Inr (getBarChartOptions (entry_data e) (entry_labels e) (effective_options s e))
             else Inr NoOptions))"

text \<open>The canvas is \<^term>\<open>None\<close> before it is looked up and \<^term>\<open>Some False\<close> when it was not found.\<close>

definition card_renderChart :: "dash_card \<Rightarrow> dash_card \<times> jserror option" where
  "card_renderChart s =
     (if card_canvas s \<noteq> Some True then (s, None)
      else (case getChartOptions s of Inl e \<Rightarrow> (s\<lparr>card_chart := None\<rparr>, Some e) | Inr c \<Rightarrow> (s\<lparr>card_chart := Some c\<rparr>, None)))"

definition initial_filter :: "card_filter option \<Rightarrow> card_filter list \<Rightarrow> card_filter option" where
  "initial_filter now fs =
     (case now of
        Some f \<Rightarrow> Some f
      | None \<Rightarrow> (case find filter_current fs of Some f \<Rightarrow> Some f | None \<Rightarrow> Some (hd fs)))"

definition dash_card_ngOnChanges ::
  "((string \<times> chart_entry) list option \<times> (string \<times> chart_entry) list option) option \<Rightarrow> dash_card \<Rightarrow> dash_card \<times> jserror option" where
  "dash_card_ngOnChanges change s =
     (case change of
        None \<Rightarrow> (s, None)
      | Some (previous, current) \<Rightarrow>
          if current = previous \<or> current = None \<or> current = Some [] then (s, None)
          else
            (let s = s\<lparr>chartData := current\<rparr> in
             case chartOptions s of
               None \<Rightarrow> (s, Some TypeError)
             | Some opts \<Rightarrow>
                 card_renderChart
                   (case chart_filters opts of
                      Some (f # fs) \<Rightarrow> s\<lparr>currentFilter := initial_filter (currentFilter s) (f # fs)\<rparr>
                    | _ \<Rightarrow> s)))"

definition dash_card_ngAfterViewChecked :: "bool \<Rightarrow> dash_card \<Rightarrow> dash_card \<times> jserror option" where
  "dash_card_ngAfterViewChecked found s =
     (if cardId s \<noteq> [] \<and> currentFilter s \<noteq> None \<and> \<not> card_isViewInitialized s
      then card_renderChart (s\<lparr>card_isViewInitialized := True, card_canvas := Some found\<rparr>)
      else (s, None))"

definition dash_card_ngOnDestroy :: "dash_card \<Rightarrow> dash_card" where
  "dash_card_ngOnDestroy s = s\<lparr>card_chart := None\<rparr>"

definition getCurrentFilter :: "dash_card \<Rightarrow> card_filter option" where
  "getCurrentFilter s = currentFilter s"

definition getFilters :: "dash_card \<Rightarrow> card_filter list option" where
  "getFilters s = (case chartOptions s of None \<Rightarrow> Some [] | Some opts \<Rightarrow> chart_filters opts)"

definition onFilteredClicked :: "string \<Rightarrow> dash_card \<Rightarrow> dash_card \<times> jserror option" where
  "onFilteredClicked v s =
     (case chartOptions s of
        None \<Rightarrow> (s, Some TypeError)
      | Some opts \<Rightarrow>
          card_renderChart (s\<lparr>currentFilter := Option.bind (chart_filters opts) (find (\<lambda>f. filter_value f = v))\<rparr>))"

section \<open>Properties of the colours\<close>

abbreviation is_hex :: "char \<Rightarrow> bool" where
  "is_hex c \<equiv> hex_val c \<noteq> None"

lemma eats_group_seq:
  "rx_eats (RxSeq (RxGroup n r) q) m t i g g' \<longleftrightarrow>
     (\<exists>u v g1. m = u @ v \<and> rx_eats r u (v @ t) i g g1 \<and> rx_eats q v t (i + length u) ((n, u) # g1) g')"
  by (auto simp: eats_seq eats_group)

lemma eats_hex_group_seq:
  "rx_eats (RxSeq (RxGroup n hex_class) q) m t i g g' \<longleftrightarrow>
     (\<exists>a v. m = a # v \<and> is_hex a \<and> rx_eats q v t (Suc i) ((n, [a]) # g) g')" (is "?l \<longleftrightarrow> ?r")
proof
  assume ?r
  then obtain a v where "m = [a] @ v" "is_hex a" "rx_eats q v t (i + length [a]) ((n, [a]) # g) g'" by auto
  then show ?l unfolding eats_group_seq hex_class_def eats_class by blast
qed (auto simp: eats_group_seq hex_class_def eats_class)

lemma eats_hex2_group_seq:
  "rx_eats (RxSeq (RxGroup n (RxSeq hex_class hex_class)) q) m t i g g' \<longleftrightarrow>
     (\<exists>a b v. m = a # b # v \<and> is_hex a \<and> is_hex b \<and> rx_eats q v t (i + 2) ((n, [a, b]) # g) g')" (is "?l \<longleftrightarrow> ?r")
proof -
  have two: "rx_eats (RxSeq hex_class hex_class) u t i g g' \<longleftrightarrow> (\<exists>a b. u = [a, b] \<and> is_hex a \<and> is_hex b \<and> g' = g)" for u t i g g'
    unfolding hex_class_def eats_class_seq eats_class by auto
  show ?thesis
  proof
    assume ?r
    then obtain a b v where "m = [a, b] @ v" "is_hex a" "is_hex b" "rx_eats q v t (i + length [a, b]) ((n, [a, b]) # g) g'"
      by auto
    then show ?l unfolding eats_group_seq two by blast
  qed (auto simp: eats_group_seq two)
qed

lemma shorthand_eats:
  "rx_eats shorthand_rx m t i g g' \<longleftrightarrow> i = 0 \<and> t = [] \<and>
     (\<exists>p a b c. p \<in> {[], ''#''} \<and> m = p @ [a, b, c] \<and> is_hex a \<and> is_hex b \<and> is_hex c \<and> g' = (3, [c]) # (2, [b]) # (1, [a]) # g)"
  unfolding shorthand_rx_def rx_seq.simps eats_begin_seq eats_opt_seq eats_lit_seq eats_hex_group_seq eats_end by auto

lemma rgb_eats:
  "rx_eats rgb_rx m t i g g' \<longleftrightarrow> i = 0 \<and> t = [] \<and>
     (\<exists>p a b c d e f. p \<in> {[], ''#''} \<and> m = p @ [a, b, c, d, e, f] \<and> list_all is_hex [a, b, c, d, e, f] \<and>
        g' = (3, [e, f]) # (2, [c, d]) # (1, [a, b]) # g)"
  unfolding rgb_rx_def rx_seq.simps eats_begin_seq eats_opt_seq eats_lit_seq eats_hex2_group_seq eats_end by auto

lemma hash_not_hex: "\<not> is_hex CHR ''#''"
  by (simp add: hex_val_def)

lemma exec_unique:
  assumes "rx_eats r s [] 0 [] g"
    and "\<And>u m t g'. s = u @ m @ t \<Longrightarrow> rx_eats r m t (length u) [] g' \<Longrightarrow> u = [] \<and> t = [] \<and> g' = g"
  shows "rx_exec r s = Some (0, s, g)"
proof (cases "rx_exec r s")
  case None
  have "s = [] @ s @ []" by simp
  with assms(1) None show ?thesis unfolding rx_exec_None_eats by (metis list.size(3))
next
  case (Some x)
  obtain k m g' where x: "x = (k, m, g')" by (cases x)
  then obtain u t where u: "s = u @ m @ t" "k = length u" "rx_eats r m t k [] g'"
    using rx_exec_eats [of r s k m g'] Some by auto
  with assms(2) [of u m t g'] x Some show ?thesis by simp
qed

lemma exec_rgb:
  assumes "p \<in> {[], ''#''}" "list_all is_hex [a, b, c, d, e, f]"
  shows "rx_exec rgb_rx (p @ [a, b, c, d, e, f]) = Some (0, p @ [a, b, c, d, e, f], [(3, [e, f]), (2, [c, d]), (1, [a, b])])"
proof (rule exec_unique)
  show "rx_eats rgb_rx (p @ [a, b, c, d, e, f]) [] 0 [] [(3, [e, f]), (2, [c, d]), (1, [a, b])]"
    unfolding rgb_eats using assms by blast
  show "u = [] \<and> t = [] \<and> g' = [(3, [e, f]), (2, [c, d]), (1, [a, b])]"
    if "p @ [a, b, c, d, e, f] = u @ m @ t" "rx_eats rgb_rx m t (length u) [] g'" for u m t g'
    using that assms unfolding rgb_eats by auto
qed

lemma exec_shorthand:
  assumes "p \<in> {[], ''#''}" "is_hex a" "is_hex b" "is_hex c"
  shows "rx_exec shorthand_rx (p @ [a, b, c]) = Some (0, p @ [a, b, c], [(3, [c]), (2, [b]), (1, [a])])"
proof (rule exec_unique)
  show "rx_eats shorthand_rx (p @ [a, b, c]) [] 0 [] [(3, [c]), (2, [b]), (1, [a])]"
    unfolding shorthand_eats using assms by blast
  show "u = [] \<and> t = [] \<and> g' = [(3, [c]), (2, [b]), (1, [a])]"
    if "p @ [a, b, c] = u @ m @ t" "rx_eats shorthand_rx m t (length u) [] g'" for u m t g'
    using that assms unfolding shorthand_eats by auto
qed

lemma exec_shorthand_none:
  assumes "p \<in> {[], ''#''}"
  shows "rx_exec shorthand_rx (p @ [a, b, c, d, e, f]) = None"
proof -
  have False if "p @ [a, b, c, d, e, f] = u @ m @ t" "rx_eats shorthand_rx m t (length u) [] g" for u m t g
    using that assms unfolding shorthand_eats by auto
  then show ?thesis unfolding rx_exec_None_eats by blast
qed

text \<open>
  The conversion of colours inverts writing a colour in hexadecimal digits, with or without the
  number sign, and a shorthand of three digits stands for the colour with each digit doubled.
\<close>

lemma hex_color:
  assumes "p \<in> {[], ''#''}"
  shows "(r < 256 \<and> g < 256 \<and> b < 256 \<longrightarrow>
      convertHexToRgb (p @ [hex_digit (r div 16), hex_digit (r mod 16), hex_digit (g div 16), hex_digit (g mod 16),
        hex_digit (b div 16), hex_digit (b mod 16)]) = show_nat r @ '', '' @ show_nat g @ '', '' @ show_nat b) \<and>
    (r < 16 \<and> g < 16 \<and> b < 16 \<longrightarrow>
      convertHexToRgb (p @ [hex_digit r, hex_digit g, hex_digit b]) =
        show_nat (17 * r) @ '', '' @ show_nat (17 * g) @ '', '' @ show_nat (17 * b))"
  (is "(_ \<longrightarrow> ?full) \<and> (_ \<longrightarrow> ?short)")
proof (intro conjI impI)
  assume "r < 256 \<and> g < 256 \<and> b < 256"
  then show ?full
    using exec_shorthand_none [OF assms] exec_rgb [OF assms]
    by (simp add: convertHexToRgb_def group_text_def rx_group_def parse_hex_def less_mult_imp_div_less)
next
  assume "r < 16 \<and> g < 16 \<and> b < 16"
  then show ?short
    using exec_shorthand [OF assms] exec_rgb [of "[]"]
    by (simp add: convertHexToRgb_def group_text_def rx_group_def parse_hex_def)
qed

lemma hex_color_witness:
  "convertHexToRgb (''#'' @ [hex_digit (255 div 16), hex_digit (255 mod 16), hex_digit (202 div 16), hex_digit (202 mod 16),
     hex_digit (40 div 16), hex_digit (40 mod 16)]) = show_nat 255 @ '', '' @ show_nat 202 @ '', '' @ show_nat 40"
  using hex_color [of "''#''" 255 202 40] by simp

section \<open>Properties of the series\<close>

text \<open>
  What lodash documents of \<open>sortBy\<close> with a function: the same elements, in ascending order of the
  values of the function.
\<close>

definition lodash_numeric_doc :: "(string list \<Rightarrow> string list) \<Rightarrow> bool" where
  "lodash_numeric_doc f \<longleftrightarrow> (\<forall>xs. mset (f xs) = mset xs \<and> sorted (map read_nat (f xs)))"

text \<open>
  The values and the labels of a chart belong together: when the series of a statistic is read,
  the two lists run over the same times, which are the times of the bins, each once, in ascending
  order; the value is the average of the bin and the label its time, without the date for the last
  hour.
\<close>

lemma series_aligned:
  assumes "lodash_numeric_doc sortNumeric" "map_of (statsEntries stats) (i @ filter_by) = Some e" "timeSeriesStats e = Some t"
    and "system_series L sortNumeric i filter_by stats = Inr (values, labels)"
  shows "\<exists>times. mset times = mset (map fst (seriesBins t)) \<and> sorted (map read_nat times) \<and>
    values = map (\<lambda>k. jget ''avg'' (the (map_of (seriesBins t) k))) times \<and>
    labels = map (\<lambda>k. getTimeStamp L (real (read_nat k) * 1000) (filter_by = ''PerHour'')) times"
proof -
  let ?times = "sortNumeric (map fst (seriesBins t))"
  have "map_result (\<lambda>d. (d, getChartLabels L sortNumeric (Some t) filter_by)) (getChartData sortNumeric (Some t)) = Inr (values, labels)"
    using assms(2-4) by (simp add: system_series_def)
  then have r: "getChartData sortNumeric (Some t) = Inr values" "labels = getChartLabels L sortNumeric (Some t) filter_by"
    by (cases "getChartData sortNumeric (Some t)"; simp add: map_result_def)+
  have labels: "labels = map (\<lambda>k. getTimeStamp L (real (read_nat k) * 1000) (filter_by = ''PerHour'')) ?times"
    using r(2) by (simp add: getChartLabels_def FILTER_PER_HOUR_def)
  have eq: "map (\<lambda>key. bin_avg (the (map_of (seriesBins t) key))) ?times = map Inr values"
    using r(1) by (intro collect_results_Inr) (simp add: getChartData_def)
  have "values = map (\<lambda>k. jget ''avg'' (the (map_of (seriesBins t) k))) ?times"
  proof (rule nth_equalityI)
    show len: "length values = length (map (\<lambda>k. jget ''avg'' (the (map_of (seriesBins t) k))) ?times)"
      using arg_cong [OF eq, of length] by simp
    fix n assume n: "n < length values"
    then have "bin_avg (the (map_of (seriesBins t) (?times ! n))) = Inr (values ! n)"
      using arg_cong [OF eq, of "\<lambda>xs. xs ! n"] len by simp
    then show "values ! n = map (\<lambda>k. jget ''avg'' (the (map_of (seriesBins t) k))) ?times ! n"
      using n len by (simp add: bin_avg_def split: if_splits)
  qed
  with labels assms(1) show ?thesis unfolding lodash_numeric_doc_def by blast
qed

lemma sort_numeric_doc: "lodash_numeric_doc (sort_key read_nat)"
  by (simp add: lodash_numeric_doc_def)

definition sample_entry :: "(string \<times> json) list \<Rightarrow> ServiceStatsEntry" where
  "sample_entry bins = \<lparr>entryName = ''e'', latestValue = 0, accumulatedValue = 0, entryVersion = 0, lastUpdateMicrosUtc = 0,
     entryKind = [], entryUnit = None, sourceTimeMicrosUtc = None, serviceReference = None, logHistogram = None,
     timeSeriesStats = Some \<lparr>seriesBins = bins\<rparr>\<rparr>"

definition sample_stats :: "(string \<times> ServiceStatsEntry) list \<Rightarrow> ServiceStats" where
  "sample_stats es = ServiceDocument.extend emptyDocument \<lparr>statsKind = [], statsEntries = es\<rparr>"

lemma series_aligned_witness:
  "\<exists>times. mset times = mset [''20'', ''9''] \<and> sorted (map read_nat times) \<and>
    [Some (JNum 1), Some (JNum 2)] = map (\<lambda>k. jget ''avg'' (the (map_of [(''20'', JObj [(''avg'', JNum 2)]), (''9'', JObj [(''avg'', JNum 1)])] k))) times"
proof -
  let ?bins = "[(''20'', JObj [(''avg'', JNum 2)]), (''9'', JObj [(''avg'', JNum 1)])]"
  let ?stats = "sample_stats [(''cpuPerDay'', sample_entry ?bins)]"
  have key: "read_nat ''20'' = 20" "read_nat ''9'' = 9" by code_simp+
  have get: "map_of (statsEntries ?stats) (''cpu'' @ ''PerDay'') = Some (sample_entry ?bins)"
    by (simp add: sample_stats_def emptyDocument_def ServiceDocument.extend_def)
  have series: "timeSeriesStats (sample_entry ?bins) = Some \<lparr>seriesBins = ?bins\<rparr>" by (simp add: sample_entry_def)
  have "system_series doc_libs (sort_key read_nat) ''cpu'' ''PerDay'' ?stats =
      Inr ([Some (JNum 1), Some (JNum 2)], getChartLabels doc_libs (sort_key read_nat) (Some \<lparr>seriesBins = ?bins\<rparr>) ''PerDay'')"
    unfolding system_series_def get option.case series
    by (simp add: getChartData_def key bin_avg_def jget_def map_result_def)
  from series_aligned [OF sort_numeric_doc get series this] show ?thesis by auto
qed

text \<open>The loop counts what the log view filters.\<close>

lemma log_count_step_type:
  "log_count_step (i, w, e) item = map_result (\<lambda>t. (i + of_bool (t = ''INFO''), w + of_bool (t = ''WARNING''), e + of_bool (t = ''SEVERE'')))
     (getLogItemType item)"
  by (auto simp: log_count_step_def getLogItemType_def map_result_def Let_def split: option.splits)

lemma log_counts_types:
  "list_all (\<lambda>item. \<exists>t. getLogItemType item = Inr t) items \<Longrightarrow>
   log_counts (i, w, e) items = Inr (i + length (filter (\<lambda>item. getLogItemType item = Inr ''INFO'') items),
     w + length (filter (\<lambda>item. getLogItemType item = Inr ''WARNING'') items),
     e + length (filter (\<lambda>item. getLogItemType item = Inr ''SEVERE'') items))"
proof (induction items arbitrary: i w e)
  case (Cons item items)
  then obtain t where "getLogItemType item = Inr t" by auto
  then show ?case using Cons by (auto simp: log_count_step_type map_result_def)
qed simp

text \<open>
  The chart of the log counts the items that the log view shows under its filters: when no item
  raises an exception, the three bars are the numbers of items that the log view has for
  information, warnings and severe items of the same log.
\<close>

lemma log_chart_counts:
  assumes "list_all (\<lambda>item. \<exists>t. getLogItemType item = Inr t) (logItems l)"
  shows "getLogChartData (dash_on_log h l s) =
    Inr [(''All'', [length (filter (\<lambda>item. getLogItemType item = Inr ''INFO'') (logItems l)),
       length (filter (\<lambda>item. getLogItemType item = Inr ''WARNING'') (logItems l)),
       length (filter (\<lambda>item. getLogItemType item = Inr ''SEVERE'') (logItems l))], [''Info'', ''Warning'', ''Error''])]"
  using log_counts_types [OF assms, of 0 0 0]
  by (simp add: getLogChartData_def dash_on_log_def map_result_def FILTER_LOG_ALL_def)

lemma log_chart_counts_witness:
  "getLogChartData (dash_on_log 0 sample_log (new_dash new_base)) = Inr [(''All'', [1, 1, 0], [''Info'', ''Warning'', ''Error''])]"
  using log_chart_counts [of sample_log 0 "new_dash new_base"]
  by (simp add: sample_log_items sample_log_types)

end
