(* ===== verification/NodeViews.thy ===== *)
theory NodeViews
  imports NodeSelection ServiceGrid Dashboard
begin

text \<open>
  What the views that follow the selected node share: the grid of the services, the dashboard and the
  process log read their data again whenever a node is selected. The contract of such a view is a
  locale, and the composition with the node selection shows that every view reads from the node that
  the navigation bar names.
\<close>

section \<open>What a view asks for\<close>

fun http_url :: "http \<Rightarrow> string" where
  "http_url (HttpGet u) = u"
| "http_url (HttpPost u b) = u"
| "http_url (HttpPostBasic u b a) = u"
| "http_url (HttpPatch u b) = u"
| "http_url (HttpPut u b) = u"
| "http_url (HttpDelete u) = u"

text \<open>The addresses of all requests of a component.\<close>

definition asked :: "('c, 'e, 'm) rt_scheme \<Rightarrow> string list" where
  "asked s = concat (map (\<lambda>e. case e of Request r \<Rightarrow> [http_url r] | RequestAll rs \<Rightarrow> map http_url rs | _ \<Rightarrow> []) (effects s))"

lemma asked_simps [simp]:
  "asked (perform (Request r) s) = asked s @ [http_url r]" "asked (subscribe_rt cb s) = asked s"
  by (simp_all add: asked_def)

text \<open>The address of a link with a query, for the node that is selected.\<close>

definition target_of :: "libs \<Rightarrow> base \<Rightarrow> string \<times> string \<Rightarrow> string result" where
  "target_of L b w = map_result (\<lambda>u. API_PREFIX L @ u) (get_link b (fst w) (snd w) True)"

lemma target_of_send: "target_of L b (l, []) = map_result (\<lambda>u. API_PREFIX L @ u) (send_link b l True)"
  by (simp add: target_of_def get_link_def send_link_def append_option_def)

lemma target_of_get: "getDocument L b l q True = Inr r \<longleftrightarrow> (\<exists>u. target_of L b (l, q) = Inr u \<and> r = HttpGet u)"
  by (auto simp: getDocument_def getDocumentInternal_def target_of_def map_result_def split: sum.splits)

text \<open>
  An address through which a node of a group is asked for a link with a query: the forwarding service
  of the node selector of the group, with the id of the node as \<open>peer\<close> and \<open>PEER_ID\<close> as \<open>target\<close>.
\<close>

definition asks_node :: "libs \<Rightarrow> string \<Rightarrow> string \<Rightarrow> string \<times> string \<Rightarrow> string \<Rightarrow> bool" where
  "asks_node L grp peer w u \<longleftrightarrow>
     (\<exists>url. u = API_PREFIX L @ url \<and>
       starts_with (''/core/node-selectors/'' @ grp @ ''/forwarding?'') url \<and>
       getQueryParametersByName url ''target'' = Inr (Some ''PEER_ID'') \<and>
       getQueryParametersByName url ''peer'' = Inr (Some peer) \<and>
       getQueryParametersByName url ''path'' = Inr (Some (fst w)) \<and>
       getQueryParametersByName url ''query'' = Inr (Some (snd w)))"

definition plain_link :: "string \<Rightarrow> bool" where
  "plain_link l \<longleftrightarrow> CHR ''?'' \<notin> set l \<and> CHR ''&'' \<notin> set l"

lemma target_forwarded:
  assumes "plain_link (fst w)" "selectedNodeId b = Some peer" "hostNodeId b \<noteq> Some peer"
    and "\<forall>c \<in> set peer. uri_unreserved c" "selectedNodeGroupReference b = Some grp" "plain_key grp"
  shows "\<exists>u. target_of L b w = Inr u \<and> asks_node L grp peer w u"
proof -
  obtain url where "getForwardingLink b (fst w) (snd w) = Inr url"
    "starts_with (''/core/node-selectors/'' @ grp @ ''/forwarding?'') url"
    "getQueryParametersByName url ''target'' = Inr (Some ''PEER_ID'')"
    "getQueryParametersByName url ''peer'' = Inr (Some peer)"
    "getQueryParametersByName url ''path'' = Inr (Some (fst w))"
    "getQueryParametersByName url ''query'' = Inr (Some (snd w))"
    using forwarding_reads_back [OF _ _ assms(2,4,5,6), of "fst w" "snd w"] assms(1)
    by (auto simp: plain_link_def)
  then show ?thesis
    using assms(2,3) by (auto simp: target_of_def get_link_def map_result_def asks_node_def)
qed

section \<open>The contract of a view\<close>

text \<open>
  A view has a base service, the links with their queries it \<open>wants\<close>, and an operation that reads
  them again: it makes one request for each of them, in order, to the address of the selected node.
\<close>

locale node_view =
  fixes view_base :: "'s \<Rightarrow> base"
    and view_asked :: "'s \<Rightarrow> string list"
    and wants :: "(string \<times> string) list"
    and reload :: "libs \<Rightarrow> 's \<Rightarrow> 's"
  assumes reload_asks: "list_all2 (\<lambda>w u. target_of L (view_base s) w = Inr u) wants us \<Longrightarrow>
      view_asked (reload L s) = view_asked s @ us"
    and wants_plain: "\<forall>w \<in> set wants. plain_link (fst w)"
begin

lemma reload_host:
  assumes "selectedNodeId (view_base s) = hostNodeId (view_base s)"
  shows "view_asked (reload L s) = view_asked s @ map (\<lambda>w. API_PREFIX L @ append_option (fst w) (snd w)) wants"
  by (rule reload_asks) (simp add: list_all2_map2 list_all2_same target_of_def get_link_def map_result_def assms)

lemma reload_forwarded:
  assumes "selectedNodeId (view_base s) = Some peer" "hostNodeId (view_base s) \<noteq> Some peer"
    and "\<forall>c \<in> set peer. uri_unreserved c" "selectedNodeGroupReference (view_base s) = Some grp" "plain_key grp"
  shows "\<exists>us. view_asked (reload L s) = view_asked s @ us \<and> list_all2 (asks_node L grp peer) wants us"
proof -
  have "\<forall>w \<in> set wants. \<exists>u. target_of L (view_base s) w = Inr u \<and> asks_node L grp peer w u"
    using wants_plain target_forwarded [OF _ assms] by blast
  then obtain f where f: "\<forall>w \<in> set wants. target_of L (view_base s) w = Inr (f w) \<and> asks_node L grp peer w (f w)"
    by metis
  then have "list_all2 (\<lambda>w u. target_of L (view_base s) w = Inr u) wants (map f wants)"
    "list_all2 (asks_node L grp peer) wants (map f wants)"
    by (auto simp: list_all2_map2 list_all2_same)
  with reload_asks show ?thesis by blast
qed

end

section \<open>The views\<close>

interpretation grid_view: node_view grid_base asked "[(URL_Root, [])]" grid_on_selected_node
proof (unfold_locales, goal_cases)
  case (1 L s us)
  then obtain u where u: "us = [u]" "target_of L (grid_base s) (URL_Root, []) = Inr u"
    by (auto simp: list_all2_Cons1)
  then obtain v where "send_link (grid_base s) URL_Root True = Inr v" "u = API_PREFIX L @ v"
    by (auto simp: target_of_send map_result_def split: sum.splits)
  then show ?case
    by (simp add: u(1) grid_on_selected_node_def grid_getData_def post_def map_result_def asked_def)
next
  case 2
  show ?case by (simp add: plain_link_def URL_Root_def)
qed

interpretation dash_view: node_view dash_base asked
  "[(URL_CoreManagement @ URL_STATS_SUFFIX, []), (URL_Log, [])]" dash_on_selected_node
proof (unfold_locales, goal_cases)
  case (1 L s us)
  then obtain u v where us: "us = [u, v]"
    and u: "target_of L (dash_base s) (URL_CoreManagement @ URL_STATS_SUFFIX, []) = Inr u"
    and v: "target_of L (dash_base s) (URL_Log, []) = Inr v"
    by (auto simp: list_all2_Cons1)
  have "getDocumentStats L (dash_base s) URL_CoreManagement True = Inr (HttpGet u)"
    using u by (auto simp: getDocumentStats_def getDocumentInternal_def target_of_def map_result_def split: sum.splits)
  moreover have "getDocument L (dash_base s) URL_Log [] True = Inr (HttpGet v)"
    using v by (simp add: target_of_get)
  ultimately show ?case
    by (simp add: us dash_on_selected_node_def dash_getData_def Let_def asked_def perform_def subscribe_rt_def)
next
  case 2
  show ?case by (simp add: plain_link_def URL_CoreManagement_def URL_STATS_SUFFIX_def URL_Log_def)
qed

interpretation logs_view: node_view lv_base asked
  "[(URL_Log, ''lineCount='' @ show_nat DEFAULT_LOG_SIZE)]" lv_on_selected_node
proof (unfold_locales, goal_cases)
  case (1 L s us)
  then obtain u where us: "us = [u]"
    and u: "target_of L (lv_base s) (URL_Log, ''lineCount='' @ show_nat DEFAULT_LOG_SIZE) = Inr u"
    by (auto simp: list_all2_Cons1)
  have "getDocument L (lv_base s) URL_Log (''lineCount='' @ show_nat DEFAULT_LOG_SIZE) True = Inr (HttpGet u)"
    using u by (simp add: target_of_get)
  then show ?case
    by (simp add: us lv_on_selected_node_def lv_getData_def Let_def asked_def perform_def subscribe_rt_def)
next
  case 2
  show ?case by (simp add: plain_link_def URL_Log_def)
qed

section \<open>Switching to a node\<close>

lemma confirm_tells_base:
  assumes "getSelectedNodeById sel i = Some (Some n)"
  shows "sel_base (fst (run_selector L (onNodeSelectionConfirmed i) (sel, nav))) =
    base_on_selected L (Some n) (sel_base sel)"
proof -
  have "new_effects sel (onNodeSelectionConfirmed i sel) =
      [Publish (SetSelectedNode (Some (Some n))), Publish (SetNodeSelectorActive False), Publish (NavigateNode i)]"
    by (rule new_effects_append) (simp add: onNodeSelectionConfirmed_def publish_defs Let_def assms)
  then show ?thesis
    by (simp add: run_selector_def onNodeSelectionConfirmed_def publish_defs Let_def node_of_def)
qed

lemma reach_host_id:
  assumes "shell_reach L a (sel, nav)" "node_of (hostNode sel) = Some h"
  shows "hostNodeId (sel_base sel) = Some (nodeId h)"
proof -
  have "hostNode sel = Some (Some h)" using assms(2) by (auto simp: node_of_def split: option.splits)
  then show ?thesis
    using reach_ok [OF assms(1)] by (simp add: shell_ok_def agreed_def told_def node_of_def)
qed

text \<open>What the request layer of the views knows after the user has confirmed a node other than the host.\<close>

lemma confirmed_base:
  assumes "shell_reach L a (sel, nav)" "node_of (hostNode sel) = Some h"
    and "getSelectedNodeById sel i = Some (Some n)" "nodeId n \<noteq> nodeId h"
    and "b = sel_base (fst (run_selector L (onNodeSelectionConfirmed i) (sel, nav)))"
  shows "selectedNodeId b = Some (nodeId n) \<and> hostNodeId b \<noteq> Some (nodeId n) \<and>
    selectedNodeGroupReference b = Some (linkId (parseDocumentLink L (groupReference n) []))"
  using reach_host_id [OF assms(1,2)] assms(4)
  by (simp add: assms(5) confirm_tells_base [OF assms(3)] base_on_selected_def)

end
