(* ===== verification/Widgets.thy ===== *)
theory Widgets
  imports BaseServ
begin

text \<open>
  The small parts of the page under \<open>modules/app\<close>: the alert with its timer
  (\<open>components/alert/alert.component.ts\<close>), the notifications (\<open>components/notification\<close>,
  \<open>services/notification.service.ts\<close>), the table of properties
  (\<open>components/property-table/property-table.component.ts\<close>), the code editor
  (\<open>components/code-editor/code-editor.component.ts\<close>), the pipe that filters by name
  (\<open>pipes/filter-by-name.pipe.ts\<close>) and the detail of a traced operation
  (\<open>components/main/operation-tracing/operation-tracing-chart-detail.component.ts\<close>).
\<close>

section \<open>Alerts\<close>

text \<open>
  An alert with the timers of the browser it has started: the clock in milliseconds, the number the
  next timer gets, and the pending timers, each with the time it is due. All of them run the same
  code, which hides the alert.
\<close>

record alert =
  alertMessages :: "string list"
  alertType :: string
  autoDismiss :: bool
  isVisible :: bool
  autoDismissTimeout :: "nat option"
  clock :: nat
  nextTimer :: nat
  timers :: "(nat \<times> nat) list"

definition defaultTimeoutDelay :: nat where
  "defaultTimeoutDelay = 4000"

definition alertTypes :: "string list" where
  "alertTypes = [''alert-info'', ''alert-warning'', ''alert-danger'', ''alert-success'']"

definition new_alert :: "string \<Rightarrow> bool \<Rightarrow> alert" where
  "new_alert t auto = \<lparr>alertMessages = [], alertType = t, autoDismiss = auto, isVisible = False,
     autoDismissTimeout = None, clock = 0, nextTimer = 0, timers = []\<rparr>"

text \<open>\<open>this.autoDismissTimeout = setTimeout(() => this.isVisible = false, this.defaultTimeoutDelay)\<close>.\<close>

definition start_timer :: "alert \<Rightarrow> alert" where
  "start_timer a = a\<lparr>autoDismissTimeout := Some (nextTimer a), nextTimer := Suc (nextTimer a),
     timers := timers a @ [(nextTimer a, clock a + defaultTimeoutDelay)]\<rparr>"

text \<open>
  \<open>ngOnChanges\<close>: \<^term>\<open>None\<close> is a change of other inputs only, otherwise the previous and the
  current messages are given, \<^term>\<open>None\<close> for a value that is not an array.
\<close>

definition alert_ngOnChanges :: "(string list option \<times> string list option) option \<Rightarrow> alert \<Rightarrow> alert" where
  "alert_ngOnChanges messagesChanges a =
     (case messagesChanges of
        None \<Rightarrow> a
      | Some (previous, current) \<Rightarrow>
          if current = previous then a
          else (case current of
                  None \<Rightarrow> a
                | Some ms \<Rightarrow>
                    if ms = [] then a
                    else (let a' = a\<lparr>alertMessages := ms, isVisible := True\<rparr> in
                          if autoDismiss a' then start_timer a' else a')))"

definition alert_close :: "alert \<Rightarrow> alert" where
  "alert_close a = a\<lparr>isVisible := False\<rparr>"

definition alert_open :: "alert \<Rightarrow> alert" where
  "alert_open a = a\<lparr>isVisible := True\<rparr>"

definition getAlertType :: "alert \<Rightarrow> string \<Rightarrow> string" where
  "getAlertType a addtionalClasses =
     (if alertType a \<in> set alertTypes then alertType a @ '' '' @ addtionalClasses
      else ''alert-info'' @ '' '' @ addtionalClasses)"

definition onMoustEnter :: "alert \<Rightarrow> alert" where
  "onMoustEnter a = a\<lparr>timers := filter (\<lambda>(k, _). Some k \<noteq> autoDismissTimeout a) (timers a)\<rparr>"

definition alert_onMouseLeave :: "alert \<Rightarrow> alert" where
  "alert_onMouseLeave a = start_timer a"

text \<open>The browser lets \<open>d\<close> milliseconds pass and runs the timers that have become due.\<close>

definition elapse :: "nat \<Rightarrow> alert \<Rightarrow> alert" where
  "elapse d a =
     (let due = (\<lambda>(_, t). t \<le> clock a + d) in
      a\<lparr>clock := clock a + d, timers := filter (\<lambda>x. \<not> due x) (timers a),
        isVisible := isVisible a \<and> \<not> list_ex due (timers a)\<rparr>)"

text \<open>
  What happens to an alert, with whether the mouse is on it. The template puts the alert on the page
  only while it is visible, so the mouse enters, leaves and clicks the button of a visible alert
  only, and is not on an alert that has been hidden. Nothing calls \<open>open\<close>.
\<close>

inductive alert_reach :: "string \<Rightarrow> bool \<Rightarrow> alert \<Rightarrow> bool \<Rightarrow> bool" for t auto where
  alert_new: "alert_reach t auto (new_alert t auto) False"
| alert_change: "alert_reach t auto a h \<Longrightarrow> alert_reach t auto (alert_ngOnChanges c a) h"
| alert_enter: "alert_reach t auto a h \<Longrightarrow> isVisible a \<Longrightarrow> alert_reach t auto (onMoustEnter a) True"
| alert_leave: "alert_reach t auto a True \<Longrightarrow> isVisible a \<Longrightarrow> alert_reach t auto (alert_onMouseLeave a) False"
| alert_close: "alert_reach t auto a h \<Longrightarrow> isVisible a \<Longrightarrow> alert_reach t auto (alert_close a) False"
| alert_elapse: "alert_reach t auto a h \<Longrightarrow>
    alert_reach t auto (elapse d a) (h \<and> isVisible (elapse d a))"

section \<open>Notifications\<close>

definition NotificationTypeUtil :: "NotificationType \<Rightarrow> DisplayInfo" where
  "NotificationTypeUtil t = (case t of
     UNKNOWN \<Rightarrow> \<lparr>className = [], iconClassName = [], displayName = ''Unknown''\<rparr>
   | INFO \<Rightarrow> \<lparr>className = ''alert-info'', iconClassName = ''assets/images/ic_info_16x.svg'', displayName = ''Info''\<rparr>
   | WARNING \<Rightarrow> \<lparr>className = ''alert-warning'', iconClassName = ''assets/images/ic_warning_16x.svg'', displayName = ''Warning''\<rparr>
   | ERROR \<Rightarrow> \<lparr>className = ''alert-danger'', iconClassName = ''assets/images/ic_error_red_16x.svg'', displayName = ''Error''\<rparr>
   | SUCCESS \<Rightarrow> \<lparr>className = ''alert-success'', iconClassName = ''assets/images/ic_success_16x.svg'', displayName = ''Success''\<rparr>)"

text \<open>The lookup \<open>NotificationType[name]\<close>, for a text that is not a number.\<close>

definition notification_type_of :: "string \<Rightarrow> NotificationType option" where
  "notification_type_of n =
     map_of [(''UNKNOWN'', UNKNOWN), (''INFO'', INFO), (''WARNING'', WARNING), (''ERROR'', ERROR),
       (''SUCCESS'', SUCCESS)] n"

definition getNotificationType :: "string \<Rightarrow> DisplayInfo" where
  "getNotificationType n =
     (if notification_type_of n = Some INFO then NotificationTypeUtil INFO
      else if notification_type_of n = Some WARNING then NotificationTypeUtil WARNING
      else if notification_type_of n = Some ERROR then NotificationTypeUtil ERROR
      else if notification_type_of n = Some SUCCESS then NotificationTypeUtil SUCCESS
      else NotificationTypeUtil UNKNOWN)"

text \<open>
  The component that shows the notifications; its one subscription is to the subject of the
  service, and \<open>set\<close> of the service delivers to the subscriptions that live.
\<close>

record notification_area = "(unit, unit) rt" +
  notifications :: "Notification list"
  notificationServiceSubscription :: "nat option"

definition new_area :: notification_area where
  "new_area = rt.extend new_rt \<lparr>notifications = [], notificationServiceSubscription = None\<rparr>"

definition area_ngOnInit :: "notification_area \<Rightarrow> notification_area" where
  "area_ngOnInit s = subscribe_rt () (s\<lparr>notificationServiceSubscription := Some (nextHandle s)\<rparr>)"

definition area_ngOnDestroy :: "notification_area \<Rightarrow> notification_area" where
  "area_ngOnDestroy s = unsubscribe_rt (notificationServiceSubscription s) s"

definition notificationService_set :: "Notification list \<Rightarrow> notification_area \<Rightarrow> notification_area" where
  "notificationService_set data s = fold (\<lambda>_ s. s\<lparr>notifications := data\<rparr>) (live s) s"

definition getNotificationTypeClass :: "string \<Rightarrow> string" where
  "getNotificationTypeClass n = className (getNotificationType n)"

text \<open>The alerts the template makes for the notifications, after their first change of inputs.\<close>

definition area_alerts :: "notification_area \<Rightarrow> alert list" where
  "area_alerts s = map (\<lambda>n. alert_ngOnChanges (Some (None, Some (messages n)))
     (new_alert (getNotificationTypeClass (notificationType n)) True)) (notifications s)"

section \<open>The table of properties\<close>

record table_row =
  rowKey :: string
  rowValue :: json
  rowType :: string

definition getValueType :: "string \<Rightarrow> json \<Rightarrow> string" where
  "getValueType key v =
     (if ends_with ''link'' (toLowerCase key) then ''link''
      else (case v of
              JNum _ \<Rightarrow> if key \<noteq> [] \<and> ends_with ''timemicros'' (toLowerCase key) then ''date'' else ''number''
            | JArr _ \<Rightarrow> ''object''
            | JObj _ \<Rightarrow> ''object''
            | _ \<Rightarrow> ''string''))"

definition property_row :: "string \<times> json \<Rightarrow> table_row" where
  "property_row kv =
     (let valueType = getValueType (fst kv) (snd kv) in
      \<lparr>rowKey = fst kv,
       rowValue = (if valueType = ''object'' then JStr (JSON_stringify_gap 2 (snd kv)) else snd kv),
       rowType = valueType\<rparr>)"

text \<open>
  The number of elements \<open>_.each\<close> visits by index: it takes an object whose \<open>length\<close> is a natural
  number of at most 53 bits for an array.
\<close>

definition array_length :: "json \<Rightarrow> nat option" where
  "array_length v =
     (case v of
        JArr vs \<Rightarrow> Some (length vs)
      | JStr s \<Rightarrow> Some (length s)
      | JObj kvs \<Rightarrow>
          (case map_of kvs ''length'' of
             Some (JNum n) \<Rightarrow> if 0 \<le> n \<and> n \<le> 2 ^ 53 - 1 then Some (nat n) else None
           | _ \<Rightarrow> None)
      | _ \<Rightarrow> None)"

text \<open>By index, the key is a number and has no \<open>toLowerCase\<close>.\<close>

definition getPropertyArray :: "json option \<Rightarrow> table_row list result" where
  "getPropertyArray properties =
     (case properties of
        None \<Rightarrow> Inr []
      | Some v \<Rightarrow>
          (case array_length v of
             Some n \<Rightarrow> if n = 0 then Inr [] else Inl TypeError
           | None \<Rightarrow> (case v of JObj kvs \<Rightarrow> Inr (map property_row kvs) | _ \<Rightarrow> Inr [])))"

definition table_formatTimeStamp :: "libs \<Rightarrow> real \<Rightarrow> string" where
  "table_formatTimeStamp L milliseconds = getTimeStamp L milliseconds False"

section \<open>The detail of a traced operation\<close>

definition getJSONString :: "json option \<Rightarrow> string option" where
  "getJSONString v = map_option (JSON_stringify_gap 2) v"

definition isNullOrUndefined :: "json option \<Rightarrow> bool" where
  "isNullOrUndefined v \<longleftrightarrow> v = Some JNull \<or> v = None"

definition detail_getTimeStamp :: "libs \<Rightarrow> real \<Rightarrow> string" where
  "detail_getTimeStamp L time = moment_local_format L time ''M/D/YY hh:mm:ss.SSS A''"

section \<open>Filtering by name\<close>

definition named :: "string \<Rightarrow> json \<Rightarrow> bool result" where
  "named name item =
     (case item of
        JStr s \<Rightarrow> Inr (indexOf (toLowerCase name) (toLowerCase s) \<noteq> None)
      | JNull \<Rightarrow> Inl TypeError
      | _ \<Rightarrow>
          (case jget ''name'' item of
             None \<Rightarrow> Inr False
           | Some n \<Rightarrow>
               if \<not> json_truthy n then Inr False
               else (case n of
                       JStr s \<Rightarrow> Inr (indexOf (toLowerCase name) (toLowerCase s) \<noteq> None)
                     | _ \<Rightarrow> Inl TypeError)))"

fun filter_result :: "('a \<Rightarrow> bool result) \<Rightarrow> 'a list \<Rightarrow> 'a list result" where
  "filter_result p [] = Inr []"
| "filter_result p (x # xs) =
     (case p x of
        Inl e \<Rightarrow> Inl e
      | Inr b \<Rightarrow> (case filter_result p xs of Inl e \<Rightarrow> Inl e | Inr ys \<Rightarrow> Inr (if b then x # ys else ys)))"

definition filterByName :: "json list \<Rightarrow> string \<Rightarrow> json list result" where
  "filterByName v name = (if v = [] \<or> name = [] then Inr v else filter_result (named name) v)"

section \<open>The code editor\<close>

text \<open>
  The editor holds the text of the CodeMirror instance, once it exists, and the values it has passed
  on: \<open>ToChange\<close> to the emitter \<open>change\<close>, \<open>ToForm\<close> to the function a form has registered, which
  replaces the emitter.
\<close>

datatype editor_output = ToChange string | ToForm string

record editor =
  editorConfig :: "(string \<times> json) list"
  editorValue :: string
  instanceText :: "string option"
  formRegistered :: bool
  editorOutputs :: "editor_output list"

definition editor_defaults :: "(string \<times> json) list" where
  "editor_defaults = [(''lineNumbers'', JBool True), (''lineWrapping'', JBool False),
     (''autoRefresh'', JBool True), (''styleActiveLine'', JBool True), (''fixedGutter'', JBool True),
     (''matchBrackets'', JBool True), (''coverGutterNextToScrollbar'', JBool False),
     (''indentUnit'', JNum 0), (''tabSize'', JNum 4), (''smartIndent'', JBool True),
     (''theme'', JStr ''mdn-like''), (''mode'', JStr ''javascript'')]"

definition assignIn :: "(string \<times> 'v) list \<Rightarrow> (string \<times> 'v) list \<Rightarrow> (string \<times> 'v) list" where
  "assignIn obj src = fold (\<lambda>(k, v). obj_set k v) src obj"

definition editor_ngAfterViewInit :: "string \<Rightarrow> editor \<Rightarrow> editor" where
  "editor_ngAfterViewInit textarea e =
     e\<lparr>editorConfig := assignIn editor_defaults (editorConfig e), instanceText := Some textarea\<rparr>"

definition editor_onChanged :: "string \<Rightarrow> editor \<Rightarrow> editor" where
  "editor_onChanged v e =
     e\<lparr>editorOutputs := editorOutputs e @ [if formRegistered e then ToForm v else ToChange v]\<rparr>"

definition updateValue :: "string \<Rightarrow> editor \<Rightarrow> editor" where
  "updateValue v e = editor_onChanged v (e\<lparr>editorValue := v\<rparr>)"

text \<open>The instance reports a change of its text, one the user makes or one by \<open>setValue\<close>.\<close>

definition editor_on_change :: "editor \<Rightarrow> editor" where
  "editor_on_change e = (case instanceText e of None \<Rightarrow> e | Some s \<Rightarrow> updateValue s e)"

definition writeValue :: "string option \<Rightarrow> editor \<Rightarrow> editor" where
  "writeValue v e =
     (let e' = e\<lparr>editorValue := (case v of None \<Rightarrow> [] | Some s \<Rightarrow> s)\<rparr> in
      if instanceText e' = None then e' else e'\<lparr>instanceText := Some (editorValue e')\<rparr>)"

definition registerOnChange :: "editor \<Rightarrow> editor" where
  "registerOnChange e = e\<lparr>formRegistered := True\<rparr>"

section \<open>Properties\<close>

definition alert_ok :: "alert \<Rightarrow> bool \<Rightarrow> bool" where
  "alert_ok a h \<longleftrightarrow> autoDismiss a \<and>
     (isVisible a \<and> \<not> h \<longrightarrow> (\<exists>x \<in> set (timers a). snd x \<le> clock a + defaultTimeoutDelay))"

lemma alert_ok_start: "autoDismiss a \<Longrightarrow> alert_ok (start_timer a) h"
  by (simp add: alert_ok_def start_timer_def)

lemma alert_ok_auto: "alert_ok a h \<Longrightarrow> autoDismiss a"
  by (simp add: alert_ok_def)

lemma alert_ok_change: "alert_ok a h \<Longrightarrow> alert_ok (alert_ngOnChanges c a) h"
  using alert_ok_auto [of a h]
  by (auto simp: alert_ngOnChanges_def Let_def intro: alert_ok_start split: option.splits)

lemma alert_ok_elapse: "alert_ok a h \<Longrightarrow> alert_ok (elapse d a) (h \<and> isVisible (elapse d a))"
  by (fastforce simp: alert_ok_def elapse_def Let_def list_ex_iff)

lemma alert_reach_ok: "alert_reach t True a h \<Longrightarrow> alert_ok a h"
proof (induction rule: alert_reach.induct)
  case alert_new
  show ?case by (simp add: alert_ok_def new_alert_def)
next
  case (alert_leave a)
  then show ?case by (metis alert_onMouseLeave_def alert_ok_start alert_ok_auto)
qed (simp_all add: alert_ok_change alert_ok_elapse, simp_all add: alert_ok_def onMoustEnter_def alert_close_def)

text \<open>
  C23. A notification never stays: an alert that dismisses itself, in any state it can reach, is
  hidden four seconds later unless the mouse is on it, whatever messages, clicks and mouse moves
  came before.
\<close>

theorem alert_dismissed:
  assumes "alert_reach t True a False"
  shows "\<not> isVisible (elapse 4000 a)"
  using alert_reach_ok [OF assms]
  by (force simp: alert_ok_def elapse_def Let_def list_ex_iff defaultTimeoutDelay_def)

lemmas alert_timing = alert_ngOnChanges_def start_timer_def elapse_def new_alert_def onMoustEnter_def
  alert_onMouseLeave_def defaultTimeoutDelay_def Let_def

definition sample_alert :: alert where
  "sample_alert = alert_onMouseLeave (elapse 5000 (onMoustEnter
     (alert_ngOnChanges (Some (None, Some [''m''])) (new_alert ''alert-info'' True))))"

theorem alert_dismissed_witness:
  "isVisible (elapse 3999 sample_alert) \<and> \<not> isVisible (elapse 4000 sample_alert)"
proof -
  let ?a = "onMoustEnter (alert_ngOnChanges (Some (None, Some [''m''])) (new_alert ''alert-info'' True))"
  have r: "alert_reach ''alert-info'' True ?a True"
    by (rule alert_enter [OF alert_change [OF alert_new]])
      (simp add: alert_timing)
  have v: "isVisible (elapse 5000 ?a)" by (simp add: alert_timing)
  have "alert_reach ''alert-info'' True (elapse 5000 ?a) True"
    using alert_elapse [OF r, of 5000] v by simp
  then have "alert_reach ''alert-info'' True sample_alert False"
    unfolding sample_alert_def using v by (rule alert_leave)
  then have "\<not> isVisible (elapse 4000 sample_alert)" by (rule alert_dismissed)
  moreover have "isVisible (elapse 3999 sample_alert)" by (simp add: sample_alert_def alert_timing)
  ultimately show ?thesis by blast
qed

text \<open>
  A message that replaces another one is hidden by the timer of the first: \<open>ngOnChanges\<close> starts a
  timer and leaves the old one running.
\<close>

lemma alert_dismissed_early:
  assumes "0 < d" "d < 4000" "m \<noteq> m'" "m \<noteq> []" "m' \<noteq> []"
  shows "let a = alert_ngOnChanges (Some (Some m, Some m'))
                   (elapse d (alert_ngOnChanges (Some (None, Some m)) (new_alert t True)))
         in isVisible a \<and> alertMessages a = m' \<and> \<not> isVisible (elapse (4000 - d) a)"
  using assms by (simp add: alert_timing)

text \<open>
  C24. A failed request is announced, and for four seconds: after a component has passed its error to
  the notification service, the page shows one alert in the colours of an error with the status code
  and the message of the server; it is visible at every time before four seconds and hidden after.
\<close>

theorem failed_request_announced:
  "\<exists>a. area_alerts (notificationService_set (error_notification m err) (area_ngOnInit new_area)) = [a] \<and>
     alertMessages a = [error_text m err] \<and> getAlertType a ''alert'' = ''alert-danger alert'' \<and>
     (\<forall>d. isVisible (elapse d a) \<longleftrightarrow> d < 4000)"
proof -
  have l: "live (area_ngOnInit new_area) = [(0, ())]"
    by (simp add: area_ngOnInit_def new_area_def new_rt_def rt.defs)
  have c: "getNotificationTypeClass ''ERROR'' = ''alert-danger''"
    by (simp add: getNotificationTypeClass_def getNotificationType_def notification_type_of_def
        NotificationTypeUtil_def)
  let ?a = "alert_ngOnChanges (Some (None, Some [error_text m err])) (new_alert ''alert-danger'' True)"
  have "area_alerts (notificationService_set (error_notification m err) (area_ngOnInit new_area)) = [?a]"
    by (simp add: area_alerts_def notificationService_set_def l error_notification_def c)
  moreover have "alertMessages ?a = [error_text m err]" "alertType ?a = ''alert-danger''"
    "\<forall>d. isVisible (elapse d ?a) \<longleftrightarrow> d < 4000"
    by (auto simp: alert_timing)
  ultimately show ?thesis by (simp add: getAlertType_def alertTypes_def)
qed

text \<open>What a row of the table says of a field: the value, read back where it is shown as a text.\<close>

definition row_content :: "table_row \<Rightarrow> json result" where
  "row_content r =
     (if rowType r = ''object'' then (case rowValue r of JStr s \<Rightarrow> JSON_parse s | v \<Rightarrow> Inr v) else Inr (rowValue r))"

lemma row_content_property_row: "json_ok (snd kv) \<Longrightarrow> row_content (property_row kv) = Inr (snd kv)"
  by (simp add: row_content_def property_row_def Let_def parse_stringify_gap)

lemma rowKey_property_row [simp]: "rowKey (property_row kv) = fst kv"
  by (simp add: property_row_def Let_def)

text \<open>
  The table of properties shows every field of a document in its order and loses nothing: the key
  of a row is the key of the field, and the value, read back from the text where the field holds an
  object or an array, is its value. A document with a field \<open>length\<close> that holds a natural number is
  taken for an array: the table is empty for the number 0 and raises an error for any other.
\<close>

lemma property_table:
  assumes "json_ok (JObj kvs)"
  shows "case array_length (JObj kvs) of
      None \<Rightarrow> map_result (map (\<lambda>r. (rowKey r, row_content r))) (getPropertyArray (Some (JObj kvs))) =
                Inr (map (\<lambda>(k, v). (k, Inr v)) kvs)
    | Some n \<Rightarrow> getPropertyArray (Some (JObj kvs)) = (if n = 0 then Inr [] else Inl TypeError)"
proof (cases "array_length (JObj kvs)")
  case None
  then show ?thesis
    using assms by (auto simp: getPropertyArray_def row_content_property_row map_result_def list_all_iff)
next
  case (Some n)
  then show ?thesis by (simp add: getPropertyArray_def)
qed

lemma property_table_witness:
  "getPropertyArray (Some (JObj [(''length'', JNum 2)])) = Inl TypeError \<and>
   map_result (map (\<lambda>r. (rowKey r, row_content r)))
     (getPropertyArray (Some (JObj [(''selfLink'', JStr ''/a''), (''tags'', JArr [JNum 1, JNull])]))) =
   Inr [(''selfLink'', Inr (JStr ''/a'')), (''tags'', Inr (JArr [JNum 1, JNull]))]"
  using property_table [of "[(''length'', JNum 2)]"]
    property_table [of "[(''selfLink'', JStr ''/a''), (''tags'', JArr [JNum 1, JNull])]"]
  by (simp add: array_length_def)

lemma assignIn_lookup:
  "distinct (map fst src) \<Longrightarrow> map_of (assignIn obj src) = map_of obj ++ map_of src"
proof (induction src arbitrary: obj)
  case (Cons kv src)
  then have "map_of (assignIn (obj_set (fst kv) (snd kv) obj) src) =
      (map_of obj)(fst kv \<mapsto> snd kv) ++ map_of src"
    by (simp add: map_of_obj_set)
  moreover have "map_of src (fst kv) = None" using Cons.prems by (auto simp: map_of_eq_None_iff)
  ultimately show ?case
    by (auto simp: assignIn_def case_prod_beta map_add_def fun_eq_iff split: option.splits)
qed (simp add: assignIn_def)

lemma filter_result_filter:
  "filter_result p xs = Inr ys \<Longrightarrow> ys = filter (\<lambda>x. p x = Inr True) xs"
  by (induction xs arbitrary: ys) (auto split: sum.splits if_splits)

lemma written_value_reported:
  "instanceText e \<noteq> None \<Longrightarrow> formRegistered e \<Longrightarrow>
     editorOutputs (editor_on_change (writeValue v e)) =
       editorOutputs e @ [ToForm (case v of None \<Rightarrow> [] | Some s \<Rightarrow> s)]"
  by (auto simp: writeValue_def editor_on_change_def updateValue_def editor_onChanged_def Let_def)

end
