(* ===== verification/CoreServices.thy ===== *)
theory CoreServices
  imports BaseServ
begin

text \<open>
  The services under \<open>modules/core\<close>, \<open>modules/i18n\<close> and \<open>modules/analytics\<close>: the storage, the
  switches of the configuration and the log they control, the language of the page, and the
  analytics the change of a language is reported to.
\<close>

section \<open>Storage\<close>

text \<open>
  \<open>modules/core/services/storage.service.ts\<close>. The storage of the browser maps texts to texts; what
  is stored is turned into a text, so \<open>null\<close> and \<open>undefined\<close> become \<open>"null"\<close> and
  \<open>"undefined"\<close>. \<^term>\<open>None\<close> as a value is \<open>undefined\<close>.
\<close>

type_synonym localStorage = "string \<rightharpoonup> string"

datatype StorageKey = USERNAME

definition storage_key :: "StorageKey \<Rightarrow> string" where
  "storage_key k = (case k of USERNAME \<Rightarrow> show_nat 0)"

definition setItem :: "StorageKey \<Rightarrow> json option \<Rightarrow> localStorage \<Rightarrow> localStorage" where
  "setItem key v st =
     st(storage_key key \<mapsto>
       (case v of
          None \<Rightarrow> ''undefined''
        | Some w \<Rightarrow> if w = JNull then ''null'' else JSON_stringify w))"

definition getItem :: "StorageKey \<Rightarrow> localStorage \<Rightarrow> json result" where
  "getItem key st = (case st (storage_key key) of None \<Rightarrow> Inr JNull | Some s \<Rightarrow> JSON_parse s)"

definition removeItem :: "StorageKey \<Rightarrow> localStorage \<Rightarrow> localStorage" where
  "removeItem key st = st(storage_key key := None)"

section \<open>Configuration\<close>

text \<open>\<open>modules/core/utils/config.ts\<close>: the flags of \<open>Config.DEBUG\<close> and the platform.\<close>

record Config =
  LEVEL_1 :: bool
  LEVEL_2 :: bool
  LEVEL_3 :: bool
  LEVEL_4 :: bool
  PLATFORM_TARGET :: string

definition new_Config :: Config where
  "new_Config = \<lparr>LEVEL_1 = False, LEVEL_2 = False, LEVEL_3 = False, LEVEL_4 = False, PLATFORM_TARGET = ''web''\<rparr>"

definition IS_WEB :: "Config \<Rightarrow> bool" where "IS_WEB c \<longleftrightarrow> PLATFORM_TARGET c = ''web''"
definition IS_MOBILE_NATIVE :: "Config \<Rightarrow> bool" where "IS_MOBILE_NATIVE c \<longleftrightarrow> PLATFORM_TARGET c = ''mobile_native''"
definition IS_MOBILE_HYBRID :: "Config \<Rightarrow> bool" where "IS_MOBILE_HYBRID c \<longleftrightarrow> PLATFORM_TARGET c = ''mobile_hybrid''"
definition IS_DESKTOP :: "Config \<Rightarrow> bool" where "IS_DESKTOP c \<longleftrightarrow> PLATFORM_TARGET c = ''desktop''"

text \<open>\<open>ENVIRONMENT\<close>, with the text the build has put into the source.\<close>

definition ENVIRONMENT :: "string \<Rightarrow> json" where
  "ENVIRONMENT env_config = (case JSON_parse env_config of Inl _ \<Rightarrow> JObj [] | Inr v \<Rightarrow> v)"

definition GET_SUPPORTED_LANGUAGES :: "(string \<times> string) list" where
  "GET_SUPPORTED_LANGUAGES =
     [(''en'', ''English''), (''es'', ''Spanish''), (''fr'', ''French''), (''ru'', ''Russian''), (''bg'', ''Bulgarian'')]"

definition IS_DEBUG_MODE :: "Config \<Rightarrow> bool" where
  "IS_DEBUG_MODE c \<longleftrightarrow> list_ex (\<lambda>b. b) [LEVEL_1 c, LEVEL_2 c, LEVEL_3 c, LEVEL_4 c]"

definition RESET :: "Config \<Rightarrow> Config" where
  "RESET c = c\<lparr>LEVEL_1 := False, LEVEL_2 := False, LEVEL_3 := False, LEVEL_4 := False\<rparr>"

section \<open>The log\<close>

text \<open>
  \<open>modules/core/services/logging\<close>: \<open>log.target.ts\<close>, \<open>console.target.ts\<close> and \<open>log.service.ts\<close>. A
  target is the least level it writes, and what it writes are calls of the console.
\<close>

datatype LogLevel = Debug | Info | Warning | Error

definition level_number :: "LogLevel \<Rightarrow> nat" where
  "level_number l = (case l of Debug \<Rightarrow> 0 | Info \<Rightarrow> 1 | Warning \<Rightarrow> 2 | Error \<Rightarrow> 4)"

datatype console_call = ConsoleLog json | ConsoleInfo json | ConsoleWarn json | ConsoleError json

record LogEvent =
  eventLevel :: LogLevel
  eventMessage :: json

definition writeToLog :: "LogEvent \<Rightarrow> console_call" where
  "writeToLog event =
     (case eventLevel event of
        Debug \<Rightarrow> ConsoleLog (eventMessage event)
      | Info \<Rightarrow> ConsoleInfo (eventMessage event)
      | Warning \<Rightarrow> ConsoleWarn (eventMessage event)
      | Error \<Rightarrow> ConsoleError (eventMessage event))"

definition target_log :: "LogLevel \<Rightarrow> LogEvent \<Rightarrow> console_call list" where
  "target_log minLogLevel event =
     (if level_number minLogLevel \<le> level_number (eventLevel event) then [writeToLog event] else [])"

text \<open>The arguments of a call of the service are collected in one array, the message.\<close>

definition logEvent :: "LogLevel \<Rightarrow> json list \<Rightarrow> LogLevel \<Rightarrow> console_call list" where
  "logEvent target msg level = target_log target \<lparr>eventLevel = level, eventMessage = JArr msg\<rparr>"

definition log_debug :: "Config \<Rightarrow> LogLevel list \<Rightarrow> json list \<Rightarrow> console_call list" where
  "log_debug c targets msg = (if LEVEL_4 c then concat (map (\<lambda>t. logEvent t msg Debug) targets) else [])"

definition log_error :: "Config \<Rightarrow> LogLevel list \<Rightarrow> json list \<Rightarrow> console_call list" where
  "log_error c targets err =
     (if LEVEL_4 c \<or> LEVEL_3 c then concat (map (\<lambda>t. logEvent t err Error) targets) else [])"

definition log_warn :: "Config \<Rightarrow> LogLevel list \<Rightarrow> json list \<Rightarrow> console_call list" where
  "log_warn c targets err =
     (if LEVEL_4 c \<or> LEVEL_2 c then concat (map (\<lambda>t. logEvent t err Warning) targets) else [])"

definition log_info :: "Config \<Rightarrow> LogLevel list \<Rightarrow> json list \<Rightarrow> console_call list" where
  "log_info c targets err =
     (if LEVEL_4 c \<or> LEVEL_1 c then concat (map (\<lambda>t. logEvent t err Info) targets) else [])"

section \<open>Analytics\<close>

text \<open>
  \<open>modules/analytics/services/analytics.service.ts\<close>: the developer mode and the calls of the
  analytics library. The properties of a tracked action are its category and its label.
\<close>

record AnalyticsProperties =
  trackCategory :: "string option"
  trackLabel :: "string option"

datatype analytics_call = EventTrack string AnalyticsProperties | PageTrack string | SetUserProperties json

record analytics =
  developerMode :: bool
  tracked :: "analytics_call list"

definition devMode :: "bool option \<Rightarrow> analytics \<Rightarrow> analytics" where
  "devMode enable a = (case enable of None \<Rightarrow> a | Some b \<Rightarrow> a\<lparr>developerMode := b\<rparr>)"

definition new_analytics :: "bool \<Rightarrow> analytics" where
  "new_analytics b = devMode (Some False) \<lparr>developerMode = b, tracked = []\<rparr>"

definition analytics_call :: "analytics_call \<Rightarrow> analytics \<Rightarrow> analytics" where
  "analytics_call call a = (if \<not> developerMode a then a\<lparr>tracked := tracked a @ [call]\<rparr> else a)"

definition service_track :: "string \<Rightarrow> AnalyticsProperties \<Rightarrow> analytics \<Rightarrow> analytics" where
  "service_track action props a = analytics_call (EventTrack action props) a"

definition pageTrack :: "string \<Rightarrow> analytics \<Rightarrow> analytics" where
  "pageTrack path a = analytics_call (PageTrack path) a"

definition identify :: "json \<Rightarrow> analytics \<Rightarrow> analytics" where
  "identify props a = analytics_call (SetUserProperties props) a"

text \<open>\<open>Analytics.track\<close>, for a subclass with its category.\<close>

definition track :: "string \<Rightarrow> string \<Rightarrow> AnalyticsProperties \<Rightarrow> analytics \<Rightarrow> analytics" where
  "track category action props a = service_track action (props\<lparr>trackCategory := Some category\<rparr>) a"

section \<open>The language of the page\<close>

text \<open>
  \<open>modules/core/utils/type.ts\<close>: the labels of the actions are registered, once each.
\<close>

definition type_label :: "string \<Rightarrow> string set \<Rightarrow> (string \<times> string set) result" where
  "type_label label typeCache =
     (if label \<in> typeCache then
        Inl (ErrorMsg (''Action type '' @ [CHR 0x22] @ label @ [CHR 0x22] @ '' is not unqiue'' @ [CHR 0x22]))
      else Inr (label, insert label typeCache))"

definition CATEGORY :: string where "CATEGORY = ''Multilingual''"

datatype lang_action = ChangeAction string | LangChangedAction string | LangUnsupportedAction string

definition action_type :: "lang_action \<Rightarrow> string" where
  "action_type a =
     ''['' @ CATEGORY @ '']'' @
       (case a of
          ChangeAction _ \<Rightarrow> '' Change''
        | LangChangedAction _ \<Rightarrow> '' Lang Changed''
        | LangUnsupportedAction _ \<Rightarrow> '' Lang Unsupported'')"

definition initial_lang :: string where "initial_lang = ''en''"

text \<open>The state of the store is the language.\<close>

definition reducer :: "string \<Rightarrow> lang_action \<Rightarrow> string" where
  "reducer lang action =
     (case action of
        LangChangedAction l \<Rightarrow> if lang \<noteq> l then l else lang
      | _ \<Rightarrow> lang)"

text \<open>The effect \<open>change$\<close>: what an action \<open>Change\<close> is followed by, and what is tracked.\<close>

definition change_effect :: "(string \<times> string) list \<Rightarrow> string \<Rightarrow> analytics \<Rightarrow> lang_action \<times> analytics" where
  "change_effect languages lang a =
     (if lang \<in> set (map fst languages) then
        (let langChangedAction = LangChangedAction lang in
         (LangChangedAction lang,
          track CATEGORY (action_type langChangedAction) \<lparr>trackCategory = None, trackLabel = Some lang\<rparr> a))
      else (LangUnsupportedAction lang, a))"

text \<open>
  The store, the translations and the analytics: an action goes to the reducer and then to the
  effect, whose action goes to the reducer; each new state is passed to \<open>translate.use\<close>.
\<close>

record i18n =
  storeLang :: string
  defaultLang :: string
  usedLangs :: "string list"
  i18nAnalytics :: analytics

definition reduce :: "lang_action \<Rightarrow> i18n \<Rightarrow> i18n" where
  "reduce action s =
     (let l = reducer (storeLang s) action in
      if l = storeLang s then s else s\<lparr>storeLang := l, usedLangs := usedLangs s @ [l]\<rparr>)"

definition dispatch :: "(string \<times> string) list \<Rightarrow> lang_action \<Rightarrow> i18n \<Rightarrow> i18n" where
  "dispatch languages action s =
     (let s' = reduce action s in
      case action of
        ChangeAction lang \<Rightarrow>
          (let (next, a) = change_effect languages lang (i18nAnalytics s') in
           reduce next (s'\<lparr>i18nAnalytics := a\<rparr>))
      | _ \<Rightarrow> s')"

text \<open>The constructor of the service, with the language of the browser.\<close>

definition new_i18n :: "(string \<times> string) list \<Rightarrow> string \<Rightarrow> analytics \<Rightarrow> i18n" where
  "new_i18n languages navigator_language a =
     dispatch languages (ChangeAction (hd (js_split (CHR ''-'') navigator_language)))
       \<lparr>storeLang = initial_lang, defaultLang = initial_lang, usedLangs = [initial_lang], i18nAnalytics = a\<rparr>"

section \<open>The class of the platform\<close>

text \<open>\<open>modules/core/directives/platform.directive.ts\<close>.\<close>

definition platformClass :: "string \<Rightarrow> string" where
  "platformClass userAgent =
     (let agent = toLowerCase userAgent in
      if indexOf ''electron'' agent \<noteq> None then ''desktop''
      else if indexOf ''nativescript'' agent \<noteq> None then ''nativescript''
      else ''web'')"

section \<open>Properties\<close>

text \<open>
  The storage gives back what was stored: after any value has been stored, reading the key gives
  it, \<open>null\<close> included, and after the key has been removed reading gives \<open>null\<close>. The one exception
  is \<open>undefined\<close>, which is stored as a text that cannot be read back.
\<close>

lemma storage_roundtrip:
  assumes "\<forall>w. v = Some w \<longrightarrow> json_ok w"
  shows "getItem k (setItem k v st) = (case v of None \<Rightarrow> Inl SyntaxError | Some w \<Rightarrow> Inr w) \<and>
         getItem k (removeItem k st) = Inr JNull"
proof -
  have "JSON_parse ''undefined'' = Inl SyntaxError" by code_simp
  moreover have "JSON_parse ''null'' = Inr JNull" using parse_stringify [of JNull] by simp
  ultimately show ?thesis
    using assms by (auto simp: getItem_def setItem_def removeItem_def parse_stringify split: option.splits)
qed

lemma storage_roundtrip_witness:
  "getItem USERNAME (setItem USERNAME (Some (JStr ''guest'')) Map.empty) = Inr (JStr ''guest'') \<and>
   getItem USERNAME (setItem USERNAME None Map.empty) = Inl SyntaxError"
  using storage_roundtrip [of "Some (JStr ''guest'')" USERNAME Map.empty]
    storage_roundtrip [of None USERNAME Map.empty] by simp

lemmas log_defs = log_debug_def log_error_def log_warn_def log_info_def

text \<open>After \<open>RESET\<close> nothing is logged, whatever the targets.\<close>

lemma reset_silences:
  "\<not> IS_DEBUG_MODE (RESET c) \<and> log_debug (RESET c) ts m = [] \<and> log_error (RESET c) ts m = [] \<and>
   log_warn (RESET c) ts m = [] \<and> log_info (RESET c) ts m = []"
  by (simp add: log_defs RESET_def IS_DEBUG_MODE_def)

text \<open>A target that writes everything gets every message when the fourth level is on.\<close>

lemma level_4_logs_all:
  "LEVEL_4 c \<Longrightarrow> log_debug c [Debug] m = [ConsoleLog (JArr m)] \<and> log_info c [Debug] m = [ConsoleInfo (JArr m)] \<and>
     log_warn c [Debug] m = [ConsoleWarn (JArr m)] \<and> log_error c [Debug] m = [ConsoleError (JArr m)]"
  by (simp add: log_defs logEvent_def target_log_def writeToLog_def level_number_def)

definition lang_ok :: "(string \<times> string) list \<Rightarrow> i18n \<Rightarrow> bool" where
  "lang_ok languages s \<longleftrightarrow>
     storeLang s \<in> set (map fst languages) \<and> usedLangs s \<noteq> [] \<and> last (usedLangs s) = storeLang s"

lemma lang_ok_dispatch:
  "lang_ok languages s \<Longrightarrow> lang_ok languages (dispatch languages (ChangeAction l) s)"
  by (auto simp: lang_ok_def dispatch_def change_effect_def reduce_def reducer_def Let_def
      split: if_splits)

text \<open>
  C30. The page is always in a language it has translations for: whatever the language of the browser
  and whatever changes are asked for, in any order, the language of the store is a supported one,
  and it is the one the translations use; a change to a supported language takes effect.
\<close>

theorem language_supported:
  assumes "''en'' \<in> set (map fst languages)"
  shows "let s = fold (\<lambda>l. dispatch languages (ChangeAction l)) ls (new_i18n languages nav a)
         in storeLang s \<in> set (map fst languages) \<and> last (usedLangs s) = storeLang s \<and>
            (\<forall>l \<in> set (map fst languages). storeLang (dispatch languages (ChangeAction l) s) = l)"
proof -
  have new: "lang_ok languages (new_i18n languages nav a)"
    unfolding new_i18n_def by (rule lang_ok_dispatch) (use assms in \<open>simp add: lang_ok_def initial_lang_def\<close>)
  have "lang_ok languages (fold (\<lambda>l. dispatch languages (ChangeAction l)) ls s)"
    if "lang_ok languages s" for s
    using that by (induction ls arbitrary: s) (auto simp: lang_ok_dispatch)
  from this [OF new] show ?thesis
    by (auto simp: lang_ok_def dispatch_def change_effect_def reduce_def reducer_def Let_def)
qed

theorem language_supported_witness:
  "storeLang (fold (\<lambda>l. dispatch GET_SUPPORTED_LANGUAGES (ChangeAction l)) [''bg'', ''xx'']
     (new_i18n GET_SUPPORTED_LANGUAGES ''fr-CA'' (new_analytics True))) \<in> {''en'', ''es'', ''fr'', ''ru'', ''bg''} \<and>
   storeLang (new_i18n GET_SUPPORTED_LANGUAGES ''fr-CA'' (new_analytics True)) = ''fr''"
proof -
  have en: "''en'' \<in> set (map fst GET_SUPPORTED_LANGUAGES)" by (simp add: GET_SUPPORTED_LANGUAGES_def)
  show ?thesis
    using language_supported [OF en, of "[''bg'', ''xx'']" "''fr-CA''" "new_analytics True"]
    by (auto simp: Let_def GET_SUPPORTED_LANGUAGES_def new_i18n_def dispatch_def change_effect_def
        reduce_def reducer_def initial_lang_def)
qed

text \<open>The labels of the actions are different, so registering them never fails.\<close>

lemma action_labels_unique:
  "distinct (map action_type [ChangeAction l, LangChangedAction l, LangUnsupportedAction l])"
  by (simp add: action_type_def CATEGORY_def)

end
