(* ===== verification/StarCanvas.thy ===== *)
theory StarCanvas
  imports Complex_Main
begin

text \<open>
  \<open>components/login/star-canvas.component.ts\<close>: the stars behind the login form. Coordinates are
  real numbers; \<open>Math.random()\<close> is a sequence of numbers, of which the state counts those used, and
  what is drawn is a list of calls of the context, the oldest first.
\<close>

section \<open>The canvas and its stars\<close>

record star =
  star_x :: real
  star_y :: real
  star_width :: real
  star_height :: real
  star_radius :: real

datatype draw = ClearRect real real | Arc real real real | Line real real real real | Scale real

record star_canvas =
  canvas_width :: real
  canvas_height :: real
  style_size :: "(real \<times> real) option"
  origin_x :: real
  origin_y :: real
  stars :: "star list"
  randoms_used :: nat
  drawn :: "draw list"

definition starCount :: nat where "starCount = 250"
definition star_distance :: real where "star_distance = 70"
definition d_radius :: real where "d_radius = 150"

text \<open>
  \<open>ngAfterViewInit\<close>, with the size the canvas has before, the size of its parent and the two pixel
  ratios of the browser. The interval it starts calls \<open>render\<close>.
\<close>

definition star_ngAfterViewInit :: "real \<Rightarrow> real \<Rightarrow> real \<Rightarrow> real \<Rightarrow> real \<Rightarrow> real \<Rightarrow> star_canvas" where
  "star_ngAfterViewInit w h parent_w parent_h devicePixelRatio backingStoreRatio =
     (let ratio = devicePixelRatio / backingStoreRatio;
          s = \<lparr>canvas_width = parent_w, canvas_height = parent_h, style_size = None,
               origin_x = 30 * w / 100, origin_y = 30 * h / 100, stars = [], randoms_used = 0, drawn = []\<rparr> in
      if devicePixelRatio \<noteq> backingStoreRatio then
        s\<lparr>canvas_width := parent_w * ratio, canvas_height := parent_h * ratio,
          style_size := Some (parent_w, parent_h), drawn := [Scale ratio]\<rparr>
      else s)"

definition star_onMouseMove :: "real \<Rightarrow> real \<Rightarrow> star_canvas \<Rightarrow> star_canvas" where
  "star_onMouseMove x y s = s\<lparr>origin_x := x, origin_y := y\<rparr>"

definition star_onMouseLeave :: "star_canvas \<Rightarrow> star_canvas" where
  "star_onMouseLeave s = s\<lparr>origin_x := canvas_width s / 2, origin_y := canvas_height s / 2\<rparr>"

text \<open>The constructor of a star uses five random numbers.\<close>

definition new_star :: "(nat \<Rightarrow> real) \<Rightarrow> star_canvas \<Rightarrow> star" where
  "new_star random s =
     (let n = randoms_used s in
      \<lparr>star_x = random n * canvas_width s, star_y = random (n + 1) * canvas_height s,
       star_width = -1 + random (n + 2), star_height = -1 + random (n + 3),
       star_radius = 1 / 2 + 7 / 2 * random (n + 4)\<rparr>)"

definition star_create :: "star \<Rightarrow> draw" where
  "star_create s = Arc (star_x s) (star_y s) (star_radius s)"

definition star_move :: "real \<Rightarrow> real \<Rightarrow> star \<Rightarrow> star" where
  "star_move W H s =
     (let s' = (if star_y s < 0 \<or> H < star_y s then s\<lparr>star_height := - star_height s\<rparr>
                else if star_x s < 0 \<or> W < star_x s then s\<lparr>star_width := - star_width s\<rparr>
                else s) in
      s'\<lparr>star_x := star_x s' + star_width s', star_y := star_y s' + star_height s'\<rparr>)"

definition animate :: "star_canvas \<Rightarrow> star_canvas" where
  "animate s = s\<lparr>stars := fold (\<lambda>i st. st[i := star_move (canvas_width s) (canvas_height s) (st ! i)])
     [0..<starCount] (stars s)\<rparr>"

definition linked :: "star_canvas \<Rightarrow> star \<Rightarrow> star \<Rightarrow> bool" where
  "linked s iStar jStar \<longleftrightarrow>
     star_x iStar - star_x jStar < star_distance \<and> star_y iStar - star_y jStar < star_distance \<and>
     star_x iStar - star_x jStar > - star_distance \<and> star_y iStar - star_y jStar > - star_distance \<and>
     star_x iStar - origin_x s < d_radius \<and> star_y iStar - origin_y s < d_radius \<and>
     star_x iStar - origin_x s > - d_radius \<and> star_y iStar - origin_y s > - d_radius"

definition star_line :: "star_canvas \<Rightarrow> star_canvas" where
  "star_line s = s\<lparr>drawn := drawn s @
     concat (map (\<lambda>i. concat (map (\<lambda>j.
       let iStar = stars s ! i; jStar = stars s ! j in
       if linked s iStar jStar then [Line (star_x iStar) (star_y iStar) (star_x jStar) (star_y jStar)] else [])
       [0..<starCount])) [0..<starCount])\<rparr>"

text \<open>One round of the loop of \<open>render\<close>.\<close>

definition render_star :: "(nat \<Rightarrow> real) \<Rightarrow> nat \<Rightarrow> star_canvas \<Rightarrow> star_canvas" where
  "render_star random i s =
     (let s' = s\<lparr>stars := stars s @ [new_star random s], randoms_used := randoms_used s + 5\<rparr> in
      s'\<lparr>drawn := drawn s' @ [star_create (stars s' ! i)]\<rparr>)"

definition render :: "(nat \<Rightarrow> real) \<Rightarrow> star_canvas \<Rightarrow> star_canvas" where
  "render random s =
     (let s1 = s\<lparr>drawn := drawn s @ [ClearRect (canvas_width s) (canvas_height s)]\<rparr>;
          s2 = fold (render_star random) [0..<starCount] s1 in
      animate (star_line s2))"

section \<open>What happens to the canvas\<close>

inductive star_reach :: "(nat \<Rightarrow> real) \<Rightarrow> star_canvas \<Rightarrow> nat \<Rightarrow> star_canvas \<Rightarrow> bool" for random s0 where
  star_start: "star_reach random s0 0 s0"
| star_render: "star_reach random s0 n s \<Longrightarrow> star_reach random s0 (Suc n) (render random s)"
| star_mouse: "star_reach random s0 n s \<Longrightarrow> star_reach random s0 n (star_onMouseMove x y s)"
| star_leave: "star_reach random s0 n s \<Longrightarrow> star_reach random s0 n (star_onMouseLeave s)"

section \<open>Properties\<close>

text \<open>
  The loop over the array by index is a \<open>map\<close> over the stars that are drawn. All the indices the
  loops use exist: each render adds as many stars as it visits.
\<close>

lemma fold_update_map:
  "n \<le> length xs \<Longrightarrow> fold (\<lambda>i st. st[i := f (st ! i)]) [0..<n] xs = map f (take n xs) @ drop n xs"
proof (induction n)
  case (Suc n)
  then have "fold (\<lambda>i st. st[i := f (st ! i)]) [0..<Suc n] xs =
      (map f (take n xs) @ drop n xs)[n := f (xs ! n)]"
    by (simp add: nth_append min_def)
  also have "\<dots> = map f (take (Suc n) xs) @ drop (Suc n) xs"
    using Suc.prems by (simp add: list_update_append min_def take_Suc_conv_app_nth Cons_nth_drop_Suc [symmetric])
  finally show ?case .
qed simp

definition inside :: "real \<Rightarrow> star \<Rightarrow> bool" where
  "inside H s \<longleftrightarrow> - 1 \<le> star_height s \<and> star_height s \<le> 1 \<and>
     (0 \<le> star_y s \<and> star_y s \<le> H \<or> 0 \<le> star_y s - star_height s \<and> star_y s - star_height s \<le> H)"

lemma inside_new:
  assumes "\<And>n. 0 \<le> random n \<and> random n < 1" "0 \<le> canvas_height s"
  shows "inside (canvas_height s) (new_star random s)"
proof -
  have "0 \<le> random (n + 1) * canvas_height s" "random (n + 1) * canvas_height s \<le> canvas_height s" for n
    using assms by (simp_all add: mult_left_le_one_le less_imp_le)
  then show ?thesis
    using assms(1) [of "randoms_used s + 3"] by (simp add: inside_def new_star_def Let_def)
qed

lemma inside_move: "inside H s \<Longrightarrow> inside H (star_move W H s)"
  by (auto simp: inside_def star_move_def Let_def)

definition canvas_ok :: "real \<Rightarrow> nat \<Rightarrow> star_canvas \<Rightarrow> bool" where
  "canvas_ok H n s \<longleftrightarrow> canvas_height s = H \<and> length (stars s) = n \<and> (\<forall>x \<in> set (stars s). inside H x)"

lemma canvas_ok_render_star:
  assumes "\<And>n. 0 \<le> random n \<and> random n < 1" "0 \<le> H" "canvas_ok H n s"
  shows "canvas_ok H (Suc n) (render_star random i s)"
  using assms(3) inside_new [OF assms(1), of s] assms(2)
  by (auto simp: canvas_ok_def render_star_def Let_def)

lemma canvas_ok_loop:
  assumes "\<And>n. 0 \<le> random n \<and> random n < 1" "0 \<le> H" "canvas_ok H n s"
  shows "canvas_ok H (n + length is) (fold (render_star random) is s)"
  using assms(3)
proof (induction "is" arbitrary: n s)
  case (Cons i "is")
  from Cons.IH [OF canvas_ok_render_star [OF assms(1,2) Cons.prems]] show ?case by simp
qed simp

lemma canvas_ok_render:
  assumes "\<And>n. 0 \<le> random n \<and> random n < 1" "0 \<le> H" "canvas_ok H n s"
  shows "canvas_ok H (n + starCount) (render random s)"
proof -
  define s2 where "s2 = fold (render_star random) [0..<starCount]
    (s\<lparr>drawn := drawn s @ [ClearRect (canvas_width s) (canvas_height s)]\<rparr>)"
  have "canvas_ok H n (s\<lparr>drawn := drawn s @ [ClearRect (canvas_width s) (canvas_height s)]\<rparr>)"
    using assms(3) by (simp add: canvas_ok_def)
  from canvas_ok_loop [OF assms(1,2) this, of "[0..<starCount]"]
  have "canvas_ok H (n + starCount) s2" by (simp add: s2_def)
  then have "canvas_ok H (n + starCount) (animate (star_line s2))"
    by (auto simp: canvas_ok_def animate_def star_line_def fold_update_map
        dest: in_set_takeD in_set_dropD intro: inside_move)
  then show ?thesis by (simp add: render_def s2_def Let_def)
qed

lemma reach_canvas_ok:
  assumes "\<And>n. 0 \<le> random n \<and> random n < 1" "0 \<le> H" "canvas_ok H 0 s0" "star_reach random s0 n s"
  shows "canvas_ok H (starCount * n) s"
  using assms(4)
proof (induction rule: star_reach.induct)
  case star_start
  show ?case using assms(3) by simp
next
  case (star_render n s)
  from canvas_ok_render [OF assms(1,2) star_render.IH] show ?case by (simp add: add.commute)
qed (simp_all add: canvas_ok_def star_onMouseMove_def star_onMouseLeave_def)

lemma canvas_ok_init:
  "canvas_ok (canvas_height (star_ngAfterViewInit w h pw ph dr br)) 0 (star_ngAfterViewInit w h pw ph dr br)"
  by (simp add: canvas_ok_def star_ngAfterViewInit_def Let_def)

text \<open>
  No star leaves the canvas upwards or downwards by more than one pixel, at any time, however
  the mouse moves; and the array of stars grows without end: after \<open>n\<close> renders it holds 250 times \<open>n\<close>
  stars, although only the first 250 are drawn and moved.
\<close>

lemma stars_stay:
  assumes "\<And>n. 0 \<le> random n \<and> random n < 1"
    and "s0 = star_ngAfterViewInit w h pw ph dr br" "0 \<le> canvas_height s0"
    and "star_reach random s0 n s"
  shows "length (stars s) = 250 * n \<and>
         list_all (\<lambda>x. - 1 \<le> star_y x \<and> star_y x \<le> canvas_height s0 + 1) (stars s)"
proof -
  from canvas_ok_init have "canvas_ok (canvas_height s0) 0 s0" using assms(2) by blast
  from reach_canvas_ok [OF assms(1,3) this assms(4)]
  show ?thesis by (force simp: canvas_ok_def starCount_def list_all_iff inside_def)
qed

lemma stars_stay_witness:
  "length (stars (render (\<lambda>_. 0) (star_ngAfterViewInit 0 0 900 600 1 1))) = 250 \<and>
   list_all (\<lambda>x. - 1 \<le> star_y x \<and> star_y x \<le> 601) (stars (render (\<lambda>_. 0) (star_ngAfterViewInit 0 0 900 600 1 1)))"
  using stars_stay [of "\<lambda>_. 0" "star_ngAfterViewInit 0 0 900 600 1 1" 0 0 900 600 1 1 "Suc 0", OF _ refl _
      star_render [OF star_start]]
  by (simp add: star_ngAfterViewInit_def Let_def)

text \<open>
  A star that leaves through a corner does not come back: the change of its horizontal direction is
  skipped while it is above or below the canvas, and from then on it goes to and fro outside.
\<close>

lemma star_stuck:
  assumes "star_x s < 0" "star_x s - star_width s < 0"
    and "0 \<le> star_y s" "star_y s \<le> H" "0 \<le> star_y s + star_height s" "star_y s + star_height s \<le> H"
  shows "star_x (star_move W H s) < 0 \<and> star_x (star_move W H (star_move W H s)) = star_x s"
  using assms by (auto simp: star_move_def Let_def)

end
