(* ===== verification/SampleUi.thy ===== *)
theory SampleUi
  imports BaseServ
begin

text \<open>
  The custom user interface of the samples, an AngularJS application under
  \<open>xenon-samples/.../SampleServiceWithSharedCustomUi\<close>: its services \<open>utilService.js\<close>,
  \<open>pages/home/homeService.js\<close> and \<open>pages/addPage/addService.js\<close>, which make the requests, and its
  controllers \<open>parentController.js\<close>, \<open>pages/home/homeController.js\<close> and
  \<open>pages/addPage/addServiceController.js\<close>.
\<close>

section \<open>Requests\<close>

text \<open>
  A request of \<open>$http\<close>: the method, the address, the body and whether it carries the content type
  of \<open>CONSTANTS\<close>. The location is what \<open>$location\<close> reports of the page, the route parameters are
  those of the current route, \<^term>\<open>None\<close> for one that the route does not have.
\<close>

record ng_request =
  ng_method :: string
  ng_url :: string
  ng_data :: "json option"
  ng_json :: bool

record ng_location =
  loc_protocol :: string
  loc_host :: string
  loc_port :: nat
  loc_absUrl :: string

record routeParams =
  rp_path :: "string option"
  rp_serviceName :: "string option"
  rp_instanceId :: "string option"

definition UI_CUSTOM_BASE :: string where "UI_CUSTOM_BASE = ''/core/ui/custom#''"

definition getBaseUrl :: "ng_location \<Rightarrow> string" where
  "getBaseUrl l = loc_protocol l @ ''://'' @ loc_host l @ '':'' @ show_nat (loc_port l)"

definition getLocationParts :: "ng_location \<Rightarrow> string list" where
  "getLocationParts l = js_split (CHR ''/'') (loc_absUrl l)"

definition js_text :: "string option \<Rightarrow> string" where
  "js_text v = show_opt (\<lambda>s. s) v"

definition json_get :: "string \<Rightarrow> ng_request" where
  "json_get url = \<lparr>ng_method = ''GET'', ng_url = url, ng_data = None, ng_json = True\<rparr>"

definition getServiceTemplate :: "ng_location \<Rightarrow> string option \<Rightarrow> string option \<Rightarrow> ng_request" where
  "getServiceTemplate l path service =
     json_get (getBaseUrl l @ ''/'' @ js_text path @ ''/'' @ js_text service @ ''/template'')"

definition home_getSystemInfo :: "ng_location \<Rightarrow> ng_request" where
  "home_getSystemInfo l = json_get (getBaseUrl l @ ''/core/management'')"

definition getServicesInstances :: "ng_location \<Rightarrow> ng_request" where
  "getServicesInstances l = json_get (getBaseUrl l @ ''/core/document-index?documentSelfLink=*'')"

definition ng_getNodeGroups :: "ng_location \<Rightarrow> ng_request" where
  "ng_getNodeGroups l = json_get (getBaseUrl l @ ''/core/node-groups'')"

definition getFactoryServices :: "ng_location \<Rightarrow> ng_request" where
  "getFactoryServices l = json_get (getBaseUrl l @ ''/'')"

definition getServiceDocuments :: "ng_location \<Rightarrow> string option \<Rightarrow> string option \<Rightarrow> ng_request" where
  "getServiceDocuments l path service =
     json_get (getBaseUrl l @ ''/'' @ js_text path @ ''/'' @ js_text service)"

definition getServiceInstance ::
    "ng_location \<Rightarrow> string option \<Rightarrow> string option \<Rightarrow> string option \<Rightarrow> ng_request" where
  "getServiceInstance l path service inst =
     json_get (getBaseUrl l @ ''/'' @ js_text path @ ''/'' @ js_text service @ ''/'' @ js_text inst)"

definition home_deleteService :: "ng_location \<Rightarrow> string \<Rightarrow> ng_request" where
  "home_deleteService l selflink =
     \<lparr>ng_method = ''DELETE'', ng_url = getBaseUrl l @ selflink, ng_data = Some (JObj []), ng_json = True\<rparr>"

definition getServiceStats ::
    "ng_location \<Rightarrow> string option \<Rightarrow> string option \<Rightarrow> string option \<Rightarrow> ng_request" where
  "getServiceStats l path service inst =
     json_get
       (if truthy inst then
          getBaseUrl l @ ''/'' @ js_text path @ ''/'' @ js_text service @ ''/'' @ js_text inst @ ''/stats''
        else getBaseUrl l @ ''/'' @ js_text path @ ''/'' @ js_text service @ ''/stats'')"

definition service_url :: "ng_location \<Rightarrow> routeParams \<Rightarrow> string" where
  "service_url l rp = getBaseUrl l @ ''/'' @ js_text (rp_path rp) @ ''/'' @ js_text (rp_serviceName rp)"

definition add_createService :: "ng_location \<Rightarrow> routeParams \<Rightarrow> json \<Rightarrow> ng_request" where
  "add_createService l rp newService =
     \<lparr>ng_method = ''POST'', ng_url = service_url l rp, ng_data = Some newService, ng_json = True\<rparr>"

definition putService :: "ng_location \<Rightarrow> routeParams \<Rightarrow> json \<Rightarrow> ng_request" where
  "putService l rp service =
     \<lparr>ng_method = ''PUT'', ng_url = service_url l rp @ ''/'' @ js_text (rp_instanceId rp),
      ng_data = Some service, ng_json = True\<rparr>"

definition patchService :: "ng_location \<Rightarrow> routeParams \<Rightarrow> json \<Rightarrow> ng_request" where
  "patchService l rp service =
     \<lparr>ng_method = ''PATCH'', ng_url = service_url l rp @ ''/'' @ js_text (rp_instanceId rp),
      ng_data = Some service, ng_json = True\<rparr>"

definition add_deleteService :: "ng_location \<Rightarrow> routeParams \<Rightarrow> json option \<Rightarrow> ng_request" where
  "add_deleteService l rp callBody =
     (let req = \<lparr>ng_method = ''DELETE'', ng_url = service_url l rp @ ''/'' @ js_text (rp_instanceId rp),
                 ng_data = None, ng_json = False\<rparr> in
      case callBody of
        None \<Rightarrow> req
      | Some b \<Rightarrow> if json_truthy b then req\<lparr>ng_data := Some b, ng_json := True\<rparr> else req)"

section \<open>Names in camel case\<close>

definition strip_method :: "string \<Rightarrow> string \<times> string \<Rightarrow> string \<times> string" where
  "strip_method m ft =
     (if substr (snd ft) 0 (length m) = m then (m, drop (length m) (snd ft)) else ft)"

definition capitalize :: "string \<Rightarrow> string" where
  "capitalize s = (case s of [] \<Rightarrow> [] | c # r \<Rightarrow> if dot_char c then toUpperCase [c] @ r else s)"

definition formatCamelCaseString :: "string \<Rightarrow> string" where
  "formatCamelCaseString camelCaseString =
     (let (formattedText, s) = fold strip_method [''GET'', ''PUT'', ''POST'', ''PATCH'', ''DELETE'']
            ([], camelCaseString) in
      formattedText @ '' '' @ capitalize (rx_replace_all (RxClass is_upper) (\<lambda>m. '' '' @ m) s))"

section \<open>The scope and the parent controller\<close>

record notification_box =
  box_type :: "string option"
  box_text :: "json option"

record ng_scope =
  scope_path :: "string option"
  scope_service :: "string option"
  scope_instance :: "string option"
  scope_baseUrl :: string
  scope_uiBase :: string
  scope_notification :: notification_box

definition empty_box :: notification_box where
  "empty_box = \<lparr>box_type = None, box_text = None\<rparr>"

text \<open>The handler of \<open>$routeChangeSuccess\<close>.\<close>

definition on_routeChangeSuccess :: "ng_location \<Rightarrow> routeParams \<Rightarrow> ng_scope" where
  "on_routeChangeSuccess l rp =
     \<lparr>scope_path = rp_path rp, scope_service = rp_serviceName rp, scope_instance = rp_instanceId rp,
      scope_baseUrl = getBaseUrl l, scope_uiBase = UI_CUSTOM_BASE, scope_notification = empty_box\<rparr>"

definition box_close :: "ng_scope \<Rightarrow> ng_scope" where
  "box_close sc = sc\<lparr>scope_notification := empty_box\<rparr>"

definition set_box :: "string \<Rightarrow> json option \<Rightarrow> ng_scope \<Rightarrow> ng_scope" where
  "set_box t m sc = sc\<lparr>scope_notification := \<lparr>box_type = Some t, box_text = m\<rparr>\<rparr>"

text \<open>
  The error handler of every request, with \<open>error.data\<close>: the type is set before \<open>error.data.message\<close>
  is read, which fails when there is no data, as for a request that got no answer.
\<close>

definition ng_on_error :: "json \<Rightarrow> ng_scope \<Rightarrow> jserror option \<times> ng_scope" where
  "ng_on_error data sc =
     (if data = JNull then
        (Some TypeError, sc\<lparr>scope_notification := (scope_notification sc)\<lparr>box_type := Some ''danger''\<rparr>\<rparr>)
      else (None, set_box ''danger'' (jget ''message'' data) sc))"

section \<open>The home page\<close>

text \<open>
  The controller, with the requests it has made and the delays of the timers it has pending.
\<close>

record home =
  home_documents :: "string list"
  home_system :: "ServiceHostState option"
  home_memory :: "(string \<times> real) list"
  home_disk :: "(string \<times> real) list"
  maintenanceInterval :: real
  home_instance :: json
  home_requests :: "ng_request list"
  home_polls :: "real list"

definition poll :: "home \<Rightarrow> home" where
  "poll h = h\<lparr>home_polls := home_polls h @ [maintenanceInterval h]\<rparr>"

definition home_request :: "ng_request \<Rightarrow> home \<Rightarrow> home" where
  "home_request r h = h\<lparr>home_requests := home_requests h @ [r]\<rparr>"

definition getServiceList :: "ng_location \<Rightarrow> ng_scope \<Rightarrow> home \<Rightarrow> home" where
  "getServiceList l sc h = home_request (getServiceDocuments l (scope_path sc) (scope_service sc)) h"

definition new_home :: "ng_location \<Rightarrow> ng_scope \<Rightarrow> home" where
  "new_home l sc =
     (let h = getServiceList l sc (poll \<lparr>home_documents = [], home_system = None, home_memory = [], home_disk = [],
            maintenanceInterval = 1000, home_instance = JObj [], home_requests = [], home_polls = []\<rparr>) in
      if scope_instance sc \<noteq> None \<and> scope_instance sc \<noteq> Some [] then
        home_request (getServiceInstance l (scope_path sc) (scope_service sc) (scope_instance sc)) h
      else h)"

text \<open>A timer fires: the information is requested and the next timer is started.\<close>

definition home_on_timeout :: "ng_location \<Rightarrow> home \<Rightarrow> home" where
  "home_on_timeout l h = poll (home_request (home_getSystemInfo l) (h\<lparr>home_polls := tl (home_polls h)\<rparr>))"

definition home_on_system :: "ServiceHostState \<Rightarrow> home \<Rightarrow> home" where
  "home_on_system st h =
     (let i = systemInfo st in
      h\<lparr>home_system := Some st, maintenanceInterval := of_int (maintenanceIntervalMicros st) / 1000,
        home_disk := [(''Free Disk'', freeDiskByteCount i), (''Used Disk'', totalDiskByteCount i - freeDiskByteCount i)],
        home_memory := [(''Free Memory'', freeMemoryByteCount i),
          (''Used Memory'', totalMemoryByteCount i - freeMemoryByteCount i)]\<rparr>)"

definition home_on_documents :: "string list \<Rightarrow> home \<Rightarrow> home" where
  "home_on_documents links h = h\<lparr>home_documents := links\<rparr>"

definition home_on_instance :: "json \<Rightarrow> home \<Rightarrow> home" where
  "home_on_instance data h = h\<lparr>home_instance := data\<rparr>"

definition deleteInstance :: "ng_location \<Rightarrow> string \<Rightarrow> home \<Rightarrow> home" where
  "deleteInstance l service h = home_request (home_deleteService l service) h"

definition home_on_deleted :: "ng_location \<Rightarrow> nat \<Rightarrow> ng_scope \<times> home \<Rightarrow> ng_scope \<times> home" where
  "home_on_deleted l status s =
     (if status = 200 then
        (let sc = set_box ''success'' (Some (JStr ''Instance deleted successfully.'')) (fst s) in
         (sc, getServiceList l sc (snd s)))
      else s)"

text \<open>
  The application: the scope the controllers share, and every controller of the home page made so
  far. Each home route makes a new one; a controller whose page was left is not shown any more, but
  its timer was never cancelled, and its answers still arrive.
\<close>

record sample_app =
  app_scope :: ng_scope
  app_homes :: "home list"

definition new_app :: "ng_location \<Rightarrow> sample_app" where
  "new_app l = \<lparr>app_scope = on_routeChangeSuccess l \<lparr>rp_path = None, rp_serviceName = None, rp_instanceId = None\<rparr>,
     app_homes = []\<rparr>"

definition open_home :: "ng_location \<Rightarrow> routeParams \<Rightarrow> sample_app \<Rightarrow> sample_app" where
  "open_home l rp s =
     (let sc = on_routeChangeSuccess l rp in \<lparr>app_scope = sc, app_homes = app_homes s @ [new_home l sc]\<rparr>)"

text \<open>The route of the page that adds a service leaves the home page.\<close>

definition leave_home :: "ng_location \<Rightarrow> routeParams \<Rightarrow> sample_app \<Rightarrow> sample_app" where
  "leave_home l rp s = s\<lparr>app_scope := on_routeChangeSuccess l rp\<rparr>"

definition on_home :: "nat \<Rightarrow> (home \<Rightarrow> home) \<Rightarrow> sample_app \<Rightarrow> sample_app" where
  "on_home i f s = s\<lparr>app_homes := (app_homes s)[i := f (app_homes s ! i)]\<rparr>"

definition app_on_deleted :: "ng_location \<Rightarrow> nat \<Rightarrow> nat \<Rightarrow> sample_app \<Rightarrow> sample_app" where
  "app_on_deleted l i status s =
     (case home_on_deleted l status (app_scope s, app_homes s ! i) of
        (sc, h) \<Rightarrow> \<lparr>app_scope = sc, app_homes = (app_homes s)[i := h]\<rparr>)"

inductive home_reach :: "ng_location \<Rightarrow> sample_app \<Rightarrow> bool" for l where
  home_start: "home_reach l (new_app l)"
| home_open: "home_reach l s \<Longrightarrow> home_reach l (open_home l rp s)"
| home_leave: "home_reach l s \<Longrightarrow> home_reach l (leave_home l rp s)"
| home_timeout: "home_reach l s \<Longrightarrow> i < length (app_homes s) \<Longrightarrow> home_polls (app_homes s ! i) \<noteq> [] \<Longrightarrow>
    home_reach l (on_home i (home_on_timeout l) s)"
| home_system: "home_reach l s \<Longrightarrow> i < length (app_homes s) \<Longrightarrow> home_reach l (on_home i (home_on_system st) s)"
| home_documents: "home_reach l s \<Longrightarrow> i < length (app_homes s) \<Longrightarrow> home_reach l (on_home i (home_on_documents ds) s)"
| home_instance: "home_reach l s \<Longrightarrow> i < length (app_homes s) \<Longrightarrow> home_reach l (on_home i (home_on_instance v) s)"
| home_delete: "home_reach l s \<Longrightarrow> i < length (app_homes s) \<Longrightarrow> home_reach l (on_home i (deleteInstance l d) s)"
| home_deleted: "home_reach l s \<Longrightarrow> i < length (app_homes s) \<Longrightarrow> home_reach l (app_on_deleted l i n s)"
| home_error: "home_reach l s \<Longrightarrow> home_reach l (s\<lparr>app_scope := snd (ng_on_error e (app_scope s))\<rparr>)"
| home_close: "home_reach l s \<Longrightarrow> home_reach l (s\<lparr>app_scope := box_close (app_scope s)\<rparr>)"

section \<open>The page that adds a service\<close>

record add_page =
  add_documents :: "string list"
  documentTemplate :: json
  newDocument :: json
  add_requests :: "ng_request list"

definition add_request :: "ng_request \<Rightarrow> add_page \<Rightarrow> add_page" where
  "add_request r p = p\<lparr>add_requests := add_requests p @ [r]\<rparr>"

definition add_getServiceList :: "ng_location \<Rightarrow> routeParams \<Rightarrow> add_page \<Rightarrow> add_page" where
  "add_getServiceList l rp p = add_request (getServiceDocuments l (rp_path rp) (rp_serviceName rp)) p"

definition new_add_page :: "ng_location \<Rightarrow> routeParams \<Rightarrow> add_page" where
  "new_add_page l rp =
     add_getServiceList l rp (add_request (getServiceTemplate l (rp_path rp) (rp_serviceName rp))
       \<lparr>add_documents = [], documentTemplate = JObj [], newDocument = JObj [], add_requests = []\<rparr>)"

definition setNewDocument :: "add_page \<Rightarrow> add_page" where
  "setNewDocument p = p\<lparr>newDocument := documentTemplate p\<rparr>"

text \<open>
  \<open>for (var prop in templateDesc) templateDesc = templateDesc[prop]\<close>: the keys are those of the object
  the loop starts with, and each one is read from what the round before has left.
\<close>

fun descend :: "string list \<Rightarrow> json option \<Rightarrow> json option result" where
  "descend [] v = Inr v"
| "descend (prop # props) v =
     (case v of
        None \<Rightarrow> Inl TypeError
      | Some JNull \<Rightarrow> Inl TypeError
      | Some w \<Rightarrow> descend props (jget prop w))"

definition object_keys :: "json option \<Rightarrow> string list" where
  "object_keys v = (case v of Some (JObj kvs) \<Rightarrow> map fst kvs | _ \<Rightarrow> [])"

definition builtin_fields :: "string list" where
  "builtin_fields = [''documentDescription'', ''documentExpirationTimeMicros'', ''documentKind'',
     ''documentSelfLink'', ''documentUpdateTimeMicros'', ''documentVersion'']"

definition delete_fields :: "json option \<Rightarrow> json result" where
  "delete_fields v =
     (case v of
        None \<Rightarrow> Inl TypeError
      | Some JNull \<Rightarrow> Inl TypeError
      | Some (JObj kvs) \<Rightarrow> Inr (JObj (fold obj_delete builtin_fields kvs))
      | Some w \<Rightarrow> Inr w)"

text \<open>The answer to the request of the template, with \<open>response.data.documents\<close>.\<close>

definition add_on_template :: "json option \<Rightarrow> add_page \<Rightarrow> jserror option \<times> add_page" where
  "add_on_template docs p =
     (case descend (object_keys docs) docs of
        Inl e \<Rightarrow> (Some e, p)
      | Inr v \<Rightarrow>
          (case delete_fields v of
             Inl e \<Rightarrow> (Some e, p)
           | Inr templateDesc \<Rightarrow> (None, setNewDocument (p\<lparr>documentTemplate := templateDesc\<rparr>))))"

definition createDocument :: "ng_location \<Rightarrow> routeParams \<Rightarrow> add_page \<Rightarrow> add_page" where
  "createDocument l rp p = add_request (add_createService l rp (newDocument p)) p"

definition add_on_created :: "ng_location \<Rightarrow> routeParams \<Rightarrow> nat \<Rightarrow> ng_scope \<times> add_page \<Rightarrow> ng_scope \<times> add_page" where
  "add_on_created l rp status s =
     (if status = 200 then
        (set_box ''success'' (Some (JStr ''Service created successfully!'')) (fst s),
         add_getServiceList l rp (setNewDocument (snd s)))
      else s)"

definition add_on_documents :: "string list \<Rightarrow> add_page \<Rightarrow> add_page" where
  "add_on_documents links p = p\<lparr>add_documents := links\<rparr>"

section \<open>Properties\<close>

lemmas home_defs = poll_def home_request_def getServiceList_def home_on_system_def home_on_timeout_def
  home_on_documents_def home_on_instance_def deleteInstance_def

text \<open>The timers that are pending, over all controllers.\<close>

definition pending_polls :: "sample_app \<Rightarrow> nat" where
  "pending_polls s = sum_list (map (\<lambda>h. length (home_polls h)) (app_homes s))"

lemma home_polls_length:
  "length (home_polls (home_on_timeout l h)) = Suc (length (tl (home_polls h)))"
  "home_polls (home_on_system st h) = home_polls h" "home_polls (home_on_documents ds h) = home_polls h"
  "home_polls (home_on_instance v h) = home_polls h" "home_polls (deleteInstance l d h) = home_polls h"
  "length (home_polls (new_home l sc)) = 1"
  by (simp_all add: home_defs new_home_def Let_def)

lemma one_timer_each:
  assumes "home_reach l s"
  shows "list_all (\<lambda>h. length (home_polls h) = 1) (app_homes s)"
  using assms
proof (induction rule: home_reach.induct)
  case (home_deleted s i n)
  have "home_polls (snd (home_on_deleted l n (app_scope s, app_homes s ! i))) = home_polls (app_homes s ! i)"
    by (simp add: home_on_deleted_def home_defs Let_def)
  with home_deleted show ?case
    by (auto simp: app_on_deleted_def list_all_length nth_list_update split: prod.splits)
qed (auto simp: new_app_def open_home_def leave_home_def on_home_def home_polls_length list_all_length
    nth_append nth_list_update Let_def)

lemma pending_one_each:
  "list_all (\<lambda>h. length (home_polls h) = 1) (app_homes s) \<Longrightarrow> pending_polls s = length (app_homes s)"
  unfolding pending_polls_def by (induction "app_homes s" arbitrary: s) (auto simp: list_all_iff sum_list_triv cong: map_cong)

text \<open>
  C29. The home page polls the host without end, and every visit polls on: in every state the
  application can reach, whatever routes are opened and whatever answers and errors arrive, each
  controller of the home page made so far has one timer pending, also when its page was left. Opening
  a home route adds a timer and leaving the page removes none. When a timer fires, the request of the system
  information is made and the timer of that controller is pending again, so that the number of
  timers is the number of visits.
\<close>

theorem home_polls_pile_up:
  assumes "home_reach l s"
  shows "pending_polls s = length (app_homes s) \<and>
    pending_polls (open_home l rp s) = Suc (pending_polls s) \<and>
    pending_polls (leave_home l rp s) = pending_polls s \<and>
    (\<forall>i < length (app_homes s). length (home_polls (app_homes s ! i)) = 1 \<and>
       pending_polls (on_home i (home_on_timeout l) s) = pending_polls s \<and>
       last (home_requests (app_homes (on_home i (home_on_timeout l) s) ! i)) = home_getSystemInfo l)"
proof -
  note one = one_timer_each [OF assms]
  have pend: "home_reach l t \<Longrightarrow> pending_polls t = length (app_homes t)" for t
    using one_timer_each pending_one_each by blast
  have fires: "length (home_polls (app_homes s ! i)) = 1 \<and>
      pending_polls (on_home i (home_on_timeout l) s) = pending_polls s \<and>
      last (home_requests (app_homes (on_home i (home_on_timeout l) s) ! i)) = home_getSystemInfo l"
    if i: "i < length (app_homes s)" for i
  proof -
    have p: "length (home_polls (app_homes s ! i)) = 1" using one i by (simp add: list_all_length)
    then have "home_reach l (on_home i (home_on_timeout l) s)" using home_timeout [OF assms i] by fastforce
    from pend [OF this] pend [OF assms] p i show ?thesis by (simp add: on_home_def home_defs)
  qed
  have "pending_polls (open_home l rp s) = Suc (pending_polls s)" "pending_polls (leave_home l rp s) = pending_polls s"
    using pend [OF assms] pend [OF home_open [OF assms]] pend [OF home_leave [OF assms]]
    by (simp_all add: open_home_def leave_home_def Let_def)
  with pend [OF assms] fires show ?thesis by blast
qed

definition sample_location :: ng_location where
  "sample_location = \<lparr>loc_protocol = ''http'', loc_host = ''h'', loc_port = 8000, loc_absUrl = ''http://h:8000/''\<rparr>"

definition root_route :: routeParams where
  "root_route = \<lparr>rp_path = None, rp_serviceName = None, rp_instanceId = None\<rparr>"

theorem home_polls_pile_up_witness:
  "let s = open_home sample_location root_route (leave_home sample_location root_route
         (open_home sample_location root_route (new_app sample_location)))
   in pending_polls s = 2 \<and> last (home_requests (app_homes (on_home 0 (home_on_timeout sample_location) s) ! 0)) =
        home_getSystemInfo sample_location"
proof -
  let ?s = "open_home sample_location root_route (leave_home sample_location root_route
         (open_home sample_location root_route (new_app sample_location)))"
  have "home_reach sample_location ?s" by (intro home_open home_leave home_start)
  from home_polls_pile_up [OF this] show ?thesis
    by (simp add: open_home_def leave_home_def new_app_def Let_def)
qed

text \<open>The root route has no parameters, so the home page asks for a service called \<open>undefined\<close>.\<close>

lemma root_asks_undefined:
  "ng_url (hd (home_requests (new_home l (on_routeChangeSuccess l root_route)))) =
     getBaseUrl l @ ''/undefined/undefined''"
  by (simp add: new_home_def home_defs getServiceDocuments_def json_get_def js_text_def show_opt_def
      on_routeChangeSuccess_def root_route_def Let_def)

lemma map_of_fold_obj_delete:
  "map_of (fold obj_delete ks kvs) = (\<lambda>k. if k \<in> set ks then None else map_of kvs k)"
  by (induction ks arbitrary: kvs) (auto simp: map_of_obj_delete fun_eq_iff)

text \<open>
  The document the page creates is the template without the fields the framework fills in: when
  the template has one document, the body of the request to create is that document less the six
  fields, all the others kept. With no document the body is empty; with a second document whose name
  is not a field of the first the handler fails and the page keeps what it had.
\<close>

lemma template_document:
  assumes "k' \<notin> fst ` set kvs"
  shows "(\<exists>body. add_on_template (Some (JObj [(k, JObj kvs)])) p =
             (None, p\<lparr>documentTemplate := JObj body, newDocument := JObj body\<rparr>) \<and>
           map_of body = (\<lambda>f. if f \<in> set builtin_fields then None else map_of kvs f) \<and>
           ng_data (last (add_requests (createDocument l rp
             (p\<lparr>documentTemplate := JObj body, newDocument := JObj body\<rparr>)))) = Some (JObj body)) \<and>
         snd (add_on_template (Some (JObj [])) p) = p\<lparr>documentTemplate := JObj [], newDocument := JObj []\<rparr> \<and>
         add_on_template (Some (JObj [(k, JObj kvs), (k', v)])) p = (Some TypeError, p)"
proof -
  let ?body = "fold obj_delete builtin_fields kvs"
  have "jget k' (JObj kvs) = None" using assms by (simp add: jget_def map_of_eq_None_iff)
  moreover have "fold obj_delete builtin_fields ([] :: (string \<times> json) list) = []"
    by (simp add: builtin_fields_def obj_delete_def)
  ultimately show ?thesis
    by (auto simp: add_on_template_def object_keys_def jget_def delete_fields_def setNewDocument_def
        map_of_fold_obj_delete createDocument_def add_request_def add_createService_def intro!: exI [of _ ?body])
qed

lemma template_document_witness:
  "add_on_template (Some (JObj [(''a'', JObj [(''name'', JNull)]), (''b'', JNull)]))
     (new_add_page sample_location root_route) = (Some TypeError, new_add_page sample_location root_route)"
  using template_document [of "''b''" "[(''name'', JNull)]" "''a''" "new_add_page sample_location root_route"
      sample_location root_route JNull]
  by simp

text \<open>
  Formatting a name keeps its letters: less the blanks and the case, the text is the name, unless
  two methods start it, of which the first is lost.
\<close>

lemma spaced_letters:
  "CHR '' '' \<notin> set s \<Longrightarrow> filter (\<lambda>c. c \<noteq> CHR '' '') (rx_replace_all (RxClass is_upper) (\<lambda>m. '' '' @ m) s) = s"
  unfolding rx_replace_class by (induction s) auto

lemma lower_upper [simp]: "lower_char (upper_char c) = lower_char c"
proof -
  have "is_upper (upper_char c) \<and> lower_char (upper_char c) = c" if "is_lower c"
  proof -
    have n: "97 \<le> (of_char c :: nat)" "(of_char c :: nat) \<le> 122"
      using that by (auto simp: is_lower_def)
    then have "(of_char (upper_char c) :: nat) = of_char c - 32"
      using that by (simp add: upper_char_def)
    then show ?thesis using n that by (auto simp: is_upper_def lower_char_def)
  qed
  moreover have "\<not> is_upper c" if "is_lower c"
    using that by (auto simp: is_upper_def is_lower_def)
  ultimately show ?thesis by (cases "is_lower c") (auto simp: upper_char_def lower_char_def)
qed

lemma upper_blank [simp]: "upper_char c = CHR '' '' \<longleftrightarrow> c = CHR '' ''"
proof -
  have "upper_char c \<noteq> CHR '' ''" if "is_lower c"
  proof
    assume "upper_char c = CHR '' ''"
    then have "(of_char (upper_char c) :: nat) = 32" by simp
    moreover have "(of_char c :: nat) \<le> 122" "97 \<le> (of_char c :: nat)" using that by (auto simp: is_lower_def)
    ultimately show False using that by (simp add: upper_char_def)
  qed
  then show ?thesis by (cases "is_lower c") (auto simp: upper_char_def is_lower_def)
qed

lemma capitalize_letters:
  "toLowerCase (filter (\<lambda>c. c \<noteq> CHR '' '') (capitalize s)) = toLowerCase (filter (\<lambda>c. c \<noteq> CHR '' '') s)"
  by (cases s) (simp_all add: capitalize_def toLowerCase_def toUpperCase_def)

lemma camel_case_letters:
  assumes "fold strip_method [''GET'', ''PUT'', ''POST'', ''PATCH'', ''DELETE''] ([], s) = (m, r)"
    and "CHR '' '' \<notin> set m" "CHR '' '' \<notin> set r"
  shows "toLowerCase (filter (\<lambda>c. c \<noteq> CHR '' '') (formatCamelCaseString s)) = toLowerCase (m @ r)"
proof -
  have "filter (\<lambda>c. c \<noteq> CHR '' '') m = m" using assms(2) by (induction m) auto
  then show ?thesis
    unfolding formatCamelCaseString_def assms(1)
    by (simp add: toLowerCase_def capitalize_letters [unfolded toLowerCase_def] spaced_letters [OF assms(3)] del: append_Cons)
qed

end
