(* ===== verification/ChartViews.thy ===== *)
theory ChartViews
  imports NodeInfoPanel Dashboard ChildService
begin

text \<open>
  The charts of \<open>node-info-panel.component.ts\<close>, \<open>dashboard-card.component.ts\<close> and
  \<open>child-service-detail.component.ts\<close> as they are handed to chart.js: the type, the labels, the
  data, the style of the data set, the options and the texts of the tooltips; and the percentages
  beside the charts of a node, with \<open>toPrecision\<close> of the language. What chart.js draws is not
  modelled. A tooltip belongs to a value of the chart, so its index is in range.
\<close>

section \<open>Numbers with a precision\<close>

lemma floor_log10:
  "0 < x \<Longrightarrow> \<lfloor>log 10 (x * 10)\<rfloor> = \<lfloor>log 10 x\<rfloor> + 1" "0 < x \<Longrightarrow> \<lfloor>log 10 (x / 10)\<rfloor> = \<lfloor>log 10 x\<rfloor> - 1" for x :: real
  by (simp_all add: log_mult log_divide)

text \<open>
  The exponent of a positive number in decimal notation. Each step moves the integer part of the
  logarithm by one towards 0.
\<close>

function dec_exp :: "real \<Rightarrow> int" where
  "dec_exp x = (if x \<le> 0 then 0 else if x < 1 then dec_exp (x * 10) - 1 else if x < 10 then 0 else dec_exp (x / 10) + 1)"
  by pat_completeness auto

termination
proof (relation "measure (\<lambda>x. nat \<bar>\<lfloor>log 10 x\<rfloor>\<bar>)")
  fix x :: real
  assume "\<not> x \<le> 0" "x < 1"
  then have "log 10 x < 0" by simp
  then have "\<lfloor>log 10 x\<rfloor> < 0" by linarith
  then have "nat \<bar>\<lfloor>log 10 x\<rfloor> + 1\<bar> < nat \<bar>\<lfloor>log 10 x\<rfloor>\<bar>" by linarith
  then show "(x * 10, x) \<in> measure (\<lambda>x. nat \<bar>\<lfloor>log 10 x\<rfloor>\<bar>)"
    using floor_log10(1) [of x] \<open>\<not> x \<le> 0\<close> by simp
next
  fix x :: real
  assume "\<not> x \<le> 0" "\<not> x < 1" "\<not> x < 10"
  then have "1 \<le> log 10 x" by simp
  then have "0 < \<lfloor>log 10 x\<rfloor>" by linarith
  then show "(x / 10, x) \<in> measure (\<lambda>x. nat \<bar>\<lfloor>log 10 x\<rfloor>\<bar>)" using \<open>\<not> x \<le> 0\<close> by (simp add: floor_log10)
qed simp

declare dec_exp.simps [simp del]

lemma dec_exp_log: "0 < x \<Longrightarrow> dec_exp x = \<lfloor>log 10 x\<rfloor>"
proof (induction x rule: dec_exp.induct)
  case (1 x)
  show ?case
  proof (cases "1 \<le> x \<and> x < 10")
    case True
    then have "0 \<le> log 10 x" "log 10 x < 1" by simp_all
    then have "\<lfloor>log 10 x\<rfloor> = 0" by linarith
    then show ?thesis using True by (simp add: dec_exp.simps)
  next
    case False
    then show ?thesis using 1 by (auto simp: dec_exp.simps [of x] floor_log10)
  qed
qed

lemma dec_exp_bounds: "0 < x \<Longrightarrow> 10 powi dec_exp x \<le> x \<and> x < 10 powi (dec_exp x + 1)" for x :: real
proof
  assume x: "0 < x"
  have "10 powr real_of_int \<lfloor>log 10 x\<rfloor> \<le> 10 powr (log 10 x)" by simp
  then show "10 powi dec_exp x \<le> x" using x by (simp add: dec_exp_log powr_real_of_int')
  have "10 powr (log 10 x) < 10 powr real_of_int (\<lfloor>log 10 x\<rfloor> + 1)"
    by (rule powr_less_mono) linarith+
  then show "x < 10 powi (dec_exp x + 1)" using x by (simp add: dec_exp_log powr_real_of_int' del: of_int_add)
qed

text \<open>
  \<open>toPrecision(p)\<close> for a positive number: the digits as a number of \<open>p\<close> digits, the nearest one and the
  larger one of two, and the exponent of the first of them.
\<close>

definition precision_digits :: "nat \<Rightarrow> real \<Rightarrow> nat \<times> int" where
  "precision_digits p x =
     (let e = dec_exp x; n = nat \<lfloor>x / 10 powi (e - int p + 1) + 1 / 2\<rfloor> in
      if n = 10 ^ p then (10 ^ (p - 1), e + 1) else (n, e))"

definition precision_text :: "nat \<Rightarrow> nat \<Rightarrow> int \<Rightarrow> string" where
  "precision_text p n e =
     (let m = show_nat n in
      if e < -6 \<or> e \<ge> int p
      then take 1 m @ (if p = 1 then [] else ''.'' @ drop 1 m) @
           (if e \<ge> 0 then ''e+'' else ''e-'') @ show_nat (nat \<bar>e\<bar>)
      else if e = int p - 1 then m
      else if e \<ge> 0 then take (nat e + 1) m @ ''.'' @ drop (nat e + 1) m
      else ''0.'' @ replicate (nat (- (e + 1))) (CHR ''0'') @ m)"

definition toPrecision :: "nat \<Rightarrow> real \<Rightarrow> string" where
  "toPrecision p x =
     (if x = 0 then (if p = 1 then ''0'' else ''0.'' @ replicate (p - 1) (CHR ''0''))
      else (case precision_digits p \<bar>x\<bar> of (n, e) \<Rightarrow>
              (if x < 0 then ''-'' else []) @ precision_text p n e))"

lemma precision_digits_near:
  assumes "0 < x" "0 < p"
  shows "case precision_digits p x of (n, e) \<Rightarrow> 10 ^ (p - 1) \<le> n \<and> n < 10 ^ p \<and>
    \<bar>real n * 10 powi (e - int p + 1) - x\<bar> \<le> 10 powi (dec_exp x - int p + 1) / 2"
proof -
  define e where "e = dec_exp x"
  define u where "u = (10 :: real) powi (e - int p + 1)"
  define n where "n = nat \<lfloor>x / u + 1 / 2\<rfloor>"
  have u: "0 < u" by (simp add: u_def)
  have b: "10 powi e \<le> x" "x < 10 powi (e + 1)" using dec_exp_bounds [OF assms(1)] by (simp_all add: e_def)
  have pu: "10 powi e = 10 ^ (p - 1) * u" "10 powi (e + 1) = 10 ^ p * u"
  proof -
    have "(10 :: real) powi e = 10 powi (int (p - 1)) * 10 powi (e - int p + 1)"
      using assms(2) by (subst power_int_add [symmetric]) (simp_all add: of_nat_diff)
    then show "10 powi e = 10 ^ (p - 1) * u" by (simp add: u_def)
    have "(10 :: real) powi (e + 1) = 10 powi (int p) * 10 powi (e - int p + 1)"
      by (subst power_int_add [symmetric]) simp_all
    then show "10 powi (e + 1) = 10 ^ p * u" by (simp add: u_def)
  qed
  have q: "10 ^ (p - 1) \<le> x / u" "x / u < 10 ^ p"
    using b u by (simp_all add: pu le_divide_eq divide_less_eq)
  then have "0 \<le> x / u" using assms(1) u by simp
  then have n: "real n \<le> x / u + 1 / 2" "x / u + 1 / 2 < real n + 1"
    unfolding n_def by linarith+
  have lo: "10 ^ (p - 1) \<le> n"
  proof -
    have "real (10 ^ (p - 1)) < real n + 1" using n(2) q(1) by simp
    then show ?thesis by linarith
  qed
  have hi: "n \<le> 10 ^ p"
  proof -
    have "real n < real (10 ^ p) + 1" using n(1) q(2) by simp
    then show ?thesis by linarith
  qed
  have "\<bar>real n - x / u\<bar> \<le> 1 / 2" using n by linarith
  then have "\<bar>real n - x / u\<bar> * u \<le> u / 2" using u by (simp add: mult_right_mono)
  moreover have "\<bar>real n - x / u\<bar> * u = \<bar>real n * u - x\<bar>"
    using u by (simp add: abs_mult_pos left_diff_distrib)
  ultimately have near: "\<bar>real n * u - x\<bar> \<le> u / 2" by simp
  have d: "precision_digits p x = (if n = 10 ^ p then (10 ^ (p - 1), e + 1) else (n, e))"
    unfolding precision_digits_def Let_def e_def [symmetric] u_def [symmetric] n_def [symmetric] ..
  show ?thesis
  proof (cases "n = 10 ^ p")
    case True
    have "real (10 ^ (p - 1)) * 10 powi (e + 1 - int p + 1) = real n * u"
      using assms(2) True by (cases p) (simp_all add: u_def power_int_add)
    then show ?thesis
      using True near assms(2) unfolding d e_def [symmetric] u_def [symmetric]
      by (simp del: of_nat_power add: power_strict_increasing)
  next
    case False
    then show ?thesis
      using lo hi near unfolding d e_def [symmetric] by (simp add: u_def)
  qed
qed

text \<open>Reading a text of digits with at most one point as a number.\<close>

definition decimal_value :: "string \<Rightarrow> real" where
  "decimal_value t =
     (let whole = takeWhile (\<lambda>c. c \<noteq> CHR ''.'') t; frac = drop 1 (dropWhile (\<lambda>c. c \<noteq> CHR ''.'') t)
      in real (read_nat (whole @ frac)) / 10 ^ length frac)"

lemma length_show_nat: "10 ^ k \<le> n \<Longrightarrow> n < 10 ^ Suc k \<Longrightarrow> length (show_nat n) = Suc k"
proof (induction k arbitrary: n)
  case 0
  then show ?case by (simp add: show_nat.simps)
next
  case (Suc k)
  have "10 ^ k \<le> n div 10" "n div 10 < 10 ^ Suc k" using Suc.prems by (simp_all add: less_eq_div_iff_mult_less_eq div_less_iff_less_mult mult.commute)
  moreover have "\<not> n < 10"
  proof -
    have "1 \<le> (10 :: nat) ^ k" by simp
    then show ?thesis using Suc.prems(1) unfolding power_Suc by linarith
  qed
  ultimately show ?case using Suc.IH [of "n div 10"] by (simp add: show_nat.simps [of n])
qed

lemma digits_no_point: "\<forall>c\<in>set t. is_digit c \<Longrightarrow> CHR ''.'' \<notin> set t"
  by (auto simp: is_digit_def)

lemma decimal_value_point:
  "\<forall>c\<in>set a. is_digit c \<Longrightarrow> decimal_value (a @ ''.'' @ b) = real (read_nat (a @ b)) / 10 ^ length b"
proof -
  assume "\<forall>c\<in>set a. is_digit c"
  then have "CHR ''.'' \<notin> set a" by (rule digits_no_point)
  then have *: "\<forall>c\<in>set a. c \<noteq> CHR ''.''" by auto
  show ?thesis
    using * by (simp add: decimal_value_def takeWhile_append2 dropWhile_append2)
qed

lemma decimal_value_whole: "\<forall>c\<in>set a. is_digit c \<Longrightarrow> decimal_value a = real (read_nat a)"
proof -
  assume "\<forall>c\<in>set a. is_digit c"
  then have "CHR ''.'' \<notin> set a" by (rule digits_no_point)
  then have "\<forall>c\<in>set a. c \<noteq> CHR ''.''" by auto
  then have t: "takeWhile (\<lambda>c. c \<noteq> CHR ''.'') a = a" "dropWhile (\<lambda>c. c \<noteq> CHR ''.'') a = []" by simp_all
  show ?thesis by (simp only: decimal_value_def Let_def t) simp
qed

lemma read_nat_zeros: "read_nat (replicate k (CHR ''0'') @ t) = read_nat t"
  by (induction k) (simp_all add: read_nat_def digit_val_def)

lemma precision_text_value:
  assumes "10 ^ (p - 1) \<le> n" "n < 10 ^ p" "0 < p" "-6 \<le> e" "e < int p"
  shows "decimal_value (precision_text p n e) = real n * 10 powi (e - int p + 1)"
proof -
  let ?m = "show_nat n"
  obtain q where q: "p = Suc q" using assms(3) by (cases p) auto
  have l: "length ?m = p" using length_show_nat [of q n] assms(1,2) by (simp add: q)
  have dm: "\<forall>c\<in>set ?m. is_digit c" by (simp add: show_nat_digits)
  have scale: "a / 10 ^ k = a * 10 powi (e - int p + 1)" if "int k = int p - e - 1" for a :: real and k
  proof -
    have "e - int p + 1 = - int k" using that by simp
    then show ?thesis by (simp add: power_int_minus divide_inverse)
  qed
  consider "e = int p - 1" | "0 \<le> e" "e < int p - 1" | "e < 0" using assms(5) by linarith
  then show ?thesis
  proof cases
    case 1
    then show ?thesis using assms(4,5) by (simp add: precision_text_def Let_def decimal_value_whole [OF dm])
  next
    case 2
    have "precision_text p n e = take (nat e + 1) ?m @ ''.'' @ drop (nat e + 1) ?m"
      using 2 assms(4,5) by (simp add: precision_text_def Let_def)
    moreover have "\<forall>c\<in>set (take (nat e + 1) ?m). is_digit c" using dm in_set_takeD by fast
    ultimately have "decimal_value (precision_text p n e) = real n / 10 ^ (p - (nat e + 1))"
      by (simp only: decimal_value_point append_take_drop_id read_show_nat length_drop l)
    then show ?thesis using 2 by (simp add: scale)
  next
    case 3
    have "precision_text p n e = ''0'' @ ''.'' @ (replicate (nat (- (e + 1))) (CHR ''0'') @ ?m)"
      using 3 assms(3,4) by (simp add: precision_text_def Let_def)
    moreover have "\<forall>c\<in>set ''0''. is_digit c" by (simp add: is_digit_def)
    ultimately have "decimal_value (precision_text p n e) = real n / 10 ^ (nat (- (e + 1)) + p)"
      using read_nat_zeros [of "Suc (nat (- (e + 1)))" ?m]
      by (simp only: decimal_value_point length_append length_replicate l) simp
    then show ?thesis using 3 by (simp add: scale)
  qed
qed

text \<open>
  A number that \<open>p\<close> digits print with at least one digit after the point, or the power of ten where
  they end, is printed with an error of at most half of the first decimal place.
\<close>

lemma toPrecision_near:
  assumes "0 < p" "x = 0 \<or> 1 / 10 ^ 6 \<le> x" "x \<le> 10 ^ (p - 1)"
  shows "\<bar>decimal_value (toPrecision p x) - x\<bar> \<le> 1 / 20"
proof (cases "x = 0")
  case True
  have z: "\<forall>c\<in>set ''0''. is_digit c" by (simp add: is_digit_def)
  have "decimal_value ''0'' = 0" by (simp add: decimal_value_whole [OF z] read_nat_def digit_val_def)
  moreover have "decimal_value (''0.'' @ replicate (p - 1) (CHR ''0'')) = 0"
    using decimal_value_point [OF z, of "replicate (p - 1) (CHR ''0'')"] read_nat_zeros [of p "[]"] assms(1)
    by (cases p) (simp_all add: read_nat_def)
  ultimately show ?thesis using True by (simp add: toPrecision_def)
next
  case False
  then have x: "1 / 10 ^ 6 \<le> x" using assms(2) by simp
  then have pos: "0 < x" by (rule less_le_trans [rotated]) simp
  obtain n e where ne: "precision_digits p x = (n, e)" by force
  have n: "10 ^ (p - 1) \<le> n" "n < 10 ^ p"
    and near: "\<bar>real n * 10 powi (e - int p + 1) - x\<bar> \<le> 10 powi (dec_exp x - int p + 1) / 2"
    using precision_digits_near [OF pos assms(1)] by (simp_all add: ne)
  have ten: "10 powi i < (10 :: real) powi j \<Longrightarrow> i < j" for i j
    by (rule ccontr) (simp add: not_less power_int_increasing leD)
  have "10 powi (- 6) < (10 :: real) powi (dec_exp x + 1)"
    using dec_exp_bounds [OF pos] x by (simp add: power_int_minus)
  then have "- 6 < dec_exp x + 1" by (rule ten)
  then have lo: "- 6 \<le> dec_exp x" by simp
  show ?thesis
  proof (cases "x = 10 ^ (p - 1)")
    case True
    have "x = 10 powi int (p - 1)" by (simp add: True)
    then have "10 powi int (p - 1) < (10 :: real) powi (dec_exp x + 1)" "10 powi dec_exp x < (10 :: real) powi (int (p - 1) + 1)"
      using dec_exp_bounds [OF pos] by (simp_all add: power_int_add)
    then have d: "dec_exp x = int p - 1" using ten [of "int (p - 1)" "dec_exp x + 1"] ten [of "dec_exp x" "int (p - 1) + 1"] assms(1) by simp
    have "nat \<lfloor>x / 10 powi (dec_exp x - int p + 1) + 1 / 2\<rfloor> = 10 ^ (p - 1)"
    proof -
      have "\<lfloor>real (10 ^ (p - 1)) + 1 / 2\<rfloor> = int (10 ^ (p - 1))" by linarith
      moreover have "x / 10 powi (dec_exp x - int p + 1) = real (10 ^ (p - 1))" by (simp only: d) (simp add: True)
      ultimately show ?thesis by (simp only: nat_int)
    qed
    moreover have "(10 :: nat) ^ (p - 1) \<noteq> 10 ^ p" using assms(1) by simp
    ultimately have pd: "precision_digits p x = (10 ^ (p - 1), int p - 1)"
      by (simp add: precision_digits_def Let_def d)
    have "decimal_value (precision_text p (10 ^ (p - 1)) (int p - 1)) = x"
      using assms(1) by (subst precision_text_value) (simp_all add: True)
    then show ?thesis using pos by (simp add: toPrecision_def pd)
  next
    case False
    have "10 powi dec_exp x < (10 :: real) powi int (p - 1)"
      using dec_exp_bounds [OF pos] False assms(3) by simp
    then have "dec_exp x < int (p - 1)" by (rule ten)
    then have hi: "dec_exp x \<le> int p - 2" using assms(1) by simp
    have e: "e = dec_exp x \<or> e = dec_exp x + 1" using ne by (auto simp: precision_digits_def Let_def split: if_splits)
    have "decimal_value (precision_text p n e) = real n * 10 powi (e - int p + 1)"
      using n assms(1) lo hi e by (intro precision_text_value) auto
    moreover have "10 powi (dec_exp x - int p + 1) \<le> (10 :: real) powi (- 1)"
      using hi by (intro power_int_increasing) simp_all
    ultimately show ?thesis using near pos by (simp add: toPrecision_def ne power_int_minus)
  qed
qed

section \<open>Charts\<close>

text \<open>The values of the configuration objects.\<close>

datatype jsv = VNum real | VBool bool | VStr string | VArr "jsv list" | VObj "(string \<times> jsv) list"

definition vstrs :: "string list \<Rightarrow> jsv" where "vstrs xs = VArr (map VStr xs)"

definition vnums :: "real list \<Rightarrow> jsv" where "vnums xs = VArr (map VNum xs)"

definition chart_config :: "string \<Rightarrow> string list \<Rightarrow> real list \<Rightarrow> (string \<times> jsv) list \<Rightarrow> (string \<times> jsv) list \<Rightarrow> jsv" where
  "chart_config kind labels values style options =
     VObj [(''type'', VStr kind),
           (''data'', VObj [(''labels'', vstrs labels), (''datasets'', VArr [VObj ((''data'', vnums values) # style)])]),
           (''options'', VObj options)]"

text \<open>What chart.js reads of a configuration: the labels and the values of the only data set.\<close>

fun vget :: "string \<Rightarrow> jsv \<Rightarrow> jsv option" where
  "vget k (VObj kvs) = map_of kvs k"
| "vget k _ = None"

fun config_labels :: "jsv \<Rightarrow> string list" where
  "config_labels c =
     (case Option.bind (vget ''data'' c) (vget ''labels'') of
        Some (VArr vs) \<Rightarrow> [t. VStr t \<leftarrow> vs] | _ \<Rightarrow> [])"

fun config_values :: "jsv \<Rightarrow> real list" where
  "config_values c =
     (case Option.bind (vget ''data'' c) (vget ''datasets'') of
        Some (VArr [d]) \<Rightarrow> (case vget ''data'' d of Some (VArr vs) \<Rightarrow> [x. VNum x \<leftarrow> vs] | _ \<Rightarrow> []) | _ \<Rightarrow> [])"

lemma config_read [simp]:
  "config_labels (chart_config kind labels xs style options) = labels"
  "config_values (chart_config kind labels xs style options) = xs"
proof -
  have "[t. VStr t \<leftarrow> map VStr labels] = labels" by (induction labels) simp_all
  moreover have "[x. VNum x \<leftarrow> map VNum xs] = xs" by (induction xs) simp_all
  ultimately show
    "config_labels (chart_config kind labels xs style options) = labels"
    "config_values (chart_config kind labels xs style options) = xs"
    by (simp_all add: chart_config_def vstrs_def vnums_def)
qed

subsection \<open>The panel of a node\<close>

text \<open>The settings of all charts, which the panel writes when its view is ready.\<close>

definition chart_defaults :: "(string \<times> jsv) list" where
  "chart_defaults =
     [(''title.display'', VBool False), (''legend.display'', VBool False), (''animation.duration'', VNum 200),
      (''tooltips.displayColors'', VBool False),
      (''tooltips.bodyFontFamily'', VStr ([CHR 0x22] @ ''Helvetica Neue'' @ [CHR 0x22] @ '', '' @ [CHR 0x22] @ ''Arial'' @ [CHR 0x22] @ '', sans-serif'')),
      (''tooltips.bodyFontSize'', VNum 16), (''tooltips.backgroundColor'', VStr ''rgba(33, 33, 33, .75)''),
      (''tooltips.cornerRadius'', VNum 4), (''tooltips.xPadding'', VNum 12), (''tooltips.yPadding'', VNum 12),
      (''tooltips.titleSpacing'', VNum 0)]"

definition doughnut_style :: "string \<Rightarrow> (string \<times> jsv) list" where
  "doughnut_style rgb =
     [(''backgroundColor'', vstrs [''rgba('' @ rgb @ '', .25)'', ''rgba(189, 189, 189, .25)'']),
      (''borderColor'', vstrs [''rgba('' @ rgb @ '', 1)'', ''rgba(189, 189, 189, 1)'']),
      (''borderWidth'', VNum 1)]"

definition memory_config :: "SystemHostInfo \<Rightarrow> jsv" where
  "memory_config i =
     chart_config ''doughnut'' [''Used Memory'', ''Available Memory'']
       [totalMemoryByteCount i - freeMemoryByteCount i, freeMemoryByteCount i]
       (doughnut_style ''41, 182, 246'') [(''cutoutPercentage'', VNum 80)]"

definition disk_config :: "SystemHostInfo \<Rightarrow> jsv" where
  "disk_config i =
     chart_config ''doughnut'' [''Used Disk'', ''Available Disk'']
       [totalDiskByteCount i - freeDiskByteCount i, freeDiskByteCount i]
       (doughnut_style ''156, 204, 101'') [(''cutoutPercentage'', VNum 80)]"

definition panel_tooltip :: "libs \<Rightarrow> jsv \<Rightarrow> nat \<Rightarrow> string" where
  "panel_tooltip L c k = config_labels c ! k @ '': '' @ formatDataSize L (config_values c ! k)"

text \<open>
  The percentage of what is not free. Division by 0 is not a number for nothing of nothing and
  infinite otherwise.
\<close>

definition usage_percentage :: "real \<Rightarrow> real \<Rightarrow> string" where
  "usage_percentage free_bytes all_bytes =
     (if all_bytes = 0 then (if free_bytes = 0 then ''NaN'' else if free_bytes > 0 then ''-Infinity'' else ''Infinity'')
      else toPrecision 3 ((1 - free_bytes / all_bytes) * 100))"

definition getMemoryUsagePercentage :: "panel \<Rightarrow> string" where
  "getMemoryUsagePercentage s =
     (case highlightedNodeDetails s of
        None \<Rightarrow> ''0''
      | Some d \<Rightarrow> usage_percentage (freeMemoryByteCount (systemInfo d)) (totalMemoryByteCount (systemInfo d)))"

definition getDiskUsagePercentage :: "panel \<Rightarrow> string" where
  "getDiskUsagePercentage s =
     (case highlightedNodeDetails s of
        None \<Rightarrow> ''0''
      | Some d \<Rightarrow> usage_percentage (freeDiskByteCount (systemInfo d)) (totalDiskByteCount (systemInfo d)))"

subsection \<open>The cards of the dashboard\<close>

text \<open>The configuration of a chart of a card; \<open>_.min\<close> and \<open>_.max\<close> of no data times a number is not a number.\<close>

definition line_style :: "string \<Rightarrow> string \<Rightarrow> (string \<times> jsv) list" where
  "line_style background border =
     [(''fill'', VBool True), (''lineTension'', VNum (1 / 10)), (''backgroundColor'', VStr background),
      (''borderColor'', VStr border), (''borderJoinStyle'', VStr ''round''), (''borderCapStyle'', VStr ''butt''),
      (''borderWidth'', VNum 4), (''pointRadius'', VNum 1), (''pointHitDetectionRadius'', VNum 10),
      (''pointBackgroundColor'', VStr ''#fff''), (''pointBorderWidth'', VNum 1), (''pointHoverRadius'', VNum 4),
      (''pointHoverBackgroundColor'', VStr ''#fff''), (''pointHoverBorderColor'', VStr border), (''pointHoverBorderWidth'', VNum 3)]"

definition no_grid :: "string \<times> jsv" where
  "no_grid = (''gridLines'', VObj [(''display'', VBool False)])"

definition line_options :: "(real \<times> real) option \<Rightarrow> (string \<times> jsv) list" where
  "line_options bounds =
     (let limits = (case bounds of None \<Rightarrow> [(''min'', VStr ''NaN''), (''max'', VStr ''NaN'')]
                                 | Some (lo, hi) \<Rightarrow> [(''min'', VNum lo), (''max'', VNum hi)]) in
      [(''scales'', VObj
         [(''xAxes'', VArr [VObj [(''ticks'', VObj [(''maxTicksLimit'', VNum 5), (''maxRotation'', VNum 0)]), no_grid]]),
          (''yAxes'', VArr [VObj [(''display'', VBool False), (''ticks'', VObj ((''beginAtZero'', VBool False) # limits))]])])])"

definition bar_options :: "(string \<times> jsv) list" where
  "bar_options = [(''scales'', VObj [(''xAxes'', VArr [VObj [no_grid]]), (''yAxes'', VArr [VObj [no_grid]])])]"

fun card_config :: "chart \<Rightarrow> jsv" where
  "card_config NoOptions = VObj []"
| "card_config (LineChart labels values background border bounds) =
     chart_config ''line'' labels values (line_style background border) (line_options bounds)"
| "card_config (BarChart labels values background border) =
     chart_config ''bar'' labels values
       [(''backgroundColor'', vstrs background), (''borderColor'', vstrs border), (''borderWidth'', VNum 1)] bar_options"

definition card_tooltip :: "libs \<Rightarrow> string \<Rightarrow> jsv \<Rightarrow> nat \<Rightarrow> string" where
  "card_tooltip L unit_name c k = formatData L (config_values c ! k) unit_name"

subsection \<open>The charts of a child service\<close>

definition radar_style :: "(string \<times> jsv) list" where
  "radar_style =
     [(''backgroundColor'', VStr ''rgba(38, 198, 218, .25)''), (''pointRadius'', VNum 3),
      (''borderColor'', VStr ''rgba(38, 198, 218, 1)''), (''pointBackgroundColor'', VStr ''rgba(38, 198, 218, 1)''),
      (''pointBorderColor'', VStr ''#fff''), (''pointHoverRadius'', VNum 4), (''pointHoverBackgroundColor'', VStr ''#fff''),
      (''pointHoverBorderColor'', VStr ''rgba(38, 198, 218, 1)''), (''borderWidth'', VNum 1)]"

definition count_config :: "real list \<Rightarrow> jsv" where
  "count_config counts =
     chart_config ''radar'' OPERATIONS counts radar_style
       [(''scale'', VObj [(''ticks'', VObj [(''maxTicksLimit'', VNum 4)])])]"

definition duration_config :: "real list \<Rightarrow> jsv" where
  "duration_config durations =
     chart_config ''bar'' OPERATIONS durations
       [(''backgroundColor'', VStr ''rgba(255, 202, 40, .25)''), (''borderColor'', VStr ''rgba(255, 202, 40, 1)''),
        (''borderWidth'', VNum 1)]
       [(''scales'', VObj [(''xAxes'', VArr [VObj [no_grid]]), (''yAxes'', VArr [VObj [(''display'', VBool False)]])])]"

definition count_tooltip :: "libs \<Rightarrow> jsv \<Rightarrow> nat \<Rightarrow> string" where
  "count_tooltip L c k = formatNumber L (config_values c ! k) False @ '' requests''"

definition duration_tooltip :: "libs \<Rightarrow> jsv \<Rightarrow> nat \<Rightarrow> string" where
  "duration_tooltip L c k = formatDurationToMilliseconds L (config_values c ! k) @ '' ms''"

section \<open>Properties\<close>

lemma usage_near:
  assumes "0 < whole" "0 \<le> free_part" "free_part \<le> whole" "free_part = whole \<or> whole / 10 ^ 8 \<le> whole - free_part"
  shows "\<bar>decimal_value (usage_percentage free_part whole) - 100 * ((whole - free_part) / whole)\<bar> \<le> 1 / 20"
proof -
  let ?x = "(1 - free_part / whole) * 100"
  have x: "?x = 100 * ((whole - free_part) / whole)" using assms(1) by (simp add: field_simps)
  have "?x = 0 \<or> 1 / 10 ^ 6 \<le> ?x"
    using assms(1,4) unfolding x by (auto simp: field_simps)
  moreover have "?x \<le> 10 ^ (3 - 1)" using assms(1,2) unfolding x by (simp add: field_simps)
  ultimately have "\<bar>decimal_value (toPrecision 3 ?x) - ?x\<bar> \<le> 1 / 20" by (intro toPrecision_near) simp_all
  moreover have "usage_percentage free_part whole = toPrecision 3 ?x" using assms(1) by (simp add: usage_percentage_def)
  ultimately show ?thesis by (simp only: x)
qed

text \<open>
  The memory and the disk have the same contract: the chart and its configuration hold the used and
  the free part of the whole, and the text is the percentage of the used part.
\<close>

locale doughnut =
  fixes whole free_part :: "SystemHostInfo \<Rightarrow> real" and config :: "SystemHostInfo \<Rightarrow> jsv"
    and chart :: "panel \<Rightarrow> real list option" and usage :: "panel \<Rightarrow> string"
  assumes config_parts: "config_values (config i) = [whole i - free_part i, free_part i]"
    and chart_parts: "chart (panel_on_details h d s) = Some [whole (systemInfo d) - free_part (systemInfo d), free_part (systemInfo d)]"
    and usage_text: "usage (panel_on_details h d s) = usage_percentage (free_part (systemInfo d)) (whole (systemInfo d))"
begin

lemma printed_share:
  assumes "0 \<le> free_part (systemInfo d)" "free_part (systemInfo d) \<le> whole (systemInfo d)"
    and "free_part (systemInfo d) = whole (systemInfo d) \<or> whole (systemInfo d) / 10 ^ 8 \<le> whole (systemInfo d) - free_part (systemInfo d)"
  shows "\<exists>used avail. chart (panel_on_details h d s) = Some [used, avail] \<and> config_values (config (systemInfo d)) = [used, avail] \<and>
    (if whole (systemInfo d) = 0 then usage (panel_on_details h d s) = ''NaN''
     else \<bar>decimal_value (usage (panel_on_details h d s)) - 100 * (used / (used + avail))\<bar> \<le> 1 / 20)"
proof (cases "whole (systemInfo d) = 0")
  case True
  then show ?thesis
    using assms by (simp add: config_parts chart_parts usage_text usage_percentage_def del: config_values.simps)
next
  case False
  then have "0 < whole (systemInfo d)" using assms by simp
  from usage_near [OF this assms] False show ?thesis
    by (simp add: config_parts chart_parts usage_text del: config_values.simps)
qed

end

interpretation mem: doughnut totalMemoryByteCount freeMemoryByteCount memory_config memoryChart getMemoryUsagePercentage
  by unfold_locales (simp_all add: panel_on_details_def panel_renderChart_def memory_config_def getMemoryUsagePercentage_def Let_def
      del: config_values.simps)

interpretation dsk: doughnut totalDiskByteCount freeDiskByteCount disk_config diskChart getDiskUsagePercentage
  by unfold_locales (simp_all add: panel_on_details_def panel_renderChart_def disk_config_def getDiskUsagePercentage_def Let_def
      del: config_values.simps)

text \<open>
  C28. The percentage that is printed beside the doughnut of the memory of a node is the share of the
  first value of that chart, to one place after the point: when the details of a node arrive, with
  their system information, the chart holds what is used and what is free, and the text read as a
  number differs from the share of the used part by at most a twentieth. When there is no memory at
  all the text is \<open>NaN\<close>. The same holds for the disk. The hypotheses are that
  the free part is from 0 to the whole, and that the used share is 0 or at
  least a millionth of a percent, below which the text would have an exponent.
\<close>

theorem percentages_match_charts:
  assumes "s' = panel_on_details h d s" "i = systemInfo d"
    and "0 \<le> freeMemoryByteCount i" "freeMemoryByteCount i \<le> totalMemoryByteCount i"
    and "freeMemoryByteCount i = totalMemoryByteCount i \<or> totalMemoryByteCount i / 10 ^ 8 \<le> totalMemoryByteCount i - freeMemoryByteCount i"
    and "0 \<le> freeDiskByteCount i" "freeDiskByteCount i \<le> totalDiskByteCount i"
    and "freeDiskByteCount i = totalDiskByteCount i \<or> totalDiskByteCount i / 10 ^ 8 \<le> totalDiskByteCount i - freeDiskByteCount i"
  shows "\<exists>used avail used' avail'.
      memoryChart s' = Some [used, avail] \<and> config_values (memory_config i) = [used, avail] \<and>
      (if totalMemoryByteCount i = 0 then getMemoryUsagePercentage s' = ''NaN''
       else \<bar>decimal_value (getMemoryUsagePercentage s') - 100 * (used / (used + avail))\<bar> \<le> 1 / 20) \<and>
      diskChart s' = Some [used', avail'] \<and> config_values (disk_config i) = [used', avail'] \<and>
      (if totalDiskByteCount i = 0 then getDiskUsagePercentage s' = ''NaN''
       else \<bar>decimal_value (getDiskUsagePercentage s') - 100 * (used' / (used' + avail'))\<bar> \<le> 1 / 20)"
  unfolding assms(1)
  using mem.printed_share [of d h s] dsk.printed_share [of d h s] assms(3-8) unfolding assms(2) [symmetric] by metis

definition sample_host :: ServiceHostState where
  "sample_host = undefined\<lparr>systemInfo := undefined\<lparr>freeMemoryByteCount := 1000, totalMemoryByteCount := 4000,
     freeDiskByteCount := 500, totalDiskByteCount := 500\<rparr>\<rparr>"

theorem percentages_match_charts_witness:
  "\<exists>used avail used' avail'.
      memoryChart (panel_on_details 0 sample_host (new_panel undefined)) = Some [used, avail] \<and>
      config_values (memory_config (systemInfo sample_host)) = [used, avail] \<and>
      (if totalMemoryByteCount (systemInfo sample_host) = 0 then getMemoryUsagePercentage (panel_on_details 0 sample_host (new_panel undefined)) = ''NaN''
       else \<bar>decimal_value (getMemoryUsagePercentage (panel_on_details 0 sample_host (new_panel undefined))) - 100 * (used / (used + avail))\<bar> \<le> 1 / 20) \<and>
      diskChart (panel_on_details 0 sample_host (new_panel undefined)) = Some [used', avail'] \<and>
      config_values (disk_config (systemInfo sample_host)) = [used', avail'] \<and>
      (if totalDiskByteCount (systemInfo sample_host) = 0 then getDiskUsagePercentage (panel_on_details 0 sample_host (new_panel undefined)) = ''NaN''
       else \<bar>decimal_value (getDiskUsagePercentage (panel_on_details 0 sample_host (new_panel undefined))) - 100 * (used' / (used' + avail'))\<bar> \<le> 1 / 20)"
  by (rule percentages_match_charts [OF refl refl]) (simp_all add: sample_host_def)

text \<open>
  The tooltip of an operation in the two charts of a child service names the latest value of the
  statistics of that operation.
\<close>

lemma child_tooltips:
  assumes "k < length OPERATIONS" "map_of (statsEntries stats) (OPERATIONS ! k @ ''requestCount'') = Some e"
    and "map_of (statsEntries stats) (OPERATIONS ! k @ ''operationDuration'') = Some e'"
    and "operationCountChartCanvas s \<noteq> ElementNull" "operationDurationChartCanvas s \<noteq> ElementNull"
  shows "\<exists>counts durations. operationCountChart (child_on_stats h stats s) = Some counts \<and>
      operationDurationChart (child_on_stats h stats s) = Some durations \<and>
      config_labels (count_config counts) ! k = OPERATIONS ! k \<and>
      count_tooltip L (count_config counts) k = formatNumber L (latestValue e) False @ '' requests'' \<and>
      duration_tooltip L (duration_config durations) k = formatDurationToMilliseconds L (latestValue e') @ '' ms''"
  using assms by (simp add: child_on_stats_def child_renderChart_def count_tooltip_def duration_tooltip_def
      count_config_def duration_config_def operation_values_def end_rt_def unsubscribe_rt_def del: config_values.simps config_labels.simps)

section \<open>The dashboard and its cards\<close>

text \<open>
  The data the dashboard passes to the card \<open>i\<close>: the keys and the lists of the chart data of the
  dashboard, without a type or options of their own.
\<close>

definition grid_data :: "libs \<Rightarrow> (string list \<Rightarrow> string list) \<Rightarrow> string \<Rightarrow> dash \<Rightarrow> string list result" where
  "grid_data L sortNumeric i g =
     (if i = ''log'' then map_result (map fst) (getLogChartData g) else map_result (map fst) (getSystemChartData L sortNumeric i g))"

definition fits :: "string \<Rightarrow> (string \<times> chart_entry) list \<Rightarrow> bool" where
  "fits i cd \<longleftrightarrow> (\<exists>L sortNumeric g. grid_data L sortNumeric i g = Inr (map fst cd)) \<and>
     list_all (\<lambda>(k, e). entry_type e = None \<and> entry_options e = None) cd"

text \<open>
  A card in the dashboard: it has the options of its table, is given data of the dashboard, is
  checked and destroyed by Angular, and the filters that can be clicked are those of its options.
\<close>

definition new_dash_card :: "string \<Rightarrow> chart_options \<Rightarrow> dash_card" where
  "new_dash_card i opts = \<lparr>cardId = i, chartData = None, chartOptions = Some opts, currentFilter = None, card_canvas = None,
     card_chart = None, card_isViewInitialized = False\<rparr>"

inductive card_reach :: "string \<Rightarrow> dash_card \<Rightarrow> bool" where
  card_init: "dash_getChartOptions i = Inr opts \<Longrightarrow> card_reach i (new_dash_card i opts)"
| card_change: "card_reach i s \<Longrightarrow> fits i cd \<Longrightarrow> card_reach i (fst (dash_card_ngOnChanges (Some (previous, Some cd)) s))"
| card_checked: "card_reach i s \<Longrightarrow> card_reach i (fst (dash_card_ngAfterViewChecked found s))"
| card_click: "card_reach i s \<Longrightarrow> getFilters s = Some fs \<Longrightarrow> f \<in> set fs \<Longrightarrow> card_reach i (fst (onFilteredClicked (filter_value f) s))"
| card_destroyed: "card_reach i s \<Longrightarrow> card_reach i (dash_card_ngOnDestroy s)"

text \<open>The state of a card is well typed when each filter of its options is a key of its data.\<close>

definition card_typed :: "string \<Rightarrow> dash_card \<Rightarrow> bool" where
  "card_typed i s \<longleftrightarrow>
     (\<exists>opts fs. dash_getChartOptions i = Inr opts \<and> chartOptions s = Some opts \<and> chart_filters opts = Some fs \<and>
        (\<forall>cd. chartData s = Some cd \<longrightarrow> map fst cd = map filter_value fs \<and>
           list_all (\<lambda>(k, e). entry_type e = None \<and> entry_options e = None) cd \<and> (\<exists>f \<in> set fs. currentFilter s = Some f)) \<and>
        (\<forall>f. currentFilter s = Some f \<longrightarrow> f \<in> set fs))"

lemma card_options:
  assumes "dash_getChartOptions i = Inr opts"
  obtains f fs where "chart_filters opts = Some (f # fs)"
    "map filter_value (f # fs) = (if i = ''log'' then [''All''] else [''PerHour'', ''PerDay''])"
    "(i = ''log'' \<and> chart_type opts = ''bar'') \<or> (\<exists>t. chart_type opts = ''line'' \<and> chart_color_of opts = OneColor t)"
  using assms
  by (auto simp: dash_getChartOptions_def cardData_def system_filters_def FILTER_PER_HOUR_def FILTER_PER_DAY_def FILTER_LOG_ALL_def
      split: if_splits option.splits simp del: list.inject)

lemma grid_keys:
  "grid_data L sortNumeric i g = Inr ks \<Longrightarrow> ks = [] \<or> ks = (if i = ''log'' then [''All''] else [''PerHour'', ''PerDay''])"
  by (auto simp: grid_data_def map_result_def getLogChartData_def getSystemChartData_def FILTER_PER_HOUR_def FILTER_PER_DAY_def
      FILTER_LOG_ALL_def split: if_splits option.splits sum.splits simp del: list.inject)

lemma render_keeps:
  "chartData (fst (card_renderChart s)) = chartData s" "chartOptions (fst (card_renderChart s)) = chartOptions s"
  "currentFilter (fst (card_renderChart s)) = currentFilter s"
  by (simp_all add: card_renderChart_def split: sum.splits)

lemma card_typed_cong:
  "card_typed i s \<Longrightarrow> chartData s' = chartData s \<Longrightarrow> chartOptions s' = chartOptions s \<Longrightarrow> currentFilter s' = currentFilter s \<Longrightarrow>
     card_typed i s'"
  by (simp add: card_typed_def)

lemma card_typed_change:
  assumes "card_typed i s" "fits i cd"
  shows "card_typed i (fst (dash_card_ngOnChanges (Some (previous, Some cd)) s))"
proof (cases "Some cd = previous \<or> cd = []")
  case True
  then show ?thesis using assms(1) by (auto simp: dash_card_ngOnChanges_def)
next
  case False
  from assms(1) obtain opts where o: "dash_getChartOptions i = Inr opts" "chartOptions s = Some opts"
    unfolding card_typed_def by blast
  from card_options [OF o(1)] obtain f fs where fs: "chart_filters opts = Some (f # fs)"
    "map filter_value (f # fs) = (if i = ''log'' then [''All''] else [''PerHour'', ''PerDay''])" .
  have keys: "map fst cd = map filter_value (f # fs)"
  proof -
    from assms(2) obtain L sn g where "grid_data L sn i g = Inr (map fst cd)" unfolding fits_def by blast
    from grid_keys [OF this] False show ?thesis unfolding fs(2) by simp
  qed
  have own: "list_all (\<lambda>(k, e). entry_type e = None \<and> entry_options e = None) cd" using assms(2) by (simp add: fits_def)
  have now: "currentFilter s = Some g \<Longrightarrow> g \<in> set (f # fs)" for g using assms(1) o fs(1) unfolding card_typed_def by auto
  have init: "\<exists>g \<in> set (f # fs). initial_filter (currentFilter s) (f # fs) = Some g"
    using now by (cases "currentFilter s"; cases "find filter_current (f # fs)")
      (auto simp: initial_filter_def find_Some_iff split: if_splits)
  let ?s = "s\<lparr>chartData := Some cd, currentFilter := initial_filter (currentFilter s) (f # fs)\<rparr>"
  have "card_typed i ?s"
    unfolding card_typed_def using o fs(1) keys own init by auto
  moreover have "fst (dash_card_ngOnChanges (Some (previous, Some cd)) s) = fst (card_renderChart ?s)"
    using False o fs(1) by (auto simp: dash_card_ngOnChanges_def Let_def)
  ultimately show ?thesis using render_keeps [of ?s] by (simp add: card_typed_cong)
qed

lemma card_typed_click:
  assumes "card_typed i s" "getFilters s = Some fs" "f \<in> set fs"
  shows "card_typed i (fst (onFilteredClicked (filter_value f) s))"
proof -
  from assms(1) obtain opts gs where o: "chartOptions s = Some opts" "chart_filters opts = Some gs"
    unfolding card_typed_def by blast
  then have gs: "gs = fs" using assms(2) by (simp add: getFilters_def)
  obtain g where g: "find (\<lambda>h. filter_value h = filter_value f) fs = Some g"
    using assms(3) by (cases "find (\<lambda>h. filter_value h = filter_value f) fs") (auto simp: find_None_iff)
  then have "g \<in> set fs" by (auto simp: find_Some_iff)
  then have "card_typed i (s\<lparr>currentFilter := Some g\<rparr>)" using assms(1) o gs unfolding card_typed_def by auto
  moreover have "fst (onFilteredClicked (filter_value f) s) = fst (card_renderChart (s\<lparr>currentFilter := Some g\<rparr>))"
    using o g gs by (simp add: onFilteredClicked_def)
  ultimately show ?thesis using render_keeps [of "s\<lparr>currentFilter := Some g\<rparr>"] by (simp add: card_typed_cong)
qed

lemma card_reach_typed: "card_reach i s \<Longrightarrow> card_typed i s"
proof (induction rule: card_reach.induct)
  case (card_init i opts)
  then show ?case by (rule card_options) (simp add: card_typed_def new_dash_card_def card_init)
next
  case (card_change i s cd previous)
  then show ?case by (simp add: card_typed_change)
next
  case (card_checked i s found)
  then show ?case
    using render_keeps [of "s\<lparr>card_isViewInitialized := True, card_canvas := Some found\<rparr>"]
    by (auto simp: dash_card_ngAfterViewChecked_def intro: card_typed_cong)
next
  case (card_click i s fs f)
  then show ?case by (simp add: card_typed_click)
next
  case (card_destroyed i s)
  then show ?case by (auto simp: dash_card_ngOnDestroy_def intro: card_typed_cong)
qed

lemma typed_lookup:
  assumes "card_typed i s" "chartData s = Some cd"
  obtains e where "current_entry s = Inr e" "entry_type e = None" "entry_options e = None"
proof -
  from assms obtain fs f where fs: "map fst cd = map filter_value fs" "f \<in> set fs" "currentFilter s = Some f"
    "list_all (\<lambda>(k, e). entry_type e = None \<and> entry_options e = None) cd"
    unfolding card_typed_def by blast
  have "filter_value f \<in> set (map fst cd)" using fs(1,2) by simp
  then obtain e where e: "map_of cd (filter_value f) = Some e"
    by (cases "map_of cd (filter_value f)") (auto simp: map_of_eq_None_iff)
  then have "(filter_value f, e) \<in> set cd" by (rule map_of_SomeD)
  then have "entry_type e = None" "entry_options e = None" using fs(4) by (auto simp: list_all_iff)
  moreover have "current_entry s = Inr e" using e fs(3) assms(2) by (simp add: current_entry_def)
  ultimately show thesis using that by blast
qed

text \<open>
  C27. The data of the dashboard fits its cards: whatever data of the dashboard a card was given, whatever
  filters of its own were clicked and whenever Angular checked its view, each filter it offers is a
  key of its data, and neither the number beside the chart nor rendering the chart raises an error,
  though both read the data under the name of the current filter without a check.
\<close>

theorem card_never_fails:
  assumes "card_reach i s"
  shows "card_typed i s \<and> (\<exists>t. getRollUpStat L undefined_text s = Inr t) \<and> snd (card_renderChart s) = None"
proof -
  have typed: "card_typed i s" using assms by (rule card_reach_typed)
  then obtain opts where o: "dash_getChartOptions i = Inr opts" "chartOptions s = Some opts"
    unfolding card_typed_def by blast
  from card_options [OF o(1)] have kind: "chart_type opts = ''bar'' \<or> (\<exists>t. chart_type opts = ''line'' \<and> chart_color_of opts = OneColor t)"
    by blast
  show ?thesis
  proof (cases "no_chart s")
    case True
    then show ?thesis using typed by (simp add: getRollUpStat_def card_renderChart_def getChartOptions_def)
  next
    case False
    then obtain cd where "chartData s = Some cd" by (auto simp: no_chart_def)
    from typed_lookup [OF typed this] obtain e where e: "current_entry s = Inr e" "entry_type e = None" "entry_options e = None" .
    have opts: "effective_options s e = opts" "effective_type s e = chart_type opts"
      by (simp_all add: effective_options_def effective_type_def truthy_def e o(2))
    have "\<exists>c. getChartOptions s = Inr c"
      using kind e False
      by (auto simp: getChartOptions_def opts getLineChartOptions_def color_text_def map_result_def Let_def simp del: list.inject)
    moreover have "\<exists>t. getRollUpStat L undefined_text s = Inr t" using e False by (simp add: getRollUpStat_def map_result_def)
    ultimately show ?thesis using typed by (auto simp: card_renderChart_def)
  qed
qed

definition no_log_yet :: dash where
  "no_log_yet = (new_dash undefined)\<lparr>dash_log := Some (undefined\<lparr>logItems := []\<rparr>)\<rparr>"

definition log_entry :: chart_entry where
  "log_entry = \<lparr>entry_data = [0, 0, 0], entry_labels = [''Info'', ''Warning'', ''Error''], entry_type = None, entry_options = None\<rparr>"

theorem card_never_fails_witness:
  "\<exists>opts. dash_getChartOptions ''log'' = Inr opts \<and>
     snd (card_renderChart (fst (dash_card_ngOnChanges (Some (None, Some [(''All'', log_entry)])) (new_dash_card ''log'' opts)))) = None"
proof -
  obtain opts where opts: "dash_getChartOptions ''log'' = Inr opts" by (simp add: dash_getChartOptions_def cardData_def)
  have "grid_data L sn ''log'' no_log_yet = Inr [''All'']" for L sn
    by (simp add: grid_data_def getLogChartData_def no_log_yet_def map_result_def FILTER_LOG_ALL_def)
  then have "fits ''log'' [(''All'', log_entry)]" unfolding fits_def log_entry_def by (intro conjI exI) simp_all
  then have "card_reach ''log'' (fst (dash_card_ngOnChanges (Some (None, Some [(''All'', log_entry)])) (new_dash_card ''log'' opts)))"
    by (intro card_reach.intros opts)
  from card_never_fails [OF this] opts show ?thesis by blast
qed

end
