(* ===== verification/TracingChart.thy ===== *)
theory TracingChart
  imports OperationTracing
begin

text \<open>
  The rest of \<open>operation-tracing-chart.component.ts\<close>: the component around the timeline chart. The
  chart library is told the data, the time range, the width of the labels, the colours, the
  popovers and what a click does; what it draws from that is not modelled. \<open>fmt\<close> formats a date for
  the popover as \<open>moment\<close> does.
\<close>

section \<open>State\<close>

text \<open>What the component reads of the results of a trace.\<close>

record trace_results =
  tr_links :: "string list"
  tr_docs :: "(string \<times> SerializedOperation) list"
  tr_count :: "int option"

text \<open>What is drawn: the data and the options of the chart; the times are in milliseconds, \<^term>\<open>None\<close> is an invalid date.\<close>

record drawing =
  dr_data :: "op_timeline list"
  dr_start :: "int option"
  dr_end :: "int option"
  dr_labelWidth :: nat

text \<open>
  The context of the detail dialog. The range of a group has its operations with their times at
  the start and at the end.
\<close>

record op_modal =
  modal_name :: string
  modal_operations :: "op_event list"
  modal_operation :: "op_event option"
  modal_selected :: "op_event option"
  modal_range :: "((nat option \<times> op_event option) \<times> (nat option \<times> op_event option)) option"
  modal_shown :: nat

text \<open>
  The input is \<open>undefined\<close> or empty (\<^term>\<open>None\<close>), or a task whose results are missing or empty
  (\<^term>\<open>Some None\<close>) or given. \<open>ch_canvas\<close> tells that the canvas exists; the drawings are recorded.
\<close>

record trace_chart =
  traceResult :: "trace_results option option"
  ch_canvas :: bool
  ch_drawn :: "drawing list"
  ch_handlers :: bool
  ch_modal :: op_modal

definition new_trace_chart :: trace_chart where
  "new_trace_chart =
     \<lparr>traceResult = None, ch_canvas = False, ch_drawn = [], ch_handlers = False,
      ch_modal = \<lparr>modal_name = [], modal_operations = [], modal_operation = None, modal_selected = None,
        modal_range = None, modal_shown = 0\<rparr>\<rparr>"

section \<open>Drawing\<close>

definition event_colors :: "string list" where
  "event_colors = [''#42a5f5'', ''#29b6f6'', ''#26c6da'', ''#26a69a'', ''#66bb6a'', ''#9ccc65'', ''#d4e157'',
     ''#ffee58'', ''#ffca28'', ''#ffa726'', ''#ff7043'', ''#8d6e63'', ''#ef5350'', ''#ec407a'', ''#ab47bc'',
     ''#7e57c2'', ''#5c6bc0'']"

definition eventLineColor :: "nat \<Rightarrow> string" where
  "eventLineColor i = event_colors ! (i mod length event_colors)"

text \<open>The end is 30 seconds after the last timestamp and the start 30 seconds before the first.\<close>

definition chart_drawing :: "trace_results \<Rightarrow> drawing" where
  "chart_drawing r =
     (let data = transformData (tr_docs r); dataTimeRange = getDataTimeRange (tr_links r) in
      \<lparr>dr_data = data,
       dr_start = map_option (\<lambda>t. int (t div 1000) - 30000) (fst dataTimeRange),
       dr_end = map_option (\<lambda>t. int (t div 1000) + 30000) (snd dataTimeRange),
       dr_labelWidth = (if countNames data \<le> 0 then 120 else 180)\<rparr>)"

definition chart_render :: "trace_chart \<Rightarrow> trace_chart" where
  "chart_render s =
     (if \<not> ch_canvas s then s
      else case traceResult s of
        Some (Some r) \<Rightarrow>
          if tr_count r = Some 0 then s else s\<lparr>ch_drawn := ch_drawn s @ [chart_drawing r], ch_handlers := True\<rparr>
      | _ \<Rightarrow> s)"

text \<open>The input changes: an empty value draws nothing.\<close>

definition chart_ngOnChanges :: "trace_results option option \<Rightarrow> trace_chart \<Rightarrow> trace_chart" where
  "chart_ngOnChanges v s =
     (let s1 = s\<lparr>traceResult := v\<rparr> in case v of None \<Rightarrow> s1 | Some r \<Rightarrow> chart_render s1)"

definition chart_ngAfterViewInit :: "trace_chart \<Rightarrow> trace_chart" where
  "chart_ngAfterViewInit s = chart_render (s\<lparr>ch_canvas := True\<rparr>)"

definition chart_ngOnDestroy :: "trace_chart \<Rightarrow> trace_chart result" where
  "chart_ngOnDestroy s = (if ch_canvas s then Inr (s\<lparr>ch_handlers := False\<rparr>) else Inl TypeError)"

section \<open>Popovers and details\<close>

text \<open>The chart joins operations that are close to each other into a group.\<close>

datatype chart_event = GroupEvent "op_event list" | SingleEvent op_event

definition quoted :: "string \<Rightarrow> string" where
  "quoted s = [CHR 0x22] @ s @ [CHR 0x22]"

definition indent :: "nat \<Rightarrow> string" where
  "indent n = CHR 0x0A # replicate n (CHR '' '')"

definition form_group :: string where
  "form_group = ''<div class='' @ quoted ''form-group row'' @ ''>''"

definition row_label :: "string \<Rightarrow> string" where
  "row_label label =
     indent 32 @ ''<label class='' @ quoted ''col-sm-4 col-form-label'' @ ''>'' @ label @ ''</label>'' @
     indent 32 @ ''<div class='' @ quoted ''col-sm-8'' @ ''>''"

definition row_end :: string where
  "row_end = indent 32 @ ''</div>'' @ indent 28 @ ''</div>''"

definition popover_row :: "string \<Rightarrow> string \<Rightarrow> string" where
  "popover_row label v =
     form_group @ row_label label @
     indent 36 @ ''<p class='' @ quoted ''form-control-static'' @ ''>'' @ v @ ''</p>'' @ row_end"

definition options_row :: "string list \<Rightarrow> string" where
  "options_row options =
     form_group @ row_label ''Options'' @
     indent 36 @ ''<div class='' @ quoted ''tags-container'' @ ''>'' @ indent 40 @
     concat (map (\<lambda>option. ''<div class='' @ quoted ''tag'' @ ''>'' @ option @ ''</div>'') options) @
     indent 36 @ ''</div>'' @ row_end"

definition eventPopover :: "(nat option \<Rightarrow> string) \<Rightarrow> chart_event \<Rightarrow> string" where
  "eventPopover fmt d =
     (case d of
        GroupEvent events \<Rightarrow> ''Group of '' @ show_nat (length events) @ '' operations''
      | SingleEvent e \<Rightarrow>
          ''<form class='' @ quoted ''form-timeline-popover'' @ ''>'' @
          popover_row ''ID'' (show_int (opId (ev_object e))) @ indent 28 @
          popover_row ''Method'' (ev_event e) @ indent 28 @
          popover_row ''Status'' (show_int (opStatusCode (ev_object e))) @ indent 28 @
          popover_row ''Referer'' (opReferer (ev_object e)) @ indent 28 @
          options_row (opOptions (ev_object e)) @ indent 28 @
          popover_row ''Host'' (opHost (ev_object e) @ '':'' @ show_int (opPort (ev_object e))) @
          popover_row ''Date'' (fmt (ev_date e)) @ ''</form>'')"

definition eventClick :: "chart_event \<Rightarrow> trace_chart \<Rightarrow> trace_chart" where
  "eventClick d s =
     (let m = (case d of
          GroupEvent events \<Rightarrow>
            (let rng = getGroupOperationsTimeRange events in
             (ch_modal s)\<lparr>modal_name := ''Group of '' @ show_nat (length events) @ '' operations'',
               modal_operations := events, modal_operation := None, modal_range := Some rng,
               modal_selected := snd (fst rng)\<rparr>)
        | SingleEvent e \<Rightarrow>
            (ch_modal s)\<lparr>modal_name := ''Operation ID: '' @ show_int (opId (ev_object e)),
              modal_operations := [], modal_operation := Some e, modal_range := None, modal_selected := None\<rparr>) in
      s\<lparr>ch_modal := m\<lparr>modal_shown := Suc (modal_shown m)\<rparr>\<rparr>)"

section \<open>Properties\<close>

lemma ends_of_range:
  assumes "ts \<noteq> []" "\<forall>t \<in> set ts. 0 < t" "t \<in> set ts"
  shows "\<exists>a b. getDataTimeRange (map show_nat ts) = (Some a, Some b) \<and> a \<le> t \<and> t \<le> b"
  using data_time_range [OF assms(1,2)] assms(3) by simp

lemma transformData_events:
  "(\<exists>tl \<in> set (transformData docs). tl_name tl = p \<and> e \<in> set (tl_data tl)) \<longleftrightarrow>
     (\<exists>d \<in> set docs. opPath (snd d) = p \<and> e = op_event_of d)"
  unfolding transformData_spec by (force simp: image_iff)

lemma chart_order:
  "ch_drawn (chart_ngOnChanges (Some (Some r)) (chart_ngAfterViewInit new_trace_chart)) =
     (if tr_count r = Some 0 then [] else [chart_drawing r])"
  "ch_drawn (chart_ngAfterViewInit (chart_ngOnChanges (Some (Some r)) new_trace_chart)) =
     (if tr_count r = Some 0 then [] else [chart_drawing r])"
  by (simp_all add: chart_ngOnChanges_def chart_ngAfterViewInit_def chart_render_def new_trace_chart_def)

text \<open>
  C26. Whether the result of a trace comes before or after the canvas makes no difference. A result
  that counts no documents draws nothing. Any other one whose list of links is not empty, where the links
  are the keys of the documents and positive numbers, the times of the operations, is drawn
  once: each operation is on the timeline of its path, and the time shown begins before and ends
  after every operation.
\<close>

theorem chart_shows_trace:
  assumes "tr_links r = map show_nat ts" "map fst (tr_docs r) = map show_nat ts"
    and "\<forall>t \<in> set ts. 0 < t"
  shows "(tr_count r = Some 0 \<longrightarrow>
      ch_drawn (chart_ngOnChanges (Some (Some r)) (chart_ngAfterViewInit new_trace_chart)) = [] \<and>
      ch_drawn (chart_ngAfterViewInit (chart_ngOnChanges (Some (Some r)) new_trace_chart)) = []) \<and>
    (tr_count r \<noteq> Some 0 \<and> ts \<noteq> [] \<longrightarrow> (\<exists>g a b. ch_drawn (chart_ngOnChanges (Some (Some r)) (chart_ngAfterViewInit new_trace_chart)) = [g] \<and>
    ch_drawn (chart_ngAfterViewInit (chart_ngOnChanges (Some (Some r)) new_trace_chart)) = [g] \<and>
    dr_start g = Some a \<and> dr_end g = Some b \<and>
    (\<forall>d \<in> set (tr_docs r). \<exists>tl \<in> set (dr_data g). tl_name tl = opPath (snd d) \<and> op_event_of d \<in> set (tl_data tl) \<and>
       (\<exists>t. ev_date (op_event_of d) = Some t \<and> a < int t \<and> int t < b))))"
proof (cases "tr_count r = Some 0 \<or> ts = []")
  case True
  then show ?thesis by (auto simp: chart_order)
next
  case False
  then have ne: "ts \<noteq> []" and count: "tr_count r \<noteq> Some 0" by simp_all
  obtain x y where rng: "getDataTimeRange (tr_links r) = (Some x, Some y)"
    using data_time_range [OF ne assms(3)] assms(1) by simp
  have within: "\<exists>t. ev_date (op_event_of d) = Some t \<and> int (x div 1000) - 30000 < int t \<and> int t < int (y div 1000) + 30000"
    if d: "d \<in> set (tr_docs r)" for d
  proof -
    have "fst d \<in> set (map fst (tr_docs r))" using d by simp
    then have "fst d \<in> set (map show_nat ts)" unfolding assms(2) .
    then obtain t where t: "t \<in> set ts" "fst d = show_nat t" by auto
    then have le: "x \<le> t" "t \<le> y" using ends_of_range [OF ne assms(3) t(1)] rng assms(1) by auto
    have "as_number (show_nat t) = Some t" using show_nat_digits by (auto simp: as_number_def list_all_iff)
    then have "ev_date (op_event_of d) = Some (t div 1000)" by (simp add: op_event_of_def t(2))
    moreover have "x div 1000 \<le> t div 1000" "t div 1000 \<le> y div 1000" using le by (simp_all add: div_le_mono)
    ultimately show ?thesis by auto
  qed
  have on: "\<exists>tl \<in> set (transformData (tr_docs r)). tl_name tl = opPath (snd d) \<and> op_event_of d \<in> set (tl_data tl)"
    if "d \<in> set (tr_docs r)" for d
    using transformData_events that by blast
  have fields: "dr_start (chart_drawing r) = Some (int (x div 1000) - 30000)"
    "dr_end (chart_drawing r) = Some (int (y div 1000) + 30000)" "dr_data (chart_drawing r) = transformData (tr_docs r)"
    by (simp_all add: chart_drawing_def Let_def rng)
  have all: "\<forall>d \<in> set (tr_docs r). \<exists>tl \<in> set (transformData (tr_docs r)). tl_name tl = opPath (snd d) \<and>
      op_event_of d \<in> set (tl_data tl) \<and> (\<exists>t. ev_date (op_event_of d) = Some t \<and>
        int (x div 1000) - 30000 < int t \<and> int t < int (y div 1000) + 30000)"
    using within on by blast
  have "\<exists>g a b. ch_drawn (chart_ngOnChanges (Some (Some r)) (chart_ngAfterViewInit new_trace_chart)) = [g] \<and>
    ch_drawn (chart_ngAfterViewInit (chart_ngOnChanges (Some (Some r)) new_trace_chart)) = [g] \<and>
    dr_start g = Some a \<and> dr_end g = Some b \<and>
    (\<forall>d \<in> set (tr_docs r). \<exists>tl \<in> set (dr_data g). tl_name tl = opPath (snd d) \<and> op_event_of d \<in> set (tl_data tl) \<and>
       (\<exists>t. ev_date (op_event_of d) = Some t \<and> a < int t \<and> int t < b))"
    by (rule exI [of _ "chart_drawing r"], rule exI [of _ "int (x div 1000) - 30000"],
        rule exI [of _ "int (y div 1000) + 30000"])
      (use all in \<open>simp add: fields chart_order count\<close>)
  then show ?thesis using count by simp
qed

text \<open>The dialog of a group starts with an operation at the earliest time of the group.\<close>

lemma group_fold_start:
  assumes "fst (fst r) = Some a" "0 < a" "fst (snd r) = Some b" "a \<le> b" "snd (fst r) = Some e0" "ev_date e0 = Some a"
    "\<forall>e \<in> set es. \<exists>t. ev_date e = Some t \<and> 0 < t"
  shows "\<exists>e c. snd (fst (foldl group_step r es)) = Some e \<and> ev_date e = Some c \<and> 0 < c \<and> c \<le> a \<and>
    (\<forall>e' \<in> set es. \<forall>t. ev_date e' = Some t \<longrightarrow> c \<le> t) \<and> (e = e0 \<or> e \<in> set es)"
  using assms
proof (induction es arbitrary: r a b e0)
  case (Cons x xs)
  from Cons.prems(7) obtain t where t: "ev_date x = Some t" "0 < t" by auto
  let ?r = "group_step r x"
  have r: "?r = (if b < t then (fst r, (Some t, Some x)) else if t < a then ((Some t, Some x), snd r) else r)"
    using Cons.prems t by (cases r) (auto simp: group_step_def num_less_def Let_def prod_eq_iff)
  have tail: "\<forall>e \<in> set xs. \<exists>t. ev_date e = Some t \<and> 0 < t" using Cons.prems(7) by simp
  show ?case
  proof (cases "t < a")
    case True
    then have "fst (fst ?r) = Some t" "fst (snd ?r) = Some b" "t \<le> b" "snd (fst ?r) = Some x"
      using r Cons.prems(3,4) by auto
    from Cons.IH [OF this(1) t(2) this(2,3,4) t(1) tail] True t show ?thesis by fastforce
  next
    case False
    then have s: "fst (fst ?r) = Some a" "snd (fst ?r) = Some e0" using r Cons.prems by auto
    obtain b' where "fst (snd ?r) = Some b'" "a \<le> b'" using r False Cons.prems by (cases "b < t") auto
    from Cons.IH [OF s(1) Cons.prems(2) this s(2) Cons.prems(6) tail] False t show ?thesis by fastforce
  qed
qed auto

lemma group_starts_first:
  assumes "es \<noteq> []" "\<forall>e \<in> set es. \<exists>t. ev_date e = Some t \<and> 0 < t"
  shows "\<exists>e c. modal_selected (ch_modal (eventClick (GroupEvent es) s)) = Some e \<and> e \<in> set es \<and> ev_date e = Some c \<and>
    (\<forall>e' \<in> set es. \<forall>t. ev_date e' = Some t \<longrightarrow> c \<le> t)"
proof -
  obtain x xs where es: "es = x # xs" using assms(1) by (cases es) auto
  obtain t where t: "ev_date x = Some t" "0 < t" using assms(2) es by auto
  have "group_step ((Some 0, None), (Some 0, None)) x = ((Some t, Some x), (Some t, Some x))"
    by (simp add: group_step_def num_less_def t Let_def)
  then have "getGroupOperationsTimeRange es = foldl group_step ((Some t, Some x), (Some t, Some x)) xs"
    by (simp add: getGroupOperationsTimeRange_def es)
  moreover have "\<forall>e \<in> set xs. \<exists>t. ev_date e = Some t \<and> 0 < t" using assms(2) es by simp
  ultimately show ?thesis
    using group_fold_start [of "((Some t, Some x), (Some t, Some x))" t t x xs] t es
    by (simp add: eventClick_def Let_def) (metis (no_types, lifting) option.inject)
qed

section \<open>Witnesses\<close>

definition example_operation :: "string \<Rightarrow> SerializedOperation" where
  "example_operation path =
     ServiceDocument.extend emptyDocument (SerializedOperation.fields ''GET'' ''127.0.0.1'' 8000 path 7 ''http://127.0.0.1:8000'' [] 200 [] None None None None)"

definition example_trace :: trace_results where
  "example_trace = \<lparr>tr_links = [show_nat 5000, show_nat 9000],
     tr_docs = [(show_nat 5000, example_operation ''/core/management''), (show_nat 9000, example_operation ''/core/examples'')],
     tr_count = Some 2\<rparr>"

lemma chart_shows_trace_witness:
  "\<exists>g a b. ch_drawn (chart_ngAfterViewInit (chart_ngOnChanges (Some (Some example_trace)) new_trace_chart)) = [g] \<and>
     dr_start g = Some a \<and> dr_end g = Some b"
proof -
  have 1: "tr_links example_trace = map show_nat [5000, 9000]" "map fst (tr_docs example_trace) = map show_nat [5000, 9000]"
    "tr_count example_trace \<noteq> Some 0"
    by (simp_all add: example_trace_def)
  have 2: "\<forall>t \<in> set [5000, 9000 :: nat]. 0 < t" by simp
  show ?thesis using chart_shows_trace [OF 1(1,2) 2] 1(3) by auto
qed

end
