(* ===== verification/DesktopShell.thy ===== *)
theory DesktopShell
  imports CoreServices
begin

text \<open>
  The desktop shell \<open>src/client/main.desktop.ts\<close>: the handlers of the Electron application, its
  window and its menus. A menu entry has a label and may have an accelerator, a selector that
  the system handles itself, and an action. The methods of the window are recorded in it; the
  script that an entry runs in the page is a text.
\<close>

section \<open>Menus\<close>

datatype menu_action =
    ChangeLang string | OpenExternal string | QuitApp | ReloadWindow | ToggleFullScreen
  | ToggleDevTools | CloseWindow

datatype menu_item =
    Separator
  | Entry (item_label: string) (item_accelerator: "string option") (item_selector: "string option")
      (item_click: "menu_action option")
  | Submenu string "menu_item list"

definition desktop_languages :: "(string \<times> string) list" where
  "desktop_languages =
     [(''en'', ''English''), (''es'', ''Spanish''), (''fr'', ''French''), (''ru'', ''Russian''), (''bg'', ''Bulgarian'')]"

definition langMenu :: "(string \<times> string) list \<Rightarrow> menu_item" where
  "langMenu languages =
     Submenu ''Language'' (map (\<lambda>(code, title). Entry title None None (Some (ChangeLang code))) languages)"

definition help_entry :: "string \<Rightarrow> string \<Rightarrow> menu_item" where
  "help_entry label url = Entry label None None (Some (OpenExternal url))"

definition helpMenu :: menu_item where
  "helpMenu = Submenu ''Help''
     [help_entry ''Learn More'' ''https://github.com/NathanWalker/angular-seed-advanced'',
      help_entry ''Issues'' ''https://github.com/NathanWalker/angular-seed-advanced/issues'',
      help_entry (''My Amazing Parent: Minko Gechev'' @ [CHR 0x27] @ ''s Angular Seed'') ''https://github.com/mgechev/angular-seed'',
      help_entry ''Angular 2'' ''https://angular.io/'',
      help_entry ''Electron'' ''http://electron.atom.io/'',
      help_entry ''Electron Docs'' ''https://github.com/atom/electron/tree/master/docs'',
      help_entry ''Codeology Visualization'' ''http://codeology.braintreepayments.com/nathanwalker/angular-seed-advanced'']"

definition appTitle :: string where "appTitle = ''Angular Seed Advanced''"

definition system_entry :: "string \<Rightarrow> string option \<Rightarrow> string \<Rightarrow> menu_item" where
  "system_entry label accelerator selector = Entry label accelerator (Some selector) None"

definition action_entry :: "string \<Rightarrow> string \<Rightarrow> menu_action \<Rightarrow> menu_item" where
  "action_entry label accelerator a = Entry label (Some accelerator) None (Some a)"

definition mac_template :: "bool \<Rightarrow> (string \<times> string) list \<Rightarrow> menu_item list" where
  "mac_template development languages =
     [Submenu appTitle
        [system_entry (''About '' @ appTitle) None ''orderFrontStandardAboutPanel:'', Separator,
         Submenu ''Services'' [], Separator,
         system_entry ''Hide Angular Seed Advanced'' (Some ''Command+H'') ''hide:'',
         system_entry ''Hide Others'' (Some ''Command+Shift+H'') ''hideOtherApplications:'',
         system_entry ''Show All'' None ''unhideAllApplications:'', Separator,
         action_entry ''Quit'' ''Command+Q'' QuitApp],
      Submenu ''Edit''
        [system_entry ''Undo'' (Some ''Command+Z'') ''undo:'', system_entry ''Redo'' (Some ''Shift+Command+Z'') ''redo:'',
         Separator, system_entry ''Cut'' (Some ''Command+X'') ''cut:'', system_entry ''Copy'' (Some ''Command+C'') ''copy:'',
         system_entry ''Paste'' (Some ''Command+V'') ''paste:'', system_entry ''Select All'' (Some ''Command+A'') ''selectAll:''],
      Submenu ''View''
        (if development
         then [action_entry ''Reload'' ''Command+R'' ReloadWindow,
               action_entry ''Toggle Full Screen'' ''Ctrl+Command+F'' ToggleFullScreen,
               action_entry ''Toggle Developer Tools'' ''Alt+Command+I'' ToggleDevTools]
         else [action_entry ''Toggle Full Screen'' ''Ctrl+Command+F'' ToggleFullScreen]),
      Submenu ''Window''
        [system_entry ''Minimize'' (Some ''Command+M'') ''performMiniaturize:'',
         system_entry ''Close'' (Some ''Command+W'') ''performClose:'', Separator,
         system_entry ''Bring All to Front'' None ''arrangeInFront:''],
      langMenu languages, helpMenu]"

definition other_template :: "bool \<Rightarrow> (string \<times> string) list \<Rightarrow> menu_item list" where
  "other_template development languages =
     [Submenu ''&File''
        [Entry ''&Open'' (Some ''Ctrl+O'') None None, action_entry ''&Close'' ''Ctrl+W'' CloseWindow],
      Submenu ''&View''
        (if development
         then [action_entry ''&Reload'' ''Ctrl+R'' ReloadWindow,
               action_entry ''Toggle &Full Screen'' ''F11'' ToggleFullScreen,
               action_entry ''Toggle &Developer Tools'' ''Alt+Ctrl+I'' ToggleDevTools]
         else [action_entry ''Toggle &Full Screen'' ''F11'' ToggleFullScreen]),
      langMenu languages, helpMenu]"

section \<open>The application\<close>

record bwindow =
  bw_url :: string
  bw_fullScreen :: bool
  bw_devTools :: bool
  bw_reloads :: nat
  bw_scripts :: "string list"
  bw_closing :: bool
  bw_menu :: "menu_item list option"

record desktop =
  mainWindow :: "bwindow option"
  appMenu :: "menu_item list option"
  quitting :: bool
  openedUrls :: "string list"
  consoleLines :: "string list"

definition desktop_init :: desktop where
  "desktop_init = \<lparr>mainWindow = None, appMenu = None, quitting = False, openedUrls = [], consoleLines = []\<rparr>"

definition on_window_all_closed :: "string \<Rightarrow> desktop \<Rightarrow> desktop" where
  "on_window_all_closed platform s = (if platform \<noteq> ''darwin'' then s\<lparr>quitting := True\<rparr> else s)"

definition on_ready :: "string \<Rightarrow> bool \<Rightarrow> string \<Rightarrow> desktop \<Rightarrow> desktop" where
  "on_ready platform development dirname s =
     (let w = \<lparr>bw_url = ''file://'' @ dirname @ ''/index.html'', bw_fullScreen = False, bw_devTools = False,
               bw_reloads = 0, bw_scripts = [], bw_closing = False, bw_menu = None\<rparr> in
      if platform = ''darwin''
      then s\<lparr>mainWindow := Some w, appMenu := Some (mac_template development desktop_languages)\<rparr>
      else s\<lparr>mainWindow := Some (w\<lparr>bw_menu := Some (other_template development desktop_languages)\<rparr>)\<rparr>)"

definition on_closed :: "desktop \<Rightarrow> desktop" where
  "on_closed s = s\<lparr>mainWindow := None\<rparr>"

definition on_did_navigate :: "string \<Rightarrow> desktop \<Rightarrow> desktop" where
  "on_did_navigate url s = s\<lparr>consoleLines := consoleLines s @ [''Page navigated: '' @ url]\<rparr>"

definition lang_script :: "string \<Rightarrow> string" where
  "lang_script code =
     ''window.dispatchEvent(new CustomEvent('' @ [CHR 0x27] @ ''changeLang'' @ [CHR 0x27] @
     '', {detail: { value: '' @ [CHR 0x27] @ code @ [CHR 0x27] @ ''} }));''"

text \<open>A method of the window; \<open>null\<close> has none.\<close>

definition on_window :: "(bwindow \<Rightarrow> bwindow) \<Rightarrow> desktop \<Rightarrow> desktop \<times> jserror option" where
  "on_window f s =
     (case mainWindow s of None \<Rightarrow> (s, Some TypeError) | Some w \<Rightarrow> (s\<lparr>mainWindow := Some (f w)\<rparr>, None))"

definition menu_click :: "menu_action \<Rightarrow> desktop \<Rightarrow> desktop \<times> jserror option" where
  "menu_click a s =
     (case a of
        ChangeLang code \<Rightarrow>
          on_window (\<lambda>w. w\<lparr>bw_scripts := bw_scripts w @ [lang_script code]\<rparr>)
            (s\<lparr>consoleLines := consoleLines s @ [''Change lang: '' @ code]\<rparr>)
      | OpenExternal url \<Rightarrow> (s\<lparr>openedUrls := openedUrls s @ [url]\<rparr>, None)
      | QuitApp \<Rightarrow> (s\<lparr>quitting := True\<rparr>, None)
      | ReloadWindow \<Rightarrow> on_window (\<lambda>w. w\<lparr>bw_reloads := Suc (bw_reloads w)\<rparr>) s
      | ToggleFullScreen \<Rightarrow> on_window (\<lambda>w. w\<lparr>bw_fullScreen := \<not> bw_fullScreen w\<rparr>) s
      | ToggleDevTools \<Rightarrow> on_window (\<lambda>w. w\<lparr>bw_devTools := \<not> bw_devTools w\<rparr>) s
      | CloseWindow \<Rightarrow> on_window (\<lambda>w. w\<lparr>bw_closing := True\<rparr>) s)"

section \<open>Behaviour\<close>

fun item_actions :: "menu_item \<Rightarrow> menu_action list" where
  "item_actions Separator = []"
| "item_actions (Entry l acc sel a) = (case a of None \<Rightarrow> [] | Some x \<Rightarrow> [x])"
| "item_actions (Submenu l items) = concat (map item_actions items)"

text \<open>The actions on offer: those of the application menu, or of the menu of the window.\<close>

definition offered :: "desktop \<Rightarrow> menu_action list" where
  "offered s =
     (case appMenu s of
        Some items \<Rightarrow> concat (map item_actions items)
      | None \<Rightarrow> (case mainWindow s of None \<Rightarrow> []
                | Some w \<Rightarrow> (case bw_menu w of None \<Rightarrow> [] | Some items \<Rightarrow> concat (map item_actions items))))"

text \<open>
  The runs of the application: it becomes ready, the user chooses entries of the menu and navigates,
  and the window is closed, which leaves no window.
\<close>

inductive desktop_reach :: "string \<Rightarrow> bool \<Rightarrow> string \<Rightarrow> desktop \<Rightarrow> bool"
  for platform :: string and development :: bool and dirname :: string where
  ready: "desktop_reach platform development dirname (on_ready platform development dirname desktop_init)"
| click: "desktop_reach platform development dirname s \<Longrightarrow> a \<in> set (offered s) \<Longrightarrow>
    desktop_reach platform development dirname (fst (menu_click a s))"
| navigate: "desktop_reach platform development dirname s \<Longrightarrow> mainWindow s \<noteq> None \<Longrightarrow>
    desktop_reach platform development dirname (on_did_navigate url s)"
| closed: "desktop_reach platform development dirname s \<Longrightarrow> mainWindow s \<noteq> None \<Longrightarrow>
    desktop_reach platform development dirname (on_window_all_closed platform (on_closed s))"

definition needs_window :: "menu_action \<Rightarrow> bool" where
  "needs_window a = (case a of OpenExternal url \<Rightarrow> False | QuitApp \<Rightarrow> False | _ \<Rightarrow> True)"

lemma menu_click_raises: "snd (menu_click a s) = (if needs_window a \<and> mainWindow s = None then Some TypeError else None)"
  by (cases a; cases "mainWindow s") (simp_all add: menu_click_def on_window_def needs_window_def)

lemma menu_click_keeps:
  "appMenu (fst (menu_click a s)) = appMenu s"
  "mainWindow (fst (menu_click a s)) = None \<longleftrightarrow> mainWindow s = None"
  "quitting s \<Longrightarrow> quitting (fst (menu_click a s))"
  by (cases a; cases "mainWindow s"; simp add: menu_click_def on_window_def)+

lemma reach_other:
  assumes "desktop_reach platform development dirname s" "platform \<noteq> ''darwin''"
  shows "appMenu s = None \<and> (mainWindow s = None \<longrightarrow> quitting s)"
  using assms
proof (induction rule: desktop_reach.induct)
  case ready
  then show ?case by (simp add: on_ready_def desktop_init_def Let_def)
next
  case (click s a)
  then show ?case by (simp add: menu_click_keeps)
next
  case (navigate s url)
  then show ?case by (simp add: on_did_navigate_def)
next
  case (closed s)
  then show ?case by (simp add: on_window_all_closed_def on_closed_def)
qed

text \<open>
  C36. Outside of macOS no entry of the menu can fail, and the shell does not outlive its window: in any
  state it can reach, no action on offer raises an error, and when the window is gone the application
  is quitting.
\<close>

theorem desktop_menu_safe:
  assumes "desktop_reach platform development dirname s" "platform \<noteq> ''darwin''"
  shows "(\<forall>a \<in> set (offered s). snd (menu_click a s) = None) \<and> (mainWindow s = None \<longrightarrow> quitting s)"
proof -
  note r = reach_other [OF assms]
  have "mainWindow s \<noteq> None" if "a \<in> set (offered s)" for a
    using that r by (cases "mainWindow s") (simp_all add: offered_def)
  then show ?thesis using r by (auto simp: menu_click_raises)
qed

text \<open>
  On macOS the menu outlives the window: after the window has been closed the application goes on and
  an entry that needs the window raises a TypeError.
\<close>

lemma desktop_menu_fails_on_mac:
  "\<exists>s. desktop_reach ''darwin'' development dirname s \<and> \<not> quitting s \<and>
     ToggleFullScreen \<in> set (offered s) \<and> snd (menu_click ToggleFullScreen s) = Some TypeError"
proof -
  let ?r = "on_ready ''darwin'' development dirname desktop_init"
  let ?s = "on_window_all_closed ''darwin'' (on_closed ?r)"
  have "desktop_reach ''darwin'' development dirname ?s"
    by (rule desktop_reach.closed [OF desktop_reach.ready]) (simp add: on_ready_def Let_def)
  moreover have "\<not> quitting ?s" "mainWindow ?s = None"
    by (simp_all add: on_window_all_closed_def on_closed_def on_ready_def Let_def desktop_init_def)
  moreover have "appMenu ?s = Some (mac_template development desktop_languages)"
    by (simp add: on_window_all_closed_def on_closed_def on_ready_def Let_def)
  then have "ToggleFullScreen \<in> set (offered ?s)"
    by (simp add: offered_def mac_template_def action_entry_def)
  ultimately show ?thesis by (intro exI [of _ ?s]) (simp add: menu_click_raises needs_window_def)
qed

text \<open>The entries for the languages run the script with their own code.\<close>

lemma language_entry:
  assumes "i < length desktop_languages" "mainWindow s = Some w"
  shows "item_actions (langMenu desktop_languages) ! i = ChangeLang (fst (desktop_languages ! i)) \<and>
    mainWindow (fst (menu_click (ChangeLang (fst (desktop_languages ! i))) s)) =
      Some (w\<lparr>bw_scripts := bw_scripts w @ [lang_script (fst (desktop_languages ! i))]\<rparr>)"
proof -
  have "item_actions (langMenu ls) = map (\<lambda>(code, title). ChangeLang code) ls" for ls
    by (induction ls) (auto simp: langMenu_def)
  then show ?thesis using assms by (simp add: split_beta menu_click_def on_window_def)
qed

text \<open>The desktop shell and the page support the same languages.\<close>

lemma languages_agree: "desktop_languages = GET_SUPPORTED_LANGUAGES"
  by (simp add: desktop_languages_def GET_SUPPORTED_LANGUAGES_def)

lemma desktop_menu_safe_witness:
  "let s = on_ready ''linux'' False ''/opt/ui'' desktop_init; t = on_window_all_closed ''linux'' (on_closed s) in
     CloseWindow \<in> set (offered s) \<and> snd (menu_click CloseWindow s) = None \<and> mainWindow t = None \<and> quitting t"
proof -
  let ?s = "on_ready ''linux'' False ''/opt/ui'' desktop_init"
  let ?t = "on_window_all_closed ''linux'' (on_closed ?s)"
  have other: "''linux'' \<noteq> ''darwin''" by simp
  have s: "desktop_reach ''linux'' False ''/opt/ui'' ?s" by (rule desktop_reach.ready)
  have t: "desktop_reach ''linux'' False ''/opt/ui'' ?t"
    by (rule desktop_reach.closed [OF s]) (simp add: on_ready_def Let_def)
  have offers: "CloseWindow \<in> set (offered ?s)"
    by (simp add: offered_def on_ready_def Let_def desktop_init_def other_template_def action_entry_def)
  have gone: "mainWindow ?t = None" by (simp add: on_window_all_closed_def on_closed_def)
  from desktop_menu_safe [OF s other] desktop_menu_safe [OF t other] offers gone show ?thesis
    unfolding Let_def by blast
qed

end
