(* ===== verification/InstallTool.thy ===== *)
theory InstallTool
  imports Prelude
begin

text \<open>
  \<open>tools/install.js\<close> of the user interface: the resolution of the paths between which the script
  links the sources of the web application and of the mobile one. \<open>argv1\<close> is the path of the script
  and \<open>win\<close> whether the platform is \<open>win32\<close>. The main program of the script is in \<open>InstallMain\<close>.
\<close>

section \<open>Paths\<close>

definition splitPath :: "string \<Rightarrow> string list" where
  "splitPath v = (if indexOf ''/'' v \<noteq> None then js_split (CHR ''/'') v else js_split (CHR 0x5C) v)"

text \<open>One round of the loop: \<open>pop\<close> on an empty array does nothing.\<close>

definition resolve_step :: "string \<Rightarrow> string list \<Rightarrow> string list" where
  "resolve_step seg cwdPath =
     (if seg = ''.'' \<or> seg = [] then cwdPath
      else if seg = ''..'' then butlast cwdPath
      else cwdPath @ [seg])"

definition drop_last_if :: "char \<Rightarrow> string \<Rightarrow> string" where
  "drop_last_if c s = (if s \<noteq> [] \<and> last s = c then butlast s else s)"

definition resolve :: "bool \<Rightarrow> string \<Rightarrow> string \<Rightarrow> string" where
  "resolve win argv1 v =
     (let cwd0 = butlast (splitPath argv1);
          cwd1 = (if cwd0 \<noteq> [] \<and> last cwd0 = [] then butlast cwd0 else cwd0);
          cwd2 = (if v \<noteq> [] \<and> (hd v = CHR ''/'' \<or> hd v = CHR 0x5C) then [] else cwd1);
          cwdPath = fold resolve_step (splitPath v) cwd2 in
      if win then drop_last_if (CHR 0x5C) (js_join [CHR 0x5C] cwdPath)
      else (let result = js_join ''/'' cwdPath;
                result = (if result = [] \<or> hd result \<noteq> CHR ''/'' then CHR ''/'' # result else result) in
            drop_last_if (CHR ''/'') result))"

section \<open>The links\<close>

definition webAppPath :: string where "webAppPath = ''../src/client/app''"
definition nativescriptAppPath :: string where "nativescriptAppPath = ''../nativescript/src/app/''"

text \<open>The arguments of \<open>fs.symlinkSync\<close>: the target and the place of the link.\<close>

definition createSymLink :: "bool \<Rightarrow> string \<Rightarrow> string \<times> string" where
  "createSymLink win argv1 = (resolve win argv1 webAppPath, resolve win argv1 nativescriptAppPath)"

definition last_index :: "char \<Rightarrow> string \<Rightarrow> int" where
  "last_index c s = (case filter (\<lambda>i. s ! i = c) [0..<length s] of [] \<Rightarrow> -1 | is \<Rightarrow> int (last is))"

definition createRootSymLink :: "bool \<Rightarrow> string \<Rightarrow> string \<times> string" where
  "createRootSymLink win argv1 =
     (let li1 = last_index (CHR 0x5C) argv1; li2 = last_index (CHR ''/'') argv1;
          li = (if li2 > li1 then li2 else li1);
          AppPath = take (nat li) argv1 in
      (resolve win argv1 (AppPath @ ''/'' @ webAppPath), resolve win argv1 (AppPath @ ''/'' @ nativescriptAppPath)))"

section \<open>Properties\<close>

text \<open>
  The reference: a path is resolved against the directory \<open>ds\<close> segment by segment; the root is its own
  parent. \<open>abs_path\<close> writes a list of directories as the code does.
\<close>

definition walk :: "string \<Rightarrow> string list \<Rightarrow> string list" where
  "walk v ds = fold resolve_step (js_split (CHR ''/'') v) ds"

definition abs_path :: "string list \<Rightarrow> string" where
  "abs_path ps = concat (map (\<lambda>p. CHR ''/'' # p) ps)"

definition segment :: "string \<Rightarrow> bool" where
  "segment p \<longleftrightarrow> p \<noteq> [] \<and> CHR ''/'' \<notin> set p"

lemma join_abs_path: "ps \<noteq> [] \<Longrightarrow> CHR ''/'' # js_join ''/'' ps = abs_path ps"
  by (induction "''/''" ps rule: js_join.induct) (auto simp: abs_path_def)

lemma walk_rel:
  assumes "cwd = [] # ds \<or> cwd = ds"
  shows "fold resolve_step ws cwd = [] # fold resolve_step ws ds \<or> fold resolve_step ws cwd = fold resolve_step ws ds"
  using assms
proof (induction ws arbitrary: cwd ds)
  case (Cons w ws)
  have "resolve_step w cwd = [] # resolve_step w ds \<or> resolve_step w cwd = resolve_step w ds"
    using Cons.prems by (auto simp: resolve_step_def)
  from Cons.IH [OF this] show ?case by simp
qed simp

lemma step_segments:
  assumes "\<forall>p \<in> set ds. segment p" "CHR ''/'' \<notin> set w"
  shows "\<forall>p \<in> set (resolve_step w ds). segment p"
proof
  fix p
  assume "p \<in> set (resolve_step w ds)"
  then have "p \<in> set ds \<or> p = w \<and> w \<noteq> []"
    unfolding resolve_step_def
    by (cases "w = ''.'' \<or> w = []"; cases "w = ''..''") (auto dest: in_set_butlastD simp del: list.inject)
  then show "segment p" using assms by (metis segment_def)
qed

lemma walk_segments:
  "\<forall>p \<in> set ds. segment p \<Longrightarrow> \<forall>w \<in> set ws. CHR ''/'' \<notin> set w \<Longrightarrow>
     \<forall>p \<in> set (fold resolve_step ws ds). segment p"
proof (induction ws arbitrary: ds)
  case (Cons w ws)
  have "\<forall>p \<in> set (resolve_step w ds). segment p" by (rule step_segments) (use Cons.prems in simp_all)
  from Cons.IH [OF this] show ?case using Cons.prems(2) by simp
qed simp

lemma abs_path_last:
  assumes "ps \<noteq> []" "\<forall>p \<in> set ps. segment p"
  shows "last (abs_path ps) \<noteq> CHR ''/''"
proof -
  have "segment (last ps)" using assms by simp
  then have "last (abs_path ps) = last (last ps)"
    using assms(1) by (induction ps rule: rev_induct) (auto simp: abs_path_def segment_def)
  then show ?thesis using \<open>segment (last ps)\<close> by (metis last_in_set segment_def)
qed

lemma print_path:
  assumes "cwd = [] # ps \<or> cwd = ps" "\<forall>p \<in> set ps. segment p"
  shows "drop_last_if (CHR ''/'')
     (if js_join ''/'' cwd = [] \<or> hd (js_join ''/'' cwd) \<noteq> CHR ''/'' then CHR ''/'' # js_join ''/'' cwd
      else js_join ''/'' cwd) = abs_path ps"
proof (cases "ps = []")
  case True
  then show ?thesis using assms(1) by (auto simp: drop_last_if_def abs_path_def)
next
  case False
  then have seg: "segment (hd ps)" using assms(2) by simp
  have hd: "js_join ''/'' ps \<noteq> []" "hd (js_join ''/'' ps) \<noteq> CHR ''/''"
  proof -
    have "\<exists>c r u. hd ps = c # r \<and> js_join ''/'' ps = c # u"
      using False seg by (cases ps; cases "tl ps") (auto simp: segment_def neq_Nil_conv)
    then show "js_join ''/'' ps \<noteq> []" "hd (js_join ''/'' ps) \<noteq> CHR ''/''"
      using seg by (auto simp: segment_def)
  qed
  have join: "js_join ''/'' ([] # ps) = CHR ''/'' # js_join ''/'' ps" using False by (cases ps) auto
  have "drop_last_if (CHR ''/'') (abs_path ps) = abs_path ps"
    using abs_path_last [OF False assms(2)] by (simp add: drop_last_if_def)
  moreover have "abs_path ps \<noteq> []" "hd (abs_path ps) = CHR ''/''"
    using False by (cases ps; simp add: abs_path_def)+
  ultimately show ?thesis using assms(1) join hd join_abs_path [OF False] by auto
qed

lemma split_abs_path:
  assumes "\<forall>p \<in> set ps. segment p" "ps \<noteq> []"
  shows "splitPath (abs_path ps) = [] # ps"
proof -
  have j: "abs_path ps = js_join [CHR ''/''] ([] # ps)"
    using join_abs_path [OF assms(2)] assms(2) by (cases ps) auto
  have "js_split (CHR ''/'') (js_join [CHR ''/''] ([] # ps)) = [] # ps"
    by (rule js_split_join) (use assms in \<open>auto simp: segment_def\<close>)
  moreover have "indexOf ''/'' (abs_path ps) \<noteq> None"
    using assms(2) by (cases ps) (auto simp: abs_path_def)
  ultimately show ?thesis by (simp add: splitPath_def j)
qed

text \<open>
  Outside of Windows, \<open>resolve\<close> is the resolution of a relative path against the directory of the
  script: for a script in the directory \<open>ds\<close>, the result is the absolute path that the segments of the
  path lead to from \<open>ds\<close>, where a dot stays, two dots go up, at most to the root, and empty segments
  are skipped. The root itself is written as the empty text.
\<close>

lemma resolve_walks:
  assumes "\<forall>p \<in> set (ds @ [script]). segment p"
    and "v \<noteq> []" "hd v \<noteq> CHR ''/''" "hd v \<noteq> CHR 0x5C" "CHR ''/'' \<in> set v"
  shows "resolve False (abs_path (ds @ [script])) v = abs_path (walk v ds)"
proof -
  have s: "splitPath (abs_path (ds @ [script])) = [] # ds @ [script]"
    by (rule split_abs_path) (use assms(1) in auto)
  define cwd1 where "cwd1 = (if last ([] # ds) = [] then butlast ([] # ds) else [] # ds)"
  have "cwd1 = [] # ds \<or> cwd1 = ds"
    using assms(1) by (cases ds rule: rev_cases) (auto simp: cwd1_def segment_def)
  from walk_rel [OF this, of "js_split (CHR ''/'') v"]
  have rel: "fold resolve_step (js_split (CHR ''/'') v) cwd1 = [] # walk v ds \<or>
      fold resolve_step (js_split (CHR ''/'') v) cwd1 = walk v ds"
    by (simp add: walk_def)
  have segs: "\<forall>p \<in> set (walk v ds). segment p"
    unfolding walk_def by (rule walk_segments) (use assms(1) js_split_parts in auto)
  have "\<exists>a b. v = a @ ''/'' @ b" using split_list [OF assms(5)] by auto
  then have "splitPath v = js_split (CHR ''/'') v"
    using indexOf_None_iff [of "''/''" v] by (simp add: splitPath_def)
  moreover have "(if [] # ds \<noteq> [] \<and> last ([] # ds) = [] then butlast ([] # ds) else [] # ds) = cwd1"
    by (simp only: cwd1_def) simp
  moreover have "butlast (splitPath (abs_path (ds @ [script]))) = [] # ds" by (simp add: s butlast_append)
  moreover have "\<not> (v \<noteq> [] \<and> (hd v = CHR ''/'' \<or> hd v = CHR 0x5C))" using assms(3,4) by simp
  ultimately show ?thesis
    unfolding resolve_def Let_def by (simp only: if_False print_path [OF rel segs])
qed

lemma resolve_walks_witness:
  "createSymLink False ''/ui/tools/install.js'' = (''/ui/src/client/app'', ''/ui/nativescript/src/app'')"
proof -
  have s: "''/ui/tools/install.js'' = abs_path ([''ui'', ''tools''] @ [''install.js''])" by (simp add: abs_path_def)
  have seg: "\<forall>p \<in> set ([''ui'', ''tools''] @ [''install.js'']). segment p" by (simp add: segment_def)
  have "resolve False ''/ui/tools/install.js'' webAppPath = abs_path (walk webAppPath [''ui'', ''tools''])"
    unfolding s by (rule resolve_walks [OF seg]) (simp_all add: webAppPath_def)
  moreover have "resolve False ''/ui/tools/install.js'' nativescriptAppPath =
      abs_path (walk nativescriptAppPath [''ui'', ''tools''])"
    unfolding s by (rule resolve_walks [OF seg]) (simp_all add: nativescriptAppPath_def)
  ultimately show ?thesis
    by (simp add: createSymLink_def webAppPath_def nativescriptAppPath_def walk_def resolve_step_def abs_path_def)
qed

end
