(* ===== verification/InstallMain.thy ===== *)
theory InstallMain
  imports InstallTool
begin

text \<open>
  The main program of \<open>tools/install.js\<close>: it replaces the link from the mobile application to the
  sources of the web application, asks for the rights of the administrator when the link cannot be
  made, and says what it did. The file system is a map from absolute paths; \<open>may\<close> tells whether the
  user may change a path, and \<open>exec\<close> is what a command of the shell does to the file system, with
  \<^term>\<open>None\<close> for a command that fails.
\<close>

section \<open>The file system\<close>

datatype node_entry = FileNode | DirNode | LinkNode string

type_synonym disk = "string \<rightharpoonup> node_entry"

datatype fs_error = EEXIST | ENOENT | EACCES | EPERM | CommandFailed

text \<open>\<open>existsSync\<close> follows links, of which the system allows forty in a row.\<close>

fun target_exists :: "nat \<Rightarrow> disk \<Rightarrow> string \<Rightarrow> bool" where
  "target_exists n d p =
     (case d p of
        None \<Rightarrow> False
      | Some (LinkNode t) \<Rightarrow> (case n of 0 \<Rightarrow> False | Suc k \<Rightarrow> target_exists k d t)
      | Some _ \<Rightarrow> True)"

definition existsSync :: "disk \<Rightarrow> string \<Rightarrow> bool" where
  "existsSync d p = target_exists 40 d p"

definition unlinkSync :: "(string \<Rightarrow> bool) \<Rightarrow> string \<Rightarrow> disk \<Rightarrow> fs_error + disk" where
  "unlinkSync may p d =
     (case d p of
        None \<Rightarrow> Inl ENOENT
      | Some DirNode \<Rightarrow> Inl EPERM
      | Some _ \<Rightarrow> if may p then Inr (d(p := None)) else Inl EACCES)"

definition symlinkSync :: "(string \<Rightarrow> bool) \<Rightarrow> string \<times> string \<Rightarrow> disk \<Rightarrow> fs_error + disk" where
  "symlinkSync may target_place d =
     (case target_place of (t, p) \<Rightarrow>
        if d p \<noteq> None then Inl EEXIST else if may p then Inr (d(p \<mapsto> LinkNode t)) else Inl EACCES)"

section \<open>The program\<close>

definition finalHelp :: "string list" where
  "finalHelp =
     [''------------------------ Xenon UI Development Environment is Now Ready ----------------------------'',
      [], ''Run your web app with:'', ''  npm start'', [],
      ''Run your Mobile app via NativeScript with:'', ''  iOS:     npm run start.ios'', ''  Android: npm run start.android'', [],
      ''Run your Desktop app via Electron with:'', ''  Mac:     npm run start.desktop'', ''  Windows: npm run start.desktop.windows'', [],
      ''-----------------------------------------------------------------------------------------'', []]"

definition root_command :: "bool \<Rightarrow> string \<Rightarrow> string \<Rightarrow> string" where
  "root_command win argv0 argv1 =
     (if win
      then ''powershell -Command '' @ [CHR 0x22] @ ''Start-Process '' @ [CHR 0x27] @ ''node'' @ [CHR 0x27] @ '' -ArgumentList '' @
           [CHR 0x27] @ resolve win argv1 ''./'' @ ''/install.js symlink'' @ [CHR 0x27] @ '' -verb runas'' @ [CHR 0x22]
      else ''sudo '' @ argv0 @ '' '' @ argv1 @ '' symlink'')"

definition root_message :: string where
  "root_message = ''To automatically create a SymLink between your web app and NativeScript, we need root for a second.''"

definition AttemptRootSymlink ::
  "bool \<Rightarrow> (string \<Rightarrow> disk \<Rightarrow> disk option) \<Rightarrow> string \<Rightarrow> string \<Rightarrow> disk \<Rightarrow> disk \<times> string list \<times> fs_error option" where
  "AttemptRootSymlink win exec argv0 argv1 d =
     (let said = (if win then [] else [root_message]) in
      case exec (root_command win argv0 argv1) d of
        None \<Rightarrow> (d, said, Some CommandFailed)
      | Some d' \<Rightarrow> (d', said, None))"

text \<open>The message when there is no link in the end; \<open>console.log\<close> puts a space between its arguments.\<close>

definition link_missing :: "string \<times> string \<Rightarrow> string list" where
  "link_missing target_place =
     (case target_place of (t, p) \<Rightarrow>
        [''We were unable to create a symlink  - from -'', ''   '' @ t @ ''     - to - '', ''   '' @ p,
         ''If you don'' @ [CHR 0x27] @ ''t create this symlink, you will have to manually copy the code each time you change it.''])"

text \<open>The state of the disk, the lines that are printed and the error that ends the program, if one does.\<close>

definition install_main ::
  "bool \<Rightarrow> (string \<Rightarrow> disk \<Rightarrow> disk option) \<Rightarrow> (string \<Rightarrow> bool) \<Rightarrow> string list \<Rightarrow> disk \<Rightarrow> disk \<times> string list \<times> fs_error option" where
  "install_main win exec may argv d =
     (let argv1 = argv ! 1; link = createSymLink win argv1 in
      if length argv > 2 then
        (if argv ! 2 = ''symlink''
         then (case symlinkSync may (createRootSymLink win argv1) d of
                 Inl e \<Rightarrow> (d, [], Some e)
               | Inr d' \<Rightarrow> (d', [''Created Symlink''], None))
         else (d, [], None))
      else
        (let d1 = (if existsSync d (snd link)
                   then (case unlinkSync may (snd link) d of Inl e \<Rightarrow> d | Inr d' \<Rightarrow> d') else d);
             (d2, said, failed) =
               (case symlinkSync may link d1 of
                  Inr d' \<Rightarrow> (d', [], None)
                | Inl e \<Rightarrow> if e = EEXIST then (d1, [''A symlink already exists.''], None)
                           else AttemptRootSymlink win exec (argv ! 0) argv1 d1) in
         case failed of
           Some e \<Rightarrow> (d2, ''Configuring...'' # said, Some e)
         | None \<Rightarrow> (d2, ''Configuring...'' # said @ finalHelp @
                      (if existsSync d2 (snd link) then [] else link_missing link), None)))"

section \<open>The link the administrator makes\<close>

lemma last_index_last:
  "filter (\<lambda>i. s ! i = c) [0..<length s] = is @ [k] \<Longrightarrow> last_index c s = int k"
  by (cases "is") (simp_all add: last_index_def)

lemma last_index_append: "c \<notin> set b \<Longrightarrow> last_index c (a @ c # b) = int (length a)"
proof -
  assume b: "c \<notin> set b"
  let ?s = "a @ c # b"
  have "[0..<length ?s] = [0..<length a] @ [length a] @ [Suc (length a)..<length ?s]"
    using upt_add_eq_append [of 0 "length a" "Suc (length b)"] by (simp add: upt_rec [of "length a"] del: upt_Suc)
  moreover have "filter (\<lambda>i. ?s ! i = c) [Suc (length a)..<length ?s] = []"
    using b by (auto simp: filter_empty_conv nth_append nth_Cons split: nat.splits)
  ultimately have "filter (\<lambda>i. ?s ! i = c) [0..<length ?s] = filter (\<lambda>i. ?s ! i = c) [0..<length a] @ [length a]"
    by (simp only: filter_append) simp
  then show ?thesis by (rule last_index_last)
qed

lemma last_index_before: "c \<notin> set b \<Longrightarrow> last_index c (a @ b) < int (length a)"
proof -
  assume b: "c \<notin> set b"
  let ?f = "filter (\<lambda>i. (a @ b) ! i = c) [0..<length (a @ b)]"
  have "i < length a" if "i \<in> set ?f" for i
    using that b by (auto simp: nth_append split: if_splits)
  then have "?f \<noteq> [] \<Longrightarrow> last ?f < length a" by (metis last_in_set)
  then show ?thesis by (cases ?f) (simp_all add: last_index_def split: if_splits)
qed

lemma abs_path_snoc: "abs_path (ps @ [p]) = abs_path ps @ CHR ''/'' # p"
  by (simp add: abs_path_def)

lemma split_abs: "\<forall>p\<in>set ps. segment p \<Longrightarrow> js_split (CHR ''/'') (abs_path ps) = [] # ps"
proof (induction ps rule: rev_induct)
  case (snoc p ps)
  then show ?case by (simp add: abs_path_snoc js_split_append js_split_no_sep segment_def)
qed (simp add: abs_path_def)

lemma abs_path_inject:
  "\<forall>p\<in>set ps. segment p \<Longrightarrow> \<forall>p\<in>set qs. segment p \<Longrightarrow> abs_path ps = abs_path qs \<longleftrightarrow> ps = qs"
  by (metis list.inject split_abs)

text \<open>A segment of a directory that Node has resolved: neither empty nor a dot nor two.\<close>

definition resolved_segment :: "string \<Rightarrow> bool" where
  "resolved_segment p \<longleftrightarrow> segment p \<and> p \<noteq> ''.'' \<and> p \<noteq> ''..''"

lemma walk_resolved: "list_all resolved_segment ps \<Longrightarrow> fold resolve_step ps ds = ds @ ps"
proof (induction ps arbitrary: ds)
  case (Cons p ps)
  then have "resolve_step p ds = ds @ [p]" by (simp add: resolve_step_def resolved_segment_def segment_def)
  then show ?case using Cons by simp
qed simp

lemma walk_from_root:
  assumes "list_all resolved_segment ds"
  shows "walk (abs_path ds @ CHR ''/'' # v) [] = walk v ds"
proof -
  have "\<forall>p\<in>set ds. segment p" using assms by (simp add: list_all_iff resolved_segment_def)
  moreover have "resolve_step [] [] = []" by (simp add: resolve_step_def)
  ultimately show ?thesis using walk_resolved [OF assms, of "[]"] by (simp add: walk_def js_split_append split_abs)
qed

lemma resolve_absolute:
  assumes "v \<noteq> []" "hd v = CHR ''/''"
  shows "resolve False argv1 v = abs_path (walk v [])"
proof -
  have "\<exists>a b. v = a @ ''/'' @ b" using assms by (cases v) (auto intro: exI [of _ "[]"])
  then have s: "splitPath v = js_split (CHR ''/'') v"
    using indexOf_None_iff [of "''/''" v] by (simp add: splitPath_def)
  have segs: "\<forall>p\<in>set (walk v []). segment p"
    unfolding walk_def by (rule walk_segments) (use js_split_parts in auto)
  have c: "v \<noteq> [] \<and> (hd v = CHR ''/'' \<or> hd v = CHR 0x5C)" using assms by simp
  show ?thesis
    unfolding resolve_def Let_def s if_P [OF c] walk_def [symmetric]
    by (simp only: if_False print_path [OF disjI2 [OF refl] segs])
qed

lemma root_link:
  assumes "list_all resolved_segment ds" and "CHR ''/'' \<notin> set script" "CHR 0x5C \<notin> set script" "script \<noteq> []"
  shows "createRootSymLink False (abs_path (ds @ [script])) = createSymLink False (abs_path (ds @ [script]))"
proof -
  let ?a = "abs_path (ds @ [script])"
  have "last_index (CHR ''/'') ?a = int (length (abs_path ds))"
    using last_index_append [OF assms(2)] by (simp add: abs_path_snoc)
  moreover have "last_index (CHR 0x5C) ?a < int (length (abs_path ds))"
    using last_index_before [of "CHR 0x5C" "CHR ''/'' # script" "abs_path ds"] assms(3) by (simp add: abs_path_snoc)
  ultimately have root: "createRootSymLink False ?a =
      (resolve False ?a (abs_path ds @ ''/'' @ webAppPath), resolve False ?a (abs_path ds @ ''/'' @ nativescriptAppPath))"
    by (simp add: createRootSymLink_def Let_def abs_path_snoc)
  have abs: "resolve False ?a (abs_path ds @ ''/'' @ v) = abs_path (walk v ds)" for v
  proof -
    have "hd (abs_path ds @ ''/'' @ v) = CHR ''/''" by (cases ds) (simp_all add: abs_path_def)
    then have "resolve False ?a (abs_path ds @ ''/'' @ v) = abs_path (walk (abs_path ds @ ''/'' @ v) [])"
      by (intro resolve_absolute) simp_all
    then show ?thesis using walk_from_root [OF assms(1), of v] by simp
  qed
  have "\<forall>p\<in>set (ds @ [script]). segment p"
    using assms by (auto simp: list_all_iff resolved_segment_def segment_def)
  then have "resolve False ?a webAppPath = abs_path (walk webAppPath ds)"
    "resolve False ?a nativescriptAppPath = abs_path (walk nativescriptAppPath ds)"
    using resolve_walks [of ds script webAppPath] resolve_walks [of ds script nativescriptAppPath]
    by (simp_all add: webAppPath_def nativescriptAppPath_def)
  then show ?thesis by (simp only: root abs createSymLink_def)
qed

section \<open>Properties\<close>

lemma install_paths:
  assumes "list_all resolved_segment ds" "argv1 = abs_path (ds @ [''install.js''])"
  shows "createSymLink False argv1 = (abs_path (butlast ds @ [''src'', ''client'', ''app'']),
      abs_path (butlast ds @ [''nativescript'', ''src'', ''app'']))"
    and "abs_path (butlast ds @ [''src'', ''client'', ''app'']) \<noteq> abs_path (butlast ds @ [''nativescript'', ''src'', ''app''])"
proof -
  have seg: "\<forall>p\<in>set (ds @ [''install.js'']). segment p"
    using assms(1) by (simp add: list_all_iff resolved_segment_def segment_def)
  have w: "walk webAppPath ds = butlast ds @ [''src'', ''client'', ''app'']"
    "walk nativescriptAppPath ds = butlast ds @ [''nativescript'', ''src'', ''app'']"
    by (simp_all add: walk_def webAppPath_def nativescriptAppPath_def resolve_step_def)
  then show "createSymLink False argv1 = (abs_path (butlast ds @ [''src'', ''client'', ''app'']),
      abs_path (butlast ds @ [''nativescript'', ''src'', ''app'']))"
    using resolve_walks [OF seg, of webAppPath] resolve_walks [OF seg, of nativescriptAppPath] assms(2)
    by (simp add: createSymLink_def webAppPath_def nativescriptAppPath_def)
  have "\<forall>p\<in>set (butlast ds). segment p" using seg by (auto dest: in_set_butlastD)
  then have "\<forall>p\<in>set (butlast ds @ [''src'', ''client'', ''app'']). segment p"
    "\<forall>p\<in>set (butlast ds @ [''nativescript'', ''src'', ''app'']). segment p"
    by (simp_all add: ball_Un segment_def)
  then show "abs_path (butlast ds @ [''src'', ''client'', ''app'']) \<noteq> abs_path (butlast ds @ [''nativescript'', ''src'', ''app''])"
    by (simp add: abs_path_inject)
qed

lemma exists_link: "d t = Some DirNode \<Longrightarrow> t \<noteq> p \<Longrightarrow> existsSync (d(p \<mapsto> LinkNode t)) p"
  by (simp add: existsSync_def numeral_eq_Suc)

text \<open>
  C31. The install script outside of Windows, run from the directory \<open>ds\<close> of the tools: when the sources of
  the web application are there and either the user may make the link and its place is empty or holds
  an old link whose target exists, or its place is empty and \<open>sudo\<close> runs the script again with the
  rights to make it, the script ends without an error, the one change to the disk is the link from the mobile
  application to the web application, and the lines it prints end with the help: nothing is said of
  a missing link. The two ways make the same link.
\<close>

theorem install_links:
  assumes "list_all resolved_segment ds" "argv = [node, abs_path (ds @ [''install.js''])]"
    and "web = abs_path (butlast ds @ [''src'', ''client'', ''app''])"
    and "place = abs_path (butlast ds @ [''nativescript'', ''src'', ''app''])"
    and "d web = Some DirNode"
    and "may place \<and> (d place = None \<or> (\<exists>t. d place = Some (LinkNode t) \<and> existsSync d place)) \<or>
         \<not> may place \<and> d place = None \<and>
         exec (''sudo '' @ node @ '' '' @ argv ! 1 @ '' symlink'') d =
           Some (fst (install_main False exec (\<lambda>_. True) (argv @ [''symlink'']) d))"
  shows "install_main False exec may argv d =
      (d(place \<mapsto> LinkNode web), ''Configuring...'' # (if may place then [] else [root_message]) @ finalHelp, None)"
proof -
  define a where "a = abs_path (ds @ [''install.js''])"
  have argv: "argv = [node, a]" using assms(2) by (simp add: a_def)
  have link: "createSymLink False a = (web, place)" and ne: "web \<noteq> place"
    using install_paths [OF assms(1) a_def] assms(3,4) by simp_all
  have root: "createRootSymLink False a = (web, place)"
    using root_link [OF assms(1), of "''install.js''"] link by (simp add: a_def)
  have ex: "existsSync (d(place \<mapsto> LinkNode web)) place" using assms(5) ne by (rule exists_link)
  consider (free) "may place" "d place = None"
    | (old) t where "may place" "d place = Some (LinkNode t)" "existsSync d place"
    | (root) "\<not> may place" "d place = None" "exec (''sudo '' @ node @ '' '' @ argv ! 1 @ '' symlink'') d =
        Some (fst (install_main False exec (\<lambda>_. True) (argv @ [''symlink'']) d))"
    using assms(6) by (elim disjE conjE exE) simp_all
  then show ?thesis
  proof cases
    case free
    then show ?thesis using ex by (simp add: install_main_def Let_def argv link unlinkSync_def symlinkSync_def)
  next
    case old
    then show ?thesis using ex by (simp add: install_main_def Let_def argv link unlinkSync_def symlinkSync_def)
  next
    case root
    have "fst (install_main False exec (\<lambda>_. True) (argv @ [''symlink'']) d) = d(place \<mapsto> LinkNode web)"
      using root(2) by (simp add: install_main_def Let_def argv \<open>createRootSymLink False a = (web, place)\<close> symlinkSync_def)
    then have "exec (root_command False node a) d = Some (d(place \<mapsto> LinkNode web))"
      using root(3) by (simp add: root_command_def argv)
    moreover have "\<not> existsSync d place" using root(2) by (simp add: existsSync_def)
    ultimately show ?thesis
      using root(1,2) ex by (simp add: install_main_def Let_def argv link symlinkSync_def AttemptRootSymlink_def)
  qed
qed

theorem install_links_witness:
  "install_main False (\<lambda>c d. if c = ''sudo node /ui/tools/install.js symlink''
       then Some (d(''/ui/nativescript/src/app'' \<mapsto> LinkNode ''/ui/src/client/app'')) else None)
     (\<lambda>p. False) [''node'', ''/ui/tools/install.js''] [''/ui/src/client/app'' \<mapsto> DirNode] =
   ([''/ui/src/client/app'' \<mapsto> DirNode, ''/ui/nativescript/src/app'' \<mapsto> LinkNode ''/ui/src/client/app''],
    ''Configuring...'' # root_message # finalHelp, None)"
proof -
  let ?ds = "[''ui'', ''tools'']"
  have ds: "list_all resolved_segment ?ds" by (simp add: resolved_segment_def segment_def)
  have p: "''/ui/tools/install.js'' = abs_path (?ds @ [''install.js''])"
    "''/ui/src/client/app'' = abs_path (butlast ?ds @ [''src'', ''client'', ''app''])"
    "''/ui/nativescript/src/app'' = abs_path (butlast ?ds @ [''nativescript'', ''src'', ''app''])"
    by (simp_all add: abs_path_def)
  have r: "createRootSymLink False ''/ui/tools/install.js'' = (''/ui/src/client/app'', ''/ui/nativescript/src/app'')"
    using root_link [OF ds, of "''install.js''"] install_paths(1) [OF ds refl] by (simp add: abs_path_def)
  show ?thesis
    by (subst install_links [OF ds _ p(2) p(3)])
      (simp_all add: abs_path_def install_main_def Let_def r symlinkSync_def)
qed

text \<open>
  A link whose target is gone is not replaced: \<open>existsSync\<close> does not see it, so it is not removed, the
  new link is refused because the place is taken, and the program says both that the link already
  exists and that it could not be made.
\<close>

lemma dangling_link_kept:
  assumes "list_all resolved_segment ds" "argv = [node, abs_path (ds @ [''install.js''])]"
    and "link = createSymLink False (abs_path (ds @ [''install.js'']))"
    and "d (snd link) = Some (LinkNode t)" "d t = None"
  shows "install_main False exec may argv d =
      (d, ''Configuring...'' # ''A symlink already exists.'' # finalHelp @ link_missing link, None)"
proof -
  have "\<not> existsSync d (snd link)" using assms(4,5) by (simp add: existsSync_def numeral_eq_Suc)
  moreover obtain w p where "link = (w, p)" by force
  ultimately show ?thesis
    using assms(4) by (simp add: install_main_def Let_def assms(2) assms(3) [symmetric] symlinkSync_def)
qed

end
