(* ===== verification/NodePath.thy ===== *)
theory NodePath
  imports Prelude
begin

text \<open>
  The functions of the standard module \<open>path\<close> of Node that the build tools call, as they are on a
  POSIX system: \<open>normalize\<close>, \<open>join\<close>, \<open>resolve\<close> and \<open>relative\<close>. \<open>cwd\<close> stands for
  \<open>process.cwd()\<close>, an absolute path. The lemmas relate them to walking through the segments of a
  path, which is what the clients reason with.
\<close>

section \<open>The functions\<close>

text \<open>
  One segment of \<open>normalizeString\<close>: dots and empty segments are skipped, two dots go up; above the
  root they are dropped, above the start of a relative path they are kept.
\<close>

definition norm_step :: "bool \<Rightarrow> string \<Rightarrow> string list \<Rightarrow> string list" where
  "norm_step up seg acc =
     (if seg = [] \<or> seg = ''.'' then acc
      else if seg = ''..'' then
        (if acc \<noteq> [] \<and> last acc \<noteq> ''..'' then butlast acc else if up then acc @ [''..''] else acc)
      else acc @ [seg])"

definition norm_segs :: "bool \<Rightarrow> string \<Rightarrow> string list" where
  "norm_segs up p = fold (norm_step up) (js_split (CHR ''/'') p) []"

definition is_absolute :: "string \<Rightarrow> bool" where
  "is_absolute p = starts_with ''/'' p"

definition path_normalize :: "string \<Rightarrow> string" where
  "path_normalize p =
     (if p = [] then ''.''
      else (let absolute = is_absolute p; trailing = ends_with ''/'' p;
                body = js_join ''/'' (norm_segs (\<not> absolute) p) in
        if body = [] then (if absolute then ''/'' else if trailing then ''./'' else ''.'')
        else (if absolute then ''/'' else []) @ body @ (if trailing then ''/'' else [])))"

definition path_join :: "string list \<Rightarrow> string" where
  "path_join ps = (case filter (\<lambda>p. p \<noteq> []) ps of [] \<Rightarrow> ''.'' | qs \<Rightarrow> path_normalize (js_join ''/'' qs))"

text \<open>The segments of \<open>resolve(p)\<close>: an absolute path as it is, another one below \<open>cwd\<close>.\<close>

definition resolve_segs :: "string \<Rightarrow> string \<Rightarrow> string list" where
  "resolve_segs cwd p = norm_segs False (if is_absolute p then p else cwd @ ''/'' @ p)"

definition path_resolve :: "string \<Rightarrow> string \<Rightarrow> string" where
  "path_resolve cwd p = CHR ''/'' # js_join ''/'' (resolve_segs cwd p)"

definition path_resolve2 :: "string \<Rightarrow> string \<Rightarrow> string \<Rightarrow> string" where
  "path_resolve2 cwd d p =
     (if is_absolute p then path_resolve cwd p
      else if p = [] then path_resolve cwd d else if d = [] then path_resolve cwd p
      else path_resolve cwd (d @ ''/'' @ p))"

fun common_prefix :: "'a list \<Rightarrow> 'a list \<Rightarrow> nat" where
  "common_prefix (x # xs) (y # ys) = (if x = y then Suc (common_prefix xs ys) else 0)"
| "common_prefix _ _ = 0"

text \<open>\<open>relative(from, to)\<close>: up from one path to the common ancestor and down to the other.\<close>

definition path_relative :: "string \<Rightarrow> string \<Rightarrow> string \<Rightarrow> string" where
  "path_relative cwd from to =
     (let f = resolve_segs cwd from; t = resolve_segs cwd to; n = common_prefix f t in
      js_join ''/'' (replicate (length f - n) ''..'' @ drop n t))"

section \<open>Segments\<close>

text \<open>What a segment of a resolved path is: not empty, without a slash, and neither dots.\<close>

definition plain_seg :: "string \<Rightarrow> bool" where
  "plain_seg s \<longleftrightarrow> s \<noteq> [] \<and> s \<noteq> ''.'' \<and> s \<noteq> ''..'' \<and> CHR ''/'' \<notin> set s"

lemma norm_step_plain:
  assumes "list_all plain_seg acc" "CHR ''/'' \<notin> set s"
  shows "list_all plain_seg (norm_step False s acc)"
proof (cases "s = [] \<or> s = ''.'' \<or> s = ''..''")
  case True
  have "list_all plain_seg (butlast acc)" using assms(1) by (simp add: list_all_iff in_set_butlastD)
  with assms(1) True show ?thesis by (elim disjE) (simp_all add: norm_step_def)
next
  case False
  then show ?thesis using assms by (simp add: norm_step_def plain_seg_def del: list.inject)
qed

lemma fold_norm_plain:
  "list_all plain_seg acc \<Longrightarrow> list_all (\<lambda>s. CHR ''/'' \<notin> set s) ws \<Longrightarrow>
     list_all plain_seg (fold (norm_step False) ws acc)"
proof (induction ws arbitrary: acc)
  case (Cons w ws)
  have "list_all plain_seg (norm_step False w acc)"
    by (rule norm_step_plain) (use Cons.prems in simp_all)
  from Cons.IH [OF this] show ?case using Cons.prems(2) by simp
qed simp

lemma norm_segs_plain: "list_all plain_seg (norm_segs False p)"
  unfolding norm_segs_def
  by (rule fold_norm_plain) (auto simp: list_all_iff dest: js_split_parts)

lemma resolve_segs_plain: "list_all plain_seg (resolve_segs cwd p)"
  by (simp add: resolve_segs_def norm_segs_plain)

lemma plain_nonempty: "list_all plain_seg ws \<Longrightarrow> list_all (\<lambda>w. w \<noteq> []) ws"
  by (simp add: list_all_iff plain_seg_def)

lemma list_all_drop: "list_all P xs \<Longrightarrow> list_all P (drop n xs)"
  by (auto simp: list_all_iff dest: in_set_dropD)

lemma list_all_replicate: "P x \<Longrightarrow> list_all P (replicate k x)"
  by (induction k) simp_all

lemma plain_no_slash: "list_all plain_seg ws \<Longrightarrow> list_all (\<lambda>w. CHR ''/'' \<notin> set w) ws"
  by (simp add: list_all_iff plain_seg_def)

lemma plain_step: "plain_seg s \<Longrightarrow> norm_step b s acc = acc @ [s]"
  by (simp add: norm_step_def plain_seg_def)

lemma fold_plain: "list_all plain_seg ws \<Longrightarrow> fold (norm_step b) ws acc = acc @ ws"
  by (induction ws arbitrary: acc) (auto simp: plain_step)

text \<open>A path written from plain segments reads back as its segments.\<close>

lemma norm_segs_join:
  assumes "list_all plain_seg ws"
  shows "norm_segs b (js_join ''/'' ws) = ws" "norm_segs b (CHR ''/'' # js_join ''/'' ws) = ws"
proof -
  have split: "js_split (CHR ''/'') (js_join ''/'' ws) = ws" if "ws \<noteq> []"
    using that assms by (intro js_split_join) (auto simp: list_all_iff plain_seg_def)
  show "norm_segs b (js_join ''/'' ws) = ws"
  proof (cases "ws = []")
    case True
    then show ?thesis by (simp add: norm_segs_def norm_step_def)
  next
    case False
    then show ?thesis using fold_plain [OF assms, of b "[]"] by (simp add: norm_segs_def split)
  qed
  show "norm_segs b (CHR ''/'' # js_join ''/'' ws) = ws"
  proof (cases "ws = []")
    case True
    then show ?thesis by (simp add: norm_segs_def norm_step_def)
  next
    case False
    then show ?thesis using fold_plain [OF assms, of b "[]"] by (simp add: norm_segs_def split norm_step_def)
  qed
qed

text \<open>Resolving is idempotent.\<close>

lemma resolve_resolve: "resolve_segs cwd (path_resolve cwd p) = resolve_segs cwd p"
proof -
  have "is_absolute (path_resolve cwd p)" by (simp add: is_absolute_def path_resolve_def)
  then show ?thesis
    using norm_segs_join(2) [OF resolve_segs_plain, of False cwd p]
    by (simp add: resolve_segs_def [of cwd "path_resolve cwd p"]) (simp add: path_resolve_def)
qed

lemma norm_segs_append: "norm_segs b (u @ ''/'' @ v) = fold (norm_step b) (js_split (CHR ''/'') v) (norm_segs b u)"
  by (simp add: norm_segs_def js_split_append)

text \<open>A path without an absolute start resolves by walking from the directory.\<close>

lemma resolve_relative:
  "\<not> is_absolute p \<Longrightarrow>
     resolve_segs cwd p = fold (norm_step False) (js_split (CHR ''/'') p) (norm_segs False cwd)"
  by (simp only: resolve_segs_def norm_segs_append if_False)

lemma resolve_below:
  assumes "list_all plain_seg ws" "ws \<noteq> []"
  shows "resolve_segs cwd (js_join ''/'' ws) = norm_segs False cwd @ ws"
proof -
  have split: "js_split (CHR ''/'') (js_join ''/'' ws) = ws"
    using assms by (intro js_split_join) (auto simp: list_all_iff plain_seg_def)
  have "plain_seg (hd ws)" using assms by (cases ws) simp_all
  then have "hd ws \<noteq> []" "CHR ''/'' \<notin> set (hd ws)" by (simp_all add: plain_seg_def)
  then have "\<not> is_absolute (js_join ''/'' ws)"
    using assms(2) by (cases ws; cases "tl ws"; cases "hd ws") (simp_all add: is_absolute_def)
  then show ?thesis by (simp add: resolve_relative split fold_plain [OF assms(1)])
qed

section \<open>Relative paths\<close>

lemma common_prefix_take: "take (common_prefix xs ys) xs = take (common_prefix xs ys) ys"
  by (induction xs ys rule: common_prefix.induct) auto

lemma common_prefix_le: "common_prefix xs ys \<le> length xs" "common_prefix xs ys \<le> length ys"
  by (induction xs ys rule: common_prefix.induct) auto

lemma common_prefix_append [simp]: "common_prefix xs (xs @ r) = length xs"
  by (induction xs) auto

lemma common_prefix_full: "common_prefix xs ys = length xs \<longleftrightarrow> (\<exists>r. ys = xs @ r)"
proof
  assume "common_prefix xs ys = length xs"
  then have "xs = take (length xs) ys" using common_prefix_take [of xs ys] by simp
  then show "\<exists>r. ys = xs @ r" by (metis append_take_drop_id)
qed auto

text \<open>
  A relative path starts with two dots exactly when the target is outside of the directory, or
  inside of it below an entry whose own name starts with two dots.
\<close>

lemma starts_join: "ws \<noteq> [] \<Longrightarrow> list_all (\<lambda>w. w \<noteq> []) ws \<Longrightarrow> CHR ''/'' \<notin> set p \<Longrightarrow>
    starts_with p (js_join ''/'' ws) \<longleftrightarrow> starts_with p (hd ws)"
proof -
  assume a: "ws \<noteq> []" "CHR ''/'' \<notin> set p"
  have gen: "starts_with p (w @ CHR ''/'' # t) \<longleftrightarrow> starts_with p w" for w t
    using a(2) by (induction p w rule: starts_with.induct) auto
  obtain w r where "ws = w # r" using a(1) by (cases ws) auto
  then show ?thesis by (cases r) (auto simp: gen)
qed

lemma relative_dots:
  "starts_with ''..'' (path_relative cwd from to) \<longleftrightarrow>
     \<not> (\<exists>r. resolve_segs cwd to = resolve_segs cwd from @ r \<and>
           (r = [] \<or> \<not> starts_with ''..'' (hd r)))"
proof -
  let ?f = "resolve_segs cwd from" and ?t = "resolve_segs cwd to"
  let ?n = "common_prefix ?f ?t"
  let ?ws = "replicate (length ?f - ?n) ''..'' @ drop ?n ?t"
  have ne: "list_all (\<lambda>w. w \<noteq> []) ?ws"
    using list_all_drop [OF plain_nonempty [OF resolve_segs_plain]] by (simp add: list_all_replicate)
  have rel: "path_relative cwd from to = js_join ''/'' ?ws" by (simp add: path_relative_def Let_def)
  show ?thesis
  proof (cases "\<exists>r. ?t = ?f @ r")
    case True
    then obtain r where r: "?t = ?f @ r" by blast
    then have ws: "?ws = r" by simp
    show ?thesis
    proof (cases "r = []")
      case True
      then show ?thesis using r rel ws by simp
    next
      case False
      then have "starts_with ''..'' (path_relative cwd from to) \<longleftrightarrow> starts_with ''..'' (hd r)"
        using ne starts_join [of r "''..''"] unfolding rel ws by (simp del: starts_with.simps)
      then show ?thesis unfolding r using False by (simp del: starts_with.simps)
    qed
  next
    case False
    then have "?n \<noteq> length ?f" by (simp add: common_prefix_full)
    then have "?n < length ?f" using common_prefix_le(1) [of ?f ?t] by simp
    then obtain k where "length ?f - ?n = Suc k" by (metis Suc_diff_Suc)
    then have "?ws = ''..'' # replicate k ''..'' @ drop ?n ?t" by simp
    then have "starts_with ''..'' (path_relative cwd from to)"
      using ne starts_join [of ?ws "''..''"] unfolding rel by (simp del: starts_with.simps add: starts_with_refl)
    then show ?thesis using False by blast
  qed
qed

text \<open>Walking a relative path from its start leads to its target.\<close>

lemma butlast_dots:
  "list_all plain_seg ds \<Longrightarrow> k \<le> length ds \<Longrightarrow>
     fold (norm_step False) (replicate k ''..'') ds = take (length ds - k) ds"
proof (induction k arbitrary: ds)
  case (Suc k)
  then have ds: "ds \<noteq> []" by auto
  then have "last ds \<noteq> ''..''" using Suc.prems(1) by (auto simp: list_all_iff plain_seg_def)
  then have "norm_step False ''..'' ds = butlast ds" using ds by (simp add: norm_step_def)
  moreover have "list_all plain_seg (butlast ds)" using Suc.prems(1) by (auto simp: list_all_iff dest: in_set_butlastD)
  moreover have "k \<le> length (butlast ds)" using Suc.prems(2) by simp
  ultimately show ?case using Suc.IH [of "butlast ds"] Suc.prems(2) ds
    by (simp add: butlast_conv_take min_def)
qed simp

lemma relative_leads:
  "fold (norm_step False) (js_split (CHR ''/'') (path_relative cwd from to)) (resolve_segs cwd from)
     = resolve_segs cwd to"
proof -
  let ?f = "resolve_segs cwd from" and ?t = "resolve_segs cwd to"
  let ?n = "common_prefix ?f ?t"
  let ?ws = "replicate (length ?f - ?n) ''..'' @ drop ?n ?t"
  have rel: "path_relative cwd from to = js_join ''/'' ?ws" by (simp add: path_relative_def Let_def)
  have f: "list_all plain_seg ?f" by (rule resolve_segs_plain)
  have drop: "list_all plain_seg (drop ?n ?t)" by (rule list_all_drop [OF resolve_segs_plain])
  have "fold (norm_step False) ?ws ?f = take ?n ?f @ drop ?n ?t"
    using butlast_dots [OF f, of "length ?f - ?n"] common_prefix_le(1) [of ?f ?t]
      fold_plain [OF drop] by simp
  also have "\<dots> = ?t" by (metis common_prefix_take append_take_drop_id)
  finally have fold: "fold (norm_step False) ?ws ?f = ?t" .
  show ?thesis
  proof (cases "?ws = []")
    case True
    then have "path_relative cwd from to = []" unfolding rel by simp
    then have "fold (norm_step False) (js_split (CHR ''/'') (path_relative cwd from to)) ?f = ?f"
      by (simp add: norm_step_def)
    moreover have "?f = ?t" using fold unfolding True by simp
    ultimately show ?thesis by simp
  next
    case False
    have "list_all (\<lambda>w. CHR ''/'' \<notin> set w) ?ws"
      using plain_no_slash [OF drop] by (simp add: list_all_replicate)
    then have "js_split (CHR ''/'') (path_relative cwd from to) = ?ws"
      unfolding rel list_all_iff by (rule js_split_join [OF False])
    then show ?thesis using fold by simp
  qed
qed

end
