(* ===== verification/BuildTasks.thy ===== *)
theory BuildTasks
  imports NodePath Json "HOL-Library.Multiset"
begin

text \<open>
  The task runner of the build tools: \<open>gulpfile.ts\<close>, \<open>tools/tasks/*.ts\<close> and
  \<open>tools/utils/seed/{tasks_tools,code_change_tools,watch,clean}.ts\<close>. The table of gulp is an
  association list from the names of the tasks to what was registered; the modules a task file
  exports, the directories and the files are parameters. The watchers are step relations: a change
  of a file, a timer, and the end of a sequence of tasks happen in any order.
\<close>

section \<open>The classes of tasks\<close>

text \<open>\<open>shallRun\<close> of the base class and of its subclasses, over the files changed since the last build.\<close>

definition Task_shallRun :: "string list \<Rightarrow> bool" where
  "Task_shallRun files = True"

definition AssetsTask_shallRun :: "string list \<Rightarrow> bool" where
  "AssetsTask_shallRun files =
     foldl (\<lambda>a f. a \<or> (\<not> ends_with ''.css'' f \<and> \<not> ends_with ''.sass'' f \<and>
       \<not> ends_with ''.scss'' f \<and> \<not> ends_with ''.ts'' f)) False files"

definition CssTask_shallRun :: "bool \<Rightarrow> string list \<Rightarrow> bool" where
  "CssTask_shallRun enable_scss files =
     (enable_scss \<or> list_ex (\<lambda>f. ends_with ''.css'' f \<or> ends_with ''.sass'' f \<or> ends_with ''.scss'' f) files)"

definition TypeScriptTask_shallRun :: "string list \<Rightarrow> bool" where
  "TypeScriptTask_shallRun files = foldl (\<lambda>a f. a \<or> ends_with ''.ts'' f) False files"

definition BuildHtmlCss_shallRun :: "bool \<Rightarrow> string list \<Rightarrow> bool" where
  "BuildHtmlCss_shallRun enable_scss files =
     (CssTask_shallRun enable_scss files \<or> list_ex (ends_with ''.html'') files)"

definition BuildTNSCSS_shallRun :: "string list \<Rightarrow> bool" where
  "BuildTNSCSS_shallRun files =
     list_ex (\<lambda>f. (indexOf ''nativescript/src/app'' f \<noteq> None \<and> ends_with ''.tns.html'' f) \<or>
                  (indexOf ''nativescript/src/app'' f = None \<and> ends_with ''.html'' f)) files"

datatype task_class = PlainTask | AssetsTask | CssTask | TypeScriptTask | BuildHtmlCss | BuildTNSCSS

fun shallRun :: "bool \<Rightarrow> task_class \<Rightarrow> string list \<Rightarrow> bool" where
  "shallRun enable_scss PlainTask files = Task_shallRun files"
| "shallRun enable_scss AssetsTask files = AssetsTask_shallRun files"
| "shallRun enable_scss CssTask files = CssTask_shallRun enable_scss files"
| "shallRun enable_scss TypeScriptTask files = TypeScriptTask_shallRun files"
| "shallRun enable_scss BuildHtmlCss files = BuildHtmlCss_shallRun enable_scss files"
| "shallRun enable_scss BuildTNSCSS files = BuildTNSCSS_shallRun files"

section \<open>The manager of changed files\<close>

record ChangeFileManager =
  cfm_files :: "string list"
  cfm_pristine :: bool

definition new_ChangeFileManager :: ChangeFileManager where
  "new_ChangeFileManager = \<lparr>cfm_files = [], cfm_pristine = True\<rparr>"

definition lastChangedFiles :: "ChangeFileManager \<Rightarrow> string list" where
  "lastChangedFiles m = cfm_files m"

definition addFile :: "string \<Rightarrow> ChangeFileManager \<Rightarrow> ChangeFileManager" where
  "addFile f m = m\<lparr>cfm_pristine := False, cfm_files := cfm_files m @ [f]\<rparr>"

definition addFiles :: "string list \<Rightarrow> ChangeFileManager \<Rightarrow> ChangeFileManager" where
  "addFiles fs m = fold addFile fs m"

definition clear_files :: "ChangeFileManager \<Rightarrow> ChangeFileManager" where
  "clear_files m = m\<lparr>cfm_files := []\<rparr>"

section \<open>Registering the tasks\<close>

text \<open>What a task file exports: \<open>ExpFun n stream\<close> is a function with \<open>n\<close> parameters that returns a stream or not.\<close>

datatype exported = ExpTask task_class | ExpClass task_class | ExpFun nat bool | ExpNull | ExpOther

datatype task = Instance task_class | AnonTask nat bool

definition normalizeTask :: "exported \<Rightarrow> string \<Rightarrow> task result" where
  "normalizeTask task taskName =
     (case task of
        ExpTask c \<Rightarrow> Inr (Instance c)
      | ExpClass c \<Rightarrow> Inr (Instance c)
      | ExpFun n stream \<Rightarrow> Inr (AnonTask n stream)
      | ExpNull \<Rightarrow> Inl TypeError
      | ExpOther \<Rightarrow> Inl (ErrorMsg (taskName @ '' should be instance of the class '' @
          ''Task, a function or a class which extends Task.'')))"

text \<open>
  How the body of a task ends: with the call of \<open>done\<close>, or by what it returns or does with \<open>done\<close>
  itself. An \<open>AnonTask\<close> has the \<open>shallRun\<close> of the base class.
\<close>

datatype ending = DoneCalled | DonePassed | StreamReturned | OwnRun task_class "string list"

definition anon_run :: "nat \<Rightarrow> bool \<Rightarrow> ending" where
  "anon_run n stream = (if n > 0 then DonePassed else if stream then StreamReturned else DoneCalled)"

definition task_shallRun :: "bool \<Rightarrow> task \<Rightarrow> string list \<Rightarrow> bool" where
  "task_shallRun enable_scss t files =
     (case t of Instance c \<Rightarrow> shallRun enable_scss c files | AnonTask n stream \<Rightarrow> Task_shallRun files)"

definition task_run :: "task \<Rightarrow> string list \<Rightarrow> ending" where
  "task_run t files = (case t of Instance c \<Rightarrow> OwnRun c files | AnonTask n stream \<Rightarrow> anon_run n stream)"

definition registered_task :: "bool \<Rightarrow> ChangeFileManager \<Rightarrow> exported \<Rightarrow> string \<Rightarrow> ending result" where
  "registered_task enable_scss m exports TASK =
     (case normalizeTask exports TASK of
        Inl e \<Rightarrow> Inl e
      | Inr task \<Rightarrow>
          Inr (if cfm_pristine m \<or> task_shallRun enable_scss task (lastChangedFiles m)
               then task_run task (lastChangedFiles m) else DoneCalled))"

text \<open>The table of gulp. A later task takes the place of an earlier one of the same name.\<close>

datatype task_def = FileTask string | CompositeTask json | CleanOnce

type_synonym registry = "(string \<times> task_def) list"

definition gulp_task :: "string \<Rightarrow> task_def \<Rightarrow> registry \<Rightarrow> registry" where
  "gulp_task = obj_set"

record filesys =
  fs_exists :: "string \<Rightarrow> bool"
  fs_readdir :: "string \<Rightarrow> string list"
  fs_isFile :: "string \<Rightarrow> bool"
  fs_read :: "string \<Rightarrow> string result"

definition strip_ts :: "string \<Rightarrow> string" where
  "strip_ts file = take (length file - 3) file"

definition registerTask :: "string \<Rightarrow> string \<Rightarrow> registry \<Rightarrow> registry" where
  "registerTask taskname path reg = gulp_task taskname (FileTask (path_join [path, taskname])) reg"

definition readDir :: "filesys \<Rightarrow> string \<Rightarrow> (string \<Rightarrow> registry \<Rightarrow> registry) \<Rightarrow> registry \<Rightarrow> registry" where
  "readDir fs root cb reg =
     (if \<not> fs_exists fs root then reg
      else fold (\<lambda>file reg. if fs_isFile fs (path_join [root, file]) \<and> ends_with ''.ts'' file
                            then cb (strip_ts file) reg else reg) (fs_readdir fs root) reg)"

definition loadTasks :: "filesys \<Rightarrow> string \<Rightarrow> registry \<Rightarrow> registry" where
  "loadTasks fs path reg = readDir fs path (\<lambda>taskname. registerTask taskname path) reg"

section \<open>Composite tasks\<close>

text \<open>\<open>Object.keys\<close> with the values: an array and a text have their indices as keys.\<close>

fun object_entries :: "json \<Rightarrow> (string \<times> json) list result" where
  "object_entries JNull = Inl TypeError"
| "object_entries (JObj kvs) = Inr kvs"
| "object_entries (JArr vs) = Inr (zip (map show_nat [0..<length vs]) vs)"
| "object_entries (JStr s) = Inr (zip (map show_nat [0..<length s]) (map (\<lambda>c. JStr [c]) s))"
| "object_entries _ = Inr []"

definition is_jstr :: "json \<Rightarrow> bool" where
  "is_jstr v = (case v of JStr s \<Rightarrow> True | _ \<Rightarrow> False)"

definition valid_task :: "json \<Rightarrow> bool" where
  "valid_task v = (case v of JArr ts \<Rightarrow> list_all is_jstr ts | _ \<Rightarrow> False)"

text \<open>The last \<open>filter\<close> of the code drops the empty name together with \<open>null\<close>.\<close>

definition validateTasks :: "json \<Rightarrow> string list result" where
  "validateTasks tasks =
     map_sum id (\<lambda>kvs. map fst (filter (\<lambda>(k, v). \<not> valid_task v \<and> k \<noteq> []) kvs)) (object_entries tasks)"

definition getInvalidTaskErrorMessage :: "string list \<Rightarrow> string \<Rightarrow> string" where
  "getInvalidTaskErrorMessage invalid file =
     ''Invalid configuration in '' @ [CHR 0x22] @ file @ ''. '' @
     (if length invalid = 1 then ''Task'' else ''Tasks'') @ '' '' @
     js_join '', '' (map (\<lambda>t. [CHR 0x22] @ t @ [CHR 0x22]) invalid) @ '' do not have proper format.''"

definition obj_assign :: "('k \<times> 'v) list \<Rightarrow> ('k \<times> 'v) list \<Rightarrow> ('k \<times> 'v) list" where
  "obj_assign target source = foldl (\<lambda>o' (k, v). obj_set k v o') target source"

definition registerTasks :: "(string \<times> json) list \<Rightarrow> registry \<Rightarrow> registry" where
  "registerTasks tasks reg = foldl (\<lambda>reg (t, v). gulp_task t (CompositeTask v) reg) reg tasks"

text \<open>
  How loading the composite tasks ends: the files cannot be read or parsed and the tools go on
  without them, a task is not a list of names and the process exits with 1, an exception that
  nobody catches, or the table with the tasks.
\<close>

datatype load_outcome = CannotLoad jserror | ExitInvalid string | Uncaught jserror | Loaded registry

definition read_tasks :: "filesys \<Rightarrow> string \<Rightarrow> json result" where
  "read_tasks fs file = (case fs_read fs file of Inl e \<Rightarrow> Inl e | Inr text \<Rightarrow> JSON_parse text)"

definition loadCompositeTasks :: "filesys \<Rightarrow> string \<Rightarrow> string \<Rightarrow> registry \<Rightarrow> load_outcome" where
  "loadCompositeTasks fs seedTasksFile projectTasksFile reg =
     (case read_tasks fs seedTasksFile of
        Inl e \<Rightarrow> CannotLoad e
      | Inr seedTasks \<Rightarrow>
          (case read_tasks fs projectTasksFile of
             Inl e \<Rightarrow> CannotLoad e
           | Inr projectTasks \<Rightarrow>
               (case validateTasks seedTasks of
                  Inl e \<Rightarrow> Uncaught e
                | Inr (b # bs) \<Rightarrow> ExitInvalid (getInvalidTaskErrorMessage (b # bs) seedTasksFile)
                | Inr [] \<Rightarrow>
                    (case validateTasks projectTasks of
                       Inl e \<Rightarrow> Uncaught e
                     | Inr (b # bs) \<Rightarrow> ExitInvalid (getInvalidTaskErrorMessage (b # bs) projectTasksFile)
                     | Inr [] \<Rightarrow>
                         (case (object_entries seedTasks, object_entries projectTasks) of
                            (Inr st, Inr pt) \<Rightarrow> Loaded (registerTasks (obj_assign (obj_assign [] st) pt) reg)
                          | _ \<Rightarrow> Uncaught TypeError)))))"

text \<open>\<open>gulpfile.ts\<close>: the two directories, the composite tasks, and \<open>clean.once\<close>.\<close>

record config_dirs =
  SEED_TASKS_DIR :: string
  PROJECT_TASKS_DIR :: string
  SEED_COMPOSITE_TASKS :: string
  PROJECT_COMPOSITE_TASKS :: string

definition gulpfile :: "filesys \<Rightarrow> config_dirs \<Rightarrow> load_outcome" where
  "gulpfile fs dirs =
     (let reg = loadTasks fs (PROJECT_TASKS_DIR dirs) (loadTasks fs (SEED_TASKS_DIR dirs) []) in
      case loadCompositeTasks fs (SEED_COMPOSITE_TASKS dirs) (PROJECT_COMPOSITE_TASKS dirs) reg of
        CannotLoad e \<Rightarrow> Loaded (gulp_task ''clean.once'' CleanOnce reg)
      | Loaded reg' \<Rightarrow> Loaded (gulp_task ''clean.once'' CleanOnce reg')
      | out \<Rightarrow> out)"

text \<open>
  The task \<open>clean.once\<close> with its flag \<open>firstRun\<close>: the tasks it runs, or the message and \<open>done\<close>.
\<close>

definition clean_once :: "bool \<Rightarrow> (string + string list) \<times> bool" where
  "clean_once firstRun =
     (if firstRun then (Inr [''check.tools'', ''clean.dev'', ''clean.coverage''], False)
      else (Inl ''Skipping clean on rebuild'', firstRun))"

section \<open>Watching the sources\<close>

text \<open>
  \<open>watch\<close>: a change is noted and starts a timer; the timer starts the sequence of tasks for the
  change; the callback of the sequence clears the noted files and reloads the browser. The timers
  have the same delay and fire in their order; sequences end in any order.
\<close>

record watch_state =
  w_cfm :: ChangeFileManager
  w_timers :: "string list"
  w_running :: "string list"
  w_reloads :: "string list"

definition watch_init :: watch_state where
  "watch_init = \<lparr>w_cfm = new_ChangeFileManager, w_timers = [], w_running = [], w_reloads = []\<rparr>"

definition watch_changed :: "string \<Rightarrow> watch_state \<Rightarrow> watch_state" where
  "watch_changed p s = s\<lparr>w_cfm := addFile p (w_cfm s), w_timers := w_timers s @ [p]\<rparr>"

definition watch_timeout :: "watch_state \<Rightarrow> watch_state" where
  "watch_timeout s = (case w_timers s of [] \<Rightarrow> s
     | p # ps \<Rightarrow> s\<lparr>w_timers := ps, w_running := w_running s @ [p]\<rparr>)"

definition watch_sequence_done :: "string \<Rightarrow> watch_state \<Rightarrow> watch_state" where
  "watch_sequence_done p s =
     s\<lparr>w_cfm := clear_files (w_cfm s), w_running := remove1 p (w_running s), w_reloads := w_reloads s @ [p]\<rparr>"

inductive watch_reach :: "string list \<Rightarrow> watch_state \<Rightarrow> bool" where
  start: "watch_reach [] watch_init"
| change: "watch_reach ps s \<Longrightarrow> watch_reach (ps @ [p]) (watch_changed p s)"
| timeout: "watch_reach ps s \<Longrightarrow> w_timers s \<noteq> [] \<Longrightarrow> watch_reach ps (watch_timeout s)"
| seq_end: "watch_reach ps s \<Longrightarrow> p \<in> set (w_running s) \<Longrightarrow> watch_reach ps (watch_sequence_done p s)"

text \<open>The paths that are watched.\<close>

definition watch_paths :: "string \<Rightarrow> string list \<Rightarrow> string list option \<Rightarrow> string list" where
  "watch_paths root temp_files extra_watch_paths =
     [path_join [root, ''**'']] @ map (\<lambda>p. CHR ''!'' # p) temp_files @
     (case extra_watch_paths of None \<Rightarrow> [] | Some xs \<Rightarrow> map (\<lambda>p. path_join [p, ''**'']) xs)"

text \<open>
  \<open>watchAppFiles\<close> of \<open>start.deving.ts\<close>: while a callback runs a change only waits; the end of
  the callback starts the one that waits. \<open>d_started\<close> and \<open>d_inflight\<close> record the callbacks that
  were started and those that run.
\<close>

record deving_state =
  busyWithCall :: bool
  changesWaiting :: "string option"
  d_inflight :: "string list"
  d_started :: "string list"

definition deving_init :: deving_state where
  "deving_init = \<lparr>busyWithCall = False, changesWaiting = None, d_inflight = [], d_started = []\<rparr>"

definition fileChangeCallback :: "string \<Rightarrow> deving_state \<Rightarrow> deving_state" where
  "fileChangeCallback e s = s\<lparr>d_inflight := d_inflight s @ [e], d_started := d_started s @ [e]\<rparr>"

definition deving_changed :: "string \<Rightarrow> deving_state \<Rightarrow> deving_state" where
  "deving_changed e s =
     (if busyWithCall s then s\<lparr>changesWaiting := Some e\<rparr>
      else fileChangeCallback e (s\<lparr>busyWithCall := True\<rparr>))"

definition afterCall :: "string \<Rightarrow> deving_state \<Rightarrow> deving_state" where
  "afterCall e s =
     (let s1 = s\<lparr>d_inflight := remove1 e (d_inflight s), busyWithCall := False\<rparr> in
      case changesWaiting s1 of
        None \<Rightarrow> s1
      | Some w \<Rightarrow> (fileChangeCallback w s1)\<lparr>changesWaiting := None\<rparr>)"

inductive deving_reach :: "string list \<Rightarrow> deving_state \<Rightarrow> bool" where
  start: "deving_reach [] deving_init"
| change: "deving_reach es s \<Longrightarrow> deving_reach (es @ [e]) (deving_changed e s)"
| call_end: "deving_reach es s \<Longrightarrow> e \<in> set (d_inflight s) \<Longrightarrow> deving_reach es (afterCall e s)"

section \<open>Removing files\<close>

text \<open>
  \<open>clean\<close>: for each path a promise whose executor runs at once. \<open>rimraf\<close> is asynchronous; the
  paths it was called for and not yet answered are \<open>cl_pending\<close>. \<open>done\<close> is called when all
  have been answered, also with errors; it may be missing.
\<close>

datatype clean_log = CleanFailed string | Deleted string | OutsideRoot string

record clean_state =
  cl_rimraf :: "string list"
  cl_pending :: "string list"
  cl_logs :: "clean_log list"
  cl_exit :: bool
  cl_done :: nat

definition clean_init :: clean_state where
  "clean_init = \<lparr>cl_rimraf = [], cl_pending = [], cl_logs = [], cl_exit = False, cl_done = 0\<rparr>"

definition clean_path :: "string \<Rightarrow> string \<Rightarrow> string \<Rightarrow> clean_state \<Rightarrow> clean_state" where
  "clean_path cwd root p s =
     (if cl_exit s then s
      else if starts_with ''..'' (path_relative cwd root p)
      then s\<lparr>cl_logs := cl_logs s @ [OutsideRoot (path_normalize p)], cl_exit := True\<rparr>
      else s\<lparr>cl_rimraf := cl_rimraf s @ [p], cl_pending := cl_pending s @ [p]\<rparr>)"

text \<open>\<open>Promise.all\<close> of no promises is settled too.\<close>

definition clean_settle :: "bool \<Rightarrow> clean_state \<Rightarrow> clean_state" where
  "clean_settle has_done s =
     (if \<not> cl_exit s \<and> cl_pending s = [] \<and> has_done then s\<lparr>cl_done := Suc (cl_done s)\<rparr> else s)"

definition clean_start :: "string \<Rightarrow> string \<Rightarrow> bool \<Rightarrow> string list \<Rightarrow> clean_state" where
  "clean_start cwd root has_done paths =
     (let s = fold (clean_path cwd root) paths clean_init in
      if paths = [] then clean_settle has_done s else s)"

definition clean_answer :: "bool \<Rightarrow> string \<Rightarrow> string option \<Rightarrow> clean_state \<Rightarrow> clean_state" where
  "clean_answer has_done p err s =
     (if cl_exit s \<or> p \<notin> set (cl_pending s) then s
      else clean_settle has_done
        (s\<lparr>cl_pending := remove1 p (cl_pending s),
           cl_logs := cl_logs s @ [case err of Some e \<Rightarrow> CleanFailed e
              | None \<Rightarrow> Deleted (if p = [] then ''-'' else p)]\<rparr>))"

section \<open>What is removed\<close>

text \<open>
  The specification: a path lies inside of the root when its segments extend those of the root, and
  the first further one does not start with two dots.
\<close>

definition inside :: "string \<Rightarrow> string \<Rightarrow> string \<Rightarrow> bool" where
  "inside cwd root p =
     (let f = resolve_segs cwd root; t = resolve_segs cwd p; r = drop (length f) t in
      take (length f) t = f \<and> (r = [] \<or> \<not> starts_with ''..'' (hd r)))"

lemma prefix_take: "take (length xs) ys = xs \<longleftrightarrow> (\<exists>r. ys = xs @ r)"
  by (metis append_eq_conv_conj append_take_drop_id)

lemma inside_iff:
  "inside cwd root p \<longleftrightarrow>
     (\<exists>r. resolve_segs cwd p = resolve_segs cwd root @ r \<and> (r = [] \<or> \<not> starts_with ''..'' (hd r)))"
  unfolding inside_def Let_def
proof
  assume "take (length (resolve_segs cwd root)) (resolve_segs cwd p) = resolve_segs cwd root \<and>
    (drop (length (resolve_segs cwd root)) (resolve_segs cwd p) = [] \<or>
     \<not> starts_with ''..'' (hd (drop (length (resolve_segs cwd root)) (resolve_segs cwd p))))"
  then show "\<exists>r. resolve_segs cwd p = resolve_segs cwd root @ r \<and> (r = [] \<or> \<not> starts_with ''..'' (hd r))"
    by (metis append_take_drop_id)
next
  assume "\<exists>r. resolve_segs cwd p = resolve_segs cwd root @ r \<and> (r = [] \<or> \<not> starts_with ''..'' (hd r))"
  then obtain r where "resolve_segs cwd p = resolve_segs cwd root @ r" "r = [] \<or> \<not> starts_with ''..'' (hd r)"
    by blast
  then show "take (length (resolve_segs cwd root)) (resolve_segs cwd p) = resolve_segs cwd root \<and>
    (drop (length (resolve_segs cwd root)) (resolve_segs cwd p) = [] \<or>
     \<not> starts_with ''..'' (hd (drop (length (resolve_segs cwd root)) (resolve_segs cwd p))))"
    by (simp del: starts_with.simps)
qed

lemma clean_path_inside:
  "clean_path cwd root p s =
     (if cl_exit s then s
      else if inside cwd root p then s\<lparr>cl_rimraf := cl_rimraf s @ [p], cl_pending := cl_pending s @ [p]\<rparr>
      else s\<lparr>cl_logs := cl_logs s @ [OutsideRoot (path_normalize p)], cl_exit := True\<rparr>)"
  using relative_dots [of cwd root p] inside_iff [of cwd root p]
  by (simp add: clean_path_def del: starts_with.simps)

lemma clean_paths:
  "\<not> cl_exit s \<Longrightarrow>
     cl_rimraf (fold (clean_path cwd root) ps s) = cl_rimraf s @ takeWhile (inside cwd root) ps \<and>
     cl_pending (fold (clean_path cwd root) ps s) = cl_pending s @ takeWhile (inside cwd root) ps \<and>
     cl_done (fold (clean_path cwd root) ps s) = cl_done s \<and>
     (cl_exit (fold (clean_path cwd root) ps s) \<longleftrightarrow> \<not> list_all (inside cwd root) ps)"
proof (induction ps arbitrary: s)
  case (Cons p ps)
  have stop: "cl_exit t \<Longrightarrow> fold (clean_path cwd root) ps t = t" for t
    by (induction ps) (simp_all add: clean_path_inside)
  show ?case
  proof (cases "inside cwd root p")
    case True
    then show ?thesis using Cons.prems Cons.IH [of "clean_path cwd root p s"] by (simp add: clean_path_inside [of cwd root p s])
  next
    case False
    then show ?thesis using Cons.prems stop [of "clean_path cwd root p s"] by (simp add: clean_path_inside [of cwd root p s])
  qed
qed simp

lemma clean_settle_fields [simp]:
  "cl_rimraf (clean_settle d s) = cl_rimraf s" "cl_exit (clean_settle d s) = cl_exit s"
  "cl_pending (clean_settle d s) = cl_pending s"
  by (simp_all add: clean_settle_def)

lemma clean_start_inside:
  "cl_rimraf (clean_start cwd root has_done paths) = takeWhile (inside cwd root) paths \<and>
   (cl_exit (clean_start cwd root has_done paths) \<longleftrightarrow> \<not> list_all (inside cwd root) paths)"
  using clean_paths [of clean_init cwd root paths]
  by (simp add: clean_start_def Let_def clean_init_def)

text \<open>
  C33. Safety of \<open>clean\<close>: \<open>rimraf\<close> is called for the paths up to the first one that is not inside of
  the root, in their order, and for no other; the process exits exactly when there is a path that is
  not inside. A path is inside when its resolved segments are those of the root, or extend them by
  further ones of which the first does not start with two dots: the code also refuses a name such as
  \<open>..cache\<close> directly below the root. In particular the segments of every path that is removed extend
  those of the root.
\<close>

theorem clean_stays_inside:
  "cl_rimraf (clean_start cwd root has_done paths) = takeWhile (inside cwd root) paths \<and>
   (cl_exit (clean_start cwd root has_done paths) \<longleftrightarrow> \<not> list_all (inside cwd root) paths) \<and>
   list_all (\<lambda>p. take (length (resolve_segs cwd root)) (resolve_segs cwd p) = resolve_segs cwd root)
     (cl_rimraf (clean_start cwd root has_done paths))"
proof -
  have "list_all (\<lambda>p. take (length (resolve_segs cwd root)) (resolve_segs cwd p) = resolve_segs cwd root)
      (takeWhile (inside cwd root) paths)"
    by (auto simp: list_all_iff inside_def Let_def dest: set_takeWhileD)
  then show ?thesis using clean_start_inside by simp
qed

lemma clean_answers:
  assumes "\<not> cl_exit s" "cl_done s = 0" "cl_pending s \<noteq> []" "mset (map fst as) = mset (cl_pending s)"
  shows "cl_pending (fold (\<lambda>(p, e). clean_answer True p e) as s) = [] \<and>
         cl_done (fold (\<lambda>(p, e). clean_answer True p e) as s) = 1"
  using assms
proof (induction as arbitrary: s)
  case (Cons a as)
  obtain p e where a: "a = (p, e)" by (cases a)
  have p: "p \<in> set (cl_pending s)" using Cons.prems(4) a by (metis fst_conv list.set_intros(1) list.simps(9) mset_eq_setD)
  let ?t = "clean_answer True p e s"
  have pend: "cl_pending ?t = remove1 p (cl_pending s)" "\<not> cl_exit ?t"
    and dn: "cl_done ?t = (if remove1 p (cl_pending s) = [] then 1 else 0)"
    using Cons.prems(1,2) p by (simp_all add: clean_answer_def clean_settle_def)
  have "add_mset p (mset (map fst as)) = mset (cl_pending s)" using Cons.prems(4) a by simp
  then have rest: "mset (map fst as) = mset (cl_pending ?t)" unfolding pend(1) mset_remove1
    by (metis add_mset_remove_trivial)
  show ?case
  proof (cases "cl_pending ?t = []")
    case True
    then have "as = []" using rest by simp
    then show ?thesis using True dn pend(1) a by simp
  next
    case False
    then show ?thesis using Cons.IH [of ?t] pend dn rest a by simp
  qed
qed simp

text \<open>
  \<open>clean\<close> reports its end: when all paths are inside of the root, \<open>done\<close> is called exactly once
  after \<open>rimraf\<close> has answered for each of them, in whatever order and with whatever errors.
\<close>

lemma clean_done_once:
  assumes "list_all (inside cwd root) paths" "mset (map fst answers) = mset paths"
  shows "cl_done (fold (\<lambda>(p, e). clean_answer True p e) answers (clean_start cwd root True paths)) = 1"
proof (cases "paths = []")
  case True
  then show ?thesis using assms(2) by (simp add: clean_start_def clean_settle_def clean_init_def)
next
  case False
  have all: "takeWhile (inside cwd root) paths = paths"
    using assms(1) by (simp add: takeWhile_eq_all_conv list_all_iff)
  have start: "\<not> cl_exit (clean_start cwd root True paths)" "cl_done (clean_start cwd root True paths) = 0"
    "cl_pending (clean_start cwd root True paths) = paths"
    using clean_paths [of clean_init cwd root paths, unfolded all] assms(1) False
    by (simp_all add: clean_start_def clean_init_def)
  then show ?thesis using clean_answers [of "clean_start cwd root True paths" answers] assms(2) False by simp
qed

section \<open>What the watchers keep\<close>

text \<open>
  The watcher: each change is at any time in exactly one of its timers, its running sequences
  and its reloads, and the files that the tasks are told are the latest changes.
\<close>

lemma watch_accounts:
  assumes "watch_reach ps s"
  shows "mset ps = mset (w_timers s) + mset (w_running s) + mset (w_reloads s)
    \<and> (\<exists>k. lastChangedFiles (w_cfm s) = drop k ps)"
  using assms
proof (induction rule: watch_reach.induct)
  case start
  show ?case by (simp add: watch_init_def new_ChangeFileManager_def lastChangedFiles_def)
next
  case (change ps s p)
  then obtain k where k: "cfm_files (w_cfm s) = drop k ps" by (auto simp: lastChangedFiles_def)
  have "cfm_files (w_cfm s) @ [p] = drop (min k (length ps)) (ps @ [p])" by (simp add: k min_def)
  then have "\<exists>k. cfm_files (w_cfm s) @ [p] = drop k (ps @ [p])" by blast
  then show ?case using change.IH by (simp add: watch_changed_def addFile_def lastChangedFiles_def del: drop_append)
next
  case (timeout ps s)
  then obtain p qs where "w_timers s = p # qs" by (meson neq_Nil_conv)
  with timeout.IH show ?case by (simp add: watch_timeout_def)
next
  case (seq_end ps s p)
  have "mset (w_running s) = add_mset p (mset (remove1 p (w_running s)))"
    using seq_end.hyps(2) by (simp add: mset_remove1)
  moreover have "(\<exists>k. [] = drop k ps)" by (metis drop_all order_refl)
  ultimately show ?case using seq_end.IH
    by (simp add: watch_sequence_done_def clear_files_def lastChangedFiles_def)
qed

text \<open>
  A change can be lost: there is a run of the watcher in which a TypeScript file is changed while the
  sequence for another file runs, the end of that sequence forgets the change, and the sequence
  that is started for the change skips the TypeScript tasks.
\<close>

lemma watch_loses_change:
  "\<exists>s. watch_reach [''app.html'', ''main.ts''] s \<and> w_running s = [''main.ts''] \<and>
       registered_task True (w_cfm s) (ExpClass TypeScriptTask) ''build.js.dev'' = Inr DoneCalled \<and>
       w_timers s = []"
proof -
  let ?s1 = "watch_timeout (watch_changed ''app.html'' watch_init)"
  let ?s2 = "watch_sequence_done ''app.html'' (watch_changed ''main.ts'' ?s1)"
  have 1: "watch_reach ([] @ [''app.html'']) ?s1"
    by (intro watch_reach.timeout watch_reach.change watch_reach.start) (simp add: watch_changed_def)
  have "watch_reach (([] @ [''app.html'']) @ [''main.ts'']) ?s2"
    by (intro watch_reach.seq_end watch_reach.change 1) (simp add: watch_changed_def watch_timeout_def watch_init_def)
  then have "watch_reach (([] @ [''app.html'']) @ [''main.ts'']) (watch_timeout ?s2)"
    by (intro watch_reach.timeout)
      (simp_all add: watch_changed_def watch_timeout_def watch_init_def watch_sequence_done_def)
  then show ?thesis
    by (intro exI [of _ "watch_timeout ?s2"])
      (simp add: watch_changed_def watch_timeout_def watch_init_def watch_sequence_done_def registered_task_def
        normalizeTask_def task_shallRun_def TypeScriptTask_shallRun_def lastChangedFiles_def clear_files_def
        addFile_def new_ChangeFileManager_def)
qed

lemma deving_invariant:
  "deving_reach es s \<Longrightarrow>
     (busyWithCall s \<longrightarrow> d_inflight s \<noteq> []) \<and> (changesWaiting s \<noteq> None \<longrightarrow> busyWithCall s) \<and>
     (es \<noteq> [] \<longrightarrow> (case changesWaiting s of Some w \<Rightarrow> w = last es | None \<Rightarrow> d_started s \<noteq> [] \<and> last (d_started s) = last es))"
proof (induction rule: deving_reach.induct)
  case (call_end es s e)
  then show ?case
    by (cases "changesWaiting s") (auto simp: afterCall_def fileChangeCallback_def Let_def)
qed (auto simp: deving_init_def deving_changed_def fileChangeCallback_def)

text \<open>
  C34. The watcher of \<open>start.deving\<close> handles the latest change: in any state it can reach, when no
  callback runs any more, the last callback that was started is the one for the last change; and
  a change only waits while a callback runs.
\<close>

theorem deving_handles_last_change:
  assumes "deving_reach (es @ [e]) s"
  shows "(d_inflight s = [] \<longrightarrow> changesWaiting s = None \<and> d_started s \<noteq> [] \<and> last (d_started s) = e) \<and>
    (changesWaiting s \<noteq> None \<longrightarrow> changesWaiting s = Some e \<and> d_inflight s \<noteq> [])"
  using deving_invariant [OF assms] by (auto split: option.splits)

text \<open>
  The flag of the watcher does not keep callbacks apart: there is a run in which two of them are under way.
\<close>

lemma deving_overlap:
  "\<exists>s. deving_reach [''a.ts'', ''b.ts'', ''c.ts''] s \<and> d_inflight s = [''b.ts'', ''c.ts'']"
proof -
  let ?s1 = "deving_changed ''b.ts'' (deving_changed ''a.ts'' deving_init)"
  let ?s2 = "deving_changed ''c.ts'' (afterCall ''a.ts'' ?s1)"
  have "deving_reach ((([] @ [''a.ts'']) @ [''b.ts'']) @ [''c.ts'']) ?s2"
    by (intro deving_reach.intros)
      (simp add: deving_changed_def deving_init_def fileChangeCallback_def)
  moreover have "d_inflight ?s2 = [''b.ts'', ''c.ts'']"
    by (simp add: deving_changed_def deving_init_def fileChangeCallback_def afterCall_def)
  ultimately show ?thesis by (intro exI [of _ ?s2]) simp
qed

section \<open>The table of tasks\<close>

lemma map_of_obj_assign: "map_of (obj_assign a b) = map_of a ++ map_of (rev b)"
proof (induction b rule: rev_induct)
  case (snoc kv b)
  then show ?case
    by (cases kv) (auto simp: obj_assign_def map_of_obj_set map_add_def fun_eq_iff split: option.splits)
qed (simp add: obj_assign_def)

lemma map_of_registerTasks:
  "map_of (registerTasks ts reg) = map_of reg ++ (\<lambda>t. map_option CompositeTask (map_of (rev ts) t))"
proof (induction ts rule: rev_induct)
  case (snoc kv ts)
  show ?case
  proof (rule ext)
    fix t
    show "map_of (registerTasks (ts @ [kv]) reg) t =
        (map_of reg ++ (\<lambda>t. map_option CompositeTask (map_of (rev (ts @ [kv])) t))) t"
      using fun_cong [OF snoc, of t]
      by (cases kv) (auto simp: registerTasks_def gulp_task_def map_of_obj_set map_add_def split: option.splits)
  qed
qed (simp add: registerTasks_def map_add_def)

lemma distinct_obj_assign: "distinct (map fst a) \<Longrightarrow> distinct (map fst (obj_assign a b))"
proof (induction b rule: rev_induct)
  case (snoc kv b)
  then show ?case by (cases kv) (simp add: obj_assign_def distinct_obj_set)
qed (simp add: obj_assign_def)

lemma map_of_rev_distinct: "distinct (map fst xs) \<Longrightarrow> map_of (rev xs) = map_of xs"
proof (rule ext)
  fix k
  assume d: "distinct (map fst xs)"
  then have "distinct (map fst (rev xs))" by (simp add: rev_map [symmetric])
  moreover have "map_of xs k = None \<Longrightarrow> map_of (rev xs) k = None" by (simp add: map_of_eq_None_iff)
  ultimately show "map_of (rev xs) k = map_of xs k"
    by (cases "map_of xs k") (auto dest: map_of_SomeD intro: map_of_is_SomeI)
qed

lemma validate_valid: "list_all (\<lambda>(k, v). valid_task v) kvs \<Longrightarrow> validateTasks (JObj kvs) = Inr []"
  by (auto simp: validateTasks_def list_all_iff filter_empty_conv)

lemma composite_load:
  assumes "fs_read fs sf = Inr (JSON_stringify_gap n (JObj st))" "json_ok (JObj st)" "list_all (\<lambda>(k, v). valid_task v) st"
    and "fs_read fs pf = Inr (JSON_stringify_gap m (JObj pt))" "json_ok (JObj pt)" "list_all (\<lambda>(k, v). valid_task v) pt"
  shows "\<exists>reg'. loadCompositeTasks fs sf pf reg = Loaded reg' \<and>
    map_of reg' = (\<lambda>t. case map_of pt t of Some v \<Rightarrow> Some (CompositeTask v)
      | None \<Rightarrow> (case map_of st t of Some v \<Rightarrow> Some (CompositeTask v) | None \<Rightarrow> map_of reg t))"
proof (intro exI conjI)
  let ?tasks = "obj_assign (obj_assign [] st) pt"
  have dist: "distinct (map fst st)" "distinct (map fst pt)" "distinct (map fst ?tasks)"
    using assms(2,5) by (simp_all add: distinct_obj_assign)
  show "loadCompositeTasks fs sf pf reg = Loaded (registerTasks ?tasks reg)"
    using parse_stringify_gap [OF assms(2), of n] parse_stringify_gap [OF assms(5), of m] assms(1,4)
      validate_valid [OF assms(3)] validate_valid [OF assms(6)]
    by (simp add: loadCompositeTasks_def read_tasks_def)
  show "map_of (registerTasks ?tasks reg) = (\<lambda>t. case map_of pt t of Some v \<Rightarrow> Some (CompositeTask v)
      | None \<Rightarrow> (case map_of st t of Some v \<Rightarrow> Some (CompositeTask v) | None \<Rightarrow> map_of reg t))"
    using dist by (auto simp: map_of_registerTasks map_of_rev_distinct map_of_obj_assign map_add_def fun_eq_iff
        split: option.splits)
qed

text \<open>
  The composite tasks: when the two files hold valid tables, written with any indentation, the
  table of gulp afterwards has for a name the list of the project, else the one of the seed, else
  what it had before.
\<close>

lemma composite_tasks_override:
  assumes "fs_read fs sf = Inr (JSON_stringify_gap n (JObj st))" "json_ok (JObj st)" "list_all (\<lambda>(k, v). valid_task v) st"
    and "fs_read fs pf = Inr (JSON_stringify_gap m (JObj pt))" "json_ok (JObj pt)" "list_all (\<lambda>(k, v). valid_task v) pt"
  shows "\<exists>reg'. loadCompositeTasks fs sf pf reg = Loaded reg' \<and>
    map_of reg' = (\<lambda>t. case map_of pt t of Some v \<Rightarrow> Some (CompositeTask v)
      | None \<Rightarrow> (case map_of st t of Some v \<Rightarrow> Some (CompositeTask v) | None \<Rightarrow> map_of reg t))"
  using assms by (rule composite_load)

section \<open>Witnesses\<close>

lemma clean_done_once_witness:
  "cl_done (fold (\<lambda>(p, e). clean_answer True p e) [(''dist/tmp'', Some ''EPERM''), (''dist/dev'', None)]
     (clean_start ''/home/ui'' ''/home/ui'' True [''dist/dev'', ''dist/tmp''])) = 1"
proof (rule clean_done_once)
  show "list_all (inside ''/home/ui'' ''/home/ui'') [''dist/dev'', ''dist/tmp'']" by code_simp
qed simp

lemma watch_accounts_witness:
  "\<exists>s. watch_reach [''main.ts''] s \<and>
     mset [''main.ts''] = mset (w_timers s) + mset (w_running s) + mset (w_reloads s)"
proof -
  have "watch_reach ([] @ [''main.ts'']) (watch_changed ''main.ts'' watch_init)"
    by (rule watch_reach.change [OF watch_reach.start])
  then have r: "watch_reach [''main.ts''] (watch_changed ''main.ts'' watch_init)" by simp
  show ?thesis
    by (rule exI [of _ "watch_changed ''main.ts'' watch_init"]) (rule conjI [OF r conjunct1 [OF watch_accounts [OF r]]])
qed

lemma deving_handles_last_change_witness:
  "\<exists>s. deving_reach [''a.ts'', ''b.ts''] s \<and> changesWaiting s = Some ''b.ts'' \<and> d_inflight s = [''a.ts'']"
proof -
  let ?s = "deving_changed ''b.ts'' (deving_changed ''a.ts'' deving_init)"
  have "deving_reach (([] @ [''a.ts'']) @ [''b.ts'']) ?s" by (intro deving_reach.change deving_reach.start)
  then have r: "deving_reach ([''a.ts''] @ [''b.ts'']) ?s" by simp
  have "changesWaiting ?s \<noteq> None" by (simp add: deving_changed_def deving_init_def fileChangeCallback_def)
  then have "changesWaiting ?s = Some ''b.ts''" using deving_handles_last_change [OF r] by blast
  moreover have "d_inflight ?s = [''a.ts'']" by (simp add: deving_changed_def deving_init_def fileChangeCallback_def)
  ultimately show ?thesis using r by (intro exI [of _ ?s]) (simp del: list.inject)
qed

text \<open>The tables of the repository, cut to the task \<open>test\<close>, which the project overrides.\<close>

definition example_fs :: filesys where
  "example_fs = \<lparr>fs_exists = (\<lambda>p. True), fs_readdir = (\<lambda>p. []), fs_isFile = (\<lambda>p. True),
     fs_read = (\<lambda>p. if p = ''seed.tasks.json''
       then Inr (JSON_stringify_gap 2 (JObj [(''test'', JArr [JStr ''build.test'', JStr ''karma.run''])]))
       else Inr (JSON_stringify_gap 2 (JObj [(''test'', JArr [JStr ''tslint'', JStr ''build.test'', JStr ''karma.run''])])))\<rparr>"

lemma composite_tasks_override_witness:
  "\<exists>reg'. loadCompositeTasks example_fs ''seed.tasks.json'' ''project.tasks.json'' [] = Loaded reg' \<and>
     map_of reg' ''test'' = Some (CompositeTask (JArr [JStr ''tslint'', JStr ''build.test'', JStr ''karma.run'']))"
proof -
  let ?st = "[(''test'', JArr [JStr ''build.test'', JStr ''karma.run''])]"
  let ?pt = "[(''test'', JArr [JStr ''tslint'', JStr ''build.test'', JStr ''karma.run''])]"
  have 1: "fs_read example_fs ''seed.tasks.json'' = Inr (JSON_stringify_gap 2 (JObj ?st))"
    "fs_read example_fs ''project.tasks.json'' = Inr (JSON_stringify_gap 2 (JObj ?pt))"
    by (simp_all add: example_fs_def)
  have 2: "json_ok (JObj ?st)" "json_ok (JObj ?pt)" by simp_all
  have 3: "list_all (\<lambda>(k, v). valid_task v) ?st" "list_all (\<lambda>(k, v). valid_task v) ?pt"
    by (simp_all add: valid_task_def is_jstr_def)
  show ?thesis
    using composite_tasks_override [OF 1(1) 2(1) 3(1) 1(2) 2(2) 3(2), of "[]"] by (elim exE conjE) (simp add: fun_eq_iff)
qed

end
