(* ===== verification/BuildConfig.thy ===== *)
theory BuildConfig
  imports BuildTasks
begin

text \<open>
  The configuration of the build: \<open>tools/config/{seed,seed-advanced,project}.config.ts\<close>, the
  locals of the templates and the TypeScript projects of \<open>tools/utils/seed\<close>. The options of the
  command line are a record; \<open>cwd\<close> is \<open>process.cwd()\<close> and \<open>dirname\<close> the directory of the
  configuration. \<open>require.resolve\<close>, \<open>require\<close> of an environment, and \<open>deep-extend\<close> are
  parameters. Methods that change the object return the changed object too.
\<close>

section \<open>Options and dependencies\<close>

record argv =
  argv_port :: "nat option"
  argv_docs_port :: "nat option"
  argv_coverage_port :: "nat option"
  argv_build_type :: "string option"
  argv_env :: "string option"
  argv_debug :: bool
  argv_base :: "string option"
  argv_app :: "string option"
  argv_client :: "string option"
  argv_scss :: bool
  argv_b :: bool
  argv_desktop :: bool
  argv_desktopBuild :: bool
  argv_hybrid :: bool
  argv_analytics :: "string option"
  argv_env_config :: "string option"
  argv_config_env :: "string option"
  argv_rest :: "string list"

text \<open>\<open>a || b\<close> on texts and on numbers, where the empty text and zero are false.\<close>

definition str_or :: "string option \<Rightarrow> string \<Rightarrow> string" where
  "str_or v d = (if truthy v then the v else d)"

definition num_or :: "nat option \<Rightarrow> nat \<Rightarrow> nat" where
  "num_or v d = (case v of Some n \<Rightarrow> if n \<noteq> 0 then n else d | None \<Rightarrow> d)"

definition DEVELOPMENT :: string where "DEVELOPMENT = ''dev''"
definition PRODUCTION :: string where "PRODUCTION = ''prod''"

definition BUILD_TYPES :: "(string \<times> string) list" where
  "BUILD_TYPES = [(''DEVELOPMENT'', DEVELOPMENT), (''PRODUCTION'', PRODUCTION)]"

definition getBuildType :: "argv \<Rightarrow> string" where
  "getBuildType argv =
     (let type = toLowerCase (if truthy (argv_build_type argv) then the (argv_build_type argv)
                              else str_or (argv_env argv) []);
          prodKeyword = (case filter (\<lambda>o'. indexOf PRODUCTION o' \<noteq> None) (argv_rest argv) of
                           [] \<Rightarrow> False | os \<Rightarrow> last os \<noteq> []) in
      if prodKeyword \<or> type = PRODUCTION then PRODUCTION else DEVELOPMENT)"

datatype inject = InjectAs string | InjectFlag bool

datatype build_types = OneType string | TypeList "string list"

record InjectableDependency =
  dep_src :: string
  dep_inject :: inject
  dep_vendor :: "bool option"
  dep_buildType :: "build_types option"
  dep_env :: "build_types option"

definition bt_truthy :: "build_types option \<Rightarrow> bool" where
  "bt_truthy t = (case t of None \<Rightarrow> False | Some (OneType s) \<Rightarrow> s \<noteq> [] | Some (TypeList ts) \<Rightarrow> True)"

text \<open>\<open>indexOf\<close> of a text looks for a part of it, \<open>indexOf\<close> of a list for an element.\<close>

definition bt_has :: "string \<Rightarrow> build_types \<Rightarrow> bool" where
  "bt_has type t = (case t of OneType s \<Rightarrow> indexOf type s \<noteq> None | TypeList ts \<Rightarrow> type \<in> set ts)"

definition filterDependency :: "string \<Rightarrow> InjectableDependency \<Rightarrow> bool \<times> InjectableDependency" where
  "filterDependency type d =
     (let t = (if bt_truthy (dep_buildType d) then dep_buildType d else dep_env d);
          bt = (if bt_truthy t then the t else TypeList (map snd BUILD_TYPES));
          d1 = d\<lparr>dep_buildType := Some bt\<rparr>;
          d2 = (case bt of TypeList ts \<Rightarrow> d1 | OneType s \<Rightarrow> d1\<lparr>dep_env := Some (TypeList [s])\<rparr>) in
      (bt_has type bt, d2))"

definition has_glob :: "string \<Rightarrow> bool" where
  "has_glob s \<longleftrightarrow> CHR ''*'' \<in> set s"

text \<open>The dependencies are changed in place; \<open>require.resolve\<close> may throw.\<close>

fun normalizeDependencies ::
  "(string \<Rightarrow> string result) \<Rightarrow> InjectableDependency list \<Rightarrow> InjectableDependency list result" where
  "normalizeDependencies req [] = Inr []"
| "normalizeDependencies req (d # ds) =
     (if has_glob (dep_src d) then map_sum id (Cons d) (normalizeDependencies req ds)
      else (case req (dep_src d) of
              Inl e \<Rightarrow> Inl e
            | Inr q \<Rightarrow> map_sum id (Cons (d\<lparr>dep_src := q\<rparr>)) (normalizeDependencies req ds)))"

record ExtendPackages =
  pack_name :: string
  pack_path :: "string option"
  pack_meta :: "(string \<times> string) option"

section \<open>The configuration object\<close>

record SystemConfig =
  sys_base :: "string option"
  sys_packageConfigPaths :: "string list option"
  sys_paths :: "(string \<times> string) list"
  sys_packages :: "(string \<times> (string \<times> string)) list"

record Config =
  PORT :: nat
  PROJECT_ROOT :: string
  BUILD_TYPE :: string
  DEBUG :: bool
  DOCS_PORT :: nat
  COVERAGE_PORT :: nat
  COVERAGE_DIR :: string
  COVERAGE_TS_DIR :: string
  APP_BASE :: string
  NPM_BASE :: string
  TARGET_MOBILE_HYBRID :: bool
  TARGET_DESKTOP :: bool
  TARGET_DESKTOP_BUILD :: bool
  TYPED_COMPILE_INTERVAL :: nat
  BOOTSTRAP_DIR :: string
  APP_CLIENT :: string
  BOOTSTRAP_MODULE :: string
  BOOTSTRAP_PROD_MODULE :: string
  NG_FACTORY_FILE :: string
  BOOTSTRAP_FACTORY_PROD_MODULE :: string
  APP_TITLE :: string
  APP_SRC :: string
  APP_PROJECTNAME :: string
  ASSETS_SRC :: string
  CSS_SRC :: string
  E2E_SRC :: string
  SCSS_SRC :: string
  TOOLS_DIR :: string
  TASK_DIRS :: config_dirs
  DOCS_DEST :: string
  DIST_DIR :: string
  DEV_DEST :: string
  PROD_DEST :: string
  E2E_DEST :: string
  TMP_DIR :: string
  APP_DEST :: string
  ASSETS_DEST :: string
  CSS_DEST :: string
  JS_DEST :: string
  VERSION :: string
  SERVER_STARTUP_BANNER :: string
  CSS_BUNDLE_NAME :: string
  JS_PROD_SHIMS_BUNDLE :: string
  JS_PROD_APP_BUNDLE :: string
  VERSION_NPM :: string
  VERSION_NODE :: string
  ENABLE_SCSS :: bool
  FORCE_TSLINT_EMIT_ERROR :: bool
  EXTRA_WATCH_PATHS :: "string list"
  NPM_DEPENDENCIES :: "InjectableDependency list"
  APP_ASSETS :: "InjectableDependency list"
  TEMP_FILES :: "string list"
  ROLLUP_INCLUDE_DIR :: "string list"
  ROLLUP_NAMED_EXPORTS :: "(string \<times> string list) list list"
  SYSTEM_CONFIG_DEV :: SystemConfig
  SYSTEM_BUILDER_CONFIG :: SystemConfig
  BROWSER_LIST :: "string list"
  COLOR_GUARD_WHITE_LIST :: "(string \<times> string) list"
  PROXY_MIDDLEWARE :: "json list"
  PLUGIN_CONFIGS :: "(string \<times> json) list"
  TNS_BASE_DIR :: string
  TNS_APP_SRC :: string
  TNS_APP_DEST :: string
  ANALYTICS_TRACKING_ID :: string
  DESKTOP_PACKAGES :: "ExtendPackages list"
  FONTS_DEST :: string
  FONTS_SRC :: "string list"

section \<open>The seed\<close>

definition dependency :: "string \<Rightarrow> inject \<Rightarrow> build_types option \<Rightarrow> InjectableDependency" where
  "dependency src how types =
     \<lparr>dep_src = src, dep_inject = how, dep_vendor = None, dep_buildType = types, dep_env = None\<rparr>"

definition seed_NPM_DEPENDENCIES :: "InjectableDependency list" where
  "seed_NPM_DEPENDENCIES =
    [dependency ''core-js/client/shim.min.js'' (InjectAs ''shims'') None,
     dependency ''zone.js/dist/zone.js'' (InjectAs ''libs'') None,
     dependency ''zone.js/dist/long-stack-trace-zone.js'' (InjectAs ''libs'') (Some (OneType DEVELOPMENT)),
     dependency ''intl/dist/Intl.min.js'' (InjectAs ''shims'') None,
     dependency ''systemjs/dist/system.src.js'' (InjectAs ''shims'') (Some (OneType DEVELOPMENT)),
     dependency ''.tmp/Rx.min.js'' (InjectAs ''libs'') (Some (OneType DEVELOPMENT))]"

definition seed_TEMP_FILES :: "string list" where
  "seed_TEMP_FILES = [''**/*___jb_tmp___'', ''**/*~'', ''**/*.tns.scss'', ''**/*.tns.css'', ''**/*.tns.html'', ''src/**/*.js'', ''src/**/*.js.map'']"

definition seed_dev_paths :: "(string \<times> string) list" where
  "seed_dev_paths =
    [(''@angular/animations'', ''node_modules/@angular/animations/bundles/animations.umd.js''),
     (''@angular/platform-browser/animations'', ''node_modules/@angular/platform-browser/bundles/platform-browser-animations.umd.js''),
     (''@angular/common'', ''node_modules/@angular/common/bundles/common.umd.js''),
     (''@angular/compiler'', ''node_modules/@angular/compiler/bundles/compiler.umd.js''),
     (''@angular/core'', ''node_modules/@angular/core/bundles/core.umd.js''),
     (''@angular/forms'', ''node_modules/@angular/forms/bundles/forms.umd.js''),
     (''@angular/http'', ''node_modules/@angular/http/bundles/http.umd.js''),
     (''@angular/platform-browser'', ''node_modules/@angular/platform-browser/bundles/platform-browser.umd.js''),
     (''@angular/platform-browser-dynamic'', ''node_modules/@angular/platform-browser-dynamic/bundles/platform-browser-dynamic.umd.js''),
     (''@angular/router'', ''node_modules/@angular/router/bundles/router.umd.js''),
     (''@angular/animations/browser'', ''node_modules/@angular/animations/bundles/animations-browser.umd.js''),
     (''@angular/common/testing'', ''node_modules/@angular/common/bundles/common-testing.umd.js''),
     (''@angular/compiler/testing'', ''node_modules/@angular/compiler/bundles/compiler-testing.umd.js''),
     (''@angular/core/testing'', ''node_modules/@angular/core/bundles/core-testing.umd.js''),
     (''@angular/http/testing'', ''node_modules/@angular/http/bundles/http-testing.umd.js''),
     (''@angular/platform-browser/testing'', ''node_modules/@angular/platform-browser/bundles/platform-browser-testing.umd.js''),
     (''@angular/platform-browser-dynamic/testing'', ''node_modules/@angular/platform-browser-dynamic/bundles/platform-browser-dynamic-testing.umd.js''),
     (''@angular/router/testing'', ''node_modules/@angular/router/bundles/router-testing.umd.js''),
     (''app/*'', ''/app/*''),
     (''dist/dev/*'', ''/base/dist/dev/*''),
     (''*'', ''node_modules/*'')]"

definition seed_builder_paths :: "(string \<times> string) list" where
  "seed_builder_paths =
    [(''@angular/platform-browser/animations'', ''node_modules/@angular/platform-browser/bundles/platform-browser-animations.umd.js''),
     (''@angular/animations/browser'', ''node_modules/@angular/animations/bundles/animations-browser.umd.js''),
     (''dist/tmp/node_modules/*'', ''dist/tmp/node_modules/*''),
     (''node_modules/*'', ''node_modules/*''),
     (''*'', ''node_modules/*'')]"

definition seed_builder_packages :: "(string \<times> string \<times> string) list" where
  "seed_builder_packages =
    [(''@angular/animations'', ''bundles/animations.umd.js'', ''js''),
     (''@angular/common'', ''bundles/common.umd.js'', ''js''),
     (''@angular/compiler'', ''bundles/compiler.umd.js'', ''js''),
     (''@angular/core/testing'', ''bundles/core-testing.umd.js'', ''js''),
     (''@angular/core'', ''bundles/core.umd.js'', ''js''),
     (''@angular/forms'', ''bundles/forms.umd.js'', ''js''),
     (''@angular/http'', ''bundles/http.umd.js'', ''js''),
     (''@angular/platform-browser'', ''bundles/platform-browser.umd.js'', ''js''),
     (''@angular/platform-browser-dynamic'', ''bundles/platform-browser-dynamic.umd.js'', ''js''),
     (''@angular/router'', ''bundles/router.umd.js'', ''js''),
     (''@angular/service-worker'', ''bundles/service-worker.umd.js'', ''js''),
     (''rxjs'', ''Rx.js'', ''js'')]"

text \<open>
  The fields of the class in their order; \<open>env_scss\<close> and \<open>env_tslint\<close> are the variables
  \<open>ENABLE_SCSS\<close> and \<open>FORCE_TSLINT_EMIT_ERROR\<close> of the environment, \<open>slash\<close> the function of the
  package \<open>slash\<close>. The fields of the subclasses are empty until their constructors set them, and
  \<open>SYSTEM_CONFIG\<close>, which is the object \<open>SYSTEM_CONFIG_DEV\<close>, has no field of its own. A middleware of
  the server is written as the options it is made with.
\<close>

definition appVersion :: string where "appVersion = ''0.5.0''"

definition seed_BROWSER_LIST :: "string list" where
  "seed_BROWSER_LIST = [''ie >= 11'', ''ie_mob >= 11'', ''ff >= 30'', ''chrome >= 34'', ''safari >= 7'', ''opera >= 23'',
     ''ios >= 7'', ''android >= 4.4'', ''bb >= 10'']"

definition new_SeedConfig ::
  "(string \<Rightarrow> string) \<Rightarrow> argv \<Rightarrow> string option \<Rightarrow> string option \<Rightarrow> string \<Rightarrow> string \<Rightarrow> Config" where
  "new_SeedConfig slash argv env_scss env_tslint cwd dirname =
     (let build_type = getBuildType argv;
          base = str_or (argv_base argv) (if build_type = DEVELOPMENT then ''/'' else ''/core/ui/default/'');
          boot_dir = str_or (argv_app argv) ''app''; boot = boot_dir @ ''/main'';
          client = str_or (argv_client argv) ''client''; app_src = ''src/'' @ client;
          dist = ''dist''; tmp = dist @ ''/tmp''; project_root = path_join [dirname, ''../..''];
          app_dest = (if build_type = DEVELOPMENT then dist @ ''/dev'' else dist @ ''/prod'') in
      \<lparr>PORT = num_or (argv_port argv) 5000, PROJECT_ROOT = project_root, BUILD_TYPE = build_type,
       DEBUG = argv_debug argv, DOCS_PORT = num_or (argv_docs_port argv) 5003,
       COVERAGE_PORT = num_or (argv_coverage_port argv) 5004, COVERAGE_DIR = ''coverage_js'',
       COVERAGE_TS_DIR = ''coverage'', APP_BASE = base,
       NPM_BASE = slash (path_join [''.'', base, ''node_modules/'']),
       TARGET_MOBILE_HYBRID = False, TARGET_DESKTOP = False, TARGET_DESKTOP_BUILD = False,
       TYPED_COMPILE_INTERVAL = 0, BOOTSTRAP_DIR = boot_dir, APP_CLIENT = client,
       BOOTSTRAP_MODULE = boot, BOOTSTRAP_PROD_MODULE = boot, NG_FACTORY_FILE = ''main-prod'',
       BOOTSTRAP_FACTORY_PROD_MODULE = boot_dir @ ''/'' @ ''main-prod'', APP_TITLE = ''Xenon | Decentralized Control Plane'',
       APP_SRC = app_src, APP_PROJECTNAME = ''tsconfig.json'',
       ASSETS_SRC = app_src @ ''/assets'', CSS_SRC = app_src @ ''/css'', E2E_SRC = ''src/e2e'',
       SCSS_SRC = app_src @ ''/scss'', TOOLS_DIR = ''tools'',
       TASK_DIRS = \<lparr>SEED_TASKS_DIR = path_join [cwd, ''tools'', ''tasks'', ''seed''], PROJECT_TASKS_DIR = [],
         SEED_COMPOSITE_TASKS = path_join [cwd, ''tools'', ''config'', ''seed.tasks.json''],
         PROJECT_COMPOSITE_TASKS = path_join [cwd, ''tools'', ''config'', ''project.tasks.json'']\<rparr>,
       DOCS_DEST = ''docs'', DIST_DIR = dist, DEV_DEST = dist @ ''/dev'', PROD_DEST = dist @ ''/prod'',
       E2E_DEST = dist @ ''/e2e'', TMP_DIR = tmp, APP_DEST = app_dest,
       ASSETS_DEST = app_dest @ ''/assets'', CSS_DEST = app_dest @ ''/css'', JS_DEST = app_dest @ ''/js'',
       VERSION = appVersion, SERVER_STARTUP_BANNER = ''Starting the server..'',
       CSS_BUNDLE_NAME = ''main'', JS_PROD_SHIMS_BUNDLE = ''shims.js'', JS_PROD_APP_BUNDLE = ''app.js'',
       VERSION_NPM = ''3.0.0'', VERSION_NODE = ''5.0.0'',
       ENABLE_SCSS = (toLowerCase (show_opt id env_scss) \<in> {''true'', ''1''} \<or> argv_scss argv \<or> True),
       FORCE_TSLINT_EMIT_ERROR = truthy env_tslint, EXTRA_WATCH_PATHS = [],
       NPM_DEPENDENCIES = seed_NPM_DEPENDENCIES, APP_ASSETS = [], TEMP_FILES = seed_TEMP_FILES,
       ROLLUP_INCLUDE_DIR = [''node_modules/**''], ROLLUP_NAMED_EXPORTS = [],
       SYSTEM_CONFIG_DEV = \<lparr>sys_base = None, sys_packageConfigPaths = None,
         sys_paths = obj_assign [(boot, base @ boot)] seed_dev_paths, sys_packages = []\<rparr>,
       SYSTEM_BUILDER_CONFIG = \<lparr>sys_base = Some project_root,
         sys_packageConfigPaths = Some [path_join [''node_modules'', ''*'', ''package.json''],
           path_join [''node_modules'', ''@angular'', ''*'', ''package.json'']],
         sys_paths = obj_assign [(path_join [tmp, ''*''], tmp @ ''/*'')] seed_builder_paths,
         sys_packages = seed_builder_packages\<rparr>,
       BROWSER_LIST = seed_BROWSER_LIST, COLOR_GUARD_WHITE_LIST = [], PROXY_MIDDLEWARE = [],
       PLUGIN_CONFIGS = [], TNS_BASE_DIR = [], TNS_APP_SRC = [], TNS_APP_DEST = [],
       ANALYTICS_TRACKING_ID = [], DESKTOP_PACKAGES = [], FONTS_DEST = [], FONTS_SRC = []\<rparr>)"

definition getInjectableStyleExtension :: "Config \<Rightarrow> string" where
  "getInjectableStyleExtension c = (if BUILD_TYPE c = PRODUCTION \<and> ENABLE_SCSS c then ''scss'' else ''css'')"

text \<open>The getter \<open>_APP_ASSETS\<close> makes a new object for the style sheet each time.\<close>

definition app_assets :: "Config \<Rightarrow> InjectableDependency list" where
  "app_assets c =
     (dependency (CSS_SRC c @ ''/'' @ CSS_BUNDLE_NAME c @ ''.'' @ getInjectableStyleExtension c) (InjectFlag True) None)
        \<lparr>dep_vendor := Some False\<rparr> # APP_ASSETS c"

text \<open>
  The getter \<open>DEPENDENCIES\<close>: the filter writes to every dependency, and resolving writes to those
  that are kept and are no globs. The changed object is returned with the list.
\<close>

definition filter_all :: "string \<Rightarrow> InjectableDependency list \<Rightarrow> InjectableDependency list" where
  "filter_all type ds = map snd (filter fst (map (filterDependency type) ds))"

fun write_back ::
  "string \<Rightarrow> InjectableDependency list \<Rightarrow> InjectableDependency list \<Rightarrow> InjectableDependency list" where
  "write_back type [] ks = []"
| "write_back type (d # ds) ks =
     (if fst (filterDependency type d)
      then (case ks of [] \<Rightarrow> snd (filterDependency type d) # write_back type ds []
            | k # ks' \<Rightarrow> k # write_back type ds ks')
      else snd (filterDependency type d) # write_back type ds ks)"

definition DEPENDENCIES ::
  "(string \<Rightarrow> string result) \<Rightarrow> Config \<Rightarrow> (InjectableDependency list \<times> Config) result" where
  "DEPENDENCIES req c =
     (case normalizeDependencies req (filter_all (BUILD_TYPE c) (NPM_DEPENDENCIES c)) of
        Inl e \<Rightarrow> Inl e
      | Inr ks \<Rightarrow>
          Inr (ks @ filter_all (BUILD_TYPE c) (app_assets c),
               c\<lparr>NPM_DEPENDENCIES := write_back (BUILD_TYPE c) (NPM_DEPENDENCIES c) ks,
                 APP_ASSETS := map (\<lambda>d. snd (filterDependency (BUILD_TYPE c) d)) (APP_ASSETS c)\<rparr>))"

definition addPackageBundles :: "ExtendPackages \<Rightarrow> Config \<Rightarrow> Config" where
  "addPackageBundles pack c =
     (let c1 = (if truthy (pack_path pack)
                then c\<lparr>SYSTEM_CONFIG_DEV := (SYSTEM_CONFIG_DEV c)\<lparr>sys_paths :=
                         obj_set (pack_name pack) (the (pack_path pack)) (sys_paths (SYSTEM_CONFIG_DEV c))\<rparr>,
                       SYSTEM_BUILDER_CONFIG := (SYSTEM_BUILDER_CONFIG c)\<lparr>sys_paths :=
                         obj_set (pack_name pack) (the (pack_path pack)) (sys_paths (SYSTEM_BUILDER_CONFIG c))\<rparr>\<rparr>
                else c) in
      case pack_meta pack of
        None \<Rightarrow> c1
      | Some m \<Rightarrow> c1\<lparr>SYSTEM_CONFIG_DEV := (SYSTEM_CONFIG_DEV c1)\<lparr>sys_packages :=
                         obj_set (pack_name pack) m (sys_packages (SYSTEM_CONFIG_DEV c1))\<rparr>,
                     SYSTEM_BUILDER_CONFIG := (SYSTEM_BUILDER_CONFIG c1)\<lparr>sys_packages :=
                         obj_set (pack_name pack) m (sys_packages (SYSTEM_BUILDER_CONFIG c1))\<rparr>\<rparr>)"

definition addPackagesBundles :: "ExtendPackages list \<Rightarrow> Config \<Rightarrow> Config" where
  "addPackagesBundles packs c = fold addPackageBundles packs c"

definition getRollupNamedExports :: "Config \<Rightarrow> (string \<times> string list) list" where
  "getRollupNamedExports c = foldl obj_assign [] (ROLLUP_NAMED_EXPORTS c)"

text \<open>
  The settings of the plugins: the defaults, into which \<open>deepExtend\<close> of the package \<open>deep-extend\<close>
  merges those of the configuration.
\<close>

definition without_slash :: "string \<Rightarrow> string" where
  "without_slash t = (if t \<noteq> [] \<and> last t = CHR ''/'' then butlast t else t)"

definition plugin_defaults :: "argv \<Rightarrow> Config \<Rightarrow> (string \<times> json) list" where
  "plugin_defaults argv c =
    [(''browser-sync'', JObj
       [(''middleware'', JArr (JObj [(''index'', JStr (APP_BASE c @ ''index.html''))] # PROXY_MIDDLEWARE c)),
        (''port'', JNum (int (PORT c))), (''startPath'', JStr (APP_BASE c)), (''open'', JBool (\<not> argv_b argv)),
        (''injectChanges'', JBool False),
        (''server'', JObj [(''baseDir'', JStr (DIST_DIR c @ ''/empty/'')),
          (''routes'', JObj (obj_assign []
            [(APP_BASE c @ APP_SRC c, JStr (APP_SRC c)), (APP_BASE c @ APP_DEST c, JStr (APP_DEST c)),
             (APP_BASE c @ ''node_modules'', JStr ''node_modules''), (without_slash (APP_BASE c), JStr (APP_DEST c))]))])]),
     (''environment-config'', JStr (path_join [PROJECT_ROOT c, TOOLS_DIR c, ''env''])),
     (''gulp-sass'', JObj [(''includePaths'', JArr [JStr ''./node_modules/''])]),
     (''gulp-concat-css'', JObj [(''targetFile'', JStr (CSS_BUNDLE_NAME c @ ''.css'')),
        (''options'', JObj [(''rebaseUrls'', JBool False)])])]"

definition getPluginConfig :: "(json \<Rightarrow> json \<Rightarrow> json) \<Rightarrow> argv \<Rightarrow> Config \<Rightarrow> string \<Rightarrow> json" where
  "getPluginConfig deepExtend argv c pluginKey =
     (case jget pluginKey (deepExtend (JObj (plugin_defaults argv c)) (JObj (PLUGIN_CONFIGS c))) of
        Some v \<Rightarrow> if json_truthy v then v else JNull
      | None \<Rightarrow> JNull)"

definition getKarmaReporters :: "Config \<Rightarrow> json" where
  "getKarmaReporters c =
     JObj [(''preprocessors'', JObj [(''dist/**/!(*spec|index|*.module|*.routes).js'', JArr [JStr ''coverage''])]),
           (''reporters'', JArr [JStr ''mocha'', JStr ''coverage'', JStr ''karma-remap-istanbul'']),
           (''coverageReporter'', JObj [(''dir'', JStr (COVERAGE_DIR c @ ''/'')),
              (''reporters'', JArr [JObj [(''type'', JStr ''json''), (''subdir'', JStr ''.''), (''file'', JStr ''coverage-final.json'')],
                 JObj [(''type'', JStr ''html''), (''subdir'', JStr ''.'')]])]),
           (''remapIstanbulReporter'', JObj [(''reports'', JObj [(''html'', JStr (COVERAGE_TS_DIR c))])])]"

section \<open>The advanced seed and the project\<close>

definition additionalPackages :: "ExtendPackages list" where
  "additionalPackages =
    [\<lparr>pack_name = ''lodash'', pack_path = Some ''node_modules/lodash/lodash.js'', pack_meta = Some (''index.js'', ''js'')\<rparr>,
     \<lparr>pack_name = ''@ngrx/core'', pack_path = None, pack_meta = Some (''bundles/core.umd.js'', ''js'')\<rparr>,
     \<lparr>pack_name = ''@ngrx/store'', pack_path = None, pack_meta = Some (''bundles/store.umd.js'', ''js'')\<rparr>,
     \<lparr>pack_name = ''@ngrx/effects'', pack_path = None, pack_meta = Some (''bundles/effects.umd.js'', ''js'')\<rparr>,
     \<lparr>pack_name = ''@ngrx/effects/testing'', pack_path = Some ''node_modules/@ngrx/effects/testing/index.js'', pack_meta = None\<rparr>,
     \<lparr>pack_name = ''@ngrx/store-devtools'', pack_path = None, pack_meta = Some (''bundles/store-devtools.umd.js'', ''js'')\<rparr>,
     \<lparr>pack_name = ''@ngx-translate/core'', pack_path = None, pack_meta = Some (''bundles/core.umd.js'', ''js'')\<rparr>,
     \<lparr>pack_name = ''@ngx-translate/http-loader'', pack_path = None, pack_meta = Some (''bundles/http-loader.umd.js'', ''js'')\<rparr>,
     \<lparr>pack_name = ''angulartics2'', pack_path = None, pack_meta = Some (''dist/core.umd.js'', ''js'')\<rparr>,
     \<lparr>pack_name = ''ngrx-store-freeze'', pack_path = Some ''node_modules/ngrx-store-freeze/dist/index.js'', pack_meta = None\<rparr>,
     \<lparr>pack_name = ''deep-freeze-strict'', pack_path = Some ''node_modules/deep-freeze-strict/index.js'', pack_meta = None\<rparr>,
     \<lparr>pack_name = ''ngx-infinite-scroll'', pack_path = None, pack_meta = Some (''bundles/ngx-infinite-scroll.umd.js'', ''js'')\<rparr>,
     \<lparr>pack_name = ''moment'', pack_path = None, pack_meta = Some (''moment.js'', ''js'')\<rparr>,
     \<lparr>pack_name = ''numeral'', pack_path = None, pack_meta = Some (''numeral.js'', ''js'')\<rparr>]"

text \<open>\<open>SYSTEM_CONFIG\<close> is the object \<open>SYSTEM_CONFIG_DEV\<close>; \<open>TNS_CONFIG\<close> has the id of the analytics only.\<close>

definition advanced_config :: "argv \<Rightarrow> string \<Rightarrow> Config \<Rightarrow> Config" where
  "advanced_config argv cwd c =
     (let hybrid = (\<not> argv_desktop argv \<and> argv_hybrid argv);
          bootstrap = (if hybrid then ''main.mobile.hybrid'' else ''main.web'');
          boot_dir = (if truthy (argv_app argv) then the (argv_app argv) @ ''/'' else []);
          base_dir = ''nativescript'';
          c1 = c\<lparr>TNS_BASE_DIR := base_dir, TNS_APP_SRC := base_dir @ ''/src'', TNS_APP_DEST := base_dir @ ''/app'',
            TARGET_DESKTOP := argv_desktop argv, TARGET_DESKTOP_BUILD := (argv_desktop argv \<and> argv_desktopBuild argv),
            TARGET_MOBILE_HYBRID := hybrid,
            APP_TITLE := ''Xenon | Decentralized Control Plane'',
            ANALYTICS_TRACKING_ID := str_or (argv_analytics argv) [],
            BOOTSTRAP_DIR := boot_dir, BOOTSTRAP_MODULE := boot_dir @ bootstrap,
            NG_FACTORY_FILE := bootstrap @ ''.prod'', BOOTSTRAP_PROD_MODULE := boot_dir @ bootstrap,
            BOOTSTRAP_FACTORY_PROD_MODULE := boot_dir @ bootstrap @ ''.prod'',
            DESKTOP_PACKAGES := DESKTOP_PACKAGES c @ additionalPackages\<rparr>;
          c2 = addPackagesBundles additionalPackages c1;
          c3 = c2\<lparr>PLUGIN_CONFIGS := obj_set ''gulp-sass-tns''
              (JObj [(''includePaths'', JArr (map (\<lambda>dir. JStr (path_resolve2 cwd base_dir dir))
                 [''src'', ''./node_modules/'', ''./node_modules/nativescript-theme-core/scss/'']))])
              (obj_set ''gulp-sass'' (JObj [(''includePaths'',
                 JArr [JStr ''./src/client/scss/'', JStr ''./node_modules/'', JStr ''./''])]) (PLUGIN_CONFIGS c2))\<rparr> in
      c3\<lparr>SYSTEM_CONFIG_DEV := (SYSTEM_CONFIG_DEV c3)\<lparr>sys_paths :=
           obj_set (BOOTSTRAP_MODULE c3) (APP_BASE c3 @ BOOTSTRAP_MODULE c3) (sys_paths (SYSTEM_CONFIG_DEV c3))\<rparr>,
         SYSTEM_BUILDER_CONFIG := (SYSTEM_BUILDER_CONFIG c3)\<lparr>sys_packageConfigPaths := None\<rparr>\<rparr>)"

definition project_NPM_DEPENDENCIES :: "InjectableDependency list" where
  "project_NPM_DEPENDENCIES =
    [dependency ''jquery/dist/jquery.min.js'' (InjectAs ''libs'') None,
     dependency ''tether/dist/js/tether.min.js'' (InjectAs ''libs'') None,
     dependency ''bootstrap/dist/js/bootstrap.min.js'' (InjectAs ''libs'') None,
     dependency ''d3/d3.min.js'' (InjectAs ''libs'') None,
     dependency ''d3-tip/index.js'' (InjectAs ''libs'') None,
     dependency ''patternfly-timeline/dist/timeline.js'' (InjectAs ''libs'') None,
     dependency ''chart.js/dist/Chart.bundle.min.js'' (InjectAs ''libs'') None,
     dependency ''codemirror/lib/codemirror.js'' (InjectAs ''libs'') None,
     dependency ''codemirror/addon/display/autorefresh.js'' (InjectAs ''libs'') None,
     dependency ''codemirror/addon/edit/matchbrackets.js'' (InjectAs ''libs'') None,
     dependency ''codemirror/addon/selection/active-line.js'' (InjectAs ''libs'') None,
     dependency ''codemirror/mode/javascript/javascript.js'' (InjectAs ''libs'') None,
     dependency ''patternfly-timeline/dist/timeline.css'' (InjectFlag True) None,
     dependency ''codemirror/lib/codemirror.css'' (InjectFlag True) None]"

definition project_config :: "string \<Rightarrow> Config \<Rightarrow> Config" where
  "project_config cwd c =
     c\<lparr>TASK_DIRS := (TASK_DIRS c)\<lparr>PROJECT_TASKS_DIR := path_join [cwd, TOOLS_DIR c, ''tasks'', ''project'']\<rparr>,
       FONTS_DEST := ASSETS_DEST c @ ''/fonts'',
       FONTS_SRC := [''node_modules/font-awesome/fonts/**'', ASSETS_SRC c @ ''/fonts/**''],
       NPM_DEPENDENCIES := NPM_DEPENDENCIES c @ project_NPM_DEPENDENCIES,
       PROXY_MIDDLEWARE := [JArr [JStr ''/api'', JObj [(''target'', JStr ''http://localhost:8000''), (''changeOrigin'', JBool True),
         (''ws'', JBool True), (''pathRewrite'', JObj [(''^/api'', JStr [])])]]]\<rparr>"

text \<open>\<open>tools/config.ts\<close>: the one object of the build.\<close>

definition the_config ::
  "(string \<Rightarrow> string) \<Rightarrow> argv \<Rightarrow> string option \<Rightarrow> string option \<Rightarrow> string \<Rightarrow> string \<Rightarrow> Config" where
  "the_config slash argv env_scss env_tslint cwd dirname =
     project_config cwd (advanced_config argv cwd (new_SeedConfig slash argv env_scss env_tslint cwd dirname))"

section \<open>The locals of the templates\<close>

record TemplateLocalsBuilder =
  stringifySystemConfigDev :: bool
  stringifyEnvConfig :: bool

definition new_TemplateLocalsBuilder :: TemplateLocalsBuilder where
  "new_TemplateLocalsBuilder = \<lparr>stringifySystemConfigDev = False, stringifyEnvConfig = True\<rparr>"

definition withStringifiedSystemConfigDev :: "TemplateLocalsBuilder \<Rightarrow> TemplateLocalsBuilder" where
  "withStringifiedSystemConfigDev b = b\<lparr>stringifySystemConfigDev := True\<rparr>"

definition withoutStringifiedEnvConfig :: "TemplateLocalsBuilder \<Rightarrow> TemplateLocalsBuilder" where
  "withoutStringifiedEnvConfig b = b\<lparr>stringifyEnvConfig := False\<rparr>"

text \<open>The copy by \<open>JSON\<close>; an exception of \<open>require\<close> is logged and gives \<open>null\<close>.\<close>

definition getConfig :: "(string \<Rightarrow> json result) \<Rightarrow> string \<Rightarrow> string \<Rightarrow> json" where
  "getConfig req path env =
     (case req (path_join [path, env]) of
        Inl e \<Rightarrow> JNull
      | Inr v \<Rightarrow> (case JSON_parse (JSON_stringify v) of Inl e \<Rightarrow> JNull | Inr w \<Rightarrow> w))"

text \<open>The properties \<open>Object.assign\<close> copies from a value; \<open>null\<close> has none.\<close>

definition own_props :: "json \<Rightarrow> (string \<times> json) list" where
  "own_props v = (case object_entries v of Inl e \<Rightarrow> [] | Inr kvs \<Rightarrow> kvs)"

definition system_config_json :: "SystemConfig \<Rightarrow> json" where
  "system_config_json c =
     JObj ([(''defaultJSExtensions'', JBool True)] @
           (case sys_base c of None \<Rightarrow> [] | Some b \<Rightarrow> [(''base'', JStr b)]) @
           (case sys_packageConfigPaths c of None \<Rightarrow> [] | Some ps \<Rightarrow> [(''packageConfigPaths'', JArr (map JStr ps))]) @
          [(''paths'', JObj (map (\<lambda>(k, v). (k, JStr v)) (sys_paths c))),
           (''packages'', JObj (map (\<lambda>(k, m, e). (k, JObj [(''main'', JStr m), (''defaultExtension'', JStr e)])) (sys_packages c)))])"

text \<open>The locals: the configuration with \<open>ENV_CONFIG\<close> and, when asked for, the text of \<open>SYSTEM_CONFIG_DEV\<close>.\<close>

record Locals =
  loc_config :: Config
  ENV_CONFIG :: json
  loc_system_config :: "string option"

definition build_locals ::
  "(string \<Rightarrow> json result) \<Rightarrow> argv \<Rightarrow> string \<Rightarrow> Config \<Rightarrow> TemplateLocalsBuilder \<Rightarrow> Locals result" where
  "build_locals req argv configPath c b =
     (let configEnvName = (if truthy (argv_env_config argv) then the (argv_env_config argv)
                           else str_or (argv_config_env argv) ''dev'');
          envOnlyConfig = getConfig req configPath configEnvName;
          baseConfig = getConfig req configPath ''base'' in
      if \<not> json_truthy envOnlyConfig then Inl (ErrorMsg (configEnvName @ '' is an invalid configuration name''))
      else (let envConfig = JObj (obj_assign (obj_assign [] (own_props baseConfig)) (own_props envOnlyConfig)) in
        Inr \<lparr>loc_config = c,
             ENV_CONFIG = (if stringifyEnvConfig b then JStr (JSON_stringify envConfig) else envConfig),
             loc_system_config = (if stringifySystemConfigDev b
               then Some (JSON_stringify (system_config_json (SYSTEM_CONFIG_DEV c))) else None)\<rparr>))"

section \<open>TypeScript projects\<close>

text \<open>A project is made once for the text of its options; \<open>pr_file\<close> is the path of its configuration.\<close>

record ts_project =
  pr_file :: string
  pr_options :: "(string \<times> json) list"

definition makeTsProject ::
  "(string \<times> json) list \<Rightarrow> string \<Rightarrow> string \<Rightarrow> (string \<times> ts_project) list \<Rightarrow> ts_project \<times> (string \<times> ts_project) list" where
  "makeTsProject options pathToTsConfig projectName tsProjects =
     (let optionsHash = JSON_stringify (JObj options) in
      case map_of tsProjects optionsHash of
        Some p \<Rightarrow> (p, tsProjects)
      | None \<Rightarrow>
          (let p = \<lparr>pr_file = path_join [pathToTsConfig, projectName], pr_options = options\<rparr> in
           (p, obj_set optionsHash p tsProjects)))"

section \<open>Properties\<close>

lemma filterDependency_idem:
  "filterDependency type (snd (filterDependency type d)) = filterDependency type d"
proof -
  let ?t = "if bt_truthy (dep_buildType d) then dep_buildType d else dep_env d"
  define bt where "bt = (if bt_truthy ?t then the ?t else TypeList (map snd BUILD_TYPES))"
  have bt: "bt_truthy (Some bt)"
    by (cases "bt_truthy ?t") (auto simp: bt_def bt_truthy_def split: option.splits build_types.splits if_splits)
  have fd: "filterDependency type d = (bt_has type bt,
      (case bt of TypeList ts \<Rightarrow> d\<lparr>dep_buildType := Some bt\<rparr>
       | OneType s \<Rightarrow> d\<lparr>dep_buildType := Some bt, dep_env := Some (TypeList [s])\<rparr>))"
    by (simp add: filterDependency_def Let_def bt_def split: build_types.splits)
  show ?thesis
    unfolding fd using bt by (cases bt) (simp_all add: filterDependency_def Let_def)
qed

lemma filterDependency_src:
  "filterDependency type (d\<lparr>dep_src := q\<rparr>) =
     (fst (filterDependency type d), (snd (filterDependency type d))\<lparr>dep_src := q\<rparr>)"
  by (simp add: filterDependency_def Let_def split: build_types.splits)

text \<open>A dependency that the filter has seen.\<close>

definition settled :: "string \<Rightarrow> InjectableDependency \<Rightarrow> bool" where
  "settled type d \<longleftrightarrow> filterDependency type d = (True, d)"

lemma filter_settled: "fst (filterDependency type d) \<Longrightarrow> settled type (snd (filterDependency type d))"
  unfolding settled_def filterDependency_idem by (simp add: prod_eq_iff)

lemma settled_src: "settled type d \<Longrightarrow> settled type (d\<lparr>dep_src := q\<rparr>)"
  by (simp add: settled_def filterDependency_src)

lemma filter_all_Cons:
  "filter_all type (d # ds) =
     (if fst (filterDependency type d) then snd (filterDependency type d) # filter_all type ds else filter_all type ds)"
  by (simp add: filter_all_def)

lemma map_sum_Inr: "map_sum id f r = Inr y \<longleftrightarrow> (\<exists>x. r = Inr x \<and> y = f x)"
  by (cases r) auto

lemma normalize_Cons:
  assumes "normalizeDependencies req (d # ds) = Inr ks"
  obtains k ks' where "ks = k # ks'" "normalizeDependencies req ds = Inr ks'"
    "(has_glob (dep_src d) \<and> k = d) \<or> (\<exists>q. req (dep_src d) = Inr q \<and> k = d\<lparr>dep_src := q\<rparr>)"
  using assms by (auto simp: map_sum_Inr split: if_splits sum.splits)

lemma normalize_idem:
  assumes "\<And>p q. req p = Inr q \<Longrightarrow> req q = Inr q"
  shows "normalizeDependencies req ds = Inr ks \<Longrightarrow> normalizeDependencies req ks = Inr ks"
proof (induction ds arbitrary: ks)
  case (Cons d ds)
  from Cons.prems obtain k ks' where k: "ks = k # ks'" "normalizeDependencies req ds = Inr ks'"
    "(has_glob (dep_src d) \<and> k = d) \<or> (\<exists>q. req (dep_src d) = Inr q \<and> k = d\<lparr>dep_src := q\<rparr>)"
    by (rule normalize_Cons)
  from Cons.IH [OF k(2)] have "normalizeDependencies req ks' = Inr ks'" .
  with k assms show ?case by (auto split: sum.splits)
qed simp

lemma write_back_filter:
  "normalizeDependencies req (filter_all type ds) = Inr ks \<Longrightarrow>
     filter_all type (write_back type ds ks) = ks \<and> write_back type (write_back type ds ks) ks = write_back type ds ks"
proof (induction ds arbitrary: ks)
  case Nil
  then show ?case by (simp add: filter_all_def)
next
  case (Cons d ds)
  let ?d = "snd (filterDependency type d)"
  show ?case
  proof (cases "fst (filterDependency type d)")
    case True
    with Cons.prems have "normalizeDependencies req (?d # filter_all type ds) = Inr ks" by (simp add: filter_all_Cons)
    then obtain k ks' where k: "ks = k # ks'" "normalizeDependencies req (filter_all type ds) = Inr ks'"
      "(has_glob (dep_src ?d) \<and> k = ?d) \<or> (\<exists>q. req (dep_src ?d) = Inr q \<and> k = ?d\<lparr>dep_src := q\<rparr>)"
      by (rule normalize_Cons)
    then have "settled type k" using filter_settled [OF True] settled_src by blast
    then have "filterDependency type k = (True, k)" by (simp add: settled_def)
    then show ?thesis using Cons.IH [OF k(2)] True k(1) by (simp add: filter_all_Cons)
  next
    case False
    then have "fst (filterDependency type ?d) = False" "snd (filterDependency type ?d) = ?d"
      by (simp_all add: filterDependency_idem)
    then show ?thesis using Cons False by (simp add: filter_all_Cons)
  qed
qed

lemma filter_all_snd: "filter_all type (map (\<lambda>d. snd (filterDependency type d)) ds) = filter_all type ds"
proof (induction ds)
  case (Cons d ds)
  then show ?case by (simp add: filter_all_Cons filterDependency_idem)
qed simp

text \<open>
  Reading \<open>DEPENDENCIES\<close> changes the objects it reads, once: a second reading gives the same list
  and changes nothing, when a path that \<open>require.resolve\<close> returned resolves to itself.
\<close>

lemma dependencies_stable:
  assumes "\<And>p q. req p = Inr q \<Longrightarrow> req q = Inr q" "DEPENDENCIES req c = Inr (ds, c')"
  shows "DEPENDENCIES req c' = Inr (ds, c')"
proof -
  let ?T = "BUILD_TYPE c"
  from assms(2) obtain ks where ks: "normalizeDependencies req (filter_all ?T (NPM_DEPENDENCIES c)) = Inr ks"
    and ds: "ds = ks @ filter_all ?T (app_assets c)"
    and c': "c' = c\<lparr>NPM_DEPENDENCIES := write_back ?T (NPM_DEPENDENCIES c) ks,
       APP_ASSETS := map (\<lambda>d. snd (filterDependency ?T d)) (APP_ASSETS c)\<rparr>"
    by (auto simp: DEPENDENCIES_def split: sum.splits)
  note wb = write_back_filter [OF ks] and norm = normalize_idem [OF assms(1) ks]
  have assets: "filter_all ?T (app_assets c') = filter_all ?T (app_assets c)"
    by (simp add: c' app_assets_def filter_all_Cons filter_all_snd getInjectableStyleExtension_def)
  have twice: "map (\<lambda>d. snd (filterDependency ?T d)) (map (\<lambda>d. snd (filterDependency ?T d)) xs) =
      map (\<lambda>d. snd (filterDependency ?T d)) xs" for xs
    by (simp add: filterDependency_idem)
  have B: "BUILD_TYPE c' = ?T" and N: "NPM_DEPENDENCIES c' = write_back ?T (NPM_DEPENDENCIES c) ks"
    and A: "APP_ASSETS c' = map (\<lambda>d. snd (filterDependency ?T d)) (APP_ASSETS c)"
    by (simp_all add: c')
  have "normalizeDependencies req (filter_all ?T (NPM_DEPENDENCIES c')) = Inr ks" using wb norm by (simp add: N)
  then have "DEPENDENCIES req c' = Inr (ks @ filter_all ?T (app_assets c'),
      c'\<lparr>NPM_DEPENDENCIES := NPM_DEPENDENCIES c', APP_ASSETS := APP_ASSETS c'\<rparr>)"
    using wb twice [of "APP_ASSETS c"] by (simp add: DEPENDENCIES_def B N A del: map_map)
  then show ?thesis by (simp add: assets ds)
qed

lemma assign_ok:
  assumes "distinct (map fst a)" "list_all (\<lambda>(k, v). json_ok v) a" "list_all (\<lambda>(k, v). json_ok v) b"
  shows "json_ok (JObj (obj_assign a b))"
proof -
  have set: "set (obj_set k v xs) \<subseteq> insert (k, v) (set xs)" for k v and xs :: "(string \<times> json) list"
    by (induction xs) (auto split: if_splits)
  have "list_all (\<lambda>(k, v). json_ok v) (obj_assign a b)"
    using assms(2,3)
  proof (induction b rule: rev_induct)
    case (snoc kv b)
    then have "list_all (\<lambda>(k, v). json_ok v) (obj_assign a b)" by simp
    then show ?case
      using snoc.prems set [of "fst kv" "snd kv" "obj_assign a b"]
      by (cases kv) (auto simp: obj_assign_def list_all_iff)
  qed (simp add: obj_assign_def)
  then show ?thesis using assms(1) by (simp add: distinct_obj_assign)
qed

lemma getConfig_object:
  "req (path_join [cp, env]) = Inr (JObj kvs) \<Longrightarrow> json_ok (JObj kvs) \<Longrightarrow> getConfig req cp env = JObj kvs"
  using parse_stringify [of "JObj kvs"] by (simp add: getConfig_def)

text \<open>
  C35. The environment of a build: the text put into the templates parses to an object with the fields of
  the chosen environment, and those of the base for the others; a base that cannot be loaded
  counts as empty.
\<close>

theorem environment_config:
  assumes "argv_env_config argv = Some name" "name \<noteq> []" "stringifyEnvConfig b"
    and "req (path_join [cp, name]) = Inr (JObj ev)" "json_ok (JObj ev)"
    and "(\<exists>e. req (path_join [cp, ''base'']) = Inl e) \<and> bv = [] \<or>
         req (path_join [cp, ''base'']) = Inr (JObj bv) \<and> json_ok (JObj bv)"
  shows "\<exists>l text m. build_locals req argv cp c b = Inr l \<and> loc_config l = c \<and> ENV_CONFIG l = JStr text \<and>
    JSON_parse text = Inr (JObj m) \<and> map_of m = map_of bv ++ map_of ev"
proof -
  have env: "getConfig req cp name = JObj ev" by (rule getConfig_object [of req cp name ev, OF assms(4,5)])
  have base: "own_props (getConfig req cp ''base'') = bv" and bv: "distinct (map fst bv)" "list_all (\<lambda>(k, v). json_ok v) bv"
    using assms(6) getConfig_object [of req cp "''base''" bv] by (auto simp: own_props_def getConfig_def)
  let ?m = "obj_assign (obj_assign [] bv) ev"
  let ?l = "\<lparr>loc_config = c, ENV_CONFIG = JStr (JSON_stringify (JObj ?m)),
    loc_system_config = (if stringifySystemConfigDev b
      then Some (JSON_stringify (system_config_json (SYSTEM_CONFIG_DEV c))) else None)\<rparr>"
  have "json_ok (JObj (obj_assign [] bv))" by (rule assign_ok) (simp_all add: bv)
  then have "json_ok (JObj ?m)" using assms(5) by (intro assign_ok) simp_all
  then have parse: "JSON_parse (JSON_stringify (JObj ?m)) = Inr (JObj ?m)" by (rule parse_stringify)
  have "build_locals req argv cp c b = Inr ?l"
    using assms(1-3) env base by (simp add: build_locals_def truthy_def json_truthy_def Let_def own_props_def)
  moreover have "map_of ?m = map_of bv ++ map_of ev"
    using bv(1) assms(5) by (simp add: map_of_obj_assign map_of_rev_distinct)
  ultimately show ?thesis using parse by (intro exI [of _ ?l] exI [of _ "JSON_stringify (JObj ?m)"] exI [of _ ?m]) simp
qed

lemma environment_missing:
  "argv_env_config argv = Some name \<Longrightarrow> name \<noteq> [] \<Longrightarrow> req (path_join [cp, name]) = Inl e \<Longrightarrow>
     build_locals req argv cp c b = Inl (ErrorMsg (name @ '' is an invalid configuration name''))"
  by (simp add: build_locals_def truthy_def getConfig_def json_truthy_def Let_def)

text \<open>The projects of a build: a call is the options, the directory and the name of a configuration.\<close>

type_synonym ts_call = "(string \<times> json) list \<times> string \<times> string"

definition ts_key :: "ts_call \<Rightarrow> string" where
  "ts_key call = JSON_stringify (JObj (fst call))"

definition ts_own :: "ts_call \<Rightarrow> ts_project" where
  "ts_own call = \<lparr>pr_file = path_join [fst (snd call), snd (snd call)], pr_options = fst call\<rparr>"

definition ts_make :: "ts_call \<Rightarrow> (string \<times> ts_project) list \<Rightarrow> ts_project \<times> (string \<times> ts_project) list" where
  "ts_make call st = makeTsProject (fst call) (fst (snd call)) (snd (snd call)) st"

definition ts_after :: "ts_call list \<Rightarrow> (string \<times> ts_project) list" where
  "ts_after calls = foldl (\<lambda>st call. snd (ts_make call st)) [] calls"

lemma ts_after_lookup:
  "map_of (ts_after calls) k = map_option ts_own (find (\<lambda>call. ts_key call = k) calls)"
proof (induction calls rule: rev_induct)
  case (snoc call calls)
  have find: "find P (xs @ [x]) = (case find P xs of Some y \<Rightarrow> Some y | None \<Rightarrow> if P x then Some x else None)"
    for P and x :: ts_call and xs
    by (induction xs) auto
  show ?case
    using snoc
    by (auto simp: ts_after_def ts_make_def makeTsProject_def Let_def map_of_obj_set find ts_key_def ts_own_def
        split: option.splits)
qed (simp add: ts_after_def)

text \<open>
  \<open>makeTsProject\<close> gives the project of the first call with the same text of options, whatever
  directory the later calls ask for.
\<close>

lemma ts_project_of_first_call:
  "Some (fst (ts_make call (ts_after calls))) =
     map_option ts_own (find (\<lambda>c. ts_key c = ts_key call) (calls @ [call]))"
proof -
  have "snd (ts_make call (ts_after calls)) = ts_after (calls @ [call])" by (simp add: ts_after_def)
  moreover have "map_of (snd (ts_make call (ts_after calls))) (ts_key call) = Some (fst (ts_make call (ts_after calls)))"
    by (auto simp: ts_make_def makeTsProject_def Let_def ts_key_def map_of_obj_set split: option.splits)
  ultimately show ?thesis using ts_after_lookup [of "calls @ [call]" "ts_key call"] by metis
qed

section \<open>Witnesses\<close>

definition no_argv :: argv where
  "no_argv = \<lparr>argv_port = None, argv_docs_port = None, argv_coverage_port = None, argv_build_type = None,
     argv_env = None, argv_debug = False, argv_base = None, argv_app = None, argv_client = None, argv_scss = False,
     argv_b = False, argv_desktop = False, argv_desktopBuild = False, argv_hybrid = False, argv_analytics = None,
     argv_env_config = None, argv_config_env = None, argv_rest = [''serve.dev'']\<rparr>"

definition example_config :: Config where
  "example_config = the_config id no_argv None None ''/home/ui'' ''/home/ui/tools/config''"

definition example_resolve :: "string \<Rightarrow> string result" where
  "example_resolve p = Inr (if starts_with ''/'' p then p else ''/home/ui/node_modules/'' @ p)"

lemma dependencies_stable_witness:
  "\<exists>ds c'. DEPENDENCIES example_resolve example_config = Inr (ds, c') \<and> DEPENDENCIES example_resolve c' = Inr (ds, c')"
proof -
  have total: "\<exists>ks. normalizeDependencies example_resolve ds = Inr ks" for ds
    by (induction ds) (auto simp: example_resolve_def)
  obtain ds c' where d: "DEPENDENCIES example_resolve example_config = Inr (ds, c')"
    using total [of "filter_all (BUILD_TYPE example_config) (NPM_DEPENDENCIES example_config)"]
    by (auto simp: DEPENDENCIES_def)
  have "DEPENDENCIES example_resolve c' = Inr (ds, c')"
    by (rule dependencies_stable [OF _ d]) (simp add: example_resolve_def split: if_splits)
  with d show ?thesis by blast
qed

definition example_require :: "string \<Rightarrow> json result" where
  "example_require p =
     (if p = ''/home/ui/tools/env/base'' then Inr (JObj [(''API'', JStr ''https://github.com/vmware/xenon'')])
      else if p = ''/home/ui/tools/env/prod'' then Inr (JObj [(''ENV'', JStr ''PROD'')])
      else Inl (ErrorMsg ''Cannot find module''))"

lemma environment_config_witness:
  "\<exists>l text m. build_locals example_require (no_argv\<lparr>argv_env_config := Some ''prod''\<rparr>) ''/home/ui/tools/env''
       example_config new_TemplateLocalsBuilder = Inr l \<and> ENV_CONFIG l = JStr text \<and> JSON_parse text = Inr (JObj m) \<and>
     map_of m ''ENV'' = Some (JStr ''PROD'') \<and> map_of m ''API'' = Some (JStr ''https://github.com/vmware/xenon'')"
proof -
  let ?argv = "no_argv\<lparr>argv_env_config := Some ''prod''\<rparr>" and ?cp = "''/home/ui/tools/env''"
  have 1: "argv_env_config ?argv = Some ''prod''" "''prod'' \<noteq> []" "stringifyEnvConfig new_TemplateLocalsBuilder"
    by (simp_all add: new_TemplateLocalsBuilder_def)
  have p: "path_join [?cp, ''prod''] = ''/home/ui/tools/env/prod''" "path_join [?cp, ''base''] = ''/home/ui/tools/env/base''"
    by code_simp+
  have 2: "example_require (path_join [?cp, ''prod'']) = Inr (JObj [(''ENV'', JStr ''PROD'')])"
    "json_ok (JObj [(''ENV'', JStr ''PROD'')])"
    unfolding p by (simp_all add: example_require_def)
  have 3: "example_require (path_join [?cp, ''base'']) = Inr (JObj [(''API'', JStr ''https://github.com/vmware/xenon'')]) \<and>
    json_ok (JObj [(''API'', JStr ''https://github.com/vmware/xenon'')])"
    unfolding p by (simp add: example_require_def)
  obtain l t m where l: "build_locals example_require ?argv ?cp example_config new_TemplateLocalsBuilder = Inr l"
    "ENV_CONFIG l = JStr t" "JSON_parse t = Inr (JObj m)"
    "map_of m = map_of [(''API'', JStr ''https://github.com/vmware/xenon'')] ++ map_of [(''ENV'', JStr ''PROD'')]"
    using environment_config [OF 1 2 disjI2 [OF 3], of example_config] by blast
  have "map_of m ''ENV'' = Some (JStr ''PROD'')" "map_of m ''API'' = Some (JStr ''https://github.com/vmware/xenon'')"
    by (simp_all add: l(4))
  with l(1-3) show ?thesis by blast
qed

end
