(* ===== verification/BuildPipeline.thy ===== *)
theory BuildPipeline
  imports BuildConfig JsRegex
begin

text \<open>
  The tasks of the build that compute something themselves (\<open>tools/tasks/seed\<close>): the choice between
  typed and typeless compilation, the paths that are injected into \<open>index.html\<close>, the processing of
  the style sheets as the pipelines that are handed to gulp, the removal tasks, the checks of the
  tools, and the web server of \<open>tools/utils/seed/server.ts\<close>. What the plugins do with the files is
  not modelled: a pipeline is the list of its sources, its stages and its destination.
\<close>

section \<open>Compiling TypeScript\<close>

record build_js =
  typedBuildCounter :: nat
  tsProjects :: "(string \<times> ts_project) list"

text \<open>Each of the two modules starts with its counter at the interval; the projects are shared.\<close>

definition build_js_init :: "Config \<Rightarrow> build_js" where
  "build_js_init c = \<lparr>typedBuildCounter = TYPED_COMPILE_INTERVAL c, tsProjects = []\<rparr>"

definition typings :: "Config \<Rightarrow> string list" where
  "typings c = [TOOLS_DIR c @ ''/manual_typings/**/*.d.ts'']"

definition dev_src :: "Config \<Rightarrow> string list" where
  "dev_src c =
     [path_join [APP_SRC c, ''**/*.ts''],
      CHR ''!'' # path_join [APP_SRC c, ''**/*.spec.ts''],
      CHR ''!'' # path_join [APP_SRC c, ''**/*.e2e-spec.ts''],
      CHR ''!'' # path_join [APP_SRC c, ''**/'' @ NG_FACTORY_FILE c @ ''.ts'']]"

definition test_src :: "Config \<Rightarrow> string list" where
  "test_src c = [path_join [APP_SRC c, ''**/*.spec.ts'']]"

text \<open>What a run compiles: whether it is a full compile, the sources of its streams, and the project.\<close>

record compile =
  isFullCompile :: bool
  compile_src :: "string list list"
  compile_project :: ts_project

definition build_js_run :: "Config \<Rightarrow> string list \<Rightarrow> build_js \<Rightarrow> compile \<times> build_js" where
  "build_js_run c src s =
     (let full = (\<not> typedBuildCounter s < TYPED_COMPILE_INTERVAL c);
          options = (if full then [] else [(''isolatedModules'', JBool True)]);
          (project, projects) = makeTsProject options (APP_SRC c) (APP_PROJECTNAME c) (tsProjects s) in
      (\<lparr>isFullCompile = full, compile_src = (if full then [typings c, src] else [src]), compile_project = project\<rparr>,
       \<lparr>typedBuildCounter = (if full then 0 else Suc (typedBuildCounter s)), tsProjects = projects\<rparr>))"

definition BuildJsDev_run :: "Config \<Rightarrow> build_js \<Rightarrow> compile \<times> build_js" where
  "BuildJsDev_run c = build_js_run c (dev_src c)"

definition BuildJsTest_run :: "Config \<Rightarrow> build_js \<Rightarrow> compile \<times> build_js" where
  "BuildJsTest_run c = build_js_run c (test_src c)"

text \<open>The handler of a compile error, which comes after the run has returned.\<close>

definition build_js_error :: "Config \<Rightarrow> build_js \<Rightarrow> build_js" where
  "build_js_error c s = s\<lparr>typedBuildCounter := TYPED_COMPILE_INTERVAL c\<rparr>"

text \<open>\<open>build.tools\<close> and the production compilations ask for projects of their own directories.\<close>

definition build_tools_call :: "Config \<Rightarrow> ts_call" where
  "build_tools_call c = ([], APP_SRC c, APP_PROJECTNAME c)"

definition build_js_prod_call :: "Config \<Rightarrow> ts_call" where
  "build_js_prod_call c = ([], TMP_DIR c, APP_PROJECTNAME c)"

definition build_js_prod_src :: "Config \<Rightarrow> string list" where
  "build_js_prod_src c =
     [TOOLS_DIR c @ ''/manual_typings/**/*.d.ts'', path_join [TMP_DIR c, ''**/*.ts''],
      CHR ''!'' # path_join [TMP_DIR c, ''**/'' @ NG_FACTORY_FILE c @ ''.ts'']]"

text \<open>The list \<open>toIgnore\<close> of the ahead-of-time build: the entries of the directory for temporary files.\<close>

definition build_js_prod_aot_src :: "(string \<Rightarrow> string list) \<Rightarrow> (string \<Rightarrow> bool) \<Rightarrow> Config \<Rightarrow> string list" where
  "build_js_prod_aot_src readdir isDirectory c =
     [TOOLS_DIR c @ ''/manual_typings/**/*.d.ts'', path_join [TMP_DIR c, ''**/*.ts''],
      path_join [TMP_DIR c, BOOTSTRAP_FACTORY_PROD_MODULE c @ ''.ts'']] @
     map (\<lambda>f. CHR ''!'' # path_join [TMP_DIR c, f, NG_FACTORY_FILE c @ ''.ts''])
       (filter (\<lambda>f. isDirectory (path_join [TMP_DIR c, f]) \<and> f \<noteq> BOOTSTRAP_DIR c) (readdir (TMP_DIR c)))"

section \<open>The index page\<close>

definition inject_matches :: "string option \<Rightarrow> inject \<Rightarrow> bool" where
  "inject_matches name i =
     (case i of InjectAs s \<Rightarrow> s \<noteq> [] \<and> truthy name \<and> s = the name | InjectFlag b \<Rightarrow> b \<and> \<not> truthy name)"

definition mapPath :: "Config \<Rightarrow> InjectableDependency \<Rightarrow> string" where
  "mapPath c dep =
     (let envPath = dep_src dep in
      if starts_with (APP_SRC c) envPath \<and> \<not> ends_with ''.scss'' envPath
      then path_join [APP_DEST c, replace_first (APP_SRC c) [] envPath]
      else if starts_with (APP_SRC c) envPath \<and> ends_with ''.scss'' envPath
      then replace_first ''.scss'' ''.css'' (replace_first (ASSETS_SRC c) (CSS_DEST c) envPath)
      else envPath)"

definition getInjectablesDependenciesRef :: "Config \<Rightarrow> string option \<Rightarrow> InjectableDependency list \<Rightarrow> string list" where
  "getInjectablesDependenciesRef c name deps = map (mapPath c) (filter (\<lambda>d. inject_matches name (dep_inject d)) deps)"

definition dist_dev_rx :: regex where
  "dist_dev_rx = RxAlt (rx_lit ''dist/dev/'') (rx_lit (''dist'' @ [CHR 0x5C] @ ''dev'' @ [CHR 0x5C]))"

definition with_query :: "string \<Rightarrow> string \<Rightarrow> string" where
  "with_query queryString p = (if queryString \<noteq> [] then p @ ''?'' @ queryString else p)"

text \<open>The path that is handed to the transformation of the plugin, for a page in development.\<close>

definition transformPath_dev :: "Config \<Rightarrow> string \<Rightarrow> string \<Rightarrow> string" where
  "transformPath_dev c queryString filepath =
     (let fp = (if starts_with (CHR ''/'' # APP_DEST c) filepath
                then replace_first (CHR ''/'' # APP_DEST c) [] filepath else filepath);
          arg = (if TARGET_DESKTOP c
                 then (let path = path_join [APP_BASE c, fp] in
                       drop 1 (if indexOf ''dist/dev'' path \<noteq> None \<or>
                                  indexOf (''dist'' @ [CHR 0x5C] @ ''dev'') path \<noteq> None
                               then rx_replace_all dist_dev_rx (\<lambda>m. []) path else path))
                 else path_join [APP_BASE c, fp]) in
      with_query queryString arg)"

fun index_in :: "string \<Rightarrow> string list \<Rightarrow> nat option" where
  "index_in x [] = None"
| "index_in x (y # ys) = (if x = y then Some 0 else map_option Suc (index_in x ys))"

text \<open>The same for production.\<close>

definition transformPath_prod :: "Config \<Rightarrow> string \<Rightarrow> string \<Rightarrow> string" where
  "transformPath_prod c queryString filepath =
     (let path = js_split (CHR ''/'') (path_normalize filepath);
          slice_after = (case index_in (APP_DEST c) path of Some i \<Rightarrow> Suc i | None \<Rightarrow> 3) in
      with_query queryString (APP_BASE c @ js_join ''/'' (drop slice_after path)))"

definition injectJs :: "Config \<Rightarrow> string list" where
  "injectJs c = [path_join [JS_DEST c, JS_PROD_SHIMS_BUNDLE c], path_join [JS_DEST c, JS_PROD_APP_BUNDLE c]]"

definition injectCss :: "Config \<Rightarrow> string list" where
  "injectCss c = [path_join [CSS_DEST c, CSS_BUNDLE_NAME c @ ''.css'']]"

text \<open>The order of the files in the bundle of \<open>build.bundles\<close>.\<close>

definition getShims :: "InjectableDependency list \<Rightarrow> string list" where
  "getShims deps =
     (let libs = filter (\<lambda>d. ends_with ''.js'' (dep_src d)) deps in
      map dep_src (filter (\<lambda>l. dep_inject l = InjectAs ''shims'') libs @
                   filter (\<lambda>l. dep_inject l = InjectAs ''libs'') libs @
                   filter (\<lambda>l. dep_inject l = InjectFlag True) libs))"

section \<open>Style sheets\<close>

text \<open>The plugins a stream is piped through, with the arguments that the code computes for them.\<close>

datatype stage =
    Cached string | Progeny | FilterFiles "string list" | SourcemapsInit | Sass | Postcss
  | SourcemapsWrite string | ConcatCss string | Noop | Plumber | InlineTemplates | TsCompile ts_call
  | FillTemplate TemplateLocalsBuilder | OnlyFiles | Newer string | RenameFiles | WriteFile string | Uglify
  | HtmlMin | Inject | AddStaticFiles | Typedoc | Tslint bool | Bundle | GenManifest | Electron string | Protractor

record pipeline =
  pl_src :: "string list"
  pl_stages :: "stage list"
  pl_dest :: string

definition isProd :: "Config \<Rightarrow> bool" where
  "isProd c \<longleftrightarrow> BUILD_TYPE c = ''prod''"

definition neg :: "string \<Rightarrow> string" where
  "neg p = CHR ''!'' # p"

definition appSCSSFiles :: "Config \<Rightarrow> string" where
  "appSCSSFiles c = path_join [APP_SRC c, ''**'', ''*.scss'']"

definition entrySCSSFiles :: "Config \<Rightarrow> string" where
  "entrySCSSFiles c = path_join [CSS_SRC c, ''**'', ''*.scss'']"

definition abtractSCSSFiles :: "Config \<Rightarrow> string" where
  "abtractSCSSFiles c = path_join [SCSS_SRC c, ''**'', ''*.scss'']"

definition prepareTemplates :: "Config \<Rightarrow> pipeline" where
  "prepareTemplates c =
     \<lparr>pl_src = [path_join [APP_SRC c, ''**'', ''*.html''], neg (path_join [APP_SRC c, ''**'', ''*.tns.html''])],
      pl_stages = [], pl_dest = TMP_DIR c\<rparr>"

definition getSCSSFiles :: "string \<Rightarrow> string list \<Rightarrow> string list \<Rightarrow> string list \<times> stage list" where
  "getSCSSFiles cacheName filesToCompile filesToExclude =
     (filesToCompile @ filesToExclude,
      [Cached cacheName, Progeny, FilterFiles (filesToCompile @ map neg filesToExclude)])"

definition processComponentScss :: "Config \<Rightarrow> pipeline" where
  "processComponentScss c =
     (let (src, stages) = getSCSSFiles ''process-component-scss'' [appSCSSFiles c] [abtractSCSSFiles c] in
      \<lparr>pl_src = src,
       pl_stages = stages @ [SourcemapsInit, Sass, Postcss, SourcemapsWrite (if isProd c then ''.'' else [])],
       pl_dest = (if isProd c then TMP_DIR c else APP_DEST c)\<rparr>)"

definition processComponentCss :: "Config \<Rightarrow> pipeline" where
  "processComponentCss c =
     \<lparr>pl_src = [path_join [APP_SRC c, ''**'', ''*.css''], neg (path_join [APP_SRC c, ''**'', ''*.tns.css'']),
        neg (path_join [APP_SRC c, ''assets'', ''**'', ''*.css''])],
      pl_stages = [if isProd c then Cached ''process-component-css'' else Noop, Postcss],
      pl_dest = (if isProd c then TMP_DIR c else APP_DEST c)\<rparr>"

definition processComponentStylesheets :: "Config \<Rightarrow> pipeline list" where
  "processComponentStylesheets c =
     (if ENABLE_SCSS c then [processComponentScss c, processComponentCss c] else [processComponentCss c])"

definition getExternalCss :: "InjectableDependency list \<Rightarrow> string list" where
  "getExternalCss deps = map dep_src (filter (\<lambda>d. ends_with ''.css'' (dep_src d)) deps)"

definition getExternalCssStream :: "Config \<Rightarrow> InjectableDependency list \<Rightarrow> string list \<times> stage list" where
  "getExternalCssStream c deps =
     (getExternalCss deps, [if isProd c then Cached ''process-external-css'' else Noop])"

definition getExternalScss :: "Config \<Rightarrow> InjectableDependency list \<Rightarrow> string list" where
  "getExternalScss c deps = map dep_src (filter (\<lambda>d. ends_with ''.scss'' (dep_src d)) deps) @ [entrySCSSFiles c]"

definition getExternalScssStream :: "Config \<Rightarrow> InjectableDependency list \<Rightarrow> string list \<times> stage list" where
  "getExternalScssStream c deps =
     (let (src, stages) = getSCSSFiles ''process-external-scss'' (getExternalScss c deps) [abtractSCSSFiles c] in
      (src, stages @ [Sass]))"

definition concat_stage :: "Config \<Rightarrow> stage" where
  "concat_stage c = (if isProd c then ConcatCss (CSS_BUNDLE_NAME c @ ''.css'') else Noop)"

text \<open>A merged stream is written as the pipelines of its parts with the common stages at the end.\<close>

definition processAllExternalStylesheets :: "Config \<Rightarrow> InjectableDependency list \<Rightarrow> pipeline list" where
  "processAllExternalStylesheets c deps =
     map (\<lambda>(src, stages). \<lparr>pl_src = src, pl_stages = stages @ [concat_stage c, Postcss], pl_dest = CSS_DEST c\<rparr>)
       [getExternalCssStream c deps, getExternalScssStream c deps]"

definition processExternalCss :: "Config \<Rightarrow> InjectableDependency list \<Rightarrow> pipeline" where
  "processExternalCss c deps =
     (let (src, stages) = getExternalCssStream c deps in
      \<lparr>pl_src = src, pl_stages = stages @ [Postcss, concat_stage c], pl_dest = CSS_DEST c\<rparr>)"

definition processExternalStylesheets :: "Config \<Rightarrow> InjectableDependency list \<Rightarrow> pipeline list" where
  "processExternalStylesheets c deps =
     (if ENABLE_SCSS c then processAllExternalStylesheets c deps else [processExternalCss c deps])"

definition BuildHtmlCss_run :: "Config \<Rightarrow> InjectableDependency list \<Rightarrow> pipeline list" where
  "BuildHtmlCss_run c deps =
     processComponentStylesheets c @ [prepareTemplates c] @ processExternalStylesheets c deps"

section \<open>Removing the results\<close>

definition clean_all :: "Config \<Rightarrow> string list" where
  "clean_all c = [DIST_DIR c, COVERAGE_DIR c, TNS_APP_DEST c]"

definition clean_coverage :: "Config \<Rightarrow> string list" where
  "clean_coverage c = [COVERAGE_DIR c, COVERAGE_TS_DIR c]"

definition clean_dev :: "Config \<Rightarrow> string list" where
  "clean_dev c = [DEV_DEST c]"

definition clean_e2e :: "Config \<Rightarrow> string list" where
  "clean_e2e c = [E2E_DEST c]"

definition clean_prod :: "Config \<Rightarrow> string list" where
  "clean_prod c = [PROD_DEST c, TMP_DIR c]"

definition clean_tns :: "Config \<Rightarrow> string list" where
  "clean_tns c = [TNS_APP_DEST c]"

definition clean_tools :: "Config \<Rightarrow> string list" where
  "clean_tools c =
     [''gulpfile.js'', ''gulpfile.js.map'', path_join [TOOLS_DIR c, ''**/*.js''], path_join [TOOLS_DIR c, ''**/*.js.map'']]"

definition clear_files_task :: "Config \<Rightarrow> string list" where
  "clear_files_task c =
     [''gulpfile.js'', ''gulpfile.js.map'', path_join [TOOLS_DIR c, ''**/*.js''], path_join [TOOLS_DIR c, ''**/*.js.map''],
      path_join [TOOLS_DIR c, ''**/*.metadata.json''], path_join [APP_SRC c, ''**/*.js''],
      path_join [APP_SRC c, ''**/*.js.map''], path_join [APP_SRC c, ''**/*.metadata.json'']]"

definition clean_tasks :: "Config \<Rightarrow> string list list" where
  "clean_tasks c = [clean_all c, clean_coverage c, clean_dev c, clean_e2e c, clean_prod c, clean_tns c,
     clean_tools c, clear_files_task c]"

text \<open>
  \<open>clean.all.src.js\<close>: the walk through the directories below the sources. \<open>fails p\<close> says that
  \<open>rimraf.sync\<close> throws for a pattern; the second pattern is then not tried, and the walk goes on.
  The result is the list of the patterns that were removed or tried.
\<close>

datatype fnode = FFile | FDir "(string \<times> fnode) list"

fun deleteAndWalk :: "(string \<Rightarrow> bool) \<Rightarrow> string \<Rightarrow> fnode \<Rightarrow> string list" where
  "deleteAndWalk fails path FFile = []"
| "deleteAndWalk fails path (FDir entries) =
     (let js = path_join [path, ''*.js'']; js_map = path_join [path, ''*.js.map''] in
      (if fails js then [js] else [js, js_map])) @
     concat (map (\<lambda>(name, node). case node of FFile \<Rightarrow> []
                  | FDir es \<Rightarrow> deleteAndWalk fails (path_join [path, name]) (FDir es)) entries)"

section \<open>The tools\<close>

text \<open>
  \<open>check.versions\<close>: the answer of \<open>npm --version\<close> or \<open>node --version\<close> is the text of an error with
  the error output, or the version. The result is the message the process exits with. \<open>gte\<close> is the
  comparison of the package \<open>semver\<close>.
\<close>

definition check_version :: "(string \<Rightarrow> string \<Rightarrow> bool) \<Rightarrow> string \<Rightarrow> string \<Rightarrow> (string \<times> string) option \<Rightarrow> string \<Rightarrow> string option" where
  "check_version gte name required error stdout =
     (case error of
        Some (e, stderr) \<Rightarrow> Some (''npm preinstall error: '' @ e @ stderr)
      | None \<Rightarrow> if \<not> gte stdout required
               then Some (name @ '' is not in required version! Required is '' @ required @
                          '' and you'' @ [CHR 0x27] @ ''re using '' @ stdout)
               else None)"

definition check_npm :: "(string \<Rightarrow> string \<Rightarrow> bool) \<Rightarrow> Config \<Rightarrow> (string \<times> string) option \<Rightarrow> string \<Rightarrow> string option" where
  "check_npm gte c error stdout = check_version gte ''NPM'' (VERSION_NPM c) error stdout"

definition check_node :: "(string \<Rightarrow> string \<Rightarrow> bool) \<Rightarrow> Config \<Rightarrow> (string \<times> string) option \<Rightarrow> string \<Rightarrow> string option" where
  "check_node gte c error stdout = check_version gte ''NODE'' (VERSION_NODE c) error stdout"

text \<open>
  \<open>check.tools\<close>: when the tools have been compiled, the compiled files are removed and the tools are
  built again; \<open>done\<close> is called at the end of that build, or at once.
\<close>

datatype tool_step = CleanTools | BuildTools | DoneOnEnd | DoneNow

definition check_tools :: "(string \<Rightarrow> bool) \<Rightarrow> string \<Rightarrow> tool_step list" where
  "check_tools accessible cwd =
     (if accessible (path_join [cwd, ''tools'', ''config.js'']) then [CleanTools, BuildTools, DoneOnEnd] else [DoneNow])"

text \<open>
  \<open>compile.ahead.prod\<close>: the change of \<open>tsconfig.json\<close>. \<open>filter\<close> with \<open>indexOf\<close> keeps the first of equal
  entries; the bootstrap file is appended after it. The listing of the typings is a parameter.
\<close>

fun first_of_equal :: "string list \<Rightarrow> string list" where
  "first_of_equal [] = []"
| "first_of_equal (x # xs) = x # filter (\<lambda>y. y \<noteq> x) (first_of_equal xs)"

definition tsconfig_files :: "Config \<Rightarrow> string list \<Rightarrow> string list \<Rightarrow> string list" where
  "tsconfig_files c listing files =
     (let path = path_join [PROJECT_ROOT c, TOOLS_DIR c, ''manual_typings'', ''project''] in
      first_of_equal (files @ map (\<lambda>f. path_join [path, f]) (filter (ends_with ''d.ts'') listing)) @
      [path_join [BOOTSTRAP_DIR c, BOOTSTRAP_PROD_MODULE c @ ''.ts'']])"

section \<open>The web server\<close>

text \<open>What the server does: the handlers it installs, the port it listens on, and the page it opens.\<close>

datatype server_call =
    Banner | BrowserSyncInit | BrowserSyncReload "string list" | UseStatic string string
  | UseProxy json | UseFallback string | ListenOn nat string

definition startServer :: "server_call list" where
  "startServer = [Banner]"

definition serveSPA :: "server_call list" where
  "serveSPA = [BrowserSyncInit] @ startServer"

definition notifyLiveReload :: "string \<Rightarrow> server_call list" where
  "notifyLiveReload fileName = startServer @ [BrowserSyncReload [fileName]]"

definition page_url :: "nat \<Rightarrow> string \<Rightarrow> string" where
  "page_url port base = ''http://localhost:'' @ show_nat port @ base"

definition serveDocs :: "string \<Rightarrow> Config \<Rightarrow> server_call list" where
  "serveDocs cwd c =
     [UseStatic (APP_BASE c) (path_resolve2 cwd cwd (DOCS_DEST c)), ListenOn (DOCS_PORT c) (page_url (DOCS_PORT c) (APP_BASE c))]
     @ startServer"

definition serveCoverage :: "string \<Rightarrow> Config \<Rightarrow> server_call list" where
  "serveCoverage cwd c =
     [UseStatic (APP_BASE c) (path_resolve2 cwd cwd (COVERAGE_TS_DIR c)),
      ListenOn (COVERAGE_PORT c) (page_url (COVERAGE_PORT c) (APP_BASE c))] @ startServer"

definition serveProd :: "string \<Rightarrow> Config \<Rightarrow> server_call list" where
  "serveProd cwd c =
     (let root = path_resolve2 cwd cwd (PROD_DEST c) in
      map UseProxy (PROXY_MIDDLEWARE c) @
      [UseStatic (APP_BASE c) root, UseFallback root, ListenOn (PORT c) (page_url (PORT c) (APP_BASE c))]
      @ startServer)"

section \<open>Typed and typeless compilation\<close>

text \<open>The runs of a task one after the other, without errors.\<close>

fun build_js_runs :: "Config \<Rightarrow> string list \<Rightarrow> nat \<Rightarrow> build_js \<Rightarrow> compile list" where
  "build_js_runs c src 0 s = []"
| "build_js_runs c src (Suc n) s = (let (r, s') = build_js_run c src s in r # build_js_runs c src n s')"

lemma build_js_run_fields:
  "isFullCompile (fst (build_js_run c src s)) \<longleftrightarrow> \<not> typedBuildCounter s < TYPED_COMPILE_INTERVAL c"
  "typedBuildCounter (snd (build_js_run c src s)) =
     (if typedBuildCounter s < TYPED_COMPILE_INTERVAL c then Suc (typedBuildCounter s) else 0)"
  by (simp_all add: build_js_run_def Let_def split_beta)

lemma build_js_runs_full:
  "typedBuildCounter s \<le> TYPED_COMPILE_INTERVAL c \<Longrightarrow>
     map isFullCompile (build_js_runs c src n s) =
       map (\<lambda>i. (i + typedBuildCounter s) mod Suc (TYPED_COMPILE_INTERVAL c) = TYPED_COMPILE_INTERVAL c) [0..<n]"
proof (induction n arbitrary: s)
  case (Suc n)
  let ?N = "TYPED_COMPILE_INTERVAL c" and ?s = "snd (build_js_run c src s)"
  have k: "typedBuildCounter ?s = (if typedBuildCounter s < ?N then Suc (typedBuildCounter s) else 0)"
    by (rule build_js_run_fields)
  have le: "typedBuildCounter ?s \<le> ?N" using k by simp
  have step: "(i + typedBuildCounter ?s) mod Suc ?N = (Suc i + typedBuildCounter s) mod Suc ?N" for i
  proof (cases "typedBuildCounter s < ?N")
    case False
    then have "typedBuildCounter s = ?N" using Suc.prems by simp
    then have "Suc i + typedBuildCounter s = i + Suc ?N" by simp
    then show ?thesis using False k by (simp only: mod_add_self2 if_False add_0_right)
  qed (simp add: k)
  have hd: "isFullCompile (fst (build_js_run c src s)) \<longleftrightarrow> (0 + typedBuildCounter s) mod Suc ?N = ?N"
    using Suc.prems by (auto simp: build_js_run_fields)
  have up: "[0..<Suc n] = 0 # map Suc [0..<n]" by (simp add: upt_conv_Cons map_Suc_upt del: upt_Suc)
  have "map isFullCompile (build_js_runs c src (Suc n) s) =
      isFullCompile (fst (build_js_run c src s)) # map isFullCompile (build_js_runs c src n ?s)"
    by (simp add: split_beta)
  also have "\<dots> = map (\<lambda>i. (i + typedBuildCounter s) mod Suc ?N = ?N) [0..<Suc n]"
    unfolding up using Suc.IH [OF le] hd step by simp
  finally show ?case .
qed simp

text \<open>
  With an interval of \<open>N\<close>, the run number \<open>i\<close> of a compilation task, counted from 0, is typed exactly when
  \<open>i\<close> is a multiple of \<open>N + 1\<close>: the first one is, then \<open>N\<close> typeless ones follow, and so on; and the
  run after a compile error is typed.
\<close>

lemma typed_builds_periodic:
  "map isFullCompile (build_js_runs c src n (build_js_init c)) =
     map (\<lambda>i. i mod Suc (TYPED_COMPILE_INTERVAL c) = 0) [0..<n] \<and>
   isFullCompile (fst (build_js_run c src (build_js_error c s)))"
proof
  let ?N = "TYPED_COMPILE_INTERVAL c"
  have "(i + ?N) mod Suc ?N = ?N \<longleftrightarrow> i mod Suc ?N = 0" for i
  proof -
    have m: "(i + ?N) mod Suc ?N = (i mod Suc ?N + ?N) mod Suc ?N" by (simp add: mod_add_left_eq)
    show ?thesis
    proof (cases "i mod Suc ?N")
      case (Suc j)
      then have "j < ?N" using mod_less_divisor [of "Suc ?N" i] by simp
      have "i mod Suc ?N + ?N = j + Suc ?N" using Suc by simp
      then have "(i + ?N) mod Suc ?N = j mod Suc ?N" unfolding m by (simp only: mod_add_self2)
      then show ?thesis using Suc \<open>j < ?N\<close> by simp
    qed (simp add: m)
  qed
  then show "map isFullCompile (build_js_runs c src n (build_js_init c)) = map (\<lambda>i. i mod Suc ?N = 0) [0..<n]"
    using build_js_runs_full [of "build_js_init c" c src n] by (simp add: build_js_init_def)
  show "isFullCompile (fst (build_js_run c src (build_js_error c s)))"
    by (simp add: build_js_run_fields build_js_error_def)
qed

section \<open>The production page\<close>

lemma index_in_None: "index_in x ys = None \<longleftrightarrow> x \<notin> set ys"
  by (induction ys) auto

lemma join_last:
  "list_all plain_seg ws \<Longrightarrow> ws \<noteq> [] \<Longrightarrow> js_join ''/'' ws \<noteq> [] \<and> last (js_join ''/'' ws) \<noteq> CHR ''/''"
proof (induction "''/''" ws rule: js_join.induct)
  case (2 w)
  then have "w \<noteq> []" "CHR ''/'' \<notin> set w" by (simp_all add: plain_seg_def)
  then show ?case by simp (metis last_in_set)
qed simp_all

lemma join_absolute: "list_all plain_seg ws \<Longrightarrow> ws \<noteq> [] \<Longrightarrow>
    path_normalize (CHR ''/'' # js_join ''/'' ws) = CHR ''/'' # js_join ''/'' ws"
proof -
  assume a: "list_all plain_seg ws" "ws \<noteq> []"
  let ?p = "CHR ''/'' # js_join ''/'' ws"
  have segs: "norm_segs b ?p = ws" for b by (rule norm_segs_join(2) [OF a(1)])
  have ne: "js_join ''/'' ws \<noteq> []" and last: "last (js_join ''/'' ws) \<noteq> CHR ''/''"
    using join_last a by blast+
  have "\<not> ends_with ''/'' ?p"
  proof
    assume "ends_with ''/'' ?p"
    then obtain r where "?p = r @ ''/''" by (auto simp: ends_with_iff)
    then have "last ?p = CHR ''/''" by simp
    then show False using ne last by simp
  qed
  then show ?thesis using ne by (simp add: path_normalize_def segs is_absolute_def)
qed

text \<open>
  The addresses on the production page: a file below the destination \<open>dist/prod\<close> is addressed by its
  path below the base of the application, with the query text when there is one.
\<close>

lemma production_addresses:
  assumes "APP_DEST c = ''dist/prod''" "list_all plain_seg ws" "ws \<noteq> []"
  shows "transformPath_prod c q (''/dist/prod/'' @ js_join ''/'' ws) = with_query q (APP_BASE c @ js_join ''/'' ws)"
proof -
  let ?ws = "''dist'' # ''prod'' # ws"
  have plain: "list_all plain_seg ?ws" using assms(2) by (simp add: plain_seg_def)
  have fp: "''/dist/prod/'' @ js_join ''/'' ws = CHR ''/'' # js_join ''/'' ?ws" using assms(3) by (cases ws) simp_all
  have "js_split (CHR ''/'') (js_join ''/'' ?ws) = ?ws"
    using plain by (intro js_split_join) (simp_all add: list_all_iff plain_seg_def)
  then have sp: "js_split (CHR ''/'') (path_normalize (''/dist/prod/'' @ js_join ''/'' ws)) = [] # ?ws"
    unfolding fp using join_absolute [OF plain] by simp
  have "\<forall>w \<in> set ([] # ?ws). CHR ''/'' \<notin> set w"
    using plain_no_slash [OF assms(2)] by (simp add: list_all_iff)
  moreover have "CHR ''/'' \<in> set ''dist/prod''" by simp
  ultimately have "''dist/prod'' \<notin> set ([] # ?ws)" by metis
  then have i: "index_in (APP_DEST c) ([] # ?ws) = None" unfolding index_in_None assms(1) .
  show ?thesis unfolding transformPath_prod_def Let_def sp i by simp
qed

section \<open>The removal tasks stay in the project\<close>

lemma dirname_root:
  assumes "list_all plain_seg ws" "ws \<noteq> []"
  shows "path_join [CHR ''/'' # js_join ''/'' ws @ ''/tools/config'', ''../..''] = CHR ''/'' # js_join ''/'' ws"
proof -
  let ?p = "CHR ''/'' # js_join ''/'' ws @ ''/tools/config/../..''"
  have join: "path_join [CHR ''/'' # js_join ''/'' ws @ ''/tools/config'', ''../..''] = path_normalize ?p"
    by (simp add: path_join_def)
  have plain: "plain_seg ''tools''" "plain_seg ''config''" by (simp_all add: plain_seg_def)
  have "norm_segs False ?p = fold (norm_step False) (js_split (CHR ''/'') ''tools/config/../..'') (norm_segs False (CHR ''/'' # js_join ''/'' ws))"
    using norm_segs_append [of False "CHR ''/'' # js_join ''/'' ws" "''tools/config/../..''"] by simp
  also have "js_split (CHR ''/'') ''tools/config/../..'' = [''tools'', ''config'', ''..'', ''..'']" by code_simp
  also have "norm_segs False (CHR ''/'' # js_join ''/'' ws) = ws" by (rule norm_segs_join(2) [OF assms(1)])
  also have "fold (norm_step False) [''tools'', ''config'', ''..'', ''..''] ws = ws"
    by (simp add: plain_step [OF plain(1)] plain_step [OF plain(2)]) (simp add: norm_step_def butlast_append)
  finally have segs: "norm_segs False ?p = ws" .
  have ne: "js_join ''/'' ws \<noteq> []"
    using assms by (cases ws; cases "tl ws") (simp_all add: plain_seg_def)
  have "\<not> ends_with ''/'' ?p" by (simp add: ends_with_def)
  then show ?thesis unfolding join using segs ne by (simp add: path_normalize_def is_absolute_def)
qed

lemma inside_below:
  assumes "list_all plain_seg ws" "list_all plain_seg ps" "ps \<noteq> []" "\<not> starts_with ''..'' (hd ps)"
  shows "inside (CHR ''/'' # js_join ''/'' ws) (CHR ''/'' # js_join ''/'' ws) (js_join ''/'' ps)"
proof -
  let ?root = "CHR ''/'' # js_join ''/'' ws"
  have "resolve_segs ?root ?root = ws"
    using norm_segs_join(2) [OF assms(1)] by (simp add: resolve_segs_def is_absolute_def)
  moreover have "resolve_segs ?root (js_join ''/'' ps) = ws @ ps"
    using resolve_below [OF assms(2,3)] norm_segs_join(2) [OF assms(1)] by simp
  ultimately show ?thesis using assms(4) by (auto simp: inside_iff simp del: starts_with.simps)
qed

text \<open>The paths of the removal tasks as their segments, when the sources are in \<open>src/client\<close>.\<close>

definition clean_segments :: "string list list" where
  "clean_segments =
     [[''dist''], [''coverage_js''], [''coverage''], [''nativescript'', ''app''], [''dist'', ''dev''], [''dist'', ''e2e''],
      [''dist'', ''prod''], [''dist'', ''tmp''], [''gulpfile.js''], [''gulpfile.js.map''], [''tools'', ''**'', ''*.js''],
      [''tools'', ''**'', ''*.js.map''], [''tools'', ''**'', ''*.metadata.json''], [''src'', ''client'', ''**'', ''*.js''],
      [''src'', ''client'', ''**'', ''*.js.map''], [''src'', ''client'', ''**'', ''*.metadata.json'']]"

lemma clean_segments_plain:
  "list_all (\<lambda>ps. list_all plain_seg ps \<and> ps \<noteq> [] \<and> \<not> starts_with ''..'' (hd ps)) clean_segments"
  by (simp add: clean_segments_def plain_seg_def)

lemma addPackageBundles_fields:
  fixes d :: Config
  shows "DIST_DIR (addPackageBundles p d) = DIST_DIR d" "COVERAGE_DIR (addPackageBundles p d) = COVERAGE_DIR d"
    "COVERAGE_TS_DIR (addPackageBundles p d) = COVERAGE_TS_DIR d" "DEV_DEST (addPackageBundles p d) = DEV_DEST d"
    "E2E_DEST (addPackageBundles p d) = E2E_DEST d" "PROD_DEST (addPackageBundles p d) = PROD_DEST d"
    "TMP_DIR (addPackageBundles p d) = TMP_DIR d" "TOOLS_DIR (addPackageBundles p d) = TOOLS_DIR d"
    "APP_SRC (addPackageBundles p d) = APP_SRC d" "PROJECT_ROOT (addPackageBundles p d) = PROJECT_ROOT d"
    "TNS_APP_DEST (addPackageBundles p d) = TNS_APP_DEST d"
  by (simp_all add: addPackageBundles_def Let_def split: option.splits)

lemma fold_field: "(\<And>p d. g (f p d) = g d) \<Longrightarrow> g (fold f ps d) = g d"
  by (induction ps arbitrary: d) simp_all

lemma addPackagesBundles_fields:
  fixes d :: Config
  shows "DIST_DIR (addPackagesBundles ps d) = DIST_DIR d" "COVERAGE_DIR (addPackagesBundles ps d) = COVERAGE_DIR d"
    "COVERAGE_TS_DIR (addPackagesBundles ps d) = COVERAGE_TS_DIR d" "DEV_DEST (addPackagesBundles ps d) = DEV_DEST d"
    "E2E_DEST (addPackagesBundles ps d) = E2E_DEST d" "PROD_DEST (addPackagesBundles ps d) = PROD_DEST d"
    "TMP_DIR (addPackagesBundles ps d) = TMP_DIR d" "TOOLS_DIR (addPackagesBundles ps d) = TOOLS_DIR d"
    "APP_SRC (addPackagesBundles ps d) = APP_SRC d" "PROJECT_ROOT (addPackagesBundles ps d) = PROJECT_ROOT d"
    "TNS_APP_DEST (addPackagesBundles ps d) = TNS_APP_DEST d"
  unfolding addPackagesBundles_def by (rule fold_field, rule addPackageBundles_fields)+

lemma advanced_config_fields:
  fixes d :: Config
  shows "DIST_DIR (advanced_config argv cwd d) = DIST_DIR d" "COVERAGE_DIR (advanced_config argv cwd d) = COVERAGE_DIR d"
    "COVERAGE_TS_DIR (advanced_config argv cwd d) = COVERAGE_TS_DIR d" "DEV_DEST (advanced_config argv cwd d) = DEV_DEST d"
    "E2E_DEST (advanced_config argv cwd d) = E2E_DEST d" "PROD_DEST (advanced_config argv cwd d) = PROD_DEST d"
    "TMP_DIR (advanced_config argv cwd d) = TMP_DIR d" "TOOLS_DIR (advanced_config argv cwd d) = TOOLS_DIR d"
    "APP_SRC (advanced_config argv cwd d) = APP_SRC d" "PROJECT_ROOT (advanced_config argv cwd d) = PROJECT_ROOT d"
    "TNS_APP_DEST (advanced_config argv cwd d) = ''nativescript/app''"
  by (simp_all add: advanced_config_def Let_def addPackagesBundles_fields)

lemma seed_config_fields:
  assumes "argv_client argv = None" "c = new_SeedConfig slash argv e1 e2 cwd dirname"
  shows "DIST_DIR c = ''dist''" "COVERAGE_DIR c = ''coverage_js''" "COVERAGE_TS_DIR c = ''coverage''"
    "DEV_DEST c = ''dist/dev''" "E2E_DEST c = ''dist/e2e''"
    "PROD_DEST c = ''dist/prod''" "TMP_DIR c = ''dist/tmp''" "TOOLS_DIR c = ''tools''" "APP_SRC c = ''src/client''"
    "PROJECT_ROOT c = path_join [dirname, ''../..'']"
  unfolding assms(2) new_SeedConfig_def Let_def by (simp_all only: Config.simps str_or_def truthy_def assms(1) option.case if_False append.simps)

lemma config_fields:
  assumes "c = the_config slash argv e1 e2 cwd dirname" "argv_client argv = None"
  shows "DIST_DIR c = ''dist''" "COVERAGE_DIR c = ''coverage_js''" "COVERAGE_TS_DIR c = ''coverage''"
    "TNS_APP_DEST c = ''nativescript/app''" "DEV_DEST c = ''dist/dev''" "E2E_DEST c = ''dist/e2e''"
    "PROD_DEST c = ''dist/prod''" "TMP_DIR c = ''dist/tmp''" "TOOLS_DIR c = ''tools''" "APP_SRC c = ''src/client''"
    "PROJECT_ROOT c = path_join [dirname, ''../..'']"
  unfolding assms(1) the_config_def project_config_def
  by (simp_all add: advanced_config_fields seed_config_fields [OF assms(2) refl])

lemma clean_tasks_paths:
  assumes "c = the_config slash argv e1 e2 cwd dirname" "argv_client argv = None" "paths \<in> set (clean_tasks c)" "p \<in> set paths"
  shows "p \<in> set (map (js_join ''/'') clean_segments)"
proof -
  note f = config_fields [OF assms(1,2)]
  have j: "path_join [''tools'', ''**/*.js''] = ''tools/**/*.js''" "path_join [''tools'', ''**/*.js.map''] = ''tools/**/*.js.map''"
    "path_join [''tools'', ''**/*.metadata.json''] = ''tools/**/*.metadata.json''"
    "path_join [''src/client'', ''**/*.js''] = ''src/client/**/*.js''"
    "path_join [''src/client'', ''**/*.js.map''] = ''src/client/**/*.js.map''"
    "path_join [''src/client'', ''**/*.metadata.json''] = ''src/client/**/*.metadata.json''"
    by code_simp+
  have "list_all (list_all (\<lambda>p. p \<in> set (map (js_join ''/'') clean_segments))) (clean_tasks c)"
    unfolding clean_tasks_def clean_all_def clean_coverage_def clean_dev_def clean_e2e_def clean_prod_def clean_tns_def
      clean_tools_def clear_files_task_def f j clean_segments_def
    by simp
  then show ?thesis using assms(3,4) by (simp add: list_all_iff)
qed

text \<open>
  The removal tasks of the repository, run in the directory of the project, remove exactly the paths
  they name: none of them is refused as being outside of the project.
\<close>

lemma removal_tasks_allowed:
  assumes "cwd = CHR ''/'' # js_join ''/'' ws" "list_all plain_seg ws" "ws \<noteq> []" "argv_client argv = None"
    and "c = the_config slash argv e1 e2 cwd (cwd @ ''/tools/config'')" "paths \<in> set (clean_tasks c)"
  shows "cl_rimraf (clean_start cwd (PROJECT_ROOT c) has_done paths) = paths \<and>
    \<not> cl_exit (clean_start cwd (PROJECT_ROOT c) has_done paths)"
proof -
  have root: "PROJECT_ROOT c = cwd"
    using config_fields(11) [OF assms(5,4)] dirname_root [OF assms(2,3)] by (simp add: assms(1))
  have "inside cwd cwd p" if "p \<in> set paths" for p
  proof -
    from clean_tasks_paths [OF assms(5,4,6) that] obtain ps where ps: "ps \<in> set clean_segments" "p = js_join ''/'' ps" by auto
    then have "list_all plain_seg ps" "ps \<noteq> []" "\<not> starts_with ''..'' (hd ps)"
      using clean_segments_plain by (auto simp: list_all_iff simp del: starts_with.simps)
    then show ?thesis using inside_below [OF assms(2)] by (simp only: assms(1) ps(2))
  qed
  then have all: "list_all (inside cwd (PROJECT_ROOT c)) paths" by (simp add: list_all_iff root)
  then have "takeWhile (inside cwd (PROJECT_ROOT c)) paths = paths" by (simp add: takeWhile_eq_all_conv list_all_iff)
  then show ?thesis using clean_start_inside [of cwd "PROJECT_ROOT c" has_done paths] all by simp
qed

section \<open>Witnesses\<close>

lemma production_addresses_witness:
  "transformPath_prod (example_config\<lparr>APP_DEST := ''dist/prod'', APP_BASE := ''/core/ui/default/''\<rparr>) ''17''
     ''/dist/prod/js/app.js'' = ''/core/ui/default/js/app.js?17''"
proof -
  have "list_all plain_seg [''js'', ''app.js'']" by (simp add: plain_seg_def)
  from production_addresses [OF _ this, of "example_config\<lparr>APP_DEST := ''dist/prod'', APP_BASE := ''/core/ui/default/''\<rparr>" "''17''"]
  show ?thesis by (simp add: with_query_def)
qed

lemma removal_tasks_allowed_witness:
  "cl_rimraf (clean_start ''/home/ui'' (PROJECT_ROOT example_config) True [''dist/prod'', ''dist/tmp'']) = [''dist/prod'', ''dist/tmp'']"
proof -
  have 1: "''/home/ui'' = CHR ''/'' # js_join ''/'' [''home'', ''ui'']" by simp
  have 2: "list_all plain_seg [''home'', ''ui'']" by (simp add: plain_seg_def)
  have 3: "argv_client no_argv = None" by (simp add: no_argv_def)
  have 4: "example_config = the_config id no_argv None None ''/home/ui'' (''/home/ui'' @ ''/tools/config'')"
    by (simp add: example_config_def)
  have "clean_prod example_config = [''dist/prod'', ''dist/tmp'']"
    by (simp add: clean_prod_def config_fields [OF 4 3])
  then have 5: "[''dist/prod'', ''dist/tmp''] \<in> set (clean_tasks example_config)" by (simp add: clean_tasks_def)
  show ?thesis using removal_tasks_allowed [OF 1 2 _ 3 4 5, of True] by simp
qed

end
