(* ===== verification/BuildTaskTable.thy ===== *)
theory BuildTaskTable
  imports BuildTasks
begin

text \<open>
  The composite tasks of the repository: the tables \<open>tools/config/seed.tasks.json\<close> and
  \<open>project.tasks.json\<close>, the names of the task files, and what a composite task comes to when
  its parts are put in its place. A table in which the parts of a task can be ranked below the
  task has no cycle, so this ends; the tables of the repository are ranked.
\<close>

section \<open>The tables\<close>

definition seed_tasks :: "(string \<times> string list) list" where
  "seed_tasks =
    [(''initialize'', [''noop'']),
     (''build.dev'', [''initialize'', ''clean.once'', ''build.assets.dev'', ''build.fonts'', ''build.html_css'', ''build.js.dev'',
       ''build.index.dev'', ''sw.manifest.static'']),
     (''build.dev.watch'', [''build.dev'', ''watch.dev'']),
     (''build.e2e'', [''initialize'', ''clean.e2e'', ''tslint'', ''build.js.e2e'']),
     (''build.prod'', [''initialize'', ''check.tools'', ''clean.prod'', ''tslint'', ''build.assets.prod'', ''build.fonts'',
       ''build.html_css'', ''copy.prod'', ''build.js.prod'', ''build.bundles'', ''build.bundles.app'',
       ''minify.bundles'', ''build.index.prod'', ''sw.manifest.static'', ''minify.index'']),
     (''build.prod.aot'', [''initialize'', ''check.tools'', ''clean.prod'', ''tslint'', ''build.assets.prod'', ''build.html_css'',
       ''copy.prod'', ''compile.ahead.prod'', ''build.js.prod.aot'', ''build.bundles'',
       ''build.bundles.app.aot'', ''minify.bundles'', ''build.index.prod'', ''sw.manifest.static'',
       ''minify.index'']),
     (''build.prod.rollup.aot'', [''initialize'', ''check.tools'', ''clean.prod'', ''tslint'', ''build.assets.prod'', ''build.html_css'',
       ''copy.prod.rollup.aot'', ''compile.ahead.prod'', ''build.js.prod.rollup.aot'', ''build.bundles'',
       ''build.bundles.app.rollup.aot'', ''transpile.bundles.rollup.aot'', ''minify.bundles'',
       ''build.index.prod'', ''sw.manifest.static'', ''minify.index'']),
     (''build.tns'', [''build.assets.tns'', ''build.tns_html_css'', ''build.js.tns'']),
     (''build.prod.tns'', [''clean.tns'', ''tslint.tns'', ''build.tns'']),
     (''build.tns.watch'', [''build.tns'', ''watch.tns'']),
     (''build.test'', [''initialize'', ''clean.once'', ''build.assets.dev'', ''build.fonts'', ''build.html_css'', ''build.js.dev'',
       ''build.js.test'', ''build.index.dev'', ''sw.manifest.static'']),
     (''test.watch'', [''build.test'', ''watch.test'', ''karma.watch'']),
     (''docs'', [''build.docs'', ''serve.docs'']),
     (''serve.dev'', [''build.dev'', ''server.start'', ''watch.dev'']),
     (''serve.e2e'', [''tslint'', ''build.dev'', ''build.js.e2e'', ''server.start'', ''watch.dev'', ''watch.e2e'']),
     (''serve.prod'', [''build.prod'', ''server.prod'']),
     (''serve.prod.aot'', [''build.prod.aot'', ''server.prod'']),
     (''serve.prod.rollup.aot'', [''build.prod.rollup.aot'', ''server.prod'']),
     (''test'', [''build.test'', ''karma.run'']),
     (''desktop'', [''build.dev'', ''desktop.libs'', ''desktop.build'']),
     (''desktop.mac'', [''desktop'', ''desktop.package.mac'']),
     (''desktop.windows'', [''desktop'', ''desktop.package.windows'']),
     (''desktop.linux'', [''desktop'', ''desktop.package.linux''])]"

definition project_tasks :: "(string \<times> string list) list" where
  "project_tasks = [(''test'', [''tslint'', ''build.test'', ''karma.run''])]"

definition seed_task_files :: "string list" where
  "seed_task_files =
    [''build.assets.dev'', ''build.assets.prod'', ''build.assets.tns'', ''build.bundle.rxjs'', ''build.bundles'',
     ''build.bundles.app'', ''build.bundles.app.aot'', ''build.bundles.app.rollup.aot'', ''build.docs'',
     ''build.html_css'', ''build.index.dev'', ''build.index.prod'', ''build.js.dev'', ''build.js.e2e'',
     ''build.js.prod'', ''build.js.prod.aot'', ''build.js.prod.rollup.aot'', ''build.js.test'',
     ''build.js.tns'', ''build.tns_html_css'', ''build.tools'', ''check.tools'', ''check.versions'',
     ''clean.all'', ''clean.all.src.js'', ''clean.coverage'', ''clean.dev'', ''clean.e2e'', ''clean.prod'',
     ''clean.tns'', ''clean.tools'', ''clear.files'', ''compile.ahead.prod'', ''copy.prod'',
     ''copy.prod.rollup.aot'', ''e2e'', ''generate.manifest'', ''karma.run'', ''karma.run.with_coverage'',
     ''karma.watch'', ''minify.bundles'', ''minify.index'', ''noop'', ''print.banner'', ''serve.coverage'',
     ''serve.coverage.watch'', ''serve.docs'', ''server.prod'', ''server.start'', ''start.deving'',
     ''sw.manifest.static'', ''transpile.bundles.rollup.aot'', ''tslint'', ''tslint.tns'', ''watch.dev'',
     ''watch.e2e'', ''watch.test'', ''watch.tns'', ''webdriver'']"

definition project_task_files :: "string list" where
  "project_task_files =
    [''build.fonts'', ''desktop.build'', ''desktop.libs'', ''desktop.package.linux'', ''desktop.package.mac'',
     ''desktop.package.windows'', ''desktop.watch'']"

definition table_json :: "(string \<times> string list) list \<Rightarrow> (string \<times> json) list" where
  "table_json t = map (\<lambda>(k, us). (k, JArr (map JStr us))) t"

section \<open>Expanding a composite task\<close>

text \<open>
  The tasks from files that a task comes to, in their order; \<^term>\<open>None\<close> when a name is not registered or
  the depth is used up.
\<close>

fun expand :: "nat \<Rightarrow> registry \<Rightarrow> string \<Rightarrow> string list option" where
  "expand 0 reg t = None"
| "expand (Suc n) reg t =
     (case map_of reg t of
        None \<Rightarrow> None
      | Some (CompositeTask (JArr vs)) \<Rightarrow>
          map_option concat (those (map (\<lambda>v. case v of JStr u \<Rightarrow> expand n reg u | _ \<Rightarrow> None) vs))
      | Some (CompositeTask v) \<Rightarrow> None
      | Some (FileTask p) \<Rightarrow> Some [t]
      | Some CleanOnce \<Rightarrow> Some [t])"

definition leaf_task :: "registry \<Rightarrow> string \<Rightarrow> bool" where
  "leaf_task reg t = (case map_of reg t of Some (FileTask p) \<Rightarrow> True | Some CleanOnce \<Rightarrow> True | _ \<Rightarrow> False)"

text \<open>Each composite task is a list of registered names that are ranked below it.\<close>

definition ranked :: "(string \<Rightarrow> nat) \<Rightarrow> registry \<Rightarrow> bool" where
  "ranked rank reg \<longleftrightarrow>
     (\<forall>t v. map_of reg t = Some (CompositeTask v) \<longrightarrow>
        (\<exists>us. v = JArr (map JStr us) \<and> (\<forall>u \<in> set us. map_of reg u \<noteq> None \<and> rank u < rank t)))"

lemma those_Some: "(\<forall>x \<in> set xs. f x \<noteq> None) \<Longrightarrow> those (map f xs) = Some (map (\<lambda>x. the (f x)) xs)"
  by (induction xs) auto

lemma ranked_expands:
  assumes "ranked rank reg"
  shows "map_of reg t \<noteq> None \<Longrightarrow> rank t < n \<Longrightarrow> \<exists>ls. expand n reg t = Some ls \<and> list_all (leaf_task reg) ls"
proof (induction n arbitrary: t)
  case (Suc n)
  obtain d where d: "map_of reg t = Some d" using Suc.prems(1) by blast
  show ?case
  proof (cases d)
    case (CompositeTask v)
    then obtain us where us: "v = JArr (map JStr us)" "\<forall>u \<in> set us. map_of reg u \<noteq> None \<and> rank u < rank t"
      using assms d unfolding ranked_def by blast
    have ex: "\<exists>ls. expand n reg u = Some ls \<and> list_all (leaf_task reg) ls" if "u \<in> set us" for u
      using Suc.IH [of u] us(2) that Suc.prems(2) by auto
    have "those (map (expand n reg) us) = Some (map (\<lambda>u. the (expand n reg u)) us)"
      by (rule those_Some) (use ex in fastforce)
    then have "expand (Suc n) reg t = Some (concat (map (\<lambda>u. the (expand n reg u)) us))"
      using d CompositeTask us(1) by (simp add: comp_def)
    moreover have "list_all (leaf_task reg) (concat (map (\<lambda>u. the (expand n reg u)) us))"
      using ex by (fastforce simp: list_all_iff)
    ultimately show ?thesis by blast
  qed (use d in \<open>simp_all add: leaf_task_def\<close>)
qed simp

section \<open>Loading the tables of the repository\<close>

lemma map_of_loadTasks:
  assumes "fs_exists fs path" "fs_readdir fs path = map (\<lambda>n. n @ ''.ts'') names" "\<And>p. fs_isFile fs p"
  shows "map_of (loadTasks fs path reg) t =
    (if t \<in> set names then Some (FileTask (path_join [path, t])) else map_of reg t)"
proof -
  have strip: "strip_ts (n @ ''.ts'') = n" "ends_with ''.ts'' (n @ ''.ts'')" for n
    by (simp_all add: strip_ts_def ends_with_iff)
  have "loadTasks fs path reg = fold (\<lambda>n. registerTask n path) names reg"
    using assms by (simp add: loadTasks_def readDir_def fold_map comp_def strip)
  moreover have "map_of (fold (\<lambda>n. registerTask n path) ns r) t =
      (if t \<in> set ns then Some (FileTask (path_join [path, t])) else map_of r t)" for ns r
    by (induction ns arbitrary: r) (auto simp: registerTask_def gulp_task_def map_of_obj_set)
  ultimately show ?thesis by simp
qed

definition repo_fs :: "config_dirs \<Rightarrow> filesys" where
  "repo_fs dirs =
     \<lparr>fs_exists = (\<lambda>p. True),
      fs_readdir = (\<lambda>p. if p = SEED_TASKS_DIR dirs then map (\<lambda>n. n @ ''.ts'') seed_task_files
                       else if p = PROJECT_TASKS_DIR dirs then map (\<lambda>n. n @ ''.ts'') project_task_files else []),
      fs_isFile = (\<lambda>p. True),
      fs_read = (\<lambda>p. if p = SEED_COMPOSITE_TASKS dirs then Inr (JSON_stringify_gap 2 (JObj (table_json seed_tasks)))
                    else if p = PROJECT_COMPOSITE_TASKS dirs then Inr (JSON_stringify_gap 2 (JObj (table_json project_tasks)))
                    else Inl (ErrorMsg ''ENOENT''))\<rparr>"

definition rank_table :: "(string \<times> nat) list" where
  "rank_table =
    [(''initialize'', 1), (''build.dev'', 2), (''build.dev.watch'', 3), (''build.e2e'', 2), (''build.prod'', 2),
     (''build.prod.aot'', 2), (''build.prod.rollup.aot'', 2), (''build.tns'', 1), (''build.prod.tns'', 2),
     (''build.tns.watch'', 2), (''build.test'', 2), (''test.watch'', 3), (''docs'', 1), (''serve.dev'', 3),
     (''serve.e2e'', 3), (''serve.prod'', 3), (''serve.prod.aot'', 3), (''serve.prod.rollup.aot'', 3),
     (''test'', 3), (''desktop'', 3), (''desktop.mac'', 4), (''desktop.windows'', 4), (''desktop.linux'', 4)]"

definition rank_of :: "string \<Rightarrow> nat" where
  "rank_of t = (case map_of rank_table t of Some r \<Rightarrow> r | None \<Rightarrow> 0)"

definition known_names :: "string list" where
  "known_names = map fst seed_tasks @ map fst project_tasks @ seed_task_files @ project_task_files @ [''clean.once'']"

definition table_ranked :: "(string \<times> string list) list \<Rightarrow> bool" where
  "table_ranked t = list_all (\<lambda>(k, us). list_all (\<lambda>u. u \<in> set known_names \<and> rank_of u < rank_of k) us) t"

lemma tables_ranked: "table_ranked seed_tasks" "table_ranked project_tasks"
  by code_simp+

lemma tables_distinct: "distinct (map fst seed_tasks)" "distinct (map fst project_tasks)"
  by code_simp+

lemma ranks_small: "list_all (\<lambda>(t, r). r < 5) rank_table"
  by code_simp

lemma table_json_ok: "distinct (map fst t) \<Longrightarrow> json_ok (JObj (table_json t)) \<and> list_all (\<lambda>(k, v). valid_task v) (table_json t)"
  by (auto simp: table_json_def list_all_iff comp_def split_beta valid_task_def is_jstr_def)

lemma map_of_table_json: "map_of (table_json t) k = map_option (\<lambda>us. JArr (map JStr us)) (map_of t k)"
  by (induction t) (auto simp: table_json_def)

text \<open>The table of gulp for the repository.\<close>

lemma repo_registry:
  assumes "SEED_TASKS_DIR dirs \<noteq> PROJECT_TASKS_DIR dirs" "SEED_COMPOSITE_TASKS dirs \<noteq> PROJECT_COMPOSITE_TASKS dirs"
  obtains reg where "gulpfile (repo_fs dirs) dirs = Loaded reg"
    "\<And>t. map_of reg t = (if t = ''clean.once'' then Some CleanOnce
       else case map_of project_tasks t of Some us \<Rightarrow> Some (CompositeTask (JArr (map JStr us)))
       | None \<Rightarrow> (case map_of seed_tasks t of Some us \<Rightarrow> Some (CompositeTask (JArr (map JStr us)))
       | None \<Rightarrow> if t \<in> set project_task_files then Some (FileTask (path_join [PROJECT_TASKS_DIR dirs, t]))
         else if t \<in> set seed_task_files then Some (FileTask (path_join [SEED_TASKS_DIR dirs, t])) else None))"
proof -
  let ?fs = "repo_fs dirs"
  let ?reg = "loadTasks ?fs (PROJECT_TASKS_DIR dirs) (loadTasks ?fs (SEED_TASKS_DIR dirs) [])"
  have read: "fs_read ?fs (SEED_COMPOSITE_TASKS dirs) = Inr (JSON_stringify_gap 2 (JObj (table_json seed_tasks)))"
    "fs_read ?fs (PROJECT_COMPOSITE_TASKS dirs) = Inr (JSON_stringify_gap 2 (JObj (table_json project_tasks)))"
    using assms(2) by (simp_all add: repo_fs_def)
  have files: "map_of ?reg t = (if t \<in> set project_task_files then Some (FileTask (path_join [PROJECT_TASKS_DIR dirs, t]))
      else if t \<in> set seed_task_files then Some (FileTask (path_join [SEED_TASKS_DIR dirs, t])) else None)" for t
    using map_of_loadTasks [of ?fs "PROJECT_TASKS_DIR dirs" project_task_files "loadTasks ?fs (SEED_TASKS_DIR dirs) []" t]
      map_of_loadTasks [of ?fs "SEED_TASKS_DIR dirs" seed_task_files "[]" t] assms(1)
    by (simp add: repo_fs_def)
  obtain reg' where load: "loadCompositeTasks ?fs (SEED_COMPOSITE_TASKS dirs) (PROJECT_COMPOSITE_TASKS dirs) ?reg = Loaded reg'"
    and reg': "map_of reg' = (\<lambda>t. case map_of (table_json project_tasks) t of Some v \<Rightarrow> Some (CompositeTask v)
      | None \<Rightarrow> (case map_of (table_json seed_tasks) t of Some v \<Rightarrow> Some (CompositeTask v) | None \<Rightarrow> map_of ?reg t))"
    using composite_load [OF read(1) _ _ read(2)] table_json_ok tables_distinct by blast
  show ?thesis
  proof
    show "gulpfile ?fs dirs = Loaded (gulp_task ''clean.once'' CleanOnce reg')" by (simp add: gulpfile_def load)
    show "map_of (gulp_task ''clean.once'' CleanOnce reg') t = (if t = ''clean.once'' then Some CleanOnce
       else case map_of project_tasks t of Some us \<Rightarrow> Some (CompositeTask (JArr (map JStr us)))
       | None \<Rightarrow> (case map_of seed_tasks t of Some us \<Rightarrow> Some (CompositeTask (JArr (map JStr us)))
       | None \<Rightarrow> if t \<in> set project_task_files then Some (FileTask (path_join [PROJECT_TASKS_DIR dirs, t]))
         else if t \<in> set seed_task_files then Some (FileTask (path_join [SEED_TASKS_DIR dirs, t])) else None))" for t
      unfolding gulp_task_def map_of_obj_set reg' fun_upd_apply map_of_table_json files
      by (cases "map_of project_tasks t"; cases "map_of seed_tasks t") simp_all
  qed
qed

lemma table_below:
  "map_of project_tasks k = Some us \<or> map_of seed_tasks k = Some us \<Longrightarrow> u \<in> set us \<Longrightarrow>
     u \<in> set known_names \<and> rank_of u < rank_of k"
  using tables_ranked map_of_SomeD by (fastforce simp: table_ranked_def list_all_iff)

lemma rank_small: "rank_of t < 5"
  using ranks_small map_of_SomeD by (fastforce simp: rank_of_def list_all_iff split: option.splits)

lemma known_registered:
  assumes reg: "\<And>t. map_of reg t = (if t = ''clean.once'' then Some CleanOnce
       else case map_of project_tasks t of Some us \<Rightarrow> Some (CompositeTask (JArr (map JStr us)))
       | None \<Rightarrow> (case map_of seed_tasks t of Some us \<Rightarrow> Some (CompositeTask (JArr (map JStr us)))
       | None \<Rightarrow> if t \<in> set project_task_files then Some (FileTask (path_join [PROJECT_TASKS_DIR dirs, t]))
         else if t \<in> set seed_task_files then Some (FileTask (path_join [SEED_TASKS_DIR dirs, t])) else None))"
    and "u \<in> set known_names"
  shows "map_of reg u \<noteq> None"
proof -
  have "map_of seed_tasks u \<noteq> None \<or> map_of project_tasks u \<noteq> None \<or> u \<in> set seed_task_files \<or>
      u \<in> set project_task_files \<or> u = ''clean.once''"
    using assms(2) by (auto simp: known_names_def map_of_eq_None_iff simp del: list.inject)
  then show ?thesis unfolding reg by (auto split: option.splits simp del: list.inject)
qed

text \<open>
  C32. The composite tasks of the repository end: once the files and the tables are loaded, each of them
  expands, in a depth of five, to tasks that are registered from files or to \<open>clean.once\<close>, so no
  table names a missing task and none leads back to itself.
\<close>

theorem composite_tasks_end:
  assumes "SEED_TASKS_DIR dirs \<noteq> PROJECT_TASKS_DIR dirs" "SEED_COMPOSITE_TASKS dirs \<noteq> PROJECT_COMPOSITE_TASKS dirs"
    and "t \<in> set (map fst (seed_tasks @ project_tasks))"
  shows "\<exists>reg ls. gulpfile (repo_fs dirs) dirs = Loaded reg \<and> expand 5 reg t = Some ls \<and> list_all (leaf_task reg) ls"
proof -
  obtain reg where load: "gulpfile (repo_fs dirs) dirs = Loaded reg"
    and reg: "\<And>t. map_of reg t = (if t = ''clean.once'' then Some CleanOnce
       else case map_of project_tasks t of Some us \<Rightarrow> Some (CompositeTask (JArr (map JStr us)))
       | None \<Rightarrow> (case map_of seed_tasks t of Some us \<Rightarrow> Some (CompositeTask (JArr (map JStr us)))
       | None \<Rightarrow> if t \<in> set project_task_files then Some (FileTask (path_join [PROJECT_TASKS_DIR dirs, t]))
         else if t \<in> set seed_task_files then Some (FileTask (path_join [SEED_TASKS_DIR dirs, t])) else None))"
    using repo_registry [OF assms(1,2)] by blast
  have known: "map_of reg u \<noteq> None" if "u \<in> set known_names" for u
    by (rule known_registered [OF reg that])
  have "ranked rank_of reg"
    unfolding ranked_def
  proof (intro allI impI)
    fix k v
    assume "map_of reg k = Some (CompositeTask v)"
    then obtain us where us: "map_of project_tasks k = Some us \<or> map_of seed_tasks k = Some us" "v = JArr (map JStr us)"
      unfolding reg by (auto split: if_splits option.splits simp del: list.inject)
    then show "\<exists>us. v = JArr (map JStr us) \<and> (\<forall>u \<in> set us. map_of reg u \<noteq> None \<and> rank_of u < rank_of k)"
      using table_below known by blast
  qed
  moreover have "map_of reg t \<noteq> None" by (rule known) (use assms(3) in \<open>auto simp: known_names_def\<close>)
  ultimately show ?thesis using ranked_expands load rank_small by blast
qed

lemma composite_tasks_end_witness:
  "\<exists>reg ls. gulpfile (repo_fs \<lparr>SEED_TASKS_DIR = ''seed'', PROJECT_TASKS_DIR = ''project'', SEED_COMPOSITE_TASKS = ''s'',
       PROJECT_COMPOSITE_TASKS = ''p''\<rparr>) \<lparr>SEED_TASKS_DIR = ''seed'', PROJECT_TASKS_DIR = ''project'',
       SEED_COMPOSITE_TASKS = ''s'', PROJECT_COMPOSITE_TASKS = ''p''\<rparr> = Loaded reg \<and>
     expand 5 reg ''desktop.mac'' = Some ls"
proof -
  have "''desktop.mac'' \<in> set (map fst (seed_tasks @ project_tasks))" by code_simp
  from composite_tasks_end [OF _ _ this, of "\<lparr>SEED_TASKS_DIR = ''seed'', PROJECT_TASKS_DIR = ''project'',
    SEED_COMPOSITE_TASKS = ''s'', PROJECT_COMPOSITE_TASKS = ''p''\<rparr>"]
  show ?thesis by auto
qed

end
