(* ===== verification/BuildStages.thy ===== *)
theory BuildStages
  imports BuildPipeline BuildTaskTable
begin

text \<open>
  The tasks of \<open>tools/tasks\<close> that hand files from one directory to another: for each the streams it
  sets up, as the patterns they read, the plugins they pass and the directory they write. The table
  \<open>task_phases\<close> has them by the name of the task, and with the tables of the composite tasks it says
  which named files a build reads and writes and in which order.
\<close>

section \<open>Streams\<close>

definition pipe_of :: "string list \<Rightarrow> stage list \<Rightarrow> string \<Rightarrow> pipeline" where
  "pipe_of src stages dest = \<lparr>pl_src = src, pl_stages = stages, pl_dest = dest\<rparr>"



section \<open>Assets\<close>



text \<open>The filter \<open>onlyDirs\<close> of that task, which passes files on and drops everything else.\<close>

definition onlyDirs :: "(string \<Rightarrow> bool) \<Rightarrow> string list \<Rightarrow> string list" where
  "onlyDirs isFile files = filter isFile files"







section \<open>The mobile application\<close>

text \<open>The renaming of \<open>gulp-rename\<close>: \<open>replace\<close> with a pattern that is not global replaces the first match.\<close>

definition tns_renamer :: "string \<Rightarrow> string" where
  "tns_renamer basename = replace_first ''.tns'' [] basename"

definition platform_rx :: regex where
  "platform_rx = RxGroup 1 (RxAlt (rx_lit ''.ios'') (rx_lit ''.android''))"

definition platform_rename :: "string \<times> string \<Rightarrow> string \<times> string" where
  "platform_rename path =
     (case path of (basename, extname) \<Rightarrow>
        (case rx_exec platform_rx basename of
           None \<Rightarrow> (basename, extname)
         | Some m \<Rightarrow> (case rx_group m 1 of
             Some g \<Rightarrow> (replace_first g extname basename, g)
           | None \<Rightarrow> (basename, extname))))"









section \<open>Compiling\<close>







definition build_tools :: "Config \<Rightarrow> pipeline" where
  "build_tools c =
     pipe_of [path_join [PROJECT_ROOT c, ''gulpfile.ts''], path_join [TOOLS_DIR c, ''manual_typings/**/*.d.ts''],
         path_join [TOOLS_DIR c, ''**/*.ts'']]
       [Plumber, SourcemapsInit, TsCompile (build_tools_call c), FillTemplate new_TemplateLocalsBuilder, SourcemapsWrite []] ''./''"




definition aot_args :: "string option \<Rightarrow> (string \<times> string) list \<Rightarrow> (string \<times> string) list" where
  "aot_args lang args =
     (if truthy lang
      then obj_set ''i18nFormat'' ''xlf'' (obj_set ''locale'' (the lang)
             (obj_set ''i18nFile'' (''./src/client/assets/locale/messages.'' @ the lang @ ''.xlf'') args))
      else args)"

section \<open>Bundles\<close>






definition build_bundle_rxjs :: pipeline where
  "build_bundle_rxjs = pipe_of [''rxjs''] [Bundle, WriteFile ''Rx.min.js''] ''node_modules/.tmp''"




section \<open>Pages and manifests\<close>




definition generate_manifest :: "Config \<Rightarrow> pipeline" where
  "generate_manifest c = pipe_of [APP_DEST c @ ''/**/*.css'', APP_DEST c @ ''/**/*.js''] [GenManifest] (APP_DEST c)"




section \<open>The desktop application and the tests\<close>

definition newer_map :: "string \<Rightarrow> string" where
  "newer_map path = replace_first ''.scss'' ''.css'' (replace_first ''.ts'' ''.js'' path)"




text \<open>
  \<open>e2e\<close>: the server for the files of the production build, and the specifications that \<open>protractor\<close>
  runs once the server listens.
\<close>

definition e2e_server :: "string \<Rightarrow> Config \<Rightarrow> server_call list" where
  "e2e_server cwd c =
     (let root = path_resolve2 cwd cwd (PROD_DEST c) in
      map UseProxy (PROXY_MIDDLEWARE c) @ [UseStatic ''/'' root, UseFallback root, ListenOn (PORT c) []])"

definition e2e_specs :: "Config \<Rightarrow> pipeline" where
  "e2e_specs c = pipe_of [path_join [DEV_DEST c, ''**/*.e2e-spec.js'']] [Protractor] []"

text \<open>The options of \<open>karma\<close>: \<open>Object.assign\<close> of the defaults and those of the task.\<close>

definition startKarma :: "string \<Rightarrow> (string \<times> json) list \<Rightarrow> (string \<times> json) list" where
  "startKarma cwd config =
     obj_assign [(''configFile'', JStr (path_join [cwd, ''karma.conf.js''])), (''singleRun'', JBool True)] config"

definition karma_run :: "string \<Rightarrow> Config \<Rightarrow> (string \<times> json) list" where
  "karma_run cwd c = startKarma cwd (own_props (getKarmaReporters c))"

definition karma_run_with_coverage :: "string \<Rightarrow> Config \<Rightarrow> (string \<times> json) list" where
  "karma_run_with_coverage cwd c =
     startKarma cwd (obj_set ''singleRun'' (JBool True) (own_props (getKarmaReporters c)))"

definition karma_watch :: "string \<Rightarrow> (string \<times> json) list" where
  "karma_watch cwd = startKarma cwd [(''singleRun'', JBool False)]"

definition print_banner :: "(string \<Rightarrow> string option) \<Rightarrow> bool \<Rightarrow> Config \<Rightarrow> string list" where
  "print_banner readFile has256 c =
     (case readFile (path_join [TOOLS_DIR c, ''config'', if has256 then ''banner-256.txt'' else ''banner.txt'']) of
        None \<Rightarrow> [] | Some content \<Rightarrow> [content])"

definition coverage_watch :: "Config \<Rightarrow> json" where
  "coverage_watch c =
     JObj [(''server'', JObj [(''baseDir'', JStr (''./'' @ COVERAGE_TS_DIR c))]), (''port'', JNum (int (COVERAGE_PORT c))),
           (''files'', JArr [JStr (path_join [COVERAGE_TS_DIR c, ''**''])]), (''logFileChanges'', JBool False)]"

text \<open>\<open>watch.tns\<close> has its own paths and runs its tasks without a delay.\<close>

definition watch_tns_paths :: "Config \<Rightarrow> string list" where
  "watch_tns_paths c =
     [ASSETS_SRC c @ ''/**/*'', TNS_APP_SRC c @ ''/**/*'', TNS_APP_SRC c @ ''/app/*'', TNS_APP_SRC c @ ''/app/**/*'',
      neg (TNS_APP_SRC c @ ''/app/*.component.css''), neg (TNS_APP_SRC c @ ''/app/*.component.scss''),
      neg (TNS_APP_SRC c @ ''/app/*.component.html'')]"

section \<open>What a build reads and writes\<close>


definition task_removes :: "Config \<Rightarrow> (string \<times> string list) list" where
  "task_removes c =
    [(''clean.once'', clean_dev c @ clean_coverage c), (''clean.prod'', clean_prod c), (''clean.e2e'', clean_e2e c),
     (''clean.tns'', clean_tns c)]"

definition reads :: "pipeline \<Rightarrow> string list" where
  "reads p = filter (\<lambda>g. \<not> starts_with ''!'' g) (pl_src p)"

fun stage_file :: "stage \<Rightarrow> string option" where
  "stage_file (WriteFile n) = Some n"
| "stage_file (ConcatCss n) = Some n"
| "stage_file _ = None"

fun is_Inject :: "stage \<Rightarrow> bool" where
  "is_Inject Inject = True"
| "is_Inject _ = False"

definition base_name :: "string \<Rightarrow> string" where
  "base_name g = last (js_split (CHR ''/'') g)"

definition no_wildcard :: "string \<Rightarrow> bool" where
  "no_wildcard g \<longleftrightarrow> CHR ''*'' \<notin> set g"

text \<open>
  The files a stream is known to write by their names: the file that a stage makes of the stream; the
  page itself when files are injected into it; and the named sources of a stream without
  patterns, in the directory of the stream. A stream with patterns is not known to write any file.
\<close>

definition writes :: "pipeline \<Rightarrow> string list" where
  "writes p =
     (if pl_dest p = [] then []
      else (case List.map_filter stage_file (pl_stages p) of
              [] \<Rightarrow> map (\<lambda>g. pl_dest p @ ''/'' @ base_name g)
                (if list_ex is_Inject (pl_stages p) then take 1 (pl_src p)
                 else if list_all no_wildcard (reads p) then reads p else [])
            | ns \<Rightarrow> [pl_dest p @ ''/'' @ last ns]))"

text \<open>The directories that hold results only, and the scripts, style sheets and pages named in them.\<close>

definition generated :: "Config \<Rightarrow> string \<Rightarrow> bool" where
  "generated c g \<longleftrightarrow> starts_with (DIST_DIR c @ ''/'') g \<or> starts_with (TNS_APP_DEST c @ ''/'') g"

definition named_result :: "Config \<Rightarrow> string \<Rightarrow> bool" where
  "named_result c g \<longleftrightarrow> generated c g \<and> no_wildcard g \<and>
     (ends_with ''.js'' g \<or> ends_with ''.css'' g \<or> ends_with ''.html'' g)"

text \<open>
  A phase is ready when each named result it reads has been written before, under that name; a task
  first removes what it removes. The written files are carried along.
\<close>

definition phase_ready :: "Config \<Rightarrow> string list \<Rightarrow> pipeline list \<Rightarrow> bool" where
  "phase_ready c written ps =
     list_all (\<lambda>p. list_all (\<lambda>g. named_result c g \<longrightarrow> g \<in> set written) (reads p)) ps"

fun phases_ready :: "Config \<Rightarrow> string list \<Rightarrow> pipeline list list \<Rightarrow> string list option" where
  "phases_ready c written [] = Some written"
| "phases_ready c written (ps # pss) =
     (if phase_ready c written ps then phases_ready c (written @ concat (map writes ps)) pss else None)"

fun run_ready :: "Config \<Rightarrow> (string \<times> pipeline list list) list \<Rightarrow> string list \<Rightarrow> string list \<Rightarrow> string list option" where
  "run_ready c table written [] = Some written"
| "run_ready c table written (t # ts) =
     (let gone = (case map_of (task_removes c) t of Some ps \<Rightarrow> ps | None \<Rightarrow> []);
          kept = filter (\<lambda>w. \<not> list_ex (\<lambda>d. starts_with (d @ ''/'') w) gone) written in
      case phases_ready c kept (case map_of table t of Some pss \<Rightarrow> pss | None \<Rightarrow> []) of
        None \<Rightarrow> None
      | Some w \<Rightarrow> run_ready c table w ts)"

section \<open>Properties\<close>

subsection \<open>Reading and writing in a table\<close>

text \<open>
  What readiness of a run says: each named result that a phase of a task reads is written by an earlier
  phase of that task, or is among what the tasks before it have left, and the task does not remove it first.
\<close>

lemma phases_ready_reads:
  "phases_ready c written (pss @ ps # qss) \<noteq> None \<Longrightarrow> p \<in> set ps \<Longrightarrow> g \<in> set (reads p) \<Longrightarrow> named_result c g \<Longrightarrow>
     g \<in> set (written @ concat (map writes (concat pss)))"
proof (induction pss arbitrary: written)
  case Nil
  then show ?case by (auto simp: phase_ready_def list_all_iff split: if_splits)
next
  case (Cons qs pss)
  then show ?case using Cons.IH [of "written @ concat (map writes qs)"] by (simp split: if_splits)
qed

lemma run_ready_append:
  "run_ready c table written (us @ vs) =
     (case run_ready c table written us of None \<Rightarrow> None | Some w \<Rightarrow> run_ready c table w vs)"
  by (induction us arbitrary: written) (simp_all add: Let_def split: option.splits)

lemma run_ready_reads:
  assumes "run_ready c table [] (us @ t # vs) \<noteq> None" "map_of table t = Some (pss @ ps # qss)"
    and "p \<in> set ps" "g \<in> set (reads p)" "named_result c g"
  obtains written where "run_ready c table [] us = Some written"
    "g \<in> set (concat (map writes (concat pss))) \<or>
     g \<in> set written \<and> \<not> (\<exists>ds d. map_of (task_removes c) t = Some ds \<and> d \<in> set ds \<and> starts_with (d @ ''/'') g)"
proof -
  obtain written where run: "run_ready c table [] us = Some written" "run_ready c table written (t # vs) \<noteq> None"
    using assms(1) by (auto simp: run_ready_append split: option.splits)
  let ?kept = "filter (\<lambda>w. \<not> list_ex (\<lambda>d. starts_with (d @ ''/'') w) (case map_of (task_removes c) t of Some ps \<Rightarrow> ps | None \<Rightarrow> [])) written"
  have "phases_ready c ?kept (pss @ ps # qss) \<noteq> None"
    using run(2) assms(2) by (auto simp: Let_def split: option.splits)
  from phases_ready_reads [OF this assms(3-5)] have "g \<in> set (?kept @ concat (map writes (concat pss)))" .
  then show thesis using that [OF run(1)] by (cases "map_of (task_removes c) t") (auto simp: list_ex_iff)
qed









subsection \<open>The phases with the default options\<close>





















subsection \<open>The configuration of a task\<close>













subsection \<open>The composite tasks\<close>









section \<open>Witnesses\<close>







end
