(* ===== verification/AppShell.thy ===== *)
theory AppShell
  imports Auth CoreServices WebSocketLib
begin

text \<open>
  What holds the user interface together: the table of the routes (\<open>components/app.routes.ts\<close>,
  \<open>components/main/main.routes.ts\<close>, \<open>components/login/login.routes.ts\<close>), the configuration of the web
  module (\<open>web.module.ts\<close>), the services that only log or pass on (\<open>app.service.ts\<close>,
  \<open>router-extensions.service.ts\<close>). The router of Angular is not modelled; the theorems are about the
  table it is given and about the addresses the program asks it for.
\<close>

section \<open>Routes\<close>

datatype route = Route
  (route_path: string)
  (route_component: "string option")
  (route_canActivate: "string list")
  (route_canActivateChild: "string list")
  (route_redirectTo: "string option")
  (route_pathMatch: "string option")
  (route_children: "route list")

definition plain_route :: "string \<Rightarrow> string \<Rightarrow> route" where
  "plain_route p c = Route p (Some c) [] [] None None []"

definition redirect_route :: "string \<Rightarrow> string \<Rightarrow> route" where
  "redirect_route p target = Route p None [] [] (Some target) (Some ''full'') []"

definition MainRoutes :: "route list" where
  "MainRoutes =
     [Route ''main'' (Some ''MainComponent'') [''AuthenticationGuard''] [] None None
       [Route [] None [] [''AuthenticationGuard''] None None
         [plain_route ''dashboard'' ''DashboardGridComponent'',
          plain_route ''service'' ''ServiceGridComponent'',
          plain_route ''service/:id'' ''ServiceDetailComponent'',
          plain_route ''service/:id/:childId'' ''ServiceDetailComponent'',
          plain_route ''process-log'' ''ProcessLogComponent'',
          plain_route ''query'' ''QueryComponent'',
          plain_route ''operation-tracing'' ''OperationTracingComponent'',
          redirect_route [] ''dashboard'']]]"

definition LoginRoutes :: "route list" where
  "LoginRoutes = [plain_route ''login'' ''LoginComponent'']"

definition routes :: "route list" where
  "routes = MainRoutes @ LoginRoutes @ [redirect_route [] ''/main/dashboard'']"

text \<open>
  The addresses of a route below a prefix: each address with its component and whether the guard
  stands before it, by \<open>canActivate\<close> of the route or one above it, or by \<open>canActivateChild\<close> of one
  above it. The second function lists the redirections with their targets; a target that does not start
  with a slash is relative to the prefix.
\<close>

definition below :: "string \<Rightarrow> string \<Rightarrow> string" where
  "below prefix p = (if p = [] then prefix else prefix @ ''/'' @ p)"

fun route_views :: "string \<Rightarrow> bool \<Rightarrow> route \<Rightarrow> (string \<times> string \<times> bool) list" where
  "route_views prefix guarded (Route p c act actChild redirect m rs) =
     (let guarded = guarded \<or> ''AuthenticationGuard'' \<in> set act in
      (case c of None \<Rightarrow> [] | Some v \<Rightarrow> [(below prefix p, v, guarded)]) @
      concat (map (route_views (below prefix p) (guarded \<or> ''AuthenticationGuard'' \<in> set actChild)) rs))"

fun route_redirects :: "string \<Rightarrow> route \<Rightarrow> (string \<times> string) list" where
  "route_redirects prefix (Route p c act actChild redirect m rs) =
     (case redirect of
        None \<Rightarrow> []
      | Some t \<Rightarrow> [(below prefix p, if starts_with ''/'' t then t else below prefix t)]) @
     concat (map (route_redirects (below prefix p)) rs)"

definition app_views :: "(string \<times> string \<times> bool) list" where
  "app_views = concat (map (route_views [] False) routes)"

definition app_redirects :: "(string \<times> string) list" where
  "app_redirects = concat (map (route_redirects []) routes)"

section \<open>Services\<close>

text \<open>
  \<open>RouterExtensions\<close>: the calls it makes of the router and of the location strategy. The options of
  \<open>navigateByUrl\<close> are not passed on.
\<close>

datatype router_call =
    RouterNavigate "json list" "json option"
  | RouterNavigateByUrl string
  | LocationBack

definition ext_navigate :: "json list \<Rightarrow> json option \<Rightarrow> router_call" where
  "ext_navigate commands extras = RouterNavigate commands extras"

definition ext_navigateByUrl :: "string \<Rightarrow> json option \<Rightarrow> router_call" where
  "ext_navigateByUrl url options = RouterNavigateByUrl url"

definition ext_back :: router_call where
  "ext_back = LocationBack"

text \<open>
  The configuration of the web application; the two texts are what the build has put in place of the
  placeholders in the source.
\<close>

definition web_config :: "string \<Rightarrow> string \<Rightarrow> Config \<Rightarrow> Config" where
  "web_config bt target_desktop c =
     (let c = c\<lparr>PLATFORM_TARGET := ''web''\<rparr>;
          c = (if bt = ''dev'' then c\<lparr>LEVEL_4 := True\<rparr> else c) in
      if target_desktop = ''true'' then c\<lparr>PLATFORM_TARGET := ''desktop''\<rparr> else c)"

text \<open>The one target of the log, which writes every level.\<close>

definition consoleLogTarget :: LogLevel where
  "consoleLogTarget = Debug"

text \<open>
  \<open>Config.ENVIRONMENT().ENV\<close> in a text, which the constructors of the service and of the component write
  to the log. Reading a field of \<open>null\<close> raises a TypeError, before the log is called.
\<close>

definition env_text :: "string \<Rightarrow> string result" where
  "env_text env_config =
     (case ENVIRONMENT env_config of
        JNull \<Rightarrow> Inl TypeError
      | JObj kvs \<Rightarrow> Inr (case map_of kvs ''ENV'' of None \<Rightarrow> ''undefined'' | Some v \<Rightarrow> js_to_string v)
      | _ \<Rightarrow> Inr ''undefined'')"

definition new_AppService :: "Config \<Rightarrow> LogLevel list \<Rightarrow> string \<Rightarrow> console_call list result" where
  "new_AppService c targets env_config =
     (case env_text env_config of
        Inl e \<Rightarrow> Inl e
      | Inr t \<Rightarrow> Inr (log_debug c targets [JStr (''AppService -> Config env: '' @ t)]))"

definition new_AppComponent :: "Config \<Rightarrow> LogLevel list \<Rightarrow> string \<Rightarrow> console_call list result" where
  "new_AppComponent c targets env_config =
     (case env_text env_config of
        Inl e \<Rightarrow> Inl e
      | Inr t \<Rightarrow> Inr (log_debug c targets [JStr (''Config env: '' @ t)]))"

section \<open>Properties\<close>

text \<open>The guard stands before every view but the login page, and no address has two views.\<close>

lemma views_guarded:
  assumes "(u, v, g) \<in> set app_views"
  shows "g \<longleftrightarrow> v \<noteq> ''LoginComponent''"
proof -
  have "list_all (\<lambda>(u, v, g). g \<longleftrightarrow> v \<noteq> ''LoginComponent'') app_views" by code_simp
  then show ?thesis using assms by (fastforce simp: list_all_iff)
qed

lemma addresses_distinct: "distinct (map fst app_views)"
  by code_simp

text \<open>
  No redirection leads nowhere or to another redirection: each target is the address of a view, and
  the way of the guard leads to a page that the guard does not stand before.
\<close>

lemma redirects_end:
  assumes "(u, t) \<in> set app_redirects"
  shows "\<exists>v g. (t, v, g) \<in> set app_views"
proof -
  have "list_all (\<lambda>(u, t). t \<in> set (map fst app_views)) app_redirects" by code_simp
  then show ?thesis using assms by (fastforce simp: list_all_iff)
qed

lemma login_open: "(''/login'', ''LoginComponent'', False) \<in> set app_views"
  by code_simp

lemma guard_leads_to_open_view:
  "canActivate url answer s = (s', nav, ok) \<Longrightarrow> u \<in> set nav \<Longrightarrow> \<exists>v. (u, v, False) \<in> set app_views"
  using login_open by (auto simp: guard_decides split: if_splits)

text \<open>A login without a view to return to leads to the dashboard, which is a view.\<close>

lemma login_leads_to_view:
  assumes "\<not> truthy (redirectUrl (auth_of s))"
  shows "\<exists>u v g. last (effects (login_next now_iso h s)) = Navigate [u] \<and> (u, v, g) \<in> set app_views"
proof -
  have "(''/main/dashboard'', ''DashboardGridComponent'', True) \<in> set app_views" by code_simp
  moreover have "last (effects (login_next now_iso h s)) = Navigate [''/main/dashboard'']"
    using assms by (simp add: login_next_def Let_def on_login_def perform_def end_rt_def unsubscribe_rt_def)
  ultimately show ?thesis by blast
qed

text \<open>
  The application starts with every environment that is an object: in a development build it names the
  environment on the console, in any other it is silent, whatever the platform.
\<close>

lemma application_starts:
  assumes "JSON_parse env_config = Inr (JObj kvs)" "map_of kvs ''ENV'' = Some (JStr e)"
    and "c = web_config bt target_desktop new_Config"
  shows "new_AppService c [consoleLogTarget] env_config =
           Inr (if bt = ''dev'' then [ConsoleLog (JArr [JStr (''AppService -> Config env: '' @ e)])] else []) \<and>
         (IS_DEBUG_MODE c \<longleftrightarrow> bt = ''dev'') \<and> (IS_DESKTOP c \<longleftrightarrow> target_desktop = ''true'')"
  using assms by (simp add: new_AppService_def env_text_def ENVIRONMENT_def web_config_def new_Config_def log_debug_def
      logEvent_def target_log_def writeToLog_def level_number_def consoleLogTarget_def IS_DEBUG_MODE_def IS_DESKTOP_def Let_def)

end
