(* ===== verification/NgModules.thy ===== *)
theory NgModules
  imports AppShell
begin

text \<open>
  The modules of Angular that the application is put together from: \<open>web.module.ts\<close> of the web and the
  desktop application, \<open>native.module.ts\<close> and \<open>components.module.ts\<close> of the mobile one, and the modules
  of the program that they import. A module is the record that the decorator \<open>NgModule\<close> gets, less the schemas. How Angular
  collects the providers of the modules and compiles the components is code of others: what the program
  relies on is a hypothesis. The reducer of the store is made by functions of ngrx, which are parameters.
\<close>

section \<open>Modules and providers\<close>

datatype prov_use =
    UseClass string
  | UseFactory string
  | UseLanguages "(string \<times> string) list"
  | UseText string
  | UseNull

record provider =
  provToken :: string
  provUse :: prov_use
  provDeps :: "string list"
  provMulti :: bool

text \<open>A class on its own provides itself.\<close>

definition class_provider :: "string \<Rightarrow> provider" where
  "class_provider c = \<lparr>provToken = c, provUse = UseClass c, provDeps = [], provMulti = False\<rparr>"

definition provide :: "string \<Rightarrow> prov_use \<Rightarrow> string list \<Rightarrow> provider" where
  "provide t u ds = \<lparr>provToken = t, provUse = u, provDeps = ds, provMulti = False\<rparr>"

datatype ng_import =
    ImportModule string
  | ForRoot string "provider list"
  | ImportRoutes string "route list" bool
  | ProvideStore string
  | RunEffects string

record ng_module =
  ngImports :: "ng_import list"
  ngDeclarations :: "string list"
  ngExports :: "string list"
  ngProviders :: "provider list"
  ngBootstrap :: "string list"

text \<open>
  The constructors of the modules that are to be imported by the root module only: the parent is the
  instance of the same module that Angular finds above, if there is one.
\<close>

definition new_AppModule :: "'m option \<Rightarrow> unit result" where
  "new_AppModule parentModule =
     (if parentModule \<noteq> None then Inl (ErrorMsg ''Xenon AppModule already loaded; Import in root module only.'')
      else Inr ())"

definition new_CoreModule :: "'m option \<Rightarrow> unit result" where
  "new_CoreModule parentModule =
     (if parentModule \<noteq> None then Inl (ErrorMsg ''CoreModule already loaded; Import in root module only.'')
      else Inr ())"

definition new_MultilingualModule :: "'m option \<Rightarrow> unit result" where
  "new_MultilingualModule parentModule =
     (if parentModule \<noteq> None then Inl (ErrorMsg ''MultilingualModule already loaded; Import in root module only.'')
      else Inr ())"

section \<open>The modules of the program\<close>

definition CORE_PROVIDERS :: "provider list" where
  "CORE_PROVIDERS =
     map class_provider [''WindowService'', ''StorageService'', ''ConsoleService'', ''LogService'', ''AppService'', ''RouterExtensions'']"

definition CORE_DIRECTIVES :: "string list" where
  "CORE_DIRECTIVES = [''PlatformDirective'']"

definition CoreModule :: ng_module where
  "CoreModule =
     \<lparr>ngImports = [ImportModule ''SharedModule''], ngDeclarations = CORE_DIRECTIVES, ngExports = CORE_DIRECTIVES,
      ngProviders = CORE_PROVIDERS, ngBootstrap = []\<rparr>"

definition core_forRoot :: "provider list \<Rightarrow> ng_import" where
  "core_forRoot configuredProviders = ForRoot ''CoreModule'' configuredProviders"

text \<open>The shared module has a navigation bar of its own, a class other than the one of the application.\<close>

definition SHARED_COMPONENTS :: "string list" where
  "SHARED_COMPONENTS = [''shared.NavbarComponent'', ''shared.ToolbarComponent'']"

definition SHARED_MODULES :: "string list" where
  "SHARED_MODULES = [''CommonModule'', ''HttpModule'', ''FormsModule'', ''RouterModule'', ''MultilingualModule'']"

definition SharedModule :: ng_module where
  "SharedModule =
     \<lparr>ngImports = map ImportModule SHARED_MODULES, ngDeclarations = SHARED_COMPONENTS,
      ngExports = SHARED_MODULES @ SHARED_COMPONENTS, ngProviders = [], ngBootstrap = []\<rparr>"

definition LanguageProviders :: "provider list" where
  "LanguageProviders = [provide ''Languages'' (UseLanguages []) [], provide ''LanguageViewHelper'' UseNull []]"

definition MULTILANG_PROVIDERS :: "provider list" where
  "MULTILANG_PROVIDERS = LanguageProviders @ [class_provider ''MultilingualService'']"

text \<open>The loader of the translations: the address of a language is the prefix, its code and the suffix.\<close>

definition translateLoaderFactory :: "Config \<Rightarrow> string \<times> string" where
  "translateLoaderFactory c = ((if IS_MOBILE_NATIVE c then ''/'' else []) @ ''assets/i18n/'', ''.json'')"

definition translate_loader :: provider where
  "translate_loader = provide ''TranslateLoader'' (UseFactory ''translateLoaderFactory'') [''Http'']"

definition MultilingualModule :: ng_module where
  "MultilingualModule =
     \<lparr>ngImports = [ImportModule ''CommonModule'', ImportModule ''HttpModule'', ImportModule ''FormsModule'',
        ForRoot ''TranslateModule'' [translate_loader]],
      ngDeclarations = [], ngExports = [''TranslateModule''], ngProviders = MULTILANG_PROVIDERS, ngBootstrap = []\<rparr>"

definition multilingual_forRoot :: "provider list \<Rightarrow> ng_import" where
  "multilingual_forRoot configuredProviders = ForRoot ''MultilingualModule'' configuredProviders"

definition ANALYTICS_PROVIDERS :: "provider list" where
  "ANALYTICS_PROVIDERS = [class_provider ''AnalyticsService'']"

definition AnalyticsModule :: ng_module where
  "AnalyticsModule =
     \<lparr>ngImports = [ForRoot ''Angulartics2Module'' [class_provider ''Angulartics2Segment'']],
      ngDeclarations = [], ngExports = [], ngProviders = ANALYTICS_PROVIDERS, ngBootstrap = []\<rparr>"

definition BASE_SERVICE_PROVIDERS :: "provider list" where
  "BASE_SERVICE_PROVIDERS = map class_provider [''NodeSelectorService'', ''BaseService'']"

definition app_parts :: "string list" where
  "app_parts =
     [''AlertComponent'', ''CodeEditorComponent'', ''NavbarComponent'', ''NodeCanvasComponent'', ''NodeInfoPanelComponent'',
      ''NodeSelectorComponent'', ''NotificationComponent'', ''PropertyTableComponent'', ''FilterByNamePipe'']"

definition AppModule :: ng_module where
  "AppModule =
     \<lparr>ngImports = map ImportModule [''CommonModule'', ''FormsModule'', ''RouterModule'', ''MultilingualModule''],
      ngDeclarations = app_parts, ngExports = ''MultilingualModule'' # app_parts,
      ngProviders = map class_provider [''AuthenticationGuard'', ''AuthenticationService''] @ BASE_SERVICE_PROVIDERS @
        map class_provider [''NodeSelectorService'', ''NotificationService''],
      ngBootstrap = []\<rparr>"

section \<open>The web module\<close>

text \<open>\<open>DEV_IMPORTS\<close>, which the module does not use.\<close>

definition DEV_IMPORTS :: "string \<Rightarrow> ng_import list" where
  "DEV_IMPORTS bt = (if bt = ''dev'' then [ImportModule ''StoreDevtoolsModule''] else [])"

definition log_target :: provider where
  "log_target = (provide ''LogTarget'' (UseFactory ''consoleLogTarget'') [''ConsoleService''])\<lparr>provMulti := True\<rparr>"

definition web_imports :: "ng_import list" where
  "web_imports =
     [ImportModule ''BrowserModule'', ImportModule ''BrowserAnimationsModule'', ImportModule ''FormsModule'',
      core_forRoot
        [provide ''WindowService'' (UseFactory ''win'') [], provide ''StorageService'' (UseFactory ''storage'') [],
         provide ''ConsoleService'' (UseFactory ''cons'') [], log_target],
      ImportRoutes ''RouterModule'' routes True, ImportModule ''AnalyticsModule'',
      multilingual_forRoot [translate_loader],
      ProvideStore ''AppReducer'', ImportModule ''StoreDevtoolsModule'', ImportModule ''InfiniteScrollModule'',
      ImportModule ''AppModule'', RunEffects ''MultilingualEffects'']"

definition web_declarations :: "string list" where
  "web_declarations =
     [''AppComponent'', ''StarCanvasComponent'', ''LoginComponent'', ''DashboardCardComponent'', ''DashboardGridComponent'',
      ''OperationTracingChartDetailComponent'', ''OperationTracingChartComponent'', ''OperationTracingClauseComponent'',
      ''OperationTracingComponent'', ''ProcessLogComponent'', ''QueryClauseNestedComponent'', ''QueryClauseComponent'',
      ''QueryNestedComponent'', ''QueryResultDetailComponent'', ''QuerySpecReferenceComponent'', ''QueryComponent'',
      ''ServiceCardComponent'', ''ServiceDetailComponent'', ''ServiceGridComponent'', ''ChildServiceDetailComponent'',
      ''MainComponent'']"

text \<open>The argument is what the build has put in place of the base of the application.\<close>

definition WebModule :: "string \<Rightarrow> ng_module" where
  "WebModule app_base =
     \<lparr>ngImports = web_imports, ngDeclarations = web_declarations, ngExports = [],
      ngProviders = [provide ''APP_BASE_HREF'' (UseText app_base) [],
        provide ''Languages'' (UseLanguages GET_SUPPORTED_LANGUAGES) []],
      ngBootstrap = [''AppComponent'']\<rparr>"

section \<open>The modules of the mobile application\<close>

definition ComponentsModule :: ng_module where
  "ComponentsModule =
     \<lparr>ngImports = [ImportModule ''AnalyticsModule'', ImportModule ''CoreModule'', multilingual_forRoot [translate_loader],
        ImportModule ''SampleModule'', ImportModule ''NativeScriptModule'', ImportModule ''NativeScriptFormsModule'',
        ImportModule ''NativeScriptHttpModule'', ImportModule ''NativeScriptRouterModule''],
      ngDeclarations = [''AppComponent'', ''HomeComponent'', ''AboutComponent''],
      ngExports = [''MultilingualModule'', ''AppComponent'', ''AnalyticsModule'', ''CoreModule'', ''SampleModule'',
        ''NativeScriptModule'', ''NativeScriptFormsModule'', ''NativeScriptHttpModule'', ''NativeScriptRouterModule''],
      ngProviders = [], ngBootstrap = []\<rparr>"

text \<open>The items of the bar of languages: title and code.\<close>

record segment_item =
  segTitle :: string
  segCode :: string

fun segmentViewHelper :: "(string \<times> string) list \<Rightarrow> segment_item list" where
  "segmentViewHelper [] = []"
| "segmentViewHelper ((code, title) # languages) = \<lparr>segTitle = title, segCode = code\<rparr> # segmentViewHelper languages"

definition native_config :: "Config \<Rightarrow> Config" where
  "native_config c = c\<lparr>PLATFORM_TARGET := ''mobile_native'', LEVEL_4 := True\<rparr>"

definition NS_ANALYTICS_PROVIDERS :: "provider list" where
  "NS_ANALYTICS_PROVIDERS =
     [class_provider ''Angulartics2'', provide ''Angulartics2Segment'' (UseClass ''NSAngulartics2Segment'') [],
      class_provider ''AnalyticsService'']"

definition NativeModule :: ng_module where
  "NativeModule =
     \<lparr>ngImports =
        [core_forRoot
           [provide ''WindowService'' (UseClass ''WindowNative'') [], provide ''StorageService'' (UseClass ''StorageNative'') [],
            provide ''ConsoleService'' (UseFactory ''cons'') [], log_target],
         ImportModule ''ComponentsModule'', ImportRoutes ''NativeScriptRouterModule'' routes False,
         ProvideStore ''AppReducer'', RunEffects ''MultilingualEffects'', RunEffects ''SampleEffects''],
      ngDeclarations = [], ngExports = [],
      ngProviders = NS_ANALYTICS_PROVIDERS @
        [provide ''RouterExtensions'' (UseClass ''TNSRouterExtensions'') [], provide ''AppService'' (UseClass ''NSAppService'') [],
         provide ''Languages'' (UseLanguages GET_SUPPORTED_LANGUAGES) [],
         provide ''LanguageViewHelper'' (UseFactory ''segmentViewHelper'') [''Languages'']],
      ngBootstrap = [''AppComponent'']\<rparr>"

text \<open>
  The hook of the bundled application for the modules that the platform asks for by file name; for any
  other name it returns nothing.
\<close>

definition requireOverride :: "string \<Rightarrow> string option" where
  "requireOverride name =
     (if name = ''./tns_modules/application/application.js'' then Some ''application''
      else if name = ''./tns_modules/ui/frame/frame.js'' then Some ''ui/frame''
      else if name = ''./tns_modules/ui/frame/activity.js'' then Some ''ui/frame/activity''
      else None)"

text \<open>The modules that are loaded before the rest of the application, and the hook, which only a bundle sets.\<close>

definition vendor_platform :: "bool \<Rightarrow> string list \<times> (string \<Rightarrow> string option) option" where
  "vendor_platform tns_webpack =
     ([''application'', ''ui/frame'', ''ui/frame/activity''], if tns_webpack then Some requireOverride else None)"

section \<open>The reducer of the store\<close>

definition reducers :: "(string \<times> (string \<Rightarrow> lang_action \<Rightarrow> string)) list" where
  "reducers = [(''i18n'', reducer)]"

definition AppReducer ::
  "(('s \<Rightarrow> lang_action \<Rightarrow> 's) \<Rightarrow> 's \<Rightarrow> lang_action \<Rightarrow> 's) \<Rightarrow>
   ((string \<times> (string \<Rightarrow> lang_action \<Rightarrow> string)) list \<Rightarrow> 's \<Rightarrow> lang_action \<Rightarrow> 's) \<Rightarrow> string \<Rightarrow> 's \<Rightarrow> lang_action \<Rightarrow> 's" where
  "AppReducer storeFreeze combineReducers bt state action =
     (if bt = ''dev'' then storeFreeze (combineReducers reducers) state action
      else combineReducers reducers state action)"

section \<open>Lemmas\<close>

text \<open>No component is declared by two modules, which Angular refuses, and what a route shows is declared.\<close>

lemma declared_once:
  "distinct (ngDeclarations (WebModule b) @ ngDeclarations AppModule @ ngDeclarations CoreModule @ ngDeclarations SharedModule)"
  by (simp add: WebModule_def web_declarations_def AppModule_def app_parts_def CoreModule_def CORE_DIRECTIVES_def
      SharedModule_def SHARED_COMPONENTS_def)

lemma routed_declared: "(a, v, g) \<in> set app_views \<Longrightarrow> v \<in> set (ngDeclarations (WebModule b))"
  by (auto simp: app_views_def routes_def MainRoutes_def LoginRoutes_def plain_route_def redirect_route_def Let_def
      WebModule_def web_declarations_def)

text \<open>None of them is declared by the mobile application, which is given the same routes.\<close>

lemma native_routes_undeclared:
  "(a, v, g) \<in> set app_views \<Longrightarrow> v \<notin> set (ngDeclarations NativeModule @ ngDeclarations ComponentsModule)"
  by (auto simp: app_views_def routes_def MainRoutes_def LoginRoutes_def plain_route_def redirect_route_def Let_def
      NativeModule_def ComponentsModule_def)

lemma loaded_twice:
  "new_AppModule (Some m) \<noteq> Inr ()" "new_CoreModule (Some m) \<noteq> Inr ()" "new_MultilingualModule (Some m) \<noteq> Inr ()"
  by (simp_all add: new_AppModule_def new_CoreModule_def new_MultilingualModule_def)

text \<open>
  With an injector that takes the last provider of a root module for a token when it has one, both
  applications know the supported languages, not the empty list of the language module.
\<close>

lemma languages_known:
  assumes "\<And>m t p. find (\<lambda>p. provToken p = t) (rev (ngProviders m)) = Some p \<Longrightarrow> inject m t = Some (provUse p)"
  shows "inject (WebModule b) ''Languages'' = Some (UseLanguages GET_SUPPORTED_LANGUAGES)"
    and "inject NativeModule ''Languages'' = Some (UseLanguages GET_SUPPORTED_LANGUAGES)"
  by (rule trans [OF assms], simp add: WebModule_def NativeModule_def provide_def NS_ANALYTICS_PROVIDERS_def class_provider_def, simp)+

lemma segment_items: "map (\<lambda>i. (segCode i, segTitle i)) (segmentViewHelper languages) = languages"
  by (induction languages rule: segmentViewHelper.induct) auto

lemma loader_prefix:
  "translateLoaderFactory (web_config bt d c) = (''assets/i18n/'', ''.json'')"
  "translateLoaderFactory (native_config c) = (''/assets/i18n/'', ''.json'')"
  by (simp_all add: translateLoaderFactory_def web_config_def native_config_def IS_MOBILE_NATIVE_def Let_def)

lemma override_loaded: "vendor_platform w = (ms, Some f) \<Longrightarrow> f name = Some m \<Longrightarrow> m \<in> set ms"
  by (auto simp: vendor_platform_def requireOverride_def split: if_splits)

text \<open>
  With reducers combined member by member, and a freezing that only raises errors for reducers that
  change their argument, every build runs the same reducer of the language.
\<close>

lemma app_reducer:
  assumes "\<And>rs s a k r. map_of rs k = Some r \<Longrightarrow> select k (combine rs s a) = r (select k s) a"
    and "\<And>r. freeze r = r"
  shows "select ''i18n'' (AppReducer freeze combine bt s a) = reducer (select ''i18n'' s) a"
  using assms(1) [of reducers "''i18n''" reducer] by (simp add: AppReducer_def assms(2) reducers_def)

end
