(* ===== verification/MobileApp.thy ===== *)
theory MobileApp
  imports CoreServices JsRegex
begin

text \<open>
  The mobile application under \<open>xenon-ui/src/main/ui/nativescript\<close>: the service that listens to the
  events of the application (\<open>ns-app.service.ts\<close>), the helper for the action bar
  (\<open>actionbar.util.ts\<close>), the window (\<open>window-native.service.ts\<close>) and the configuration of webpack.
  NativeScript is seen through the calls that are made of it.
\<close>

section \<open>The platform\<close>

text \<open>
  What the code reads of NativeScript. \<open>topmost\<close> is \<^term>\<open>None\<close> when there is no frame yet, else
  whether the frame is one of iOS; the two activities of Android may be missing.
\<close>

record native =
  isIOS :: bool
  isAndroid :: bool
  topmost_ios :: "bool option"
  has_android_app :: bool
  sdkVersion :: string
  has_foregroundActivity :: bool
  has_startActivity :: bool
  device_language :: string

text \<open>The comparison \<open>a <= b\<close> of two texts by their code units.\<close>

fun text_le :: "string \<Rightarrow> string \<Rightarrow> bool" where
  "text_le [] t = True"
| "text_le (c # s) [] = False"
| "text_le (c # s) (d # t) =
     ((of_char c :: nat) < of_char d \<or> c = d \<and> text_le s t)"

section \<open>The action bar\<close>

datatype bar_style = StyleNumber nat | StyleText string

datatype activity = ForegroundActivity | StartActivity

datatype native_call =
    SetBarStyle bar_style
  | AddSystemBarFlags activity
  | SetStatusBarColor activity bar_style
  | LoggedError

text \<open>\<open>style || '#3280CF'\<close>\<close>

definition style_color :: "bar_style \<Rightarrow> bar_style" where
  "style_color style = (if style = StyleText [] \<or> style = StyleNumber 0 then StyleText ''#3280CF'' else style)"

definition STATUSBAR_STYLE :: "native \<Rightarrow> bar_style \<Rightarrow> native_call list result" where
  "STATUSBAR_STYLE n style =
     (case topmost_ios n of
        None \<Rightarrow> Inl TypeError
      | Some True \<Rightarrow> Inr [SetBarStyle style]
      | Some False \<Rightarrow>
          Inr (if isAndroid n \<and> has_android_app n \<and> text_le ''21'' (sdkVersion n) then
                 (if has_foregroundActivity n
                  then [AddSystemBarFlags ForegroundActivity, SetStatusBarColor ForegroundActivity (style_color style)]
                  else if has_startActivity n
                  then [AddSystemBarFlags StartActivity, SetStatusBarColor StartActivity (style_color style)]
                  else [LoggedError])
               else []))"

text \<open>
  The title and the buttons of the bar of the current page; \<^term>\<open>None\<close> when there is no page, where
  reading its bar raises a TypeError. \<open>getItems\<close> and \<open>removeItem\<close> are those of NativeScript.
\<close>

record 'i action_bar =
  bar_title :: string
  actionItems :: "'i list"

definition SET_TITLE :: "string \<Rightarrow> 'i action_bar option \<Rightarrow> 'i action_bar option result" where
  "SET_TITLE title bar = (case bar of None \<Rightarrow> Inl TypeError | Some b \<Rightarrow> Inr (Some (b\<lparr>bar_title := title\<rparr>)))"

definition ADD_BUTTON :: "'i \<Rightarrow> 'i action_bar option \<Rightarrow> 'i action_bar option result" where
  "ADD_BUTTON button bar =
     (case bar of None \<Rightarrow> Inl TypeError | Some b \<Rightarrow> Inr (Some (b\<lparr>actionItems := actionItems b @ [button]\<rparr>)))"

definition EMPTY_ITEMS ::
  "('i list \<Rightarrow> 'i list) \<Rightarrow> ('i \<Rightarrow> 'i list \<Rightarrow> 'i list) \<Rightarrow> 'i action_bar option \<Rightarrow> 'i action_bar option result" where
  "EMPTY_ITEMS getItems removeAction bar =
     (case bar of
        None \<Rightarrow> Inl TypeError
      | Some b \<Rightarrow> Inr (Some (b\<lparr>actionItems := fold removeAction (getItems (actionItems b)) (actionItems b)\<rparr>)))"

text \<open>Whether the back button of the visible controller is hidden.\<close>

definition HIDE_BACK_BUTTON :: "native \<Rightarrow> bool result" where
  "HIDE_BACK_BUTTON n = (case topmost_ios n of None \<Rightarrow> Inl TypeError | Some ios \<Rightarrow> Inr ios)"

section \<open>The window\<close>

definition native_navigator :: "native \<Rightarrow> (string \<times> string) list" where
  "native_navigator n = [(''language'', device_language n), (''userAgent'', ''nativescript'')]"

definition native_location :: "(string \<times> string) list" where
  "native_location = [(''host'', ''nativescript'')]"

section \<open>The service of the application\<close>

datatype ns_name = LaunchName | SuspendName | ResumeName | LowMemoryName | ExitName | UncaughtErrorName

datatype android_name = ActivityBackPressedEvent | ActivityResumedEvent

datatype ns_call = On ns_name | Off ns_name | AndroidOn android_name

record ns_app =
  ns_calls :: "ns_call list"
  ns_console :: "console_call list"
  ns_lines :: "string list"
  ns_bar :: "native_call list"
  ns_i18n :: i18n

definition ns_log_info :: "Config \<Rightarrow> LogLevel list \<Rightarrow> string \<Rightarrow> ns_app \<Rightarrow> ns_app" where
  "ns_log_info c targets line s = s\<lparr>ns_console := ns_console s @ log_info c targets [JStr line]\<rparr>"

definition unsubscribeAll :: "ns_app \<Rightarrow> ns_app" where
  "unsubscribeAll s =
     s\<lparr>ns_calls := ns_calls s @
       map Off [LaunchName, SuspendName, ResumeName, LowMemoryName, ExitName, UncaughtErrorName]\<rparr>"

definition setupAndroid :: "native \<Rightarrow> ns_app \<Rightarrow> ns_app" where
  "setupAndroid n s =
     (if \<not> isAndroid n then s
      else s\<lparr>ns_calls := ns_calls s @
        [AndroidOn ActivityBackPressedEvent, AndroidOn ActivityResumedEvent, On UncaughtErrorName]\<rparr>)"

definition setupIOS :: "native \<Rightarrow> ns_app \<Rightarrow> ns_app" where
  "setupIOS n s = (if \<not> isIOS n then s else s\<lparr>ns_calls := ns_calls s @ [On UncaughtErrorName]\<rparr>)"

text \<open>
  The constructor, after the one of \<open>AppService\<close>. The language is the first two characters of the one
  of the device; a failing status bar ends the constructor.
\<close>

definition new_NSAppService ::
  "Config \<Rightarrow> LogLevel list \<Rightarrow> (string \<times> string) list \<Rightarrow> native \<Rightarrow> i18n \<Rightarrow> ns_app \<times> jserror option" where
  "new_NSAppService c targets languages n i =
     (let s = \<lparr>ns_calls = [], ns_console = log_debug c targets [JStr ''NSAppService constructor''], ns_lines = [],
               ns_bar = [], ns_i18n = dispatch languages (ChangeAction (take 2 (device_language n))) i\<rparr> in
      case STATUSBAR_STYLE n (if isIOS n then StyleNumber 1 else StyleText ''#3280CF'') of
        Inl e \<Rightarrow> (s, Some e)
      | Inr calls \<Rightarrow>
          (let s = s\<lparr>ns_bar := calls,
                     ns_calls := map On [LaunchName, SuspendName, ResumeName, LowMemoryName, ExitName]\<rparr>
           in (setupIOS n (setupAndroid n s), None)))"

text \<open>
  The handlers of the events. An uncaught error comes with the platform whose handler was registered.
  It is described by a list of its fields; a field that is empty, false or missing (\<^term>\<open>None\<close>) is
  not printed.
\<close>

record native_error =
  err_message :: "string option"
  err_stackTrace :: "string option"
  err_nativeException :: "string option"

datatype ns_event =
    LaunchEvent | SuspendEvent | ResumeEvent | LowMemoryEvent | ExitEvent | UncaughtErrorEvent native_error string

definition error_description :: "native_error \<Rightarrow> string \<Rightarrow> (string \<times> string option) list" where
  "error_description err platform =
     [(''message'', err_message err),
      (''android'', if platform = ''android'' then Some ''true'' else None),
      (''ios'', if platform = ''ios'' then Some ''true'' else None),
      (''stackTrace'', err_stackTrace err),
      (''nativeException'', err_nativeException err)]"

definition error_line :: "string \<Rightarrow> string \<Rightarrow> string" where
  "error_line key t =
     (let gap = replicate 3 (CHR 0x0A) in
      ''**** START - errorDescription.'' @ key @ '' - ****'' @ gap @ t @ gap @ ''*** END - '' @ key @ '' - ****'')"

definition handleUncaughtError :: "Config \<Rightarrow> LogLevel list \<Rightarrow> native_error \<Rightarrow> string \<Rightarrow> ns_app \<Rightarrow> ns_app" where
  "handleUncaughtError c targets err platform s =
     (let s = ns_log_info c targets (''TNS Application - Uncaught Error: '' @ show_opt (\<lambda>t. t) (err_message err)) s in
      s\<lparr>ns_lines := ns_lines s @
        List.map_filter (\<lambda>(key, v). case v of None \<Rightarrow> None | Some t \<Rightarrow> if t = [] then None else Some (error_line key t))
          (error_description err platform)\<rparr>)"

definition ns_on_event :: "Config \<Rightarrow> LogLevel list \<Rightarrow> ns_event \<Rightarrow> ns_app \<Rightarrow> ns_app" where
  "ns_on_event c targets e s =
     (case e of
        LaunchEvent \<Rightarrow> ns_log_info c targets ''TNS Application - Launched!'' s
      | SuspendEvent \<Rightarrow> ns_log_info c targets ''TNS Application - Suspended'' s
      | ResumeEvent \<Rightarrow> ns_log_info c targets ''TNS Application - Resumed'' s
      | LowMemoryEvent \<Rightarrow>
          s\<lparr>ns_console := ns_console s @ log_warn c targets [JStr ''TNS Application - !!! LOW MEMORY !!!'']\<rparr>
      | ExitEvent \<Rightarrow> unsubscribeAll (ns_log_info c targets ''TNS Application - EXIT'' s)
      | UncaughtErrorEvent err platform \<Rightarrow> handleUncaughtError c targets err platform s)"

text \<open>The two events of Android: a press of the back button with the states of the location, and an intent.\<close>

definition on_back_pressed :: "Config \<Rightarrow> LogLevel list \<Rightarrow> string \<Rightarrow> string \<Rightarrow> json \<Rightarrow> ns_app \<Rightarrow> ns_app" where
  "on_back_pressed c targets eventName act states s =
     (let nl = [CHR 0x0A] in
      ns_log_info c targets (''Event: '' @ eventName @ nl @ ''Activity: '' @ act @ nl @ ''states: '' @ JSON_stringify states) s)"

definition on_activity_resumed :: "bool \<Rightarrow> string \<Rightarrow> ns_app \<Rightarrow> ns_app" where
  "on_activity_resumed is_view intentData s =
     (if is_view then s\<lparr>ns_lines := ns_lines s @ [''Android received VIEW intent, with data: '' @ intentData]\<rparr> else s)"

section \<open>The configuration of webpack\<close>

text \<open>
  The flags of the command line, and the platform they choose. Without a flag the platform is not an
  error: it is the function that would raise one, and in a text the source of the function.
\<close>

record webpack_env =
  env_android :: bool
  env_ios :: bool
  env_uglify :: bool

datatype webpack_platform = PlatformName string | PlatformFunction

definition getPlatform :: "webpack_env \<Rightarrow> webpack_platform" where
  "getPlatform env =
     (if env_android env then PlatformName ''android''
      else if env_ios env then PlatformName ''ios''
      else PlatformFunction)"

definition platform_text :: "webpack_platform \<Rightarrow> string" where
  "platform_text p =
     (case p of
        PlatformName t \<Rightarrow> t
      | PlatformFunction \<Rightarrow> ''() => { throw new Error('' @ [CHR 0x22] @ ''You need to provide a target platform!'' @ [CHR 0x22] @ '') }'')"

definition mainSheet :: "webpack_platform \<Rightarrow> string" where
  "mainSheet p = ''app.'' @ platform_text p @ ''.css''"

definition getExtensions :: "webpack_platform \<Rightarrow> string list" where
  "getExtensions p =
     (let t = platform_text p in
      [''.'' @ t @ ''.ts'', ''.'' @ t @ ''.js'', ''.aot.ts'', ''.ts'', ''.js'', ''.css'', ''.'' @ t @ ''.css''])"

text \<open>
  The rules: the pattern of a path, the pattern that excludes one, and the loaders. The name of the main
  sheet is taken as a pattern, in which a dot stands for any character; this is the pattern for
  the names without other special characters.
\<close>

record webpack_rule =
  rule_test :: regex
  rule_exclude :: "regex option"
  rule_loaders :: "string list"

definition name_pattern :: "string \<Rightarrow> regex" where
  "name_pattern name = rx_seq (map (\<lambda>c. if c = CHR ''.'' then RxClass dot_char else rx_chr c) name)"

definition extension_pattern :: "string \<Rightarrow> regex" where
  "extension_pattern e = RxSeq (rx_lit e) RxEnd"

definition getRules :: "string \<Rightarrow> webpack_rule list" where
  "getRules sheet =
     [\<lparr>rule_test = RxAlt (extension_pattern ''.html'') (extension_pattern ''.xml''), rule_exclude = None,
       rule_loaders = [''raw-loader'']\<rparr>,
      \<lparr>rule_test = name_pattern sheet, rule_exclude = None,
       rule_loaders = [''extract-text'', ''resolve-url-loader'', ''nativescript-css-loader'', ''nativescript-dev-webpack/platform-css-loader'']\<rparr>,
      \<lparr>rule_test = extension_pattern ''.css'', rule_exclude = Some (name_pattern sheet), rule_loaders = [''raw-loader'']\<rparr>,
      \<lparr>rule_test = extension_pattern ''.scss'', rule_exclude = None,
       rule_loaders = [''raw-loader'', ''resolve-url-loader'', ''sass-loader'']\<rparr>,
      \<lparr>rule_test = extension_pattern ''.ts'', rule_exclude = None,
       rule_loaders = [''nativescript-dev-webpack/tns-aot-loader'', ''@ngtools/webpack'']\<rparr>]"

definition rule_applies :: "webpack_rule \<Rightarrow> string \<Rightarrow> bool" where
  "rule_applies r file \<longleftrightarrow>
     rx_test (rule_test r) file \<and> (case rule_exclude r of None \<Rightarrow> True | Some x \<Rightarrow> \<not> rx_test x file)"

datatype webpack_plugin =
    ExtractText string
  | CommonsChunk string
  | DefineConstant string string
  | CopyFiles "string list" "string list"
  | BundleStarter "string list"
  | AotCompiler string string
  | UrlResolve string
  | MinimizeOption
  | UglifyJs bool

definition getPlugins :: "string \<Rightarrow> webpack_platform \<Rightarrow> webpack_env \<Rightarrow> webpack_plugin list" where
  "getPlugins dir p env =
     [ExtractText (mainSheet p), CommonsChunk ''vendor'', DefineConstant ''global.TNS_WEBPACK'' ''true'',
      CopyFiles [mainSheet p, ''css/**'', ''fonts/**'', ''**/*.jpg'', ''**/*.png'', ''**/*.xml'', ''assets''] [''App_Resources/**''],
      BundleStarter [''./vendor'', ''./bundle''],
      AotCompiler ''tsconfig.aot.json'' (dir @ ''/app/native.module#NativeModule''),
      UrlResolve (platform_text p)] @
     (if env_uglify env then [MinimizeOption, UglifyJs (p \<noteq> PlatformName ''android'')] else [])"

text \<open>The entries of the bundle, with the entry module of the package.\<close>

definition webpack_entry :: "string \<Rightarrow> webpack_platform \<Rightarrow> (string \<times> string) list" where
  "webpack_entry entryModule p =
     [(''bundle'', ''./'' @ entryModule), (''vendor'', ''./vendor''), (mainSheet p, ''./'' @ mainSheet p)]"

section \<open>Properties\<close>

text \<open>
  Which handlers are registered after a list of calls, as NativeScript documents it: \<open>off\<close> with the name
  of an event removes all its handlers.
\<close>

definition listens_to :: "ns_call list \<Rightarrow> ns_name \<Rightarrow> bool" where
  "listens_to calls e \<longleftrightarrow>
     fold (\<lambda>call b. if call = On e then True else if call = Off e then False else b) calls False"

text \<open>
  The service that was started listens to every event of the application, once its status bar is
  set; when the application exits it listens to none of them, but on Android the two handlers of the
  activity stay.
\<close>

lemma exit_unsubscribes:
  assumes "new_NSAppService c targets languages n i = (s, None)" "isAndroid n \<or> isIOS n"
  shows "listens_to (ns_calls s) e \<and> \<not> listens_to (ns_calls (ns_on_event c targets ExitEvent s)) e \<and>
    (isAndroid n \<longrightarrow> AndroidOn ActivityBackPressedEvent \<in> set (ns_calls (ns_on_event c targets ExitEvent s)))"
  using assms
  by (cases e) (auto simp: new_NSAppService_def Let_def listens_to_def ns_on_event_def unsubscribeAll_def ns_log_info_def
      setupAndroid_def setupIOS_def split: sum.splits if_splits)

text \<open>Whatever the language of the device, the page of the mobile application is in a supported one.\<close>

lemma mobile_language:
  "lang_ok languages i \<Longrightarrow> lang_ok languages (ns_i18n (fst (new_NSAppService c targets languages n i)))"
  by (auto simp: new_NSAppService_def Let_def setupAndroid_def setupIOS_def lang_ok_dispatch split: sum.splits)

text \<open>
  The version of Android is compared as a text: the versions 3 to 9 count as at least 21, and
  the version 100 does not.
\<close>

lemma version_compared_as_text:
  "text_le ''21'' ''9'' \<and> \<not> text_le ''21'' ''100''"
  by code_simp

text \<open>An uncaught error on either platform prints the message and which platform it was on.\<close>

lemma error_printed:
  assumes "err_message err = Some m" "m \<noteq> []" "platform = ''android'' \<or> platform = ''ios''"
  shows "\<exists>ls. ns_lines (handleUncaughtError c targets err platform s) =
    ns_lines s @ [error_line ''message'' m, error_line platform ''true''] @ ls"
  using assms by (auto simp: handleUncaughtError_def ns_log_info_def error_description_def List.map_filter_simps Let_def split: option.splits)

text \<open>
  A style sheet goes through exactly one of the two rules for style sheets, whatever the name of the
  main one: the exclusion of one is the pattern of the other.
\<close>

lemma one_sheet_rule:
  assumes "rx_test (extension_pattern ''.css'') file"
  shows "rule_applies (getRules sheet ! 1) file \<longleftrightarrow> \<not> rule_applies (getRules sheet ! 2) file"
  using assms by (simp add: rule_applies_def getRules_def)

text \<open>Without a platform the configuration is made nonetheless, for a sheet that cannot exist.\<close>

lemma platform_not_checked:
  "\<not> env_android env \<Longrightarrow> \<not> env_ios env \<Longrightarrow>
     mainSheet (getPlatform env) =
       ''app.() => { throw new Error('' @ [CHR 0x22] @ ''You need to provide a target platform!'' @ [CHR 0x22] @ '') }.css''"
  by (simp add: getPlatform_def mainSheet_def platform_text_def)

end
