(* ===== verification/TnsLoader.thy ===== *)
theory TnsLoader
  imports StringUtil Json
begin

text \<open>
  \<open>xenon-ui/src/main/ui/nativescript/tools/webpack/tns-loader.js\<close>: the loader that rewrites the sources
  of the components for the mobile application. Files with a version for the mobile application are
  replaced by it; in a component the addresses of the template and of the style sheets become calls
  of \<open>require\<close>, and the module id is put into a comment. The file system is a parameter, and so is
  \<open>tpl\<close>, the template function of lodash, with the data of the options of the loader.
\<close>

section \<open>Patterns\<close>

definition htmlCssRegexp :: regex where
  "htmlCssRegexp = RxSeq (rx_lit ''.component.'') (RxGroup 1 (RxAlt (rx_lit ''html'') (rx_lit ''css'')))"

definition componentRegexp :: regex where
  "componentRegexp = RxSeq (rx_lit ''.component.'') (RxGroup 1 (RxAlt (rx_lit ''ts'') (rx_lit ''js'')))"

definition ng2TemplateUrlRegex :: regex where
  "ng2TemplateUrlRegex =
     rx_seq [rx_lit ''templateUrl'', RxStar (rx_chr (CHR '' '')), rx_lit '':'', RxGroup 1 (RxStar (RxClass dot_char)), RxEol]"

definition ng2StyleUrlsRegex :: regex where
  "ng2StyleUrlsRegex =
     rx_seq [rx_lit ''styleUrls'', RxStar (rx_chr (CHR '' '')), rx_lit '':'',
       RxGroup 1 (rx_seq [RxStar (RxClass is_space), rx_lit ''['', RxLazy (RxClass (\<lambda>c. c \<noteq> CHR '']'')), rx_lit '']''])]"

definition quote_char :: "char \<Rightarrow> bool" where
  "quote_char c \<longleftrightarrow> c = CHR 0x27 \<or> c = CHR 0x22"

text \<open>The inside of a quoted text: an escaped quote with the character before it, or any character of the line.\<close>

definition quoted_char_rx :: regex where
  "quoted_char_rx =
     RxAlt (rx_seq [RxClass (\<lambda>c. c \<noteq> CHR 0x5C), rx_chr (CHR 0x5C), RxBack 1]) (RxClass dot_char)"

definition ng2StringReplaceRegexp :: regex where
  "ng2StringReplaceRegexp =
     rx_seq [RxGroup 1 (RxClass quote_char), RxGroup 2 (RxLazy quoted_char_rx), RxBack 1]"

definition ng2ModuleIdRegexp :: regex where
  "ng2ModuleIdRegexp =
     RxSeq (RxGroup 1 (rx_seq [rx_lit ''moduleId'', RxStar (rx_chr (CHR '' '')), rx_lit '':'', RxStar (rx_chr (CHR '' '')),
       rx_lit ''module.id,''])) RxEol"

section \<open>The loader\<close>

text \<open>The text of a group that takes part in every match.\<close>

definition cap :: "nat \<Rightarrow> captures \<Rightarrow> string" where
  "cap n g = (case map_of g n of None \<Rightarrow> [] | Some t \<Rightarrow> t)"

definition tns_path :: "string \<Rightarrow> string" where
  "tns_path p = rx_replace_first htmlCssRegexp (\<lambda>m g. ''.component.tns.'' @ cap 1 g) p"

definition require_text :: "(string \<Rightarrow> bool) \<Rightarrow> string \<Rightarrow> string" where
  "require_text existsSync url =
     (let url = (if take 1 url \<noteq> ''.'' then ''./'' @ url else url);
          tnsPath = tns_path url;
          file = (if existsSync tnsPath then tnsPath else url)
      in ''require('' @ [CHR 0x27] @ file @ [CHR 0x27] @ '')'')"

definition replaceStringsWithRequires :: "(string \<Rightarrow> bool) \<Rightarrow> string \<Rightarrow> string" where
  "replaceStringsWithRequires existsSync t =
     rx_replace_groups ng2StringReplaceRegexp (\<lambda>m g. require_text existsSync (cap 2 g)) t"

definition rewrite_component :: "(string \<Rightarrow> bool) \<Rightarrow> string \<Rightarrow> string" where
  "rewrite_component existsSync source =
     (let t1 = rx_replace_groups ng2TemplateUrlRegex
                 (\<lambda>m g. ''template:'' @ replaceStringsWithRequires existsSync (cap 1 g)) source;
          t2 = rx_replace_groups ng2StyleUrlsRegex
                 (\<lambda>m g. ''styles:'' @ replaceStringsWithRequires existsSync (cap 1 g)) t1
      in rx_replace_groups ng2ModuleIdRegexp (\<lambda>m g. ''/* '' @ cap 1 g @ '' */'') t2)"

text \<open>
  The options of the loader are \<^term>\<open>None\<close> when there are none, and reading their data raises a
  TypeError.
\<close>

definition injectTemplateVariables :: "(string \<Rightarrow> 'd \<Rightarrow> string result) \<Rightarrow> 'd option \<Rightarrow> string \<Rightarrow> string result" where
  "injectTemplateVariables tpl query source =
     (case query of None \<Rightarrow> Inl TypeError | Some d \<Rightarrow> tpl source d)"

definition tnsLoader ::
  "(string \<Rightarrow> bool) \<Rightarrow> (string \<Rightarrow> string result) \<Rightarrow> (string \<Rightarrow> 'd \<Rightarrow> string result) \<Rightarrow> 'd option \<Rightarrow> string \<Rightarrow> string \<Rightarrow> string result" where
  "tnsLoader existsSync readFileSync tpl query resourcePath source =
     (if rx_test htmlCssRegexp resourcePath then
        (let tnsPath = tns_path resourcePath in
         if existsSync tnsPath then
           (case readFileSync tnsPath of
              Inl e \<Rightarrow> Inl e
            | Inr tnsSource \<Rightarrow> injectTemplateVariables tpl query (''module.exports = '' @ JSON_stringify (JStr tnsSource)))
         else injectTemplateVariables tpl query source)
      else if rx_test componentRegexp resourcePath then
        injectTemplateVariables tpl query (rewrite_component existsSync source)
      else injectTemplateVariables tpl query source)"

section \<open>Properties\<close>

text \<open>
  A quoted text without its quote, a backslash or the end of a line inside is matched up to the
  closing quote, not further: the lazy repetition stops at the first one.
\<close>

definition plain_quoted :: "char \<Rightarrow> string \<Rightarrow> bool" where
  "plain_quoted q url \<longleftrightarrow> (\<forall>c \<in> set url. c \<noteq> q \<and> c \<noteq> CHR 0x5C \<and> dot_char c)"

lemma quoted_char_step:
  assumes "x \<noteq> q" "dot_char x" "map_of g 1 = Some [q]" "t = [] \<or> hd t \<noteq> CHR 0x5C"
  shows "rx quoted_char_rx (i, x # t, g) = [(Suc i, t, g)]"
  using assms by (cases t) (auto simp: quoted_char_rx_def)

lemma lazy_stops:
  assumes "plain_quoted q url" "length (url @ q # rest) \<le> n" "map_of g 1 = Some [q]" "q \<noteq> CHR 0x5C"
  shows "\<exists>cs. concat (map (\<lambda>(j, s', g'). rx (RxBack 1) (j, s', (2, f j) # g')) (rx_lazy n (rx quoted_char_rx) (i, url @ q # rest, g))) =
    (Suc (i + length url), rest, (2, f (i + length url)) # g) # cs"
  using assms(1,2)
proof (induction url arbitrary: i n)
  case Nil
  then obtain m where "n = Suc m" by (cases n) auto
  then show ?case using assms(3) by auto
next
  case (Cons x url)
  then obtain m where m: "n = Suc m" by (cases n) auto
  have x: "x \<noteq> q" "dot_char x" and url: "plain_quoted q url" using Cons.prems(1) by (auto simp: plain_quoted_def)
  have "url @ q # rest = [] \<or> hd (url @ q # rest) \<noteq> CHR 0x5C"
    using Cons.prems(1) assms(4) by (cases url) (auto simp: plain_quoted_def)
  from quoted_char_step [OF x assms(3) this] have step: "rx quoted_char_rx (i, x # url @ q # rest, g) = [(Suc i, url @ q # rest, g)]" .
  obtain cs where "concat (map (\<lambda>(j, s', g'). rx (RxBack 1) (j, s', (2, f j) # g')) (rx_lazy m (rx quoted_char_rx) (Suc i, url @ q # rest, g))) =
    (Suc (Suc i + length url), rest, (2, f (Suc i + length url)) # g) # cs"
    using Cons.IH [OF url, of m "Suc i"] Cons.prems(2) m by auto
  then show ?case using x(1) assms(3) by (simp add: m step)
qed

lemma quoted_match:
  assumes "plain_quoted q url" "quote_char q"
  shows "\<exists>cs. rx ng2StringReplaceRegexp (i, q # url @ q # rest, []) =
    (i + length url + 2, rest, [(2, url), (1, [q])]) # cs"
proof -
  have "q \<noteq> CHR 0x5C" using assms(2) by (auto simp: quote_char_def)
  from lazy_stops [OF assms(1) order_refl _ this, where g = "[(1, [q])]" and rest = rest
      and f = "\<lambda>j. take (j - Suc i) (url @ q # rest)" and i = "Suc i"]
  show ?thesis using assms(2)
    by (simp add: ng2StringReplaceRegexp_def comp_def case_prod_beta' del: rx_lazy.simps)
qed

lemma unquoted_skipped:
  "\<not> quote_char c \<Longrightarrow> rx ng2StringReplaceRegexp (i, c # t, []) = []"
  by (simp add: ng2StringReplaceRegexp_def)

lemma replace_skips:
  "\<forall>c \<in> set sep. \<not> quote_char c \<Longrightarrow>
     rx_replace_from ng2StringReplaceRegexp f i (sep @ t) = sep @ rx_replace_from ng2StringReplaceRegexp f (i + length sep) t"
proof (induction sep arbitrary: i)
  case (Cons c sep)
  then show ?case
    by (subst rx_replace_from.simps) (simp add: unquoted_skipped)
qed simp

lemma replace_quoted:
  assumes "plain_quoted q url" "quote_char q"
  shows "rx_replace_from ng2StringReplaceRegexp f i (q # url @ q # rest) =
    f (q # url @ [q]) [(2, url), (1, [q])] @ rx_replace_from ng2StringReplaceRegexp f (i + length url + 2) rest"
proof -
  obtain cs where "rx ng2StringReplaceRegexp (i, q # url @ q # rest, []) = (i + length url + 2, rest, [(2, url), (1, [q])]) # cs"
    using quoted_match [OF assms] by blast
  then show ?thesis by (subst rx_replace_from.simps) simp
qed

lemma replace_tail: "\<forall>c \<in> set t. \<not> quote_char c \<Longrightarrow> rx_replace_from ng2StringReplaceRegexp f i t = t"
proof -
  assume "\<forall>c \<in> set t. \<not> quote_char c"
  from replace_skips [OF this, of f i "[]"] show ?thesis
    by (simp add: rx_replace_from.simps [of _ _ _ "[]"] ng2StringReplaceRegexp_def)
qed

text \<open>
  Each quoted address of a list becomes a call of \<open>require\<close> for it, or for the file of the mobile
  application when there is one; what is between them stays, and their order too.
\<close>

lemma requires_replaced:
  assumes "list_all (\<lambda>(sep, q, url). (\<forall>c \<in> set sep. \<not> quote_char c) \<and> quote_char q \<and> plain_quoted q url) items"
    and "\<forall>c \<in> set tail. \<not> quote_char c"
  shows "replaceStringsWithRequires existsSync (concat (map (\<lambda>(sep, q, url). sep @ q # url @ [q]) items) @ tail) =
    concat (map (\<lambda>(sep, q, url). sep @ require_text existsSync url) items) @ tail"
proof -
  let ?f = "\<lambda>m g. require_text existsSync (cap 2 g)"
  have "rx_replace_from ng2StringReplaceRegexp ?f i (concat (map (\<lambda>(sep, q, url). sep @ q # url @ [q]) items) @ tail) =
      concat (map (\<lambda>(sep, q, url). sep @ require_text existsSync url) items) @ tail" for i
    using assms(1)
  proof (induction items arbitrary: i)
    case Nil
    show ?case using replace_tail [OF assms(2)] by simp
  next
    case (Cons x items)
    obtain sep q url where x: "x = (sep, q, url)" by (cases x)
    then have "\<forall>c \<in> set sep. \<not> quote_char c" "quote_char q" "plain_quoted q url" using Cons.prems by auto
    then show ?case using Cons by (simp add: x replace_skips replace_quoted cap_def)
  qed
  then show ?thesis by (simp add: replaceStringsWithRequires_def rx_replace_groups_def)
qed

text \<open>A component of the web application as the loader leaves it, when the style sheet has a mobile version.\<close>

definition sample_component :: string where
  "sample_component =
     ''@Component({'' @ [CHR 0x0A] @
     ''    moduleId: module.id,'' @ [CHR 0x0A] @
     ''    templateUrl: '' @ [CHR 0x27] @ ''a.component.html'' @ [CHR 0x27] @ '','' @ [CHR 0x0A] @
     ''    styleUrls: ['' @ [CHR 0x27] @ ''./a.component.css'' @ [CHR 0x27] @ '']'' @ [CHR 0x0A] @ ''})''"

lemma sample_rewritten:
  "tnsLoader (\<lambda>p. p = ''./a.component.tns.css'') (\<lambda>p. Inl TypeError) (\<lambda>t d. Inr t) (Some ()) ''/app/a.component.ts'' sample_component =
   Inr (''@Component({'' @ [CHR 0x0A] @
     ''    /* moduleId: module.id, */'' @ [CHR 0x0A] @
     ''    template: require('' @ [CHR 0x27] @ ''./a.component.html'' @ [CHR 0x27] @ ''),'' @ [CHR 0x0A] @
     ''    styles: [require('' @ [CHR 0x27] @ ''./a.component.tns.css'' @ [CHR 0x27] @ '')]'' @ [CHR 0x0A] @ ''})'')"
  by code_simp

text \<open>A template or a style sheet with a mobile version is replaced by it as a text that parses back.\<close>

lemma mobile_version_taken:
  assumes "rx_test htmlCssRegexp p" "existsSync (tns_path p)" "readFileSync (tns_path p) = Inr t"
  shows "\<exists>j. tnsLoader existsSync readFileSync (\<lambda>t d. Inr t) (Some ()) p source = Inr (''module.exports = '' @ j) \<and>
    JSON_parse j = Inr (JStr t)"
  using assms parse_stringify [of "JStr t"]
  by (auto simp: tnsLoader_def injectTemplateVariables_def Let_def)

end
