(* ===== verification/TestRunner.thy ===== *)
theory TestRunner
  imports BuildPipeline
begin

text \<open>
  The configuration of the test runners: \<open>karma.conf.js\<close>, \<open>test-main.js\<close>, which loads the specs in the
  browser and starts Karma, and \<open>protractor.conf.js\<close>. What the runners do with it is code of others.
  \<open>makeRe_source\<close> stands for \<open>minimatch.makeRe(p).source\<close>, and \<open>matches\<close> for the match of a text
  with the pattern made of such a source.
\<close>

section \<open>Karma\<close>

record karma_env =
  ke_APPVEYOR :: bool
  ke_TRAVIS :: bool
  ke_CIRCLECI :: bool

record karma_file =
  kf_pattern :: string
  kf_included :: bool
  kf_watched :: bool
  kf_served :: bool

definition kfile :: "string \<Rightarrow> bool \<Rightarrow> bool \<Rightarrow> karma_file" where
  "kfile p i w = \<lparr>kf_pattern = p, kf_included = i, kf_watched = w, kf_served = True\<rparr>"

record karma_config =
  kc_basePath :: string
  kc_frameworks :: "string list"
  kc_files :: "karma_file list"
  kc_proxies :: "(string \<times> string) list"
  kc_exclude :: "string list"
  kc_reporters :: "string list"
  kc_port :: nat
  kc_colors :: bool
  kc_autoWatch :: bool
  kc_browsers :: "string list"
  kc_customLaunchers :: "(string \<times> string \<times> string list) list"
  kc_singleRun :: bool
  kc_client_files :: "string option"
  kc_browserNoActivityTimeout :: "nat option"

text \<open>A pattern given as a text is included, watched and served, which are the defaults of an object too.\<close>

definition karma_files :: "karma_file list" where
  "karma_files =
     map (\<lambda>p. kfile p True True)
       [''node_modules/core-js/client/shim.min.js'', ''node_modules/intl/dist/Intl.min.js'',
        ''node_modules/traceur/bin/traceur.js'', ''node_modules/systemjs/dist/system.src.js'',
        ''node_modules/zone.js/dist/zone.js'', ''node_modules/zone.js/dist/long-stack-trace-zone.js'',
        ''node_modules/zone.js/dist/async-test.js'', ''node_modules/zone.js/dist/fake-async-test.js'',
        ''node_modules/zone.js/dist/sync-test.js'', ''node_modules/zone.js/dist/proxy.js'',
        ''node_modules/zone.js/dist/jasmine-patch.js''] @
     [kfile ''node_modules/rxjs/**/*.js'' False False, kfile ''node_modules/rxjs/**/*.js.map'' False False,
      kfile ''node_modules/@angular/**/*.js'' False True, kfile ''node_modules/@angular/**/*.js.map'' False False,
      kfile ''node_modules/lodash/**/*.js'' False False, kfile ''node_modules/@ngx-translate/**/*.js'' False False,
      kfile ''node_modules/@ngrx/**/*.js'' False False, kfile ''node_modules/angulartics2/**/*.js'' False False,
      kfile ''node_modules/ngrx-store-freeze/**/*.js'' False False,
      kfile ''node_modules/deep-freeze-strict/**/*.js'' False False,
      kfile ''dist/dev/**/*.js'' False True, kfile ''dist/dev/**/*.html'' False True, kfile ''dist/dev/**/*.css'' False True,
      kfile ''node_modules/systemjs/dist/system-polyfills.js'' False False, kfile ''dist/dev/assets/**/*'' False False] @
     map (\<lambda>p. kfile p True True) [''test-config.js'', ''dist/dev/system-config.js'', ''test-main.js'']"

definition karma_conf :: "(string \<Rightarrow> string) \<Rightarrow> string option \<Rightarrow> karma_env \<Rightarrow> karma_config" where
  "karma_conf makeRe_source argv_files e =
     (let config =
        \<lparr>kc_basePath = ''./'', kc_frameworks = [''jasmine''], kc_files = karma_files,
         kc_proxies = [(''/assets/'', ''/base/dist/dev/assets/'')], kc_exclude = [''node_modules/**/*spec.js''],
         kc_reporters = [''mocha''], kc_port = 9876, kc_colors = True, kc_autoWatch = True,
         kc_browsers = [''Chrome''], kc_customLaunchers = [(''Chrome_travis_ci'', ''Chrome'', [''--no-sandbox''])],
         kc_singleRun = False,
         kc_client_files = (if truthy argv_files then Some (makeRe_source (the argv_files)) else None),
         kc_browserNoActivityTimeout = None\<rparr>;
        config = (if ke_APPVEYOR e
                  then config\<lparr>kc_browsers := [''IE''], kc_singleRun := True, kc_browserNoActivityTimeout := Some 90000\<rparr>
                  else config)
      in if ke_TRAVIS e \<or> ke_CIRCLECI e
         then config\<lparr>kc_browsers := [''Chrome_travis_ci''], kc_singleRun := True, kc_browserNoActivityTimeout := Some 90000\<rparr>
         else config)"

section \<open>Loading the specs\<close>

definition spec_rx :: regex where
  "spec_rx = rx_seq [RxClass (\<lambda>c. c = CHR ''.'' \<or> c = CHR ''|'' \<or> c = CHR ''_''), rx_lit ''spec.js'', RxEnd]"

definition onlySpecFiles :: "(string \<Rightarrow> string \<Rightarrow> bool) \<Rightarrow> string option \<Rightarrow> string \<Rightarrow> bool" where
  "onlySpecFiles matches config_files path \<longleftrightarrow>
     (if truthy config_files then matches (the config_files) path else True) \<and> rx_test spec_rx path"

definition base_rx :: regex where
  "base_rx = RxSeq RxBegin (rx_lit ''/base/'')"

definition js_rx :: regex where
  "js_rx = RxSeq (rx_lit ''.js'') RxEnd"

definition file2moduleName :: "string \<Rightarrow> string" where
  "file2moduleName filePath =
     rx_replace_first js_rx (\<lambda>m g. [])
       (rx_replace_first base_rx (\<lambda>m g. []) (rx_replace_all (rx_chr (CHR 0x5C)) (\<lambda>m. ''/'') filePath))"

text \<open>
  The run in the browser. When the two modules of Angular are loaded, every spec is imported; the
  imports settle in any order, with a module that has a function \<open>main\<close> that returns or raises, a module without
  one, or an error. Karma is started when all have been run, or at the first failure, which is
  written to the console; \<open>waiting\<close> are the specs that have not settled.
\<close>

datatype import_outcome = MainReturns | MainRaises | NoMain | ImportFails

record test_run =
  waiting :: "string list"
  mains_run :: "string list"
  run_settled :: bool
  run_errors :: nat
  karma_starts :: nat

definition settle_run :: "bool \<Rightarrow> test_run \<Rightarrow> test_run" where
  "settle_run failed s =
     (if run_settled s then s
      else s\<lparr>run_settled := True, run_errors := run_errors s + (if failed then 1 else 0), karma_starts := karma_starts s + 1\<rparr>)"

definition fulfilled :: "test_run \<Rightarrow> test_run" where
  "fulfilled s = (if waiting s = [] then settle_run False s else s)"

definition start_tests :: "(string \<Rightarrow> string \<Rightarrow> bool) \<Rightarrow> string option \<Rightarrow> bool \<Rightarrow> string list \<Rightarrow> test_run" where
  "start_tests matches config_files angular_loaded served =
     (let s = \<lparr>waiting = [], mains_run = [], run_settled = False, run_errors = 0, karma_starts = 0\<rparr> in
      if \<not> angular_loaded then settle_run True s
      else fulfilled (s\<lparr>waiting := map file2moduleName (filter (onlySpecFiles matches config_files) served)\<rparr>))"

definition spec_settles :: "string \<Rightarrow> import_outcome \<Rightarrow> test_run \<Rightarrow> test_run" where
  "spec_settles path out s =
     (let s = s\<lparr>waiting := remove1 path (waiting s)\<rparr>;
          s = (if out = MainReturns \<or> out = MainRaises then s\<lparr>mains_run := mains_run s @ [path]\<rparr> else s)
      in if out = MainReturns then fulfilled s else settle_run True s)"

section \<open>Protractor\<close>

record protractor_config =
  pc_baseUrl :: string
  pc_specs :: "string list"
  pc_framework :: string
  pc_directConnect :: bool
  pc_browserName :: string

definition protractor_conf :: "bool \<Rightarrow> protractor_config" where
  "protractor_conf travis =
     (let config = \<lparr>pc_baseUrl = ''http://localhost:5555/'', pc_specs = [''./dist/e2e/**/*.e2e-spec.js''],
        pc_framework = ''jasmine'', pc_directConnect = True, pc_browserName = ''chrome''\<rparr>
      in if travis then config\<lparr>pc_browserName := ''firefox''\<rparr> else config)"

section \<open>Properties\<close>

text \<open>
  Karma is started exactly once: after all specs have settled, in whatever order and with whatever
  outcomes, and also when Angular could not be loaded; an error is reported exactly when something failed.
\<close>

definition run_inv :: "bool \<Rightarrow> test_run \<Rightarrow> bool" where
  "run_inv failed s \<longleftrightarrow>
     (run_settled s \<longleftrightarrow> failed \<or> waiting s = []) \<and>
     karma_starts s = (if run_settled s then 1 else 0) \<and> run_errors s = (if failed then 1 else 0)"

lemma run_inv_settle:
  "run_inv failed s \<Longrightarrow> path \<in> set (waiting s) \<Longrightarrow> run_inv (failed \<or> out \<noteq> MainReturns) (spec_settles path out s)"
  by (auto simp: run_inv_def spec_settles_def fulfilled_def settle_run_def Let_def)

lemma run_inv_start:
  "run_inv (\<not> angular_loaded) (start_tests matches files angular_loaded served)"
  by (auto simp: run_inv_def start_tests_def fulfilled_def settle_run_def Let_def)

lemma run_inv_all:
  "run_inv failed s \<Longrightarrow> mset (map fst outs) = mset (waiting s) \<Longrightarrow>
     run_inv (failed \<or> (\<exists>out \<in> set outs. snd out \<noteq> MainReturns)) (fold (\<lambda>(p, out). spec_settles p out) outs s) \<and>
     waiting (fold (\<lambda>(p, out). spec_settles p out) outs s) = []"
proof (induction outs arbitrary: failed s)
  case (Cons o1 outs)
  obtain p out where o1: "o1 = (p, out)" by (cases o1)
  have p: "p \<in> set (waiting s)" using Cons.prems(2) o1 by (metis list.set_intros(1) fst_conv list.simps(9) mset_eq_setD)
  have w: "waiting (spec_settles p out s) = remove1 p (waiting s)"
    by (simp add: spec_settles_def fulfilled_def settle_run_def Let_def)
  have "mset (map fst outs) = mset (waiting (spec_settles p out s))"
    using Cons.prems(2) by (simp add: w o1 mset_remove1 flip: Cons.prems(2))
  from Cons.IH [OF run_inv_settle [OF Cons.prems(1) p, of out] this] show ?case
    by (simp add: o1 disj_assoc)
qed simp

lemma karma_started_once:
  assumes "s = start_tests matches files angular_loaded served" "mset (map fst outs) = mset (waiting s)"
    and "s' = fold (\<lambda>(p, out). spec_settles p out) outs s"
  shows "karma_starts s' = 1 \<and> (run_errors s' = 0 \<longleftrightarrow> angular_loaded \<and> (\<forall>out \<in> set outs. snd out = MainReturns))"
  using run_inv_all [OF run_inv_start [of angular_loaded matches files served], of outs] assms
  by (auto simp: run_inv_def split: if_splits)

text \<open>
  At a failure Karma starts while other specs are still loading: the tests of the second spec here are
  defined after the start.
\<close>

lemma started_too_early:
  "let s = spec_settles ''a.spec'' NoMain (start_tests (\<lambda>_ _. True) None True [''/base/a.spec.js'', ''/base/b.spec.js'']) in
   karma_starts s = 1 \<and> mains_run s = [] \<and> mains_run (spec_settles ''b.spec'' MainReturns s) = [''b.spec'']"
  by code_simp

text \<open>The name of a module is the path below the base, without the extension, with slashes.\<close>

lemma module_names:
  "map file2moduleName [''/base/dist/dev/app/a.spec.js'', ''dist'' @ [CHR 0x5C] @ ''b_spec.js'', ''/base/c.ts''] =
     [''dist/dev/app/a.spec'', ''dist/b_spec'', ''c.ts'']"
  by code_simp

text \<open>On a build server the tests run once, in a browser that server has.\<close>

lemma server_runs_once:
  "ke_APPVEYOR e \<or> ke_TRAVIS e \<or> ke_CIRCLECI e \<Longrightarrow>
     kc_singleRun (karma_conf mk files e) \<and> kc_browsers (karma_conf mk files e) \<noteq> [''Chrome'']"
  by (auto simp: karma_conf_def Let_def)

text \<open>
  Protractor asks the port 5555, while the server of the end-to-end tests listens on the port of the
  configuration, which is 5000 unless the command line names another.
\<close>

lemma default_port:
  assumes "argv_port argv = None"
  shows "PORT (the_config slash argv e1 e2 cwd dirname) = 5000"
proof -
  have p: "PORT (addPackageBundles p d) = PORT d" for p and d :: Config
    by (simp add: addPackageBundles_def Let_def split: option.splits)
  have "PORT (addPackagesBundles ps d) = PORT d" for ps and d :: Config
    unfolding addPackagesBundles_def by (rule fold_field) (rule p)
  then have "PORT (advanced_config argv cwd d) = PORT d" for d :: Config
    by (simp add: advanced_config_def Let_def)
  moreover have "PORT (new_SeedConfig slash argv e1 e2 cwd dirname) = 5000"
    unfolding new_SeedConfig_def Let_def by (simp only: Config.simps num_or_def assms option.case)
  ultimately show ?thesis by (simp add: the_config_def project_config_def)
qed

lemma protractor_port:
  assumes "argv_port argv = None" "c = the_config slash argv e1 e2 cwd dirname"
  shows "pc_baseUrl (protractor_conf travis) \<noteq> ''http://localhost:'' @ show_nat (PORT c) @ ''/''"
proof -
  have "pc_baseUrl (protractor_conf travis) = ''http://localhost:5555/''" by (cases travis) (simp_all only: protractor_conf_def Let_def if_True if_False protractor_config.simps)
  moreover have "show_nat 5000 = ''5000''" 
  proof -
    have "digit_char 5 = CHR ''5''" "digit_char 0 = CHR ''0''" by code_simp+
    then show ?thesis by (simp add: show_nat.simps)
  qed
  moreover have "''http://localhost:5555/'' \<noteq> ''http://localhost:'' @ ''5000'' @ ''/''" by code_simp
  ultimately show ?thesis using default_port [OF assms(1), of slash e1 e2 cwd dirname] assms(2) by (simp only: not_False_eq_True)
qed

end
