(* ===== verification/Spec2Isabelle.thy ===== *)
theory Spec2Isabelle
  imports IdEncoding UrlParsing QueryParams DocumentLinks WebSocketMessages Auth ServiceDetail ProcessLogView
    OperationTracing NodeSelection NodeInfoPanel EnclosingCircle ServiceGrid ChildService Dashboard
    NodeViews Widgets CoreServices StarCanvas SampleUi ChartViews TracingChart DesktopShell InstallMain
    BuildStages NgModules MobileApp TnsLoader TestRunner
begin

text \<open>
  This development verifies the JavaScript and TypeScript code of Xenon that has logic of its own:
  the WebSocket library that the framework serves to browsers, the user interface of a node with its
  desktop shell and mobile application, the tools that build and install it, and the custom user
  interface of the samples. The Java framework is the server those programs talk to; what it answers
  is an argument of the handlers.

  \<^bold>\<open>The program and its model.\<close> Paths are relative to \<open>xenon-ui/src/main/ui/src/client/app\<close> unless
  they start with \<open>xenon-\<close>.

  \<^item> \<open>Prelude\<close>, \<open>Uri\<close>, \<open>Json\<close>, \<open>JsRegex\<close>, \<open>RxParse\<close>: what the language and its library give to the code: texts,
    objects as association lists in the order of their keys, \<open>encodeURIComponent\<close>, \<open>JSON.parse\<close> and
    \<open>JSON.stringify\<close>, regular expressions with captures by backtracking in the order of the language, and the
    parser of the patterns that the code makes of texts at run time.
  \<^item> \<open>WebSocketLib\<close>, \<open>WebSocketProps\<close>, \<open>WebSocketMessages\<close>:
    \<open>xenon-common/.../WebSocketService/ws-service-lib.js\<close>. A connection is a record with its queue, its
    handlers by request number, its services, what it has sent and what it has called; the events of
    the socket and the calls of a client are functions on it. Shown: requests are numbered without
    gaps, a response goes to the handler of its number once unless that handler raises, the queue is
    flushed in order or failed as a whole, frames parse back.
  \<^item> \<open>Interfaces\<close>, \<open>StringUtil\<close>, \<open>IdEncoding\<close>, \<open>UrlParsing\<close>, \<open>QueryParams\<close>, \<open>DocumentLinks\<close>:
    \<open>modules/app/interfaces\<close>, \<open>enums\<close> and \<open>utils\<close>. Shown: the parsers of addresses, query parameters and
    document links invert writing them, and the encoding of links as ids is decoded again.
  \<^item> \<open>Runtime\<close>, \<open>BaseServ\<close>, \<open>Auth\<close>: subscriptions and effects of the components,
    \<open>services/base.service.ts\<close>, \<open>services/authentication.*\<close> and the login page. Shown: a forwarded
    request names the selected node and carries the link and the query unchanged; a login navigates with
    the address of the view that was refused, which leads back to it unless it has a query.
  \<^item> \<open>NodeSelection\<close>, \<open>NodeInfoPanel\<close>, \<open>NodeCanvas\<close>, \<open>EnclosingCircle\<close>:
    \<open>services/node-selector.service.ts\<close>, \<open>components/node-selector\<close> and \<open>components/navbar\<close> under \<open>modules/app\<close>. The selector and the bar are
    composed to one page whose steps are the events of the browser and of the server. Shown: in every
    reachable state both parts and the request layer agree on the selected node; the circles around
    the groups are the smallest that hold their nodes; the dictionary of the nodes prefers the default group.
  \<^item> \<open>ServiceGrid\<close>, \<open>ServiceDetail\<close>, \<open>ChildService\<close>: \<open>components/main/service\<close>. Shown: every service is
    listed once and under the right heading, a route selects its service, the patch dialog offers the
    fields of the document.
  \<^item> \<open>Query\<close>, \<open>QueryProps\<close>: \<open>components/main/query\<close>. Shown: the task that is built from the clauses, the
    count before the query, paging under a lock, ids of clauses.
  \<^item> \<open>ProcessLogView\<close>, \<open>Dashboard\<close>, \<open>OperationTracing\<close>: \<open>components/main/process-log\<close>, \<open>dashboard\<close> and
    \<open>operation-tracing\<close>. Shown: the filters and the chart of the log classify items alike, the
    timelines group the trace, the colours of the charts.
  \<^item> \<open>TracingChart\<close>, \<open>ChartViews\<close>: the chart of \<open>operation-tracing-chart.component.ts\<close> as it is handed to
    the timeline, and the charts of the node info panel, the dashboard cards and the child service as
    they are handed to Chart.js, with the texts beside and over them. Shown: the chart of a trace is
    drawn once and shows every operation, the printed percentages are the shares of the charts, and
    the cards of the dashboard never read data that is not there.
  \<^item> \<open>NodeViews\<close>: the contract of the views that follow the selected node. Shown, at the end of this
    theory: a confirmed selection makes every view ask the selected node.
  \<^item> \<open>Widgets\<close>, \<open>CoreServices\<close>, \<open>StarCanvas\<close>: alerts with their timers, notifications, the table of
    properties, the editor and the pipe; storage, configuration, log, language and analytics; the
    background of the login page. Shown: an alert is hidden in time, the table loses nothing, the
    language is a supported one, the stars stay on the canvas and their number grows without bound.
  \<^item> \<open>SampleUi\<close>: \<open>xenon-samples/.../SampleServiceWithSharedCustomUi\<close>. Shown: each visit of the
    home page keeps one poll pending, also after the page is left, a created document is the template without the fields of the framework.
  \<^item> \<open>AppShell\<close>: the table of the routes, \<open>web.module.ts\<close> beside \<open>app\<close>, \<open>app.service.ts\<close> and
    \<open>router-extensions.service.ts\<close>. Shown: the guard stands before every view but the login page, and
    every redirection, also the one of the guard and the one after a login, leads to a view.
  \<^item> \<open>NgModules\<close>: the modules of Angular that the applications are put together from, as the records their
    decorators get, and the reducer of the store. Shown: no component is declared twice, what a route
    of the web application shows is declared, and both applications know the supported languages.
  \<^item> \<open>MobileApp\<close>, \<open>TnsLoader\<close>: \<open>xenon-ui/src/main/ui/nativescript\<close>: the events of the mobile application, its
    action bar, the configuration of webpack and the loader \<open>tns-loader.js\<close> that rewrites the sources.
    Shown: the application listens to each event until it exits; the loader turns each quoted address
    into a call of \<open>require\<close>.
  \<^item> \<open>DesktopShell\<close>: \<open>main.desktop.ts\<close> beside \<open>app\<close> and \<open>modules/electron\<close>. A state is the window, the
    menu and whether the application quits; its steps are the events of Electron and the clicks on
    what the menu offers. Shown: the menu is safe outside of macOS, where the
    application quits with its window, and not on macOS.
  \<^item> \<open>InstallTool\<close>, \<open>InstallMain\<close>: \<open>xenon-ui/src/main/ui/tools/install.js\<close>, over a disk with files,
    directories and links. Shown: paths are resolved as documented, and the script makes the link it
    is for, with the rights of the user or by \<open>sudo\<close>.
  \<^item> \<open>NodePath\<close>, \<open>BuildTasks\<close>, \<open>BuildConfig\<close>, \<open>BuildPipeline\<close>, \<open>BuildTaskTable\<close>, \<open>BuildStages\<close>: the build under
    \<open>xenon-ui/src/main/ui/tools\<close> and \<open>gulpfile.ts\<close>, and the functions of the path module of Node it
    uses. \<open>BuildTasks\<close> has the runner (\<open>utils/seed\<close>: registration, watchers, removal of files),
    \<open>BuildConfig\<close> the classes of \<open>config\<close>, the locals of templates and the TypeScript projects,
    \<open>BuildPipeline\<close> and \<open>BuildStages\<close> the tasks of \<open>tasks/seed\<close> and \<open>tasks/project\<close>, each as the
    pipelines it builds: what is read, the stages with their options, and where the result goes;
    \<open>BuildTaskTable\<close> has the tables of the composite tasks. Shown: every composite task expands to
    tasks that exist, and a production build reads a named script, style sheet or page only after an
    earlier task of the same run has written it; removal stays
    inside of the project; the watcher ends with the last change; the chosen environment overrides
    the base.
  \<^item> \<open>TestRunner\<close>: \<open>karma.conf.js\<close>, \<open>test-main.js\<close> and \<open>protractor.conf.js\<close> of \<open>xenon-ui/src/main/ui\<close>. Shown:
    Karma is started once, whatever order the specifications settle in, on a server of continuous
    integration it runs once, and the names of the modules are those of the files.

  \<^bold>\<open>How state and effects correspond.\<close> A component class is a record with its fields; a component
  with subscriptions extends the record of \<open>Runtime\<close>, which holds the live subscriptions, each with
  the handler that runs for what it delivers, and the effects so far: requests, notifications,
  navigation, values of subjects. A method is a function on the record; the handlers inside a method
  are functions of their own, run by a separate step when the answer or the value arrives, so that
  theorems about reachable states and about orders of events cover every interleaving. Exceptions are
  values of \<open>jserror\<close>. Where \<open>undefined\<close> matters a value is an option.

  \<^bold>\<open>Interfaces.\<close> Shared contracts are locales: the channel that numbers requests and pairs them with
  their handlers (\<open>request_channel\<close>, interpreted on the connection), the list of clauses and its
  counter (\<open>clause_list\<close>, \<open>clause_tracker\<close>, interpreted on the query view, the nested clauses and the
  tracing view), paging under a lock and the list that is read page by page (\<open>paginator\<close> and its
  extension \<open>paged_list\<close>, interpreted on the query view and on the children of a service), the views
  that read their data again when a node is selected (\<open>node_view\<close>, interpreted on the grid, the
  dashboard and the log view), the charts of a whole with its used part (\<open>doughnut\<close>, interpreted on
  the memory and on the disk of a node), and the encoding of addresses (\<open>uri_codec\<close>).

  \<^bold>\<open>Bounds and fuel.\<close> The star of a regular expression is bounded by the length of the text, since
  each round that counts consumes a character. The parser of JSON gets twice the length of the text
  and two as fuel; \<open>parse_print\<close> shows that this is enough for every text that is printed, with or
  without indentation. Following links on the disk stops after forty, as the system does. Composite
  tasks are expanded to a depth of five, which is shown to be enough. All other
  recursion is structural or has a measure.

  \<^bold>\<open>Choices.\<close> Texts have code units below 256. Numbers of JSON values are integers; where the code
  computes with fractions numbers are reals, without rounding. The search for the circles takes a node
  that is outside of a circle by less than \<open>EPSILON\<close> as inside; the theorem on the smallest circles is
  about nodes for which this makes no difference (\<open>crisp\<close>). Functions of lodash, moment, numeral
  and Chart.js that are not part of the language are parameters, with what their documentation says
  as named hypotheses where a theorem needs it. Subjects deliver at once and in order, as RxJS does.

  \<^bold>\<open>Not modelled.\<close> What d3 and Chart.js draw and the force layout; what Electron does with a menu and a
  gulp plugin with a file; the router (a parameter where an address depends on it), the injector and the compiler of Angular; templates and styles;
  mocks and helpers of tests; the vendored libraries and the minified bundles. These are code of
  others, or have no logic of the program.
\<close>

section \<open>From the node selector to the views\<close>

text \<open>
  C8. Switching to a node switches every view: in any state the page can reach in which the host is
  known, when the user confirms a node other than the host, the views that share the request layer
  then ask that node and no other for what they show. The grid asks it for the services, the
  dashboard for the statistics and the log, the log view for the last lines of the log: each
  request goes to \<open>/core/node-selectors/<group>/forwarding\<close>, with the group of the node, and its
  parameters read back as the id of the node, the link, the query and the target \<open>PEER_ID\<close>. The id of
  the node has unreserved characters only and its group none of \<open>? & = #\<close>, since both are written
  without encoding.
\<close>

theorem views_follow_selection:
  assumes "shell_reach L a (sel, nav)" "node_of (hostNode sel) = Some h"
    and "getSelectedNodeById sel i = Some (Some n)" "nodeId n \<noteq> nodeId h"
    and "\<forall>c \<in> set (nodeId n). uri_unreserved c"
    and "grp = linkId (parseDocumentLink L (groupReference n) [])" "plain_key grp"
    and "b = sel_base (fst (run_selector L (onNodeSelectionConfirmed i) (sel, nav)))"
    and "grid_base g = b" "dash_base d = b" "lv_base v = b"
  shows "(\<exists>us. asked (grid_on_selected_node L g) = asked g @ us \<and>
            list_all2 (asks_node L grp (nodeId n)) [(''/core/ui/default'', [])] us) \<and>
         (\<exists>us. asked (dash_on_selected_node L d) = asked d @ us \<and>
            list_all2 (asks_node L grp (nodeId n)) [(''/core/management/stats'', []), (''/core/management/process-log'', [])] us) \<and>
         (\<exists>us. asked (lv_on_selected_node L v) = asked v @ us \<and>
            list_all2 (asks_node L grp (nodeId n)) [(''/core/management/process-log'', ''lineCount=1000'')] us)"
proof -
  note b = confirmed_base [OF assms(1-4,8)]
  have links: "''/core/ui/default'' = URL_Root" "''/core/management/stats'' = URL_CoreManagement @ URL_STATS_SUFFIX"
    "''/core/management/process-log'' = URL_Log" "''lineCount=1000'' = ''lineCount='' @ show_nat DEFAULT_LOG_SIZE"
    by code_simp+
  show ?thesis
    unfolding links
    using grid_view.reload_forwarded [of g "nodeId n" grp L] dash_view.reload_forwarded [of d "nodeId n" grp L]
      logs_view.reload_forwarded [of v "nodeId n" grp L] b assms(5,6,7,9-11)
    by simp
qed

theorem views_follow_selection_witness:
  "\<exists>us. asked (grid_on_selected_node doc_libs (new_grid (sel_base (fst (run_selector doc_libs
       (onNodeSelectionConfirmed ''b'') sample_shell))))) =
     asked (new_grid (sel_base (fst (run_selector doc_libs (onNodeSelectionConfirmed ''b'') sample_shell)))) @ us \<and>
     list_all2 (asks_node doc_libs ''default'' ''b'') [(''/core/ui/default'', [])] us"
proof -
  let ?sel = "fst sample_shell"
  let ?b = "sel_base (fst (run_selector doc_libs (onNodeSelectionConfirmed ''b'') sample_shell))"
  let ?n = "group_node ''/x/y/default'' ''b''"
  have n: "getSelectedNodeById ?sel ''b'' = Some (Some ?n)"
    by (simp add: sample_fields getSelectedNodeById_def)
  have grp: "''default'' = linkId (parseDocumentLink doc_libs (groupReference ?n) [])"
    by code_simp
  have reach: "shell_reach doc_libs (new_auth []) (?sel, snd sample_shell)" using sample_reach by simp
  have "node_of (hostNode ?sel) = Some (group_node ''/x/y/default'' ''a'')" by (simp add: sample_fields node_of_def)
  from views_follow_selection [OF reach this n _ _ grp, of ?b "new_grid ?b" "new_dash ?b" "new_log_view ?b"]
  show ?thesis
    by (simp add: new_grid_def new_dash_def new_log_view_def uri_unreserved_def is_alnum_def is_lower_def plain_key_def)
qed

end
